(* ===== verification/Idauth_Prelude.thy ===== *)
theory Idauth_Prelude
  imports Main "HOL-Library.State_Monad"
begin

text \<open>
  Shared vocabulary of the development: the result types of fallible Go calls, the state
  monad in which every operation that touches the outside world is written, and the generic
  lemmas the component theories use.

  \<^item> A Go call \<open>v, err := f()\<close> is a value of \<open>go_error + 'v\<close>: \<open>Inl err\<close> when \<open>err != nil\<close>.
  \<^item> A Go call \<open>err := f()\<close> is a value of \<open>go_error option\<close>: \<open>None\<close> when \<open>err == nil\<close>.
  \<^item> An operation that reads or changes something outside the handler (a cache, the session
    store, the clock, the random source) is a value of \<open>('w, 'a) state\<close>, the library's state
    monad over a world type \<open>'w\<close> that stays abstract.
\<close>

named_theorems handler_defs "unfolding equations of the request handlers"
named_theorems store_defs "unfolding equations of the store operations"

section \<open>Errors\<close>

text \<open>
  The Go errors that the handlers build or inspect. \<open>ExternalError\<close> is any error made by code
  that is not part of the repository (cache, session store, HTTP client, JWT library).
\<close>

datatype go_error =
    NotFoundError string      \<comment> \<open>azugo \<open>http.NotFoundError{Resource}\<close>\<close>
  | KeyNotFoundError string   \<comment> \<open>azugo \<open>cache.KeyNotFoundError{Key}\<close>\<close>
  | ParamRequired string      \<comment> \<open>a form or query parameter that is not there\<close>
  | AuthorizeErr string       \<comment> \<open>\<open>auth.AuthorizeError{Code}\<close> of the lx-idauth library\<close>
  | ErrorsNew string          \<comment> \<open>\<open>errors.New\<close> / \<open>fmt.Errorf\<close> of the repository\<close>
  | Wrapped string go_error   \<comment> \<open>\<open>fmt.Errorf("...: %w", err)\<close>\<close>
  | ExternalError string
  | FatalExit string          \<comment> \<open>\<open>log.Fatal\<close>: the process ends with this message\<close>

section \<open>The state monad\<close>

abbreviation return :: "'a \<Rightarrow> ('w, 'a) state" where
  "return \<equiv> State_Monad.return"

text \<open>The world after an operation, and its result.\<close>

definition result_of :: "('w, 'a) state \<Rightarrow> 'w \<Rightarrow> 'a" where
  "result_of m w = fst (run_state m w)"

definition world_after :: "('w, 'a) state \<Rightarrow> 'w \<Rightarrow> 'w" where
  "world_after m w = snd (run_state m w)"

lemma run_state_eq: "run_state m w = (result_of m w, world_after m w)"
  by (simp add: result_of_def world_after_def)

lemma result_of_eqI: "run_state m w = (r, w') \<Longrightarrow> result_of m w = r"
  by (simp add: result_of_def)

lemma world_after_eqI: "run_state m w = (r, w') \<Longrightarrow> world_after m w = w'"
  by (simp add: world_after_def)

lemma result_of_return [simp]: "result_of (return x) w = x"
  by (simp add: result_of_def)

lemma world_after_return [simp]: "world_after (return x) w = w"
  by (simp add: world_after_def)

lemma result_of_bind [simp]:
  "result_of (State_Monad.bind m f) w = result_of (f (result_of m w)) (world_after m w)"
  by (simp add: result_of_def world_after_def split: prod.splits)

lemma world_after_bind [simp]:
  "world_after (State_Monad.bind m f) w = world_after (f (result_of m w)) (world_after m w)"
  by (simp add: result_of_def world_after_def split: prod.splits)

lemma result_of_if [simp]:
  "result_of (if b then m else n) w = (if b then result_of m w else result_of n w)"
  by simp

lemma world_after_if [simp]:
  "world_after (if b then m else n) w = (if b then world_after m w else world_after n w)"
  by simp

lemma result_of_let [simp]: "result_of (let x = a in f x) w = result_of (f a) w"
  by simp

section \<open>Sums and options\<close>

fun is_Inr :: "'a + 'b \<Rightarrow> bool" where
  "is_Inr (Inl _) = False"
| "is_Inr (Inr _) = True"

text \<open>The value of \<open>v, _ := f()\<close>: Go leaves the zero value in \<open>v\<close> when there is an error.\<close>

definition value_or :: "'v \<Rightarrow> 'e + 'v \<Rightarrow> 'v" where
  "value_or z r = (case r of Inl _ \<Rightarrow> z | Inr v \<Rightarrow> v)"

lemma value_or_simps [simp]: "value_or z (Inl e) = z" "value_or z (Inr v) = v"
  by (simp_all add: value_or_def)

text \<open>\<open>p != nil && P(*p)\<close>.\<close>

definition opt_holds :: "('a \<Rightarrow> bool) \<Rightarrow> 'a option \<Rightarrow> bool" where
  "opt_holds P x = (case x of None \<Rightarrow> False | Some v \<Rightarrow> P v)"

lemma opt_holds_simps [simp]: "\<not> opt_holds P None" "opt_holds P (Some v) = P v"
  by (simp_all add: opt_holds_def)

lemma opt_holds_iff: "opt_holds P x \<longleftrightarrow> (\<exists>v. x = Some v \<and> P v)"
  by (cases x) auto

lemma is_Inr_iff: "is_Inr r \<longleftrightarrow> (\<exists>v. r = Inr v)"
  by (cases r) auto

section \<open>A Go \<open>map[string]string\<close>, which may be nil\<close>

text \<open>
  \<open>None\<close> is the nil map. Reading a key of a nil map, or a key that is not there, gives the
  empty string; writing to a nil map panics, so the code allocates first.
\<close>

type_synonym strmap = "(string \<rightharpoonup> string) option"

definition map_index :: "strmap \<Rightarrow> string \<Rightarrow> string" where
  "map_index m k = (case m of None \<Rightarrow> '''' | Some f \<Rightarrow> (case f k of None \<Rightarrow> '''' | Some v \<Rightarrow> v))"

definition map_alloc_put :: "strmap \<Rightarrow> string \<Rightarrow> string \<Rightarrow> strmap" where
  "map_alloc_put m k v = Some ((case m of None \<Rightarrow> Map.empty | Some f \<Rightarrow> f)(k \<mapsto> v))"

lemma map_index_nil [simp]: "map_index None k = ''''"
  by (simp add: map_index_def)

lemma map_index_put: "map_index (map_alloc_put m k v) k' = (if k' = k then v else map_index m k')"
  by (auto simp: map_index_def map_alloc_put_def split: option.splits)

section \<open>Entries that may only disappear\<close>

text \<open>
  \<open>shrinks m m'\<close>: every key of \<open>m'\<close> is unchanged or gone in \<open>m\<close>. This is what an operation that
  stores nothing can do to a cache whose entries expire with time.
\<close>

definition shrinks :: "('a \<Rightarrow> 'b option) \<Rightarrow> ('a \<Rightarrow> 'b option) \<Rightarrow> bool" where
  "shrinks m m' \<longleftrightarrow> (\<forall>k. m k = None \<or> m k = m' k)"

lemma shrinks_refl [simp, intro]: "shrinks m m"
  by (simp add: shrinks_def)

lemma shrinksD: "shrinks m m' \<Longrightarrow> m k = None \<or> m k = m' k"
  by (simp only: shrinks_def)

lemma shrinksI: "(\<And>k. m k = None \<or> m k = m' k) \<Longrightarrow> shrinks m m'"
  unfolding shrinks_def by blast

lemma shrinks_trans [trans]: "shrinks a b \<Longrightarrow> shrinks b c \<Longrightarrow> shrinks a c"
  unfolding shrinks_def by metis

lemma shrinks_None: "shrinks m m' \<Longrightarrow> m' k = None \<Longrightarrow> m k = None"
  unfolding shrinks_def by metis

lemma shrinks_Some: "shrinks m m' \<Longrightarrow> m k = Some v \<Longrightarrow> m' k = Some v"
  unfolding shrinks_def by (metis option.distinct(1))

end
