(* ===== verification/Go_Strings.thy ===== *)
theory Go_Strings
  imports Idauth_Prelude
begin

text \<open>
  The functions of Go's packages \<open>strings\<close> and \<open>slices\<close> that the repository calls, on strings
  as byte sequences (a \<open>char\<close> is one byte, \<open>length\<close> is Go's \<open>len\<close>), with the facts the
  components rely on. Case conversion is modelled on ASCII letters.
\<close>

section \<open>Prefixes\<close>

definition HasPrefix :: "string \<Rightarrow> string \<Rightarrow> bool" where
  "HasPrefix s p \<longleftrightarrow> take (length p) s = p"

definition TrimPrefix :: "string \<Rightarrow> string \<Rightarrow> string" where
  "TrimPrefix s p = (if HasPrefix s p then drop (length p) s else s)"

lemma HasPrefix_append [simp]: "HasPrefix (p @ s) p"
  by (simp add: HasPrefix_def)

lemma HasPrefix_iff: "HasPrefix s p \<longleftrightarrow> (\<exists>t. s = p @ t)"
  unfolding HasPrefix_def by (metis append_eq_conv_conj append_take_drop_id)

lemma TrimPrefix_append [simp]: "TrimPrefix (p @ s) p = s"
  by (simp add: TrimPrefix_def)

section \<open>Contains and ReplaceAll\<close>

fun Contains :: "string \<Rightarrow> string \<Rightarrow> bool" where
  "Contains [] p = (p = [])"
| "Contains (c # s) p = (HasPrefix (c # s) p \<or> Contains s p)"

text \<open>
  \<open>strings.ReplaceAll(s, old, "")\<close>: the non-overlapping occurrences of \<open>old\<close>, from the left,
  are deleted. With an empty \<open>old\<close> Go inserts the (empty) replacement between the runes, which
  changes nothing.
\<close>

function DeleteAll :: "string \<Rightarrow> string \<Rightarrow> string" where
  "DeleteAll s old =
     (if old = [] then s
      else case s of
        [] \<Rightarrow> []
      | c # cs \<Rightarrow> if HasPrefix s old then DeleteAll (drop (length old) s) old
                  else c # DeleteAll cs old)"
  by pat_completeness auto
termination
  by (relation "measure (\<lambda>(s, old). length s)") auto

declare DeleteAll.simps [simp del]

lemma DeleteAll_Nil [simp]: "DeleteAll [] old = []"
  by (simp add: DeleteAll.simps)

lemma DeleteAll_empty [simp]: "DeleteAll s [] = s"
  by (simp add: DeleteAll.simps)

lemma DeleteAll_char: "DeleteAll s [c] = filter (\<lambda>x. x \<noteq> c) s"
proof (induction s)
  case Nil
  show ?case by simp
next
  case (Cons a s)
  then show ?case
    by (subst DeleteAll.simps) (auto simp: HasPrefix_def)
qed

lemma set_DeleteAll: "set (DeleteAll s old) \<subseteq> set s"
proof (induction s old rule: DeleteAll.induct)
  case (1 s old)
  show ?case
  proof (cases "old = [] \<or> s = []")
    case True
    then show ?thesis by auto
  next
    case False
    then obtain c cs where s: "s = c # cs" and old: "old \<noteq> []" by (cases s) auto
    show ?thesis
      using "1.IH" old set_drop_subset [of "length old" s]
      by (subst DeleteAll.simps) (auto simp: s)
  qed
qed

lemma length_DeleteAll: "length (DeleteAll s old) \<le> length s"
proof (induction s old rule: DeleteAll.induct)
  case (1 s old)
  show ?case
  proof (cases "old = [] \<or> s = []")
    case True
    then show ?thesis by auto
  next
    case False
    then obtain c cs where s: "s = c # cs" and old: "old \<noteq> []" by (cases s) auto
    show ?thesis
    proof (cases "HasPrefix s old")
      case True
      then have "length (DeleteAll (drop (length old) s) old) \<le> length (drop (length old) s)"
        using "1.IH" old s by auto
      with True old s show ?thesis by (subst DeleteAll.simps) auto
    next
      case False
      with "1.IH" old s have "length (DeleteAll cs old) \<le> length cs" by auto
      with False old s show ?thesis by (subst DeleteAll.simps) auto
    qed
  qed
qed

section \<open>Split\<close>

text \<open>\<open>strings.Split(s, sep)\<close> for a separator of one byte: always at least one piece.\<close>

fun Split :: "char \<Rightarrow> string \<Rightarrow> string list" where
  "Split d [] = [[]]"
| "Split d (c # cs) =
     (if c = d then [] # Split d cs
      else case Split d cs of [] \<Rightarrow> [[c]] | p # ps \<Rightarrow> (c # p) # ps)"

lemma Split_not_Nil [simp]: "Split d s \<noteq> []"
  by (induction s) (auto split: list.splits)

text \<open>The pieces of \<open>Split\<close> joined again with the separator.\<close>

fun Join :: "char \<Rightarrow> string list \<Rightarrow> string" where
  "Join d [] = []"
| "Join d [p] = p"
| "Join d (p # ps) = p @ d # Join d ps"

lemma Join_Split: "Join d (Split d s) = s"
proof (induction s)
  case Nil
  show ?case by simp
next
  case (Cons c s)
  obtain p ps where sp: "Split d s = p # ps" by (cases "Split d s") auto
  with Cons show ?case by (cases ps) auto
qed

lemma Split_pieces: "p \<in> set (Split d s) \<Longrightarrow> d \<notin> set p"
proof (induction s arbitrary: p)
  case Nil
  then show ?case by simp
next
  case (Cons c s)
  obtain q qs where sp: "Split d s = q # qs" by (cases "Split d s") auto
  with Cons show ?case by (auto split: if_splits)
qed

lemma Split_no_sep: "d \<notin> set s \<Longrightarrow> Split d s = [s]"
  by (induction s) auto

lemma Split_append: "d \<notin> set p \<Longrightarrow> Split d (p @ d # s) = p # Split d s"
  by (induction p) auto

lemma Split_Join:
  "ps \<noteq> [] \<Longrightarrow> \<forall>p\<in>set ps. d \<notin> set p \<Longrightarrow> Split d (Join d ps) = ps"
  by (induction d ps rule: Join.induct) (auto simp: Split_no_sep Split_append)

text \<open>\<open>strings.SplitN(s, sep, 2)\<close> for a separator of one byte: split at the first one.\<close>

fun SplitN2 :: "char \<Rightarrow> string \<Rightarrow> string list" where
  "SplitN2 d [] = [[]]"
| "SplitN2 d (c # cs) =
     (if c = d then [[], cs]
      else case SplitN2 d cs of [] \<Rightarrow> [[c]] | p # ps \<Rightarrow> (c # p) # ps)"

lemma SplitN2_append: "d \<notin> set p \<Longrightarrow> SplitN2 d (p @ d # s) = [p, s]"
  by (induction p) auto

lemma SplitN2_no_sep: "d \<notin> set s \<Longrightarrow> SplitN2 d s = [s]"
  by (induction s) auto

lemma SplitN2_two: "SplitN2 d s = [p, q] \<Longrightarrow> s = p @ d # q \<and> d \<notin> set p"
proof (cases "d \<in> set s")
  case True
  then obtain u v where "s = u @ d # v" "d \<notin> set u" by (meson split_list_first)
  then show "SplitN2 d s = [p, q] \<Longrightarrow> s = p @ d # q \<and> d \<notin> set p"
    by (simp add: SplitN2_append)
qed (simp add: SplitN2_no_sep)

section \<open>ASCII case\<close>

definition ascii_lower :: "char \<Rightarrow> char" where
  "ascii_lower c =
     (let n = of_char c :: nat in if 65 \<le> n \<and> n \<le> 90 then char_of (n + 32) else c)"

definition ascii_upper :: "char \<Rightarrow> char" where
  "ascii_upper c =
     (let n = of_char c :: nat in if 97 \<le> n \<and> n \<le> 122 then char_of (n - 32) else c)"

definition ToUpper :: "string \<Rightarrow> string" where
  "ToUpper s = map ascii_upper s"

definition ToLower :: "string \<Rightarrow> string" where
  "ToLower s = map ascii_lower s"

definition EqualFold :: "string \<Rightarrow> string \<Rightarrow> bool" where
  "EqualFold s t \<longleftrightarrow> ToLower s = ToLower t"

lemma EqualFold_refl [simp]: "EqualFold s s"
  by (simp add: EqualFold_def)

lemma length_ToLower [simp]: "length (ToLower s) = length s"
  by (simp add: ToLower_def)

lemma ascii_lower_idem: "ascii_lower (ascii_lower c) = ascii_lower c"
  by (auto simp: ascii_lower_def Let_def)

lemma ToLower_idem [simp]: "ToLower (ToLower s) = ToLower s"
  by (simp add: ToLower_def ascii_lower_idem)

lemma ToLower_append: "ToLower (s @ t) = ToLower s @ ToLower t"
  by (simp add: ToLower_def)

section \<open>Decimal text of an int (\<open>strconv.Itoa\<close>)\<close>

definition digit_char :: "nat \<Rightarrow> char" where
  "digit_char d = ''0123456789'' ! d"

fun nat_text :: "nat \<Rightarrow> string" where
  "nat_text n = (if n < 10 then [digit_char n] else nat_text (n div 10) @ [digit_char (n mod 10)])"

declare nat_text.simps [simp del]

definition Itoa :: "int \<Rightarrow> string" where
  "Itoa i = (if i < 0 then CHR ''-'' # nat_text (nat (- i)) else nat_text (nat i))"

definition digit_val :: "char \<Rightarrow> nat" where
  "digit_val c = of_char c - 48"

definition text_val :: "string \<Rightarrow> nat" where
  "text_val s = foldl (\<lambda>n c. 10 * n + digit_val c) 0 s"

lemma digit_val_char: "d < 10 \<Longrightarrow> digit_val (digit_char d) = d"
proof -
  assume "d < 10"
  then have "d \<in> {0, 1, 2, 3, 4, 5, 6, 7, 8, 9}" by auto
  then show ?thesis by (auto simp: digit_val_def digit_char_def)
qed

lemma text_val_nat_text: "text_val (nat_text n) = n"
proof (induction n rule: nat_text.induct)
  case (1 n)
  show ?case
  proof (cases "n < 10")
    case True
    then show ?thesis by (subst nat_text.simps) (simp add: text_val_def digit_val_char)
  next
    case False
    with 1 have IH: "text_val (nat_text (n div 10)) = n div 10" by simp
    have "text_val (nat_text n) = 10 * text_val (nat_text (n div 10)) + n mod 10"
      using False by (subst nat_text.simps) (simp add: text_val_def digit_val_char)
    with IH show ?thesis by simp
  qed
qed

lemma nat_text_inj: "nat_text m = nat_text n \<Longrightarrow> m = n"
  by (metis text_val_nat_text)

lemma digit_char_not_minus: "d < 10 \<Longrightarrow> digit_char d \<noteq> CHR ''-''"
proof -
  assume "d < 10"
  then have "d \<in> {0, 1, 2, 3, 4, 5, 6, 7, 8, 9}" by auto
  then show ?thesis by (auto simp: digit_char_def)
qed

lemma nat_text_digits: "c \<in> set (nat_text n) \<Longrightarrow> \<exists>d<10. c = digit_char d"
proof (induction n rule: nat_text.induct)
  case (1 n)
  show ?case
  proof (cases "n < 10")
    case True
    with "1.prems" show ?thesis by (subst (asm) nat_text.simps) auto
  next
    case False
    with "1.prems" have "c \<in> set (nat_text (n div 10)) \<or> c = digit_char (n mod 10)"
      by (subst (asm) nat_text.simps) auto
    with False "1.IH" show ?thesis by force
  qed
qed

lemma nat_text_not_Nil [simp]: "nat_text n \<noteq> []"
  by (subst nat_text.simps) simp

lemma nat_text_no_minus: "nat_text n \<noteq> CHR ''-'' # s"
  using nat_text_digits [of "CHR ''-''" n] digit_char_not_minus by fastforce

lemma Itoa_inj: "Itoa i = Itoa j \<Longrightarrow> i = j"
  using nat_text_no_minus [symmetric] nat_text_no_minus
  by (auto simp: Itoa_def split: if_splits dest: nat_text_inj)

lemma Itoa_not_Nil [simp]: "Itoa i \<noteq> []"
  by (simp add: Itoa_def)

end
