(* ===== verification/Go_Base64.thy ===== *)
theory Go_Base64
  imports Go_Strings
begin

text \<open>
  Go's \<open>encoding/base64\<close> as the repository uses it: \<open>StdEncoding\<close> (padded, for HTTP Basic
  credentials and for x5c certificates) and \<open>RawURLEncoding\<close> (not padded, for PKCE challenges,
  JWK coordinates, thumbprints and refresh tokens). Go's decoders skip carriage returns and line
  feeds and do not look at the unused low bits of the last character; both are modelled.
\<close>

section \<open>Characters\<close>

datatype alphabet = StdAlphabet | URLAlphabet

definition char62 :: "alphabet \<Rightarrow> char" where
  "char62 al = (case al of StdAlphabet \<Rightarrow> CHR ''+'' | URLAlphabet \<Rightarrow> CHR ''-'')"

definition char63 :: "alphabet \<Rightarrow> char" where
  "char63 al = (case al of StdAlphabet \<Rightarrow> CHR ''/'' | URLAlphabet \<Rightarrow> CHR ''_'')"

definition enc_char :: "alphabet \<Rightarrow> nat \<Rightarrow> char" where
  "enc_char al n =
     (if n < 26 then char_of (65 + n)
      else if n < 52 then char_of (71 + n)
      else if n < 62 then char_of (n - 4)
      else if n = 62 then char62 al else char63 al)"

definition dec_char :: "alphabet \<Rightarrow> char \<Rightarrow> nat option" where
  "dec_char al c =
     (let n = of_char c :: nat in
      if 65 \<le> n \<and> n \<le> 90 then Some (n - 65)
      else if 97 \<le> n \<and> n \<le> 122 then Some (n - 71)
      else if 48 \<le> n \<and> n \<le> 57 then Some (n + 4)
      else if c = char62 al then Some 62
      else if c = char63 al then Some 63
      else None)"

lemma of_char_small: "k < 256 \<Longrightarrow> of_char (char_of k) = (k::nat)"
  by simp

lemma dec_enc_char:
  assumes "n < 64"
  shows "dec_char al (enc_char al n) = Some n"
proof -
  consider "n < 26" | "26 \<le> n" "n < 52" | "52 \<le> n" "n < 62" | "n = 62" | "n = 63"
    using assms by linarith
  then show ?thesis
  proof cases
    case 1
    then show ?thesis by (simp add: dec_char_def enc_char_def Let_def of_char_small)
  next
    case 2
    then show ?thesis by (simp add: dec_char_def enc_char_def Let_def of_char_small)
  next
    case 3
    then have "of_char (char_of (n - 4)) = n - 4" "48 \<le> n - 4" "n - 4 \<le> 57" by simp_all
    with 3 show ?thesis by (simp add: dec_char_def enc_char_def Let_def)
  next
    case 4
    then show ?thesis by (cases al) (simp_all add: dec_char_def enc_char_def char62_def)
  next
    case 5
    then show ?thesis by (cases al) (simp_all add: dec_char_def enc_char_def char62_def char63_def)
  qed
qed

lemma dec_char_bound: "dec_char al c = Some n \<Longrightarrow> n < 64"
  by (auto simp: dec_char_def Let_def split: if_splits)

definition is_newline :: "char \<Rightarrow> bool" where
  "is_newline c \<longleftrightarrow> of_char c = (10 :: nat) \<or> of_char c = (13 :: nat)"

lemma char62_63_not_newline: "\<not> is_newline (char62 al)" "\<not> is_newline (char63 al)"
  by (cases al; simp add: is_newline_def char62_def char63_def)+

lemma dec_char_not_newline: "dec_char al c = Some n \<Longrightarrow> \<not> is_newline c"
  using char62_63_not_newline [of al]
  by (auto simp: dec_char_def Let_def is_newline_def split: if_splits)

lemma enc_char_not_newline: "n < 64 \<Longrightarrow> \<not> is_newline (enc_char al n)"
  using dec_enc_char dec_char_not_newline by blast

section \<open>Bytes and sextets\<close>

fun to_sextets :: "nat list \<Rightarrow> nat list" where
  "to_sextets [] = []"
| "to_sextets [a] = [a div 4, (a mod 4) * 16]"
| "to_sextets [a, b] = [a div 4, (a mod 4) * 16 + b div 16, (b mod 16) * 4]"
| "to_sextets (a # b # c # xs) =
     [a div 4, (a mod 4) * 16 + b div 16, (b mod 16) * 4 + c div 64, c mod 64] @ to_sextets xs"

fun from_sextets :: "nat list \<Rightarrow> nat list option" where
  "from_sextets [] = Some []"
| "from_sextets [a] = None"
| "from_sextets [a, b] = Some [a * 4 + b div 16]"
| "from_sextets [a, b, c] = Some [a * 4 + b div 16, (b mod 16) * 16 + c div 4]"
| "from_sextets (a # b # c # d # xs) =
     map_option (\<lambda>r. (a * 4 + b div 16) # ((b mod 16) * 16 + c div 4) # ((c mod 4) * 64 + d) # r)
       (from_sextets xs)"

lemma div16_div16: "(b::nat) < 256 \<Longrightarrow> b div 16 div 16 = 0"
  by (simp add: div_mult2_eq [symmetric])

lemma sextet1: "b < 256 \<Longrightarrow> a div 4 * 4 + (a mod 4 * 16 + b div 16) div 16 = (a::nat)"
  by (simp add: div16_div16)

lemma sextet1': "a div 4 * 4 + (a mod 4 * 16) div 16 = (a::nat)"
  by simp

lemma mod16_of_div16: "(b::nat) < 256 \<Longrightarrow> b div 16 mod 16 = b div 16"
  by (simp add: less_mult_imp_div_less)

lemma div4_of_div64: "(c::nat) < 256 \<Longrightarrow> c div 64 div 4 = 0"
  by (simp add: div_mult2_eq [symmetric])

lemma mod4_of_div64: "(c::nat) < 256 \<Longrightarrow> c div 64 mod 4 = c div 64"
  by (simp add: less_mult_imp_div_less)

lemma sextet2:
  assumes "(b::nat) < 256" "c < 256"
  shows "(a mod 4 * 16 + b div 16) mod 16 * 16 + (b mod 16 * 4 + c div 64) div 4 = b"
proof -
  have "(a mod 4 * 16 + b div 16) mod 16 = b div 16"
    using assms by (simp add: mod16_of_div16)
  moreover have "(b mod 16 * 4 + c div 64) div 4 = b mod 16"
    using assms by (simp add: div4_of_div64)
  ultimately show ?thesis by simp
qed

lemma sextet2':
  assumes "(b::nat) < 256"
  shows "(a mod 4 * 16 + b div 16) mod 16 * 16 + (b mod 16 * 4) div 4 = b"
  using assms by (simp add: mod16_of_div16)

lemma sextet3:
  assumes "(c::nat) < 256"
  shows "(b mod 16 * 4 + c div 64) mod 4 * 64 + c mod 64 = c"
proof -
  have "(b mod 16 * 4 + c div 64) mod 4 = c div 64"
    using assms by (simp add: mod4_of_div64)
  then show ?thesis by simp
qed

lemmas sextet_simps = sextet1 sextet1' sextet2 sextet2' sextet3

lemma from_to_sextets: "\<forall>x\<in>set xs. x < 256 \<Longrightarrow> from_sextets (to_sextets xs) = Some xs"
proof (induction xs rule: to_sextets.induct)
  case (4 a b c xs)
  then have "a < 256" "b < 256" "c < 256" and IH: "from_sextets (to_sextets xs) = Some xs"
    by simp_all
  then show ?case
    by (simp only: to_sextets.simps from_sextets.simps append.simps IH option.map sextet_simps)
next
  case (3 a b)
  then have "a < 256" "b < 256" by simp_all
  then show ?case by (simp only: to_sextets.simps from_sextets.simps sextet_simps)
qed simp_all

lemma sextet_bounds:
  "(a::nat) < 256 \<Longrightarrow> a div 4 < 64"
  "(a::nat) mod 4 * 16 < 64"
  "(b::nat) < 256 \<Longrightarrow> a mod 4 * 16 + b div 16 < 64"
  "(b::nat) mod 16 * 4 < 64"
  "(c::nat) < 256 \<Longrightarrow> b mod 16 * 4 + c div 64 < 64"
  "(c::nat) mod 64 < 64"
  by linarith+

lemma to_sextets_bound: "\<forall>x\<in>set xs. x < 256 \<Longrightarrow> \<forall>y\<in>set (to_sextets xs). y < 64"
proof (induction xs rule: to_sextets.induct)
  case (4 a b c xs)
  then have "\<forall>y\<in>set (to_sextets xs). y < 64" by simp
  with 4(2) show ?case by (simp add: sextet_bounds)
qed (simp_all add: sextet_bounds)

lemma length_to_sextets: "length (to_sextets xs) = (8 * length xs + 5) div 6"
  by (induction xs rule: to_sextets.induct) simp_all

section \<open>RawURLEncoding\<close>

definition bytes_of :: "string \<Rightarrow> nat list" where
  "bytes_of s = map of_char s"

definition string_of :: "nat list \<Rightarrow> string" where
  "string_of ns = map char_of ns"

lemma bytes_of_bound: "\<forall>x\<in>set (bytes_of s). x < 256"
proof -
  have "(of_char c :: nat) < 256" for c by (rule nat_of_char_less_256)
  then show ?thesis by (auto simp: bytes_of_def)
qed

lemma string_bytes [simp]: "string_of (bytes_of s) = s"
  by (simp add: string_of_def bytes_of_def comp_def map_idI)

definition RawEncodeToString :: "alphabet \<Rightarrow> string \<Rightarrow> string" where
  "RawEncodeToString al s = map (enc_char al) (to_sextets (bytes_of s))"

fun dec_all :: "alphabet \<Rightarrow> string \<Rightarrow> nat list option" where
  "dec_all al [] = Some []"
| "dec_all al (c # cs) =
     (case dec_char al c of None \<Rightarrow> None
      | Some n \<Rightarrow> (case dec_all al cs of None \<Rightarrow> None | Some ns \<Rightarrow> Some (n # ns)))"

definition RawDecodeString :: "alphabet \<Rightarrow> string \<Rightarrow> string option" where
  "RawDecodeString al s =
     (case dec_all al (filter (\<lambda>c. \<not> is_newline c) s) of None \<Rightarrow> None
      | Some ns \<Rightarrow> map_option string_of (from_sextets ns))"

lemma dec_all_map_enc: "\<forall>n\<in>set ns. n < 64 \<Longrightarrow> dec_all al (map (enc_char al) ns) = Some ns"
  by (induction ns) (auto simp: dec_enc_char)

lemma filter_enc: "\<forall>n\<in>set ns. n < 64 \<Longrightarrow>
    filter (\<lambda>c. \<not> is_newline c) (map (enc_char al) ns) = map (enc_char al) ns"
  by (induction ns) (auto simp: enc_char_not_newline)

lemma RawDecode_Encode: "RawDecodeString al (RawEncodeToString al s) = Some s"
  using to_sextets_bound [OF bytes_of_bound, of s] from_to_sextets [OF bytes_of_bound, of s]
  by (simp add: RawDecodeString_def RawEncodeToString_def filter_enc dec_all_map_enc)

lemma RawEncode_inj: "RawEncodeToString al s = RawEncodeToString al t \<Longrightarrow> s = t"
  by (metis RawDecode_Encode option.inject)

lemma length_RawEncode: "length (RawEncodeToString al s) = (8 * length s + 5) div 6"
  by (simp add: RawEncodeToString_def length_to_sextets bytes_of_def)

lemma RawEncode_chars: "c \<in> set (RawEncodeToString al s) \<Longrightarrow> \<exists>n. dec_char al c = Some n"
  using to_sextets_bound [OF bytes_of_bound, of s] dec_enc_char [of _ al]
  unfolding RawEncodeToString_def by fastforce

section \<open>StdEncoding\<close>

definition pad_char :: char where
  "pad_char = CHR ''=''"

definition StdEncodeToString :: "string \<Rightarrow> string" where
  "StdEncodeToString s =
     RawEncodeToString StdAlphabet s @ replicate ((3 - length s mod 3) mod 3) pad_char"

fun dec_quanta :: "string \<Rightarrow> nat list option" where
  "dec_quanta [] = Some []"
| "dec_quanta (a # b # c # d # xs) =
     (case (dec_char StdAlphabet a, dec_char StdAlphabet b) of
        (Some p, Some q) \<Rightarrow>
          if c = pad_char then
            (if d = pad_char \<and> xs = [] then from_sextets [p, q] else None)
          else (case dec_char StdAlphabet c of None \<Rightarrow> None
            | Some r \<Rightarrow>
                if d = pad_char then (if xs = [] then from_sextets [p, q, r] else None)
                else (case dec_char StdAlphabet d of None \<Rightarrow> None
                  | Some t \<Rightarrow>
                      (case dec_quanta xs of None \<Rightarrow> None
                       | Some bs \<Rightarrow> map_option (\<lambda>b. b @ bs) (from_sextets [p, q, r, t]))))
      | _ \<Rightarrow> None)"
| "dec_quanta _ = None"

definition StdDecodeString :: "string \<Rightarrow> string option" where
  "StdDecodeString s = map_option string_of (dec_quanta (filter (\<lambda>c. \<not> is_newline c) s))"

lemma enc_char_not_pad: "n < 64 \<Longrightarrow> enc_char StdAlphabet n \<noteq> pad_char"
proof
  assume "n < 64" "enc_char StdAlphabet n = pad_char"
  then have "dec_char StdAlphabet pad_char = Some n" by (metis dec_enc_char)
  then show False
    by (simp add: dec_char_def pad_char_def char62_def char63_def)
qed

lemma pad_not_newline: "\<not> is_newline pad_char"
  by (simp add: is_newline_def pad_char_def)

lemma dec_quanta_encode:
  "\<forall>x\<in>set xs. x < 256 \<Longrightarrow>
   dec_quanta (map (enc_char StdAlphabet) (to_sextets xs)
                @ replicate ((3 - length xs mod 3) mod 3) pad_char) = Some xs"
proof (induction xs rule: to_sextets.induct)
  case 1
  show ?case by simp
next
  case (2 a)
  then have "a div 4 < 64" "a mod 4 * 16 < 64" by (simp_all add: sextet_bounds)
  with 2 show ?case by (simp add: dec_enc_char numeral_2_eq_2 sextet1')
next
  case (3 a b)
  then have ab: "a < 256" "b < 256" by simp_all
  then have d: "a div 4 < 64" "a mod 4 * 16 + b div 16 < 64" "b mod 16 * 4 < 64"
    by (simp_all add: sextet_bounds)
  have "from_sextets [a div 4, a mod 4 * 16 + b div 16, b mod 16 * 4] = Some [a, b]"
    using ab by (simp only: from_sextets.simps sextet_simps)
  with d show ?case by (simp add: dec_enc_char enc_char_not_pad del: from_sextets.simps)
next
  case (4 a b c xs)
  then have abc: "a < 256" "b < 256" "c < 256" by simp_all
  then have d: "a div 4 < 64" "a mod 4 * 16 + b div 16 < 64" "b mod 16 * 4 + c div 64 < 64"
    "c mod 64 < 64"
    by (simp_all add: sextet_bounds)
  have "Suc (Suc (Suc (length xs))) = length xs + 3" by simp
  then have m: "Suc (Suc (Suc (length xs))) mod 3 = length xs mod 3"
    by (simp only: mod_add_self2)
  have f: "from_sextets [a div 4, a mod 4 * 16 + b div 16, b mod 16 * 4 + c div 64, c mod 64]
      = Some [a, b, c]"
    using abc by (simp only: from_sextets.simps sextet_simps option.map)
  from 4 have "dec_quanta (map (enc_char StdAlphabet) (to_sextets xs)
      @ replicate ((3 - length xs mod 3) mod 3) pad_char) = Some xs" by simp
  with d m f show ?case by (simp add: dec_enc_char enc_char_not_pad del: from_sextets.simps)
qed

lemma StdDecode_Encode: "StdDecodeString (StdEncodeToString s) = Some s"
proof -
  let ?e = "map (enc_char StdAlphabet) (to_sextets (bytes_of s))"
  have "filter (\<lambda>c. \<not> is_newline c) (?e @ replicate n pad_char) = ?e @ replicate n pad_char" for n
    using to_sextets_bound [OF bytes_of_bound, of s] by (simp add: filter_enc pad_not_newline)
  moreover have "length (bytes_of s) = length s" by (simp add: bytes_of_def)
  ultimately show ?thesis
    using dec_quanta_encode [OF bytes_of_bound, of s]
    by (simp add: StdDecodeString_def StdEncodeToString_def RawEncodeToString_def)
qed

end
