(* ===== verification/Go_Sha256.thy ===== *)
theory Go_Sha256
  imports Go_Base64 "HOL-Library.Word"
begin

text \<open>
  Go's \<open>crypto/sha256.Sum256\<close> on byte strings, with 32-bit words whose addition wraps. The
  repository hashes PKCE verifiers, refresh tokens, access tokens and JWK thumbprint inputs with
  it. Nothing in the development assumes that the hash is free of collisions.
\<close>

unbundle bit_operations_syntax

type_synonym u32 = "32 word"

section \<open>Constants\<close>

definition round_constants :: "u32 list" where
  "round_constants =
    [1116352408, 1899447441, 3049323471, 3921009573, 961987163, 1508970993, 2453635748, 2870763221,
     3624381080, 310598401, 607225278, 1426881987, 1925078388, 2162078206, 2614888103, 3248222580,
     3835390401, 4022224774, 264347078, 604807628, 770255983, 1249150122, 1555081692, 1996064986,
     2554220882, 2821834349, 2952996808, 3210313671, 3336571891, 3584528711, 113926993, 338241895,
     666307205, 773529912, 1294757372, 1396182291, 1695183700, 1986661051, 2177026350, 2456956037,
     2730485921, 2820302411, 3259730800, 3345764771, 3516065817, 3600352804, 4094571909, 275423344,
     430227734, 506948616, 659060556, 883997877, 958139571, 1322822218, 1537002063, 1747873779,
     1955562222, 2024104815, 2227730452, 2361852424, 2428436474, 2756734187, 3204031479, 3329325298]"

type_synonym sha_state = "u32 \<times> u32 \<times> u32 \<times> u32 \<times> u32 \<times> u32 \<times> u32 \<times> u32"

definition initial_hash :: sha_state where
  "initial_hash = (1779033703, 3144134277, 1013904242, 2773480762,
                   1359893119, 2600822924, 528734635, 1541459225)"

section \<open>Padding\<close>

text \<open>A byte 0x80, zero bytes up to 56 modulo 64, and the bit length as eight big-endian bytes.\<close>

definition zero_count :: "nat \<Rightarrow> nat" where
  "zero_count n = (119 - n mod 64) mod 64"

fun big_endian :: "nat \<Rightarrow> nat \<Rightarrow> nat list" where
  "big_endian 0 n = []"
| "big_endian (Suc k) n = big_endian k (n div 256) @ [n mod 256]"

definition pad_message :: "nat list \<Rightarrow> nat list" where
  "pad_message bs =
     bs @ 128 # replicate (zero_count (length bs)) 0 @ big_endian 8 (8 * length bs)"

lemma length_big_endian [simp]: "length (big_endian k n) = k"
  by (induction k arbitrary: n) auto

lemma length_pad_message: "64 dvd length (pad_message bs)"
proof -
  define r where "r = length bs mod 64"
  have n: "length bs = 64 * (length bs div 64) + r" and r: "r < 64" by (simp_all add: r_def)
  have "(119 - r) mod 64 = (if r \<le> 55 then 55 - r else 119 - r)"
  proof (cases "r \<le> 55")
    case True
    then have "119 - r = 55 - r + 64" by simp
    then have "(119 - r) mod 64 = (55 - r) mod 64" by (simp only: mod_add_self2)
    with True show ?thesis by simp
  qed simp
  then have "zero_count (length bs) = (if r \<le> 55 then 55 - r else 119 - r)"
    by (simp add: zero_count_def r_def)
  then have "length bs + (1 + (zero_count (length bs) + 8)) =
      64 * (length bs div 64 + (if r \<le> 55 then 1 else 2))"
    using n r by auto
  then have "64 dvd (length bs + (1 + (zero_count (length bs) + 8)))" by simp
  then show ?thesis by (simp add: pad_message_def)
qed

fun words_of :: "nat list \<Rightarrow> u32 list" where
  "words_of (a # b # c # d # xs) =
     word_of_nat (((a * 256 + b) * 256 + c) * 256 + d) # words_of xs"
| "words_of _ = []"

section \<open>Compression\<close>

definition schedule_word :: "u32 list \<Rightarrow> u32" where
  "schedule_word ws =
     (let t = length ws; x = ws ! (t - 15); y = ws ! (t - 2);
          s0 = word_rotr 7 x XOR word_rotr 18 x XOR drop_bit 3 x;
          s1 = word_rotr 17 y XOR word_rotr 19 y XOR drop_bit 10 y
      in ws ! (t - 16) + s0 + ws ! (t - 7) + s1)"

fun extend_schedule :: "nat \<Rightarrow> u32 list \<Rightarrow> u32 list" where
  "extend_schedule 0 ws = ws"
| "extend_schedule (Suc k) ws = extend_schedule k (ws @ [schedule_word ws])"

fun sha_round :: "sha_state \<Rightarrow> u32 \<times> u32 \<Rightarrow> sha_state" where
  "sha_round (a, b, c, d, e, f, g, h) (k, w) =
     (let s1 = word_rotr 6 e XOR word_rotr 11 e XOR word_rotr 25 e;
          ch = (e AND f) XOR (NOT e AND g);
          t1 = h + s1 + ch + k + w;
          s0 = word_rotr 2 a XOR word_rotr 13 a XOR word_rotr 22 a;
          maj = (a AND b) XOR (a AND c) XOR (b AND c);
          t2 = s0 + maj
      in (t1 + t2, a, b, c, d + t1, e, f, g))"

fun add_state :: "sha_state \<Rightarrow> sha_state \<Rightarrow> sha_state" where
  "add_state (a, b, c, d, e, f, g, h) (a', b', c', d', e', f', g', h') =
     (a + a', b + b', c + c', d + d', e + e', f + f', g + g', h + h')"

definition compress :: "sha_state \<Rightarrow> u32 list \<Rightarrow> sha_state" where
  "compress s block =
     add_state s (foldl sha_round s (zip round_constants (extend_schedule 48 block)))"

function compress_all :: "sha_state \<Rightarrow> u32 list \<Rightarrow> sha_state" where
  "compress_all s ws =
     (if ws = [] then s else compress_all (compress s (take 16 ws)) (drop 16 ws))"
  by pat_completeness auto
termination
  by (relation "measure (\<lambda>(s, ws). length ws)") auto

declare compress_all.simps [simp del]

fun state_bytes :: "sha_state \<Rightarrow> nat list" where
  "state_bytes (a, b, c, d, e, f, g, h) =
     concat (map (\<lambda>x. big_endian 4 (unat x)) [a, b, c, d, e, f, g, h])"

definition Sum256 :: "string \<Rightarrow> string" where
  "Sum256 s = string_of (state_bytes (compress_all initial_hash (words_of (pad_message (bytes_of s)))))"

lemma length_state_bytes: "length (state_bytes st) = 32"
  by (induction st rule: state_bytes.induct) simp

lemma length_Sum256: "length (Sum256 s) = 32"
  by (simp add: Sum256_def string_of_def length_state_bytes)

end
