(* ===== verification/Idauth_Types.thy ===== *)
theory Idauth_Types
  imports Go_Sha256
begin

text \<open>
  The data the components exchange. \<open>Client\<close>, \<open>Session\<close>, \<open>RoleEntity\<close>, \<open>Correlation\<close> and
  \<open>UserData\<close> are structs of the library \<open>github.com/lx-lib/lx-idauth/core\<close>; only the fields
  the repository reads or writes are kept. The items of the code store are declared in
  \<open>authorizationcode/store.go\<close>. Times and durations are Go's nanoseconds, as integers.
\<close>

section \<open>Structs of the lx-idauth library\<close>

record Client =
  cl_ID :: string
  cl_RedirectURI :: "string list"
  cl_Secrets :: "string list"
  cl_Certificates :: "string list"
  cl_Scopes :: "string list"
  cl_Metadata :: strmap

record RoleEntity =
  role_ID :: string
  role_Code :: string
  role_Name :: string

record GrantedRight =
  gr_RoleID :: string
  gr_RightCode :: string

record Session =
  se_ID :: string
  se_Subject :: string
  se_FirstName :: string
  se_LastName :: string
  se_Code :: string
  se_Scope :: string
  se_Rights :: "GrantedRight list"
  se_LastAccessed :: "int option"
  se_State :: string
  se_Role :: "RoleEntity option"
  se_Roles :: "RoleEntity list"
  se_Metadata :: strmap

definition zero_Session :: Session where
  "zero_Session = \<lparr>se_ID = [], se_Subject = [], se_FirstName = [], se_LastName = [],
     se_Code = [], se_Scope = [], se_Rights = [], se_LastAccessed = None, se_State = [],
     se_Role = None, se_Roles = [], se_Metadata = None\<rparr>"

record UserData =
  ud_UserID :: string
  ud_PersonCode :: string
  ud_FirstName :: string
  ud_LastName :: string
  ud_Email :: string

record Correlation =
  cor_ID :: string
  cor_ClientID :: string
  cor_RedirectURI :: string
  cor_CodeChallenge :: "string option"        \<comment> \<open>Go pointers: \<open>None\<close> is nil\<close>
  cor_CodeChallengeMethod :: "string option"
  cor_State :: "string option"
  cor_ErrorCode :: string
  cor_ManagedByProvider :: bool

section \<open>Items of the code store (\<open>authorizationcode/store.go\<close>)\<close>

record PARItem =
  par_ClientID :: string
  par_RawQuery :: string

record RefreshTokenItem =
  rt_ClientID :: string
  rt_Scope :: string
  rt_JKT :: string
  rt_Session :: Session

record AuthCodeItem =
  ac_Code :: string
  ac_ClientID :: string
  ac_UserID :: string
  ac_RedirectURI :: string
  ac_CodeChallenge :: string
  ac_CodeChallengeMethod :: string
  ac_Scope :: string
  ac_IssuerState :: string
  ac_NoTXCode :: bool
  ac_Session :: Session

record StateItem =
  st_State :: string
  st_ResponseType :: string
  st_Scope :: string
  st_IssuerState :: string

text \<open>The zero values Go returns next to an error, or for a key that is not in a cache.\<close>

definition zero_PARItem :: PARItem where
  "zero_PARItem = \<lparr>par_ClientID = [], par_RawQuery = []\<rparr>"

definition zero_RefreshTokenItem :: RefreshTokenItem where
  "zero_RefreshTokenItem = \<lparr>rt_ClientID = [], rt_Scope = [], rt_JKT = [], rt_Session = zero_Session\<rparr>"

definition zero_AuthCodeItem :: AuthCodeItem where
  "zero_AuthCodeItem = \<lparr>ac_Code = [], ac_ClientID = [], ac_UserID = [], ac_RedirectURI = [],
     ac_CodeChallenge = [], ac_CodeChallengeMethod = [], ac_Scope = [], ac_IssuerState = [],
     ac_NoTXCode = False, ac_Session = zero_Session\<rparr>"

definition zero_StateItem :: StateItem where
  "zero_StateItem = \<lparr>st_State = [], st_ResponseType = [], st_Scope = [], st_IssuerState = []\<rparr>"

section \<open>Audit\<close>

record AuditRequest =
  au_ClientID :: string
  au_Endpoint :: string
  au_Action :: string
  au_GivenName :: string
  au_FamilyName :: string
  au_Identifier :: string
  au_IPAddress :: string
  au_UserAgent :: string
  au_Bearer :: string      \<comment> \<open>the session id sent in the \<open>Authorization\<close> header of the audit call\<close>

section \<open>Values of the shared cache\<close>

text \<open>
  All caches are created on one backend (\<open>cache.Create[T](app.Cache(), name, ...)\<close>) and told
  apart by their names; a value of the backend is a value of one of the types \<open>T\<close>.
\<close>

datatype cache_value =
    AuthCodeVal AuthCodeItem
  | StateVal StateItem
  | IntVal int
  | PARVal PARItem
  | RefreshVal RefreshTokenItem
  | BoolVal bool

fun as_AuthCode :: "cache_value \<Rightarrow> AuthCodeItem option" where
  "as_AuthCode (AuthCodeVal x) = Some x" | "as_AuthCode _ = None"

fun as_State :: "cache_value \<Rightarrow> StateItem option" where
  "as_State (StateVal x) = Some x" | "as_State _ = None"

fun as_Int :: "cache_value \<Rightarrow> int option" where
  "as_Int (IntVal x) = Some x" | "as_Int _ = None"

fun as_PAR :: "cache_value \<Rightarrow> PARItem option" where
  "as_PAR (PARVal x) = Some x" | "as_PAR _ = None"

fun as_Refresh :: "cache_value \<Rightarrow> RefreshTokenItem option" where
  "as_Refresh (RefreshVal x) = Some x" | "as_Refresh _ = None"

fun as_Bool :: "cache_value \<Rightarrow> bool option" where
  "as_Bool (BoolVal x) = Some x" | "as_Bool _ = None"

section \<open>Requests and replies\<close>

text \<open>
  A request as the handlers see it through the web framework: \<open>rq_form k\<close> is what
  \<open>ctx.Form.StringOptional(k)\<close> returns, \<open>rq_query\<close> likewise for \<open>ctx.Query\<close>, and
  \<open>rq_header k\<close> is \<open>ctx.Header.Get(k)\<close>, the empty string when the header is not there.
\<close>

record TokenRequest =
  tr_GrantType :: string
  tr_Scope :: string
  tr_ClientID :: string
  tr_ClientAssertionType :: string
  tr_ClientAssertion :: string
  tr_Code :: string
  tr_RedirectURI :: string
  tr_ClientSecret :: string
  tr_CodeVerifier :: string

record request =
  rq_form :: "string \<rightharpoonup> string"
  rq_query :: "string \<rightharpoonup> string"
  rq_header :: "string \<Rightarrow> string"
  rq_body :: "go_error + TokenRequest"       \<comment> \<open>\<open>ctx.Body.JSON\<close> into a \<open>request.TokenRequest\<close>\<close>
  rq_post_args :: "(string \<times> string) list"  \<comment> \<open>\<open>ctx.Request().PostArgs().All()\<close>\<close>
  rq_query_string :: string                  \<comment> \<open>\<open>ctx.Request().URI().QueryString()\<close>\<close>
  rq_base_url :: string
  rq_base_path :: string
  rq_router_path :: string
  rq_ip :: string
  rq_user_agent :: string

text \<open>\<open>ctx.Form.String(k)\<close> and \<open>ctx.Query.String(k)\<close>: an error when the parameter is not there.\<close>

definition form_String :: "request \<Rightarrow> string \<Rightarrow> go_error + string" where
  "form_String r k = (case rq_form r k of None \<Rightarrow> Inl (ParamRequired k) | Some v \<Rightarrow> Inr v)"

definition query_String :: "request \<Rightarrow> string \<Rightarrow> go_error + string" where
  "query_String r k = (case rq_query r k of None \<Rightarrow> Inl (ParamRequired k) | Some v \<Rightarrow> Inr v)"

record TokenResponse =
  resp_AccessToken :: string
  resp_TokenType :: string
  resp_ExpiresIn :: int
  resp_Scope :: string
  resp_RefreshToken :: string

text \<open>The dynamic values handlers put into \<open>map[string]any\<close> bodies.\<close>

datatype json =
    JNull
  | JBool bool
  | JInt int
  | JFloat string   \<comment> \<open>a float64, as the text the encoder prints for it\<close>
  | JStr string
  | JArr "json list"
  | JObj "(string \<times> json) list"

datatype body =
    TokenResponseBody TokenResponse
  | TokenResponseError string string   \<comment> \<open>\<open>error\<close>, \<open>error_description\<close>\<close>
  | AuthorizeError string go_error     \<comment> \<open>the code, and the Go error whose text is the message\<close>
  | AuthorizeErrorMsg string string    \<comment> \<open>the code and a literal message\<close>
  | TextBody string
  | JsonBody json

text \<open>
  What a handler leaves in the response: a JSON body with a status, a problem of the error
  taxonomy (\<open>ctx.Error(pkerrors.NewProblem(code, detail))\<close>), a redirect, a bare status, or a
  run-time panic of the handler.
\<close>

datatype content =
    JSON nat body
  | Problem string "string option"
  | Redirect string
  | StatusOnly nat
  | Panic string

record reply =
  headers :: "(string \<times> string) list"
  content :: content

definition respond :: "content \<Rightarrow> reply" where
  "respond c = \<lparr>headers = [], content = c\<rparr>"

definition set_header :: "string \<Rightarrow> string \<Rightarrow> reply \<Rightarrow> reply" where
  "set_header k v r = r\<lparr>headers := (k, v) # headers r\<rparr>"

lemma content_respond [simp]: "content (respond c) = c"
  by (simp add: respond_def)

lemma headers_respond [simp]: "headers (respond c) = []"
  by (simp add: respond_def)

lemma content_set_header [simp]: "content (set_header k v r) = content r"
  by (simp add: set_header_def)

lemma headers_set_header [simp]: "headers (set_header k v r) = (k, v) # headers r"
  by (simp add: set_header_def)

text \<open>The reply carries an access token.\<close>

fun grants_token :: "reply \<Rightarrow> bool" where
  "grants_token r = (case content r of
      JSON st (TokenResponseBody t) \<Rightarrow> st = 200
    | JSON st (JsonBody (JObj fs)) \<Rightarrow> st = 200 \<and> ''access_token'' \<in> set (map fst fs)
    | _ \<Rightarrow> False)"

declare grants_token.simps [simp del]

lemma grants_token_simps [simp]:
  "\<not> grants_token (respond (JSON st (TokenResponseError a b)))"
  "\<not> grants_token (respond (JSON st (AuthorizeError a e)))"
  "\<not> grants_token (respond (JSON st (AuthorizeErrorMsg a b)))"
  "\<not> grants_token (respond (JSON st (TextBody b)))"
  "\<not> grants_token (respond (Problem c d))"
  "\<not> grants_token (respond (Redirect u))"
  "\<not> grants_token (respond (StatusOnly n))"
  "\<not> grants_token (respond (Panic m))"
  "grants_token (respond (JSON 200 (TokenResponseBody t)))"
  "grants_token (set_header k v r) = grants_token r"
  by (simp_all add: grants_token.simps)

end
