(* ===== verification/Svc_Errors.thy ===== *)
theory Svc_Errors
  imports Idauth_Types
begin

text \<open>
  The service-local error codes of \<open>svcerrors/svcerrors.go\<close>, carried on the \<open>X-Error-Code\<close>
  header, and the taxonomy of problem reasons of \<open>errors_taxonomy.go\<close>.
\<close>

section \<open>\<open>svcerrors\<close>\<close>

definition HeaderErrorCode :: string where
  "HeaderErrorCode = ''X-Error-Code''"

datatype Code =
    ClientCredentialsUnsupportedAssertionType
  | ClientCredentialsAssertionInvalid
  | AuthCodeMissingAuthHeader
  | AuthCodeInvalidClient
  | AuthCodeInvalidOrExpiredCode
  | AuthCodeRedirectURIMismatch
  | TokenDPoPProofMissing
  | TokenDPoPProofInvalid
  | RefreshTokenInvalidOrExpired
  | PreAuthAttestationRequired
  | PreAuthInvalidClient
  | IntrospectionInvalidClient
  | IntrospectionAuthRequired

fun code_text :: "Code \<Rightarrow> string" where
  "code_text ClientCredentialsUnsupportedAssertionType = ''client_credentials_unsupported_assertion_type''"
| "code_text ClientCredentialsAssertionInvalid = ''client_credentials_assertion_invalid''"
| "code_text AuthCodeMissingAuthHeader = ''auth_code_missing_auth_header''"
| "code_text AuthCodeInvalidClient = ''auth_code_invalid_client''"
| "code_text AuthCodeInvalidOrExpiredCode = ''auth_code_invalid_or_expired_code''"
| "code_text AuthCodeRedirectURIMismatch = ''auth_code_redirect_uri_mismatch''"
| "code_text TokenDPoPProofMissing = ''token_dpop_proof_missing''"
| "code_text TokenDPoPProofInvalid = ''token_dpop_proof_invalid''"
| "code_text RefreshTokenInvalidOrExpired = ''refresh_token_invalid_or_expired''"
| "code_text PreAuthAttestationRequired = ''preauth_attestation_required''"
| "code_text PreAuthInvalidClient = ''preauth_invalid_client''"
| "code_text IntrospectionInvalidClient = ''introspection_invalid_client''"
| "code_text IntrospectionAuthRequired = ''introspection_auth_required''"

text \<open>\<open>svcerrors.SetHeader(ctx, code)\<close>; the span attribute is observability only.\<close>

definition SetHeader :: "Code \<Rightarrow> reply \<Rightarrow> reply" where
  "SetHeader c r = set_header HeaderErrorCode (code_text c) r"

lemma content_SetHeader [simp]: "content (SetHeader c r) = content r"
  by (simp add: SetHeader_def)

lemma grants_SetHeader [simp]: "grants_token (SetHeader c r) = grants_token r"
  by (simp add: SetHeader_def)

section \<open>Error taxonomy\<close>

text \<open>\<open>pkerrors.RegisterReason(reason, ReasonSpec{Status, Title})\<close> of \<open>init()\<close>, in order.\<close>

definition registered_reasons :: "(string \<times> nat \<times> string) list" where
  "registered_reasons =
    [(''preAuthCodeMissing'', 400, ''Missing pre-authorized code''),
     (''preAuthCodeInvalidOrExpired'', 400, ''Invalid or expired pre-authorized code''),
     (''preAuthTXCodeInvalid'', 400, ''Invalid transaction code''),
     (''preAuthSessionCreateFailed'', 400, ''Failed to create session''),
     (''invalidRequestBody'', 400, ''Invalid request body''),
     (''audienceBuildFailed'', 500, ''Internal server error''),
     (''assertionParseFailed'', 500, ''Internal server error''),
     (''sessionCreateFailed'', 500, ''Internal server error''),
     (''authHeaderInvalid'', 400, ''Invalid authorization header''),
     (''clientLookupFailed'', 500, ''Internal server error''),
     (''auditFailed'', 500, ''Internal server error''),
     (''cleanupFailed'', 500, ''Internal server error''),
     (''scopeRequired'', 400, ''Missing scope''),
     (''itemStoreFailed'', 500, ''Internal server error''),
     (''txCodeStoreFailed'', 500, ''Internal server error''),
     (''correlationNotFound'', 400, ''Session expired or not found'')]"

text \<open>The reason of a problem code \<open>err:<domain>:<reason>\<close> is its last piece.\<close>

definition reason_of :: "string \<Rightarrow> string" where
  "reason_of code = last (Split (CHR '':'') code)"

definition problem_spec :: "string \<Rightarrow> (nat \<times> string) option" where
  "problem_spec code = map_of registered_reasons (reason_of code)"

text \<open>Every problem a reply carries has a registered reason.\<close>

definition problem_registered :: "reply \<Rightarrow> bool" where
  "problem_registered r = (case content r of Problem code d \<Rightarrow> problem_spec code \<noteq> None | _ \<Rightarrow> True)"

lemma problem_registered_simps [simp]:
  "problem_registered (respond (JSON st b))"
  "problem_registered (respond (Redirect u))"
  "problem_registered (respond (StatusOnly n))"
  "problem_registered (respond (Panic m))"
  "problem_registered (respond (Problem code d)) \<longleftrightarrow> problem_spec code \<noteq> None"
  "problem_registered (set_header k v r) = problem_registered r"
  "problem_registered (SetHeader c r) = problem_registered r"
  by (simp_all add: problem_registered_def SetHeader_def)

end
