(* ===== verification/Idauth_World.thy ===== *)
theory Idauth_World
  imports Svc_Errors
begin

text \<open>
  Everything the handlers call that is not part of the repository, as a record of parameters
  over an abstract world \<open>'w\<close>: the cache of \<open>azugo.io/core/cache\<close>, the session store and
  helper functions of \<open>lx-idauth\<close>, the audit client, ULIDs, the clock and the random source.
  The client registry is the repository's own (theory \<open>Client_Store\<close>), reached through the
  interface \<open>core.ClientStore\<close>.

  What the code relies on is stated once, as the locale \<open>cache_api\<close>: a cache never invents an
  entry, an entry may disappear at any time (it expires), a key that was deleted or popped is
  gone, a pop of a key that is not there is an error, and no other call stores into the cache.
  A \<open>Get\<close> of a key that is not there may either return an error or the zero value without an
  error (\<open>Inr None\<close>): the callers check for both, so the contract leaves it open.
\<close>

text \<open>The error codes of \<open>lx-idauth/core/auth\<close> that the code uses; their texts are a parameter.\<close>

datatype AuthErrCode = AuthErrInvalidRequest | AuthErrInvalidCallback | AuthErrServer | AuthErrNoRights

record 'w env =
  CacheGet :: "string \<Rightarrow> string \<Rightarrow> ('w, go_error + cache_value option) state"
  CacheSet :: "string \<Rightarrow> string \<Rightarrow> cache_value \<Rightarrow> ('w, go_error option) state"
  CacheDelete :: "string \<Rightarrow> string \<Rightarrow> ('w, go_error option) state"
  CachePop :: "string \<Rightarrow> string \<Rightarrow> ('w, go_error + cache_value option) state"
  SessionCreate :: "Session \<Rightarrow> ('w, go_error + Session) state"
  SessionDelete :: "string \<Rightarrow> ('w, go_error option) state"
  GetSessionByID :: "string \<Rightarrow> ('w, go_error + Session option) state"
  PersonRequest :: "AuditRequest \<Rightarrow> ('w, go_error option) state"
  UlidMake :: "('w, string) state"
  TimeNow :: "('w, int) state"
  RandRead :: "nat \<Rightarrow> ('w, go_error + string) state"   \<comment> \<open>\<open>crypto/rand.Read\<close> of n bytes\<close>
  RandIntn :: "int \<Rightarrow> ('w, int) state"                 \<comment> \<open>\<open>math/rand.Intn\<close>\<close>
  GetClient :: "string \<Rightarrow> go_error + Client option"
  GetSecondsToLive :: "int \<Rightarrow> int option \<Rightarrow> int"
  SessionStateAuthorized :: string
  SessionIsActive :: "Session \<Rightarrow> bool"
  AuthErrText :: "AuthErrCode \<Rightarrow> string"
  ActionLoginSuccess :: string          \<comment> \<open>a constant of the audit library\<close>

section \<open>The contract of the cache\<close>

locale cache_api =
  fixes E :: "'w env"
    and live :: "'w \<Rightarrow> string \<times> string \<Rightarrow> cache_value option"
  assumes get_some:
      "run_state (CacheGet E n k) w = (Inr (Some v), w') \<Longrightarrow> live w (n, k) = Some v"
    and get_frame: "shrinks (live (world_after (CacheGet E n k) w)) (live w)"
    and set_frame:
      "shrinks (live (world_after (CacheSet E n k v) w)) ((live w)((n, k) \<mapsto> v))
       \<or> shrinks (live (world_after (CacheSet E n k v) w)) (live w)"
    and delete_frame: "shrinks (live (world_after (CacheDelete E n k) w)) (live w)"
    and delete_done:
      "run_state (CacheDelete E n k) w = (None, w') \<Longrightarrow> live w' (n, k) = None"
    and pop_frame: "shrinks (live (world_after (CachePop E n k) w)) (live w)"
    and pop_some:
      "run_state (CachePop E n k) w = (Inr r, w') \<Longrightarrow>
       (\<exists>v. r = Some v \<and> live w (n, k) = Some v) \<and> live w' (n, k) = None"
    and create_frame: "shrinks (live (world_after (SessionCreate E s) w)) (live w)"
    and session_delete_frame: "shrinks (live (world_after (SessionDelete E c) w)) (live w)"
    and session_get_frame: "shrinks (live (world_after (GetSessionByID E c) w)) (live w)"
    and audit_frame: "shrinks (live (world_after (PersonRequest E a) w)) (live w)"
    and ulid_frame: "shrinks (live (world_after (UlidMake E) w)) (live w)"
    and now_frame: "shrinks (live (world_after (TimeNow E) w)) (live w)"
    and rand_frame: "shrinks (live (world_after (RandRead E m) w)) (live w)"
    and intn_frame: "shrinks (live (world_after (RandIntn E i) w)) (live w)"
begin

lemmas frames =
  get_frame delete_frame pop_frame create_frame session_delete_frame session_get_frame
  audit_frame ulid_frame now_frame rand_frame intn_frame

lemma set_other:
  assumes "(n', k') \<noteq> (n, k)" "live w (n', k') = None"
  shows "live (world_after (CacheSet E n k v) w) (n', k') = None"
proof -
  have "((live w)((n, k) \<mapsto> v)) (n', k') = None" using assms by auto
  with assms(2) set_frame [of n k v w] show ?thesis by (meson shrinks_None)
qed

lemma set_same:
  assumes "live (world_after (CacheSet E n k v) w) (n, k) = Some v'"
  shows "v' = v \<or> live w (n, k) = Some v'"
  using set_frame [of n k v w]
proof
  assume "shrinks (live (world_after (CacheSet E n k v) w)) ((live w)((n, k) \<mapsto> v))"
  from shrinks_Some [OF this assms] show ?thesis by simp
next
  assume "shrinks (live (world_after (CacheSet E n k v) w)) (live w)"
  from shrinks_Some [OF this assms] show ?thesis by simp
qed

end

section \<open>Typed access to a named cache\<close>

definition cache_read ::
    "(cache_value \<Rightarrow> 'v option) \<Rightarrow> 'v \<Rightarrow> go_error + cache_value option \<Rightarrow> go_error + 'v" where
  "cache_read proj zero r = (case r of
      Inl e \<Rightarrow> Inl e
    | Inr None \<Rightarrow> Inr zero
    | Inr (Some v) \<Rightarrow> (case proj v of Some x \<Rightarrow> Inr x | None \<Rightarrow> Inl (ExternalError ''cache: decode'')))"

definition cache_Get ::
    "(cache_value \<Rightarrow> 'v option) \<Rightarrow> 'v \<Rightarrow> 'w env \<Rightarrow> string \<Rightarrow> string \<Rightarrow> ('w, go_error + 'v) state" where
  "cache_Get proj zero E n k = do { r \<leftarrow> CacheGet E n k; return (cache_read proj zero r) }"

definition cache_Pop ::
    "(cache_value \<Rightarrow> 'v option) \<Rightarrow> 'v \<Rightarrow> 'w env \<Rightarrow> string \<Rightarrow> string \<Rightarrow> ('w, go_error + 'v) state" where
  "cache_Pop proj zero E n k = do { r \<leftarrow> CachePop E n k; return (cache_read proj zero r) }"

lemma cache_read_Inr:
  "cache_read proj zero r = Inr x \<Longrightarrow>
     (r = Inr None \<and> x = zero) \<or> (\<exists>v. r = Inr (Some v) \<and> proj v = Some x)"
  by (auto simp: cache_read_def split: sum.splits option.splits)

lemma result_cache_Get: "result_of (cache_Get proj zero E n k) w = cache_read proj zero (result_of (CacheGet E n k) w)"
  by (simp add: cache_Get_def)

lemma world_cache_Get: "world_after (cache_Get proj zero E n k) w = world_after (CacheGet E n k) w"
  by (simp add: cache_Get_def)

lemma result_cache_Pop: "result_of (cache_Pop proj zero E n k) w = cache_read proj zero (result_of (CachePop E n k) w)"
  by (simp add: cache_Pop_def)

lemma world_cache_Pop: "world_after (cache_Pop proj zero E n k) w = world_after (CachePop E n k) w"
  by (simp add: cache_Pop_def)

context cache_api
begin

lemma cache_Get_Inr:
  assumes "result_of (cache_Get proj zero E n k) w = Inr x"
  shows "(result_of (CacheGet E n k) w = Inr None \<and> x = zero)
     \<or> (\<exists>v. live w (n, k) = Some v \<and> proj v = Some x)"
proof -
  from assms have "cache_read proj zero (result_of (CacheGet E n k) w) = Inr x"
    by (simp add: result_cache_Get)
  then show ?thesis
    using get_some [of n k w] run_state_eq [of "CacheGet E n k" w]
    by (auto dest!: cache_read_Inr)
qed

lemma cache_Pop_Inr:
  assumes "result_of (cache_Pop proj zero E n k) w = Inr x"
  shows "(\<exists>v. live w (n, k) = Some v \<and> proj v = Some x)
     \<and> live (world_after (cache_Pop proj zero E n k) w) (n, k) = None"
proof -
  from assms have "cache_read proj zero (result_of (CachePop E n k) w) = Inr x"
    by (simp add: result_cache_Pop)
  then show ?thesis
    using pop_some [of n k w] run_state_eq [of "CachePop E n k" w]
    by (auto dest!: cache_read_Inr simp: world_cache_Pop)
qed

lemma cache_Pop_absent:
  assumes "live w (n, k) = None"
  shows "\<exists>e. result_of (cache_Pop proj zero E n k) w = Inl e"
  using cache_Pop_Inr [of proj zero n k w] assms
  by (cases "result_of (cache_Pop proj zero E n k) w") auto

end

end
