(* ===== verification/Client_Store.thy ===== *)
theory Client_Store
  imports Idauth_World
begin

text \<open>
  The client registry: \<open>store/clients.go\<close> (the store the application uses) and
  \<open>store/state.go\<close> (its unused twin). The registry is read once, from a YAML file whose
  contents and decoding are parameters (\<open>os.ReadFile\<close>, \<open>yaml.Unmarshal\<close>, the validator).
\<close>

type_synonym clientStore = "string \<rightharpoonup> Client"

definition clientStore_GetClient :: "clientStore \<Rightarrow> string \<Rightarrow> go_error + Client option" where
  "clientStore_GetClient s clientID =
     (case s clientID of None \<Rightarrow> Inl (NotFoundError ''client'') | Some c \<Rightarrow> Inr (Some c))"

text \<open>\<open>GetClients\<close> returns the clients in Go's unspecified map order: the model keeps the set.\<close>

definition clientStore_GetClients :: "clientStore \<Rightarrow> Client set" where
  "clientStore_GetClients s = ran s"

definition clientStore_RefetchClients :: "clientStore \<Rightarrow> go_error option" where
  "clientStore_RefetchClients s = None"

definition clientStore_ValidateCredentials :: "clientStore \<Rightarrow> 'c \<Rightarrow> go_error option" where
  "clientStore_ValidateCredentials s c = None"

fun load_clients :: "(Client \<Rightarrow> go_error option) \<Rightarrow> clientStore \<Rightarrow> Client list \<Rightarrow> go_error + clientStore" where
  "load_clients validate m [] = Inr m"
| "load_clients validate m (c # cs) =
     (case validate c of
        Some e \<Rightarrow> Inl e
      | None \<Rightarrow> load_clients validate (m(cl_ID c \<mapsto> c)) cs)"

definition NewClientStore ::
    "(string \<Rightarrow> go_error + string) \<Rightarrow> (string \<Rightarrow> go_error + Client list)
     \<Rightarrow> (Client \<Rightarrow> go_error option) \<Rightarrow> string \<Rightarrow> go_error + clientStore" where
  "NewClientStore ReadFile yaml_Unmarshal validate ClientPath =
     (case ReadFile ClientPath of
        Inl e \<Rightarrow> Inl e
      | Inr buf \<Rightarrow> (case yaml_Unmarshal buf of
          Inl e \<Rightarrow> Inl e
        | Inr clients \<Rightarrow> load_clients validate Map.empty clients))"

section \<open>What loading establishes\<close>

lemma load_clients_Inr:
  "load_clients validate m cs = Inr s \<Longrightarrow>
   (\<forall>c\<in>set cs. validate c = None) \<and> s = m ++ map_of (rev (map (\<lambda>c. (cl_ID c, c)) cs))"
proof (induction cs arbitrary: m)
  case Nil
  then show ?case by simp
next
  case (Cons c cs)
  then have v: "validate c = None" and l: "load_clients validate (m(cl_ID c \<mapsto> c)) cs = Inr s"
    by (auto split: option.splits)
  from Cons.IH [OF l] v show ?case
    by (auto simp: map_add_def fun_eq_iff split: option.splits)
qed

lemma load_clients_Inl:
  "load_clients validate m cs = Inl e \<Longrightarrow> \<exists>c\<in>set cs. validate c = Some e"
  by (induction cs arbitrary: m) (auto split: option.splits)

section \<open>The interface the handlers use\<close>

text \<open>
  The handlers reach the registry through \<open>core.ClientStore.GetClient\<close>. They rely on this: a
  lookup without an error returns a client registered under exactly the id asked for.
\<close>

locale client_registry =
  fixes lookup :: "string \<Rightarrow> go_error + Client option"
  assumes lookup_client: "lookup i = Inr r \<Longrightarrow> \<exists>c. r = Some c \<and> cl_ID c = i"
begin

lemma no_nil_client: "lookup i \<noteq> Inr None"
  using lookup_client [of i None] by auto

lemma lookup_id: "lookup i = Inr (Some c) \<Longrightarrow> cl_ID c = i"
  using lookup_client by fastforce

end

text \<open>A store built by \<open>NewClientStore\<close> files every client under its own id.\<close>

definition keyed_by_id :: "clientStore \<Rightarrow> bool" where
  "keyed_by_id s \<longleftrightarrow> (\<forall>i c. s i = Some c \<longrightarrow> cl_ID c = i)"

lemma load_clients_keyed:
  "load_clients validate m cs = Inr s \<Longrightarrow> keyed_by_id m \<Longrightarrow> keyed_by_id s"
proof (induction cs arbitrary: m)
  case Nil
  then show ?case by simp
next
  case (Cons c cs)
  then have l: "load_clients validate (m(cl_ID c \<mapsto> c)) cs = Inr s"
    by (auto split: option.splits)
  have "keyed_by_id (m(cl_ID c \<mapsto> c))"
    using Cons.prems(2) by (auto simp: keyed_by_id_def)
  with l show ?case by (rule Cons.IH)
qed

lemma client_registry_clientStore:
  assumes "keyed_by_id s"
  shows "client_registry (clientStore_GetClient s)"
proof
  fix i r assume "clientStore_GetClient s i = Inr r"
  then show "\<exists>c. r = Some c \<and> cl_ID c = i"
    using assms by (cases "s i") (auto simp: clientStore_GetClient_def keyed_by_id_def)
qed

lemma NewClientStore_keyed:
  assumes "NewClientStore rf ym validate path = Inr s"
  shows "keyed_by_id s"
proof -
  from assms obtain cs where "load_clients validate Map.empty cs = Inr s"
    by (auto simp: NewClientStore_def split: sum.splits)
  then show ?thesis
    by (rule load_clients_keyed) (simp add: keyed_by_id_def)
qed

text \<open>The type of the stores that loading can produce, so that the interface has an interpretation.\<close>

typedef loaded_store = "{s :: clientStore. keyed_by_id s}"
  by (rule exI [of _ Map.empty]) (simp add: keyed_by_id_def)

interpretation registry: client_registry "clientStore_GetClient (Rep_loaded_store s)" for s
  using client_registry_clientStore Rep_loaded_store by blast

section \<open>The twin store of \<open>store/state.go\<close>\<close>

text \<open>It is not wired into the application; its \<open>RefetchClients\<close> panics.\<close>

type_synonym stateStore = "string \<rightharpoonup> Client"

definition stateStore_GetClient :: "stateStore \<Rightarrow> string \<Rightarrow> go_error + Client option" where
  "stateStore_GetClient s clientID =
     (case s clientID of None \<Rightarrow> Inl (NotFoundError ''client'') | Some c \<Rightarrow> Inr (Some c))"

definition stateStore_GetClients :: "stateStore \<Rightarrow> Client set" where
  "stateStore_GetClients s = ran s"

definition stateStore_ValidateCredentials :: "stateStore \<Rightarrow> 'c \<Rightarrow> go_error option" where
  "stateStore_ValidateCredentials s c = None"

definition stateStore_RefetchClients :: "stateStore \<Rightarrow> content" where
  "stateStore_RefetchClients s = Panic ''implement me''"

definition NewStateStore ::
    "(string \<Rightarrow> go_error + string) \<Rightarrow> (string \<Rightarrow> go_error + Client list)
     \<Rightarrow> (Client \<Rightarrow> go_error option) \<Rightarrow> string \<Rightarrow> go_error + stateStore" where
  "NewStateStore ReadFile yaml_Unmarshal validate ClientPath =
     (case ReadFile ClientPath of
        Inl e \<Rightarrow> Inl e
      | Inr buf \<Rightarrow> (case yaml_Unmarshal buf of
          Inl e \<Rightarrow> Inl e
        | Inr clients \<Rightarrow> load_clients validate Map.empty clients))"

end
