(* ===== verification/Code_Store.thy ===== *)
theory Code_Store
  imports Client_Store
begin

text \<open>
  The code store of \<open>authorizationcode/store.go\<close>, \<open>utils.go\<close> and the scope set of
  \<open>validation.go\<close>: authorization codes, pending states, pre-authorized transaction codes, pushed
  authorization requests and refresh tokens, each in a cache of its own name.

  The mutex \<open>st.mu\<close> makes each operation atomic and nothing more: an operation is one step of
  the world, a handler is a sequence of them.
\<close>

section \<open>Names and configuration\<close>

definition authCodeCache :: string where "authCodeCache = ''auth_code''"
definition stateCache :: string where "stateCache = ''auth_code_state''"
definition preAuthCache :: string where "preAuthCache = ''pre_auth_code''"
definition parCacheName :: string where "parCacheName = ''par_request''"
definition refreshTokenCacheName :: string where "refreshTokenCacheName = ''refresh_token''"

lemmas cache_names = authCodeCache_def stateCache_def preAuthCache_def parCacheName_def
  refreshTokenCacheName_def

record CodeConfiguration =
  cc_StateTTL :: int
  cc_AuthCodeTTL :: int
  cc_PreAuthTTL :: int
  cc_PARTTL :: int
  cc_RequirePAR :: bool
  cc_Scopes :: "string list"
  cc_RefreshTokenTTL :: int

definition second :: int where "second = 1000000000"
definition minute :: int where "minute = 60 * second"
definition hour :: int where "hour = 60 * minute"

text \<open>The defaults that \<open>Configuration.Bind\<close> sets.\<close>

definition default_CodeConfiguration :: CodeConfiguration where
  "default_CodeConfiguration = \<lparr>cc_StateTTL = 5 * minute, cc_AuthCodeTTL = 1 * minute,
     cc_PreAuthTTL = 5 * minute, cc_PARTTL = 90 * second, cc_RequirePAR = False,
     cc_Scopes = [], cc_RefreshTokenTTL = 720 * hour\<rparr>"

section \<open>Scopes\<close>

definition newScopeSet :: "string list \<Rightarrow> string set" where
  "newScopeSet scopes = (if length scopes = 0 then {''openid'', ''profile''} else set scopes)"

text \<open>The loop of \<open>Supported\<close>, with its variable \<open>any\<close>.\<close>

fun supported_loop :: "string set \<Rightarrow> string list \<Rightarrow> bool \<Rightarrow> bool" where
  "supported_loop s [] found = found"
| "supported_loop s (sc # scs) found =
     (if sc = [] then supported_loop s scs found
      else if sc \<notin> s then False
      else supported_loop s scs True)"

definition Supported :: "string set \<Rightarrow> string \<Rightarrow> bool" where
  "Supported s scope = supported_loop s (Split (CHR '' '') scope) False"

lemma supported_loop_iff:
  "supported_loop s scs found \<longleftrightarrow>
     (\<forall>sc\<in>set scs. sc \<noteq> [] \<longrightarrow> sc \<in> s) \<and> (found \<or> (\<exists>sc\<in>set scs. sc \<noteq> []))"
  by (induction scs arbitrary: found) auto

lemma Supported_iff:
  "Supported s scope \<longleftrightarrow>
     (let ts = filter (\<lambda>t. t \<noteq> []) (Split (CHR '' '') scope) in ts \<noteq> [] \<and> set ts \<subseteq> s)"
  by (auto simp: Supported_def supported_loop_iff Let_def filter_empty_conv)

section \<open>The store\<close>

text \<open>
  The store keeps the scope set; its caches live in the world. \<open>NewAuthCodeStore\<close> creates the
  five caches in this order and stops at the first error; \<open>create\<close> is \<open>cache.Create\<close> with its
  name and default time to live.
\<close>

record Store =
  scopes :: "string set"

definition NewAuthCodeStore ::
    "(string \<Rightarrow> int \<Rightarrow> ('w, go_error option) state) \<Rightarrow> CodeConfiguration \<Rightarrow> ('w, go_error + Store) state" where
  "NewAuthCodeStore create config = do {
     e1 \<leftarrow> create authCodeCache (cc_AuthCodeTTL config);
     (case e1 of Some e \<Rightarrow> return (Inl e) | None \<Rightarrow> do {
     e2 \<leftarrow> create stateCache (cc_StateTTL config);
     (case e2 of Some e \<Rightarrow> return (Inl e) | None \<Rightarrow> do {
     e3 \<leftarrow> create preAuthCache (cc_PreAuthTTL config);
     (case e3 of Some e \<Rightarrow> return (Inl e) | None \<Rightarrow> do {
     e4 \<leftarrow> create parCacheName (cc_PARTTL config);
     (case e4 of Some e \<Rightarrow> return (Inl e) | None \<Rightarrow> do {
     e5 \<leftarrow> create refreshTokenCacheName (cc_RefreshTokenTTL config);
     (case e5 of Some e \<Rightarrow> return (Inl e)
      | None \<Rightarrow> return (Inr \<lparr>scopes = newScopeSet (cc_Scopes config)\<rparr>)) }) }) }) }) }"

definition IsScopeSupported :: "Store \<Rightarrow> string \<Rightarrow> bool" where
  "IsScopeSupported st scope = Supported (scopes st) scope"

definition GenerateCodeChallenge :: "string \<Rightarrow> string" where
  "GenerateCodeChallenge codeVerifier = RawEncodeToString URLAlphabet (Sum256 codeVerifier)"

definition hashRefreshToken :: "string \<Rightarrow> string" where
  "hashRefreshToken token = RawEncodeToString URLAlphabet (Sum256 token)"

subsection \<open>Authorization codes\<close>

definition SetItem :: "'w env \<Rightarrow> AuthCodeItem \<Rightarrow> ('w, go_error option) state" where
  "SetItem E item = CacheSet E authCodeCache (ac_Code item) (AuthCodeVal item)"

text \<open>The check of \<open>GetItem\<close> on the value it read.\<close>

definition check_challenge :: "AuthCodeItem \<Rightarrow> string \<Rightarrow> go_error + AuthCodeItem" where
  "check_challenge value codeVerifier =
     (let v = (if ac_CodeChallengeMethod value = ''S256'' then GenerateCodeChallenge codeVerifier
               else codeVerifier)
      in if ac_CodeChallenge value \<noteq> v then Inl (NotFoundError ''code_verifier'') else Inr value)"

definition GetItem :: "'w env \<Rightarrow> string \<Rightarrow> string \<Rightarrow> ('w, go_error + AuthCodeItem) state" where
  "GetItem E code codeVerifier = do {
     r \<leftarrow> cache_Get as_AuthCode zero_AuthCodeItem E authCodeCache code;
     return (case r of Inl e \<Rightarrow> Inl e | Inr value \<Rightarrow> check_challenge value codeVerifier) }"

definition DeleteItem :: "'w env \<Rightarrow> string \<Rightarrow> ('w, go_error option) state" where
  "DeleteItem E code = CacheDelete E authCodeCache code"

subsection \<open>Pending states\<close>

definition SetState :: "'w env \<Rightarrow> StateItem \<Rightarrow> ('w, go_error option) state" where
  "SetState E item = CacheSet E stateCache (st_State item) (StateVal item)"

definition PopState :: "'w env \<Rightarrow> string \<Rightarrow> ('w, go_error + StateItem) state" where
  "PopState E state = cache_Pop as_State zero_StateItem E stateCache state"

subsection \<open>Pre-authorized codes\<close>

definition SetTXCode :: "'w env \<Rightarrow> string \<Rightarrow> int \<Rightarrow> ('w, go_error option) state" where
  "SetTXCode E preAuthCode txCode = CacheSet E preAuthCache preAuthCode (IntVal txCode)"

definition ValidateTXCode :: "'w env \<Rightarrow> string \<Rightarrow> string \<Rightarrow> ('w, bool) state" where
  "ValidateTXCode E preAuthCode txCode = do {
     r \<leftarrow> cache_Get as_Int 0 E preAuthCache preAuthCode;
     return (case r of Inl e \<Rightarrow> False | Inr stored \<Rightarrow> Itoa stored = txCode) }"

definition DeleteTXCode :: "'w env \<Rightarrow> string \<Rightarrow> ('w, go_error option) state" where
  "DeleteTXCode E preAuthCode = CacheDelete E preAuthCache preAuthCode"

definition GetPreAuthItem :: "'w env \<Rightarrow> string \<Rightarrow> ('w, go_error + AuthCodeItem) state" where
  "GetPreAuthItem E preAuthCode = do {
     r \<leftarrow> cache_Get as_AuthCode zero_AuthCodeItem E authCodeCache preAuthCode;
     return (case r of
        Inl e \<Rightarrow> Inl e
      | Inr item \<Rightarrow> if ac_Code item = [] then Inl (KeyNotFoundError preAuthCode) else Inr item) }"

subsection \<open>Pushed authorization requests\<close>

definition SetPAR :: "'w env \<Rightarrow> PARItem \<Rightarrow> ('w, go_error + string) state" where
  "SetPAR E item = do {
     i \<leftarrow> UlidMake E;
     r \<leftarrow> CacheSet E parCacheName i (PARVal item);
     return (case r of Some e \<Rightarrow> Inl e | None \<Rightarrow> Inr i) }"

definition PopPAR :: "'w env \<Rightarrow> string \<Rightarrow> ('w, go_error + PARItem) state" where
  "PopPAR E i = cache_Pop as_PAR zero_PARItem E parCacheName i"

subsection \<open>Refresh tokens\<close>

definition IssueRefreshToken :: "'w env \<Rightarrow> RefreshTokenItem \<Rightarrow> ('w, go_error + string) state" where
  "IssueRefreshToken E item = do {
     r \<leftarrow> RandRead E 32;
     (case r of
        Inl e \<Rightarrow> return (Inl e)
      | Inr buf \<Rightarrow> do {
          let token = RawEncodeToString URLAlphabet buf;
          r2 \<leftarrow> CacheSet E refreshTokenCacheName (hashRefreshToken token) (RefreshVal item);
          return (case r2 of Some e \<Rightarrow> Inl e | None \<Rightarrow> Inr token) }) }"

definition RedeemRefreshToken :: "'w env \<Rightarrow> string \<Rightarrow> ('w, go_error + RefreshTokenItem) state" where
  "RedeemRefreshToken E token =
     cache_Pop as_Refresh zero_RefreshTokenItem E refreshTokenCacheName (hashRefreshToken token)"

lemmas code_store_defs [store_defs] =
  SetItem_def GetItem_def DeleteItem_def SetState_def PopState_def SetTXCode_def
  ValidateTXCode_def DeleteTXCode_def GetPreAuthItem_def SetPAR_def PopPAR_def
  IssueRefreshToken_def RedeemRefreshToken_def

end
