(* ===== verification/Store_Contract.thy ===== *)
theory Store_Contract
  imports Code_Store
begin

text \<open>
  What the operations of the code store promise their callers, proved from the contract of the
  cache. Three of the five caches are read by popping (pending states, pushed requests, refresh
  tokens): they share the contract \<open>single_use\<close>. The two others (authorization codes and
  transaction codes) are read and deleted in two separate operations.
\<close>

section \<open>The contract of a popped entry\<close>

locale single_use =
  fixes take_entry :: "string \<Rightarrow> ('w, go_error + 'v) state"
    and holds :: "'w \<Rightarrow> string \<Rightarrow> 'v option"
  assumes take_ok:
      "result_of (take_entry k) w = Inr v \<Longrightarrow>
       holds w k = Some v \<and> holds (world_after (take_entry k) w) k = None"
    and take_frame: "shrinks (holds (world_after (take_entry k) w)) (holds w)"
begin

lemma take_absent: "holds w k = None \<Longrightarrow> \<exists>e. result_of (take_entry k) w = Inl e"
  using take_ok [of k w] by (cases "result_of (take_entry k) w") auto

text \<open>Once an entry was taken it cannot be taken again, as long as it is not stored again.\<close>

lemma second_take_fails:
  assumes "result_of (take_entry k) w = Inr v"
    and "shrinks (holds w2) (holds (world_after (take_entry k) w))"
  shows "\<exists>e. result_of (take_entry k) w2 = Inl e"
  using assms take_ok take_absent shrinks_None by metis

lemma take_twice_fails:
  assumes "result_of (take_entry k) w = Inr v"
  shows "\<exists>e. result_of (take_entry k) (world_after (take_entry k) w) = Inl e"
  using assms by (rule second_take_fails) simp

end

definition held_state :: "('w \<Rightarrow> string \<times> string \<Rightarrow> cache_value option) \<Rightarrow> 'w \<Rightarrow> string \<Rightarrow> StateItem option" where
  "held_state live w k = Option.bind (live w (stateCache, k)) as_State"

definition held_par :: "('w \<Rightarrow> string \<times> string \<Rightarrow> cache_value option) \<Rightarrow> 'w \<Rightarrow> string \<Rightarrow> PARItem option" where
  "held_par live w k = Option.bind (live w (parCacheName, k)) as_PAR"

definition held_refresh :: "('w \<Rightarrow> string \<times> string \<Rightarrow> cache_value option) \<Rightarrow> 'w \<Rightarrow> string \<Rightarrow> RefreshTokenItem option" where
  "held_refresh live w t = Option.bind (live w (refreshTokenCacheName, hashRefreshToken t)) as_Refresh"

definition held_code :: "('w \<Rightarrow> string \<times> string \<Rightarrow> cache_value option) \<Rightarrow> 'w \<Rightarrow> string \<Rightarrow> AuthCodeItem option" where
  "held_code live w c = Option.bind (live w (authCodeCache, c)) as_AuthCode"

definition held_tx :: "('w \<Rightarrow> string \<times> string \<Rightarrow> cache_value option) \<Rightarrow> 'w \<Rightarrow> string \<Rightarrow> int option" where
  "held_tx live w c = Option.bind (live w (preAuthCache, c)) as_Int"

lemmas held_defs = held_state_def held_par_def held_refresh_def held_code_def held_tx_def

lemma shrinks_bind:
  assumes "shrinks (live w) (live w')"
  shows "shrinks (\<lambda>k. Option.bind (live w (f k)) g) (\<lambda>k. Option.bind (live w' (f k)) g)"
proof (rule shrinksI)
  fix k
  show "Option.bind (live w (f k)) g = None
      \<or> Option.bind (live w (f k)) g = Option.bind (live w' (f k)) g"
    using shrinksD [OF assms, of "f k"] by auto
qed

lemma held_fun:
  "held_state live w = (\<lambda>k. Option.bind (live w (stateCache, k)) as_State)"
  "held_par live w = (\<lambda>k. Option.bind (live w (parCacheName, k)) as_PAR)"
  "held_refresh live w = (\<lambda>t. Option.bind (live w (refreshTokenCacheName, hashRefreshToken t)) as_Refresh)"
  "held_code live w = (\<lambda>c. Option.bind (live w (authCodeCache, c)) as_AuthCode)"
  "held_tx live w = (\<lambda>c. Option.bind (live w (preAuthCache, c)) as_Int)"
  by (simp_all add: held_defs fun_eq_iff)

lemma shrinks_held:
  assumes "shrinks (live w) (live w')"
  shows "shrinks (held_state live w) (held_state live w')"
    and "shrinks (held_par live w) (held_par live w')"
    and "shrinks (held_refresh live w) (held_refresh live w')"
    and "shrinks (held_code live w) (held_code live w')"
    and "shrinks (held_tx live w) (held_tx live w')"
  unfolding held_fun by (rule shrinks_bind [OF assms])+

context cache_api
begin

lemma pop_single_use:
  "result_of (cache_Pop proj zero E n k) w = Inr x \<Longrightarrow>
   Option.bind (live w (n, k)) proj = Some x
   \<and> Option.bind (live (world_after (cache_Pop proj zero E n k) w) (n, k)) proj = None"
  using cache_Pop_Inr [of proj zero n k w x] by auto

lemma pop_shrinks: "shrinks (live (world_after (cache_Pop proj zero E n k) w)) (live w)"
  by (simp add: world_cache_Pop pop_frame)

lemma get_shrinks: "shrinks (live (world_after (cache_Get proj zero E n k) w)) (live w)"
  by (simp add: world_cache_Get get_frame)

end

sublocale cache_api \<subseteq> states: single_use "PopState E" "held_state live"
  by unfold_locales
     (unfold PopState_def, use pop_single_use in \<open>fastforce simp: held_state_def\<close>,
      rule shrinks_held(1) [where live = live, OF pop_shrinks])

sublocale cache_api \<subseteq> pushed: single_use "PopPAR E" "held_par live"
  by unfold_locales
     (unfold PopPAR_def, use pop_single_use in \<open>fastforce simp: held_par_def\<close>,
      rule shrinks_held(2) [where live = live, OF pop_shrinks])

sublocale cache_api \<subseteq> refresh: single_use "RedeemRefreshToken E" "held_refresh live"
  by unfold_locales
     (unfold RedeemRefreshToken_def, use pop_single_use in \<open>fastforce simp: held_refresh_def\<close>,
      rule shrinks_held(3) [where live = live, OF pop_shrinks])

context cache_api
begin

text \<open>The contract's facts for the three popped caches, by name.\<close>

lemmas state_taken = states.take_ok
lemmas par_taken = pushed.take_ok
lemmas refresh_taken = refresh.take_ok
lemmas state_gone = states.second_take_fails
lemmas par_gone = pushed.second_take_fails
lemmas refresh_gone = refresh.second_take_fails

end

section \<open>Codes: read and deleted in two steps\<close>

context cache_api
begin

lemma world_GetItem: "world_after (GetItem E c v) w = world_after (CacheGet E authCodeCache c) w"
  by (simp add: GetItem_def world_cache_Get)

lemma world_GetPreAuthItem:
  "world_after (GetPreAuthItem E c) w = world_after (CacheGet E authCodeCache c) w"
  by (simp add: GetPreAuthItem_def world_cache_Get)

lemma world_ValidateTXCode:
  "world_after (ValidateTXCode E c t) w = world_after (CacheGet E preAuthCache c) w"
  by (simp add: ValidateTXCode_def world_cache_Get)

text \<open>
  What a successful \<open>GetItem\<close> has established: the code is in the cache (or the cache answered
  an absent key with the zero item), and the verifier matches the challenge.
\<close>

lemma GetItem_Inr:
  assumes "result_of (GetItem E c v) w = Inr item"
  shows "(held_code live w c = Some item \<or> item = zero_AuthCodeItem)
    \<and> check_challenge item v = Inr item"
proof -
  from assms obtain x where x: "result_of (cache_Get as_AuthCode zero_AuthCodeItem E authCodeCache c) w = Inr x"
    and "check_challenge x v = Inr item"
    by (auto simp: GetItem_def split: sum.splits)
  moreover from this(2) have "x = item"
    by (auto simp: check_challenge_def Let_def split: if_splits)
  ultimately show ?thesis
    using cache_Get_Inr [OF x] by (auto simp: held_code_def)
qed

lemma GetPreAuthItem_Inr:
  assumes "result_of (GetPreAuthItem E c) w = Inr item"
  shows "held_code live w c = Some item \<and> ac_Code item \<noteq> []"
proof -
  from assms have x: "result_of (cache_Get as_AuthCode zero_AuthCodeItem E authCodeCache c) w = Inr item"
    and "ac_Code item \<noteq> []"
    by (auto simp: GetPreAuthItem_def split: sum.splits if_splits)
  then show ?thesis
    using cache_Get_Inr [OF x] by (auto simp: held_code_def zero_AuthCodeItem_def)
qed

lemma ValidateTXCode_True:
  assumes "result_of (ValidateTXCode E c t) w"
  shows "(\<exists>n. held_tx live w c = Some n \<and> Itoa n = t) \<or> t = ''0''"
proof -
  from assms obtain n where n: "result_of (cache_Get as_Int 0 E preAuthCache c) w = Inr n"
    and t: "Itoa n = t"
    by (auto simp: ValidateTXCode_def split: sum.splits)
  have "Itoa 0 = ''0''"
    by (simp add: Itoa_def nat_text.simps digit_char_def)
  then show ?thesis
    using cache_Get_Inr [OF n] t by (auto simp: held_tx_def)
qed

lemma DeleteItem_gone:
  "result_of (DeleteItem E c) w = None \<Longrightarrow> held_code live (world_after (DeleteItem E c) w) c = None"
  using delete_done [of authCodeCache c w] run_state_eq [of "CacheDelete E authCodeCache c" w]
  by (simp add: DeleteItem_def held_code_def)

lemma DeleteTXCode_gone:
  "result_of (DeleteTXCode E c) w = None \<Longrightarrow> held_tx live (world_after (DeleteTXCode E c) w) c = None"
  using delete_done [of preAuthCache c w] run_state_eq [of "CacheDelete E preAuthCache c" w]
  by (simp add: DeleteTXCode_def held_tx_def)

end

end
