(* ===== verification/Request_Validation.thy ===== *)
theory Request_Validation
  imports Store_Contract
begin

text \<open>
  \<open>ValidateAndSaveState\<close> of \<open>authorizationcode/validation.go\<close>: the checks of an authorization
  code request at the point where a provider starts an authentication, and the pending state it
  saves. A request that is not \<open>response_type=code\<close>, or that has no scope, is let through without
  a pending state.
\<close>

text \<open>The checks alone: an error, nothing to save, or the state to save.\<close>

definition state_to_save ::
    "'w env \<Rightarrow> Store \<Rightarrow> request \<Rightarrow> string \<Rightarrow> string \<Rightarrow> go_error + StateItem option" where
  "state_to_save E store rq clientID state =
     (case rq_query rq ''response_type'' of
        None \<Rightarrow> Inr None
      | Some responseType \<Rightarrow>
          if responseType \<noteq> ''code'' then Inr None
          else (case GetClient E clientID of
            Inl e \<Rightarrow> Inl e
          | Inr None \<Rightarrow> Inl (ErrorsNew ''client not found'')
          | Inr (Some client) \<Rightarrow>
            (case query_String rq ''redirect_uri'' of
              Inl e \<Rightarrow> Inl e
            | Inr redirectURI \<Rightarrow>
              if redirectURI \<notin> set (cl_RedirectURI client) then Inl (ErrorsNew ''invalid redirect_uri'')
              else (case query_String rq ''code_challenge'' of
                Inl e \<Rightarrow> Inl e
              | Inr codeChallenge \<Rightarrow>
                if length codeChallenge < 43 \<or> length codeChallenge > 128
                then Inl (ErrorsNew ''invalid code_challenge'')
                else (case query_String rq ''code_challenge_method'' of
                  Inl e \<Rightarrow> Inl e
                | Inr codeChallengeMethod \<Rightarrow>
                  if codeChallengeMethod \<noteq> ''S256'' then Inl (ErrorsNew ''invalid code_challenge_method'')
                  else (case query_String rq ''code_challenge_method'' of
                    Inl e \<Rightarrow> Inl e
                  | Inr _ \<Rightarrow>
                    (case rq_query rq ''scope'' of
                      None \<Rightarrow> Inr None
                    | Some scope \<Rightarrow>
                      if \<not> IsScopeSupported store scope then Inl (ErrorsNew ''invalid scope'')
                      else Inr (Some \<lparr>st_State = state, st_ResponseType = responseType,
                             st_Scope = scope,
                             st_IssuerState = (case rq_query rq ''issuer_state'' of
                                 None \<Rightarrow> [] | Some i \<Rightarrow> i)\<rparr>))))))))"

definition ValidateAndSaveState ::
    "'w env \<Rightarrow> Store \<Rightarrow> request \<Rightarrow> string \<Rightarrow> string \<Rightarrow> ('w, go_error option) state" where
  "ValidateAndSaveState E store rq clientID state =
     (case state_to_save E store rq clientID state of
        Inl e \<Rightarrow> return (Some e)
      | Inr None \<Rightarrow> return None
      | Inr (Some item) \<Rightarrow> SetState E item)"

text \<open>What a request must satisfy for a pending state to be saved.\<close>

definition well_formed_code_request :: "'w env \<Rightarrow> Store \<Rightarrow> request \<Rightarrow> string \<Rightarrow> bool" where
  "well_formed_code_request E store rq clientID \<longleftrightarrow>
     rq_query rq ''response_type'' = Some ''code''
     \<and> (\<exists>client. GetClient E clientID = Inr (Some client)
          \<and> (\<exists>u. rq_query rq ''redirect_uri'' = Some u \<and> u \<in> set (cl_RedirectURI client)))
     \<and> (\<exists>c. rq_query rq ''code_challenge'' = Some c \<and> 43 \<le> length c \<and> length c \<le> 128)
     \<and> rq_query rq ''code_challenge_method'' = Some ''S256''
     \<and> (\<exists>s. rq_query rq ''scope'' = Some s \<and> IsScopeSupported store s)"

lemma query_String_Inr: "query_String rq k = Inr v \<longleftrightarrow> rq_query rq k = Some v"
  by (auto simp: query_String_def split: option.splits)

lemma query_String_Inl: "query_String rq k = Inl e \<longleftrightarrow> rq_query rq k = None \<and> e = ParamRequired k"
  by (auto simp: query_String_def split: option.splits)

lemma state_to_save_Some:
  "state_to_save E store rq clientID state = Inr (Some item) \<longleftrightarrow>
     well_formed_code_request E store rq clientID
     \<and> st_State item = state \<and> st_ResponseType item = ''code''
     \<and> rq_query rq ''scope'' = Some (st_Scope item)
     \<and> st_IssuerState item = (case rq_query rq ''issuer_state'' of None \<Rightarrow> [] | Some i \<Rightarrow> i)"
  (is "?l \<longleftrightarrow> ?r")
proof
  assume ?l
  then show ?r
    unfolding state_to_save_def well_formed_code_request_def
    by (auto simp: query_String_Inr split: option.splits sum.splits if_splits)
next
  assume ?r
  then show ?l
    unfolding well_formed_code_request_def
    by (cases item) (auto simp: state_to_save_def query_String_def)
qed

lemma state_to_save_no_scope:
  "state_to_save E store rq clientID state = Inr None \<Longrightarrow>
     rq_query rq ''response_type'' \<noteq> Some ''code'' \<or> rq_query rq ''scope'' = None"
  by (auto simp: state_to_save_def split: option.splits sum.splits if_splits)

end
