(* ===== verification/Go_Json.thy ===== *)
theory Go_Json
  imports Idauth_Types "HOL-Library.List_Lexorder" "HOL-Library.Char_ord"
begin

text \<open>
  \<open>encoding/json\<close> on dynamic values: \<open>json.Marshal\<close> of a map and \<open>json.Unmarshal\<close> into
  \<open>map[string]any\<close> and \<open>[]map[string]any\<close>. Strings are byte sequences; the UTF-8 rules of Go's
  scanner are written out. A number that was decoded is kept as its literal: Go stores the
  nearest float64 and prints its shortest text, an abstraction that none of the handlers can
  observe. The scanner is a lexer and an automaton with an explicit stack of open arrays and
  objects, as \<open>scanner.parseState\<close> is, so no fuel is needed.
\<close>

section \<open>UTF-8\<close>

definition byte :: "char \<Rightarrow> nat" where
  "byte c = of_char c"

definition in_range :: "nat \<Rightarrow> nat \<Rightarrow> char \<Rightarrow> bool" where
  "in_range lo hi c \<longleftrightarrow> lo \<le> byte c \<and> byte c \<le> hi"

text \<open>The length of the multi-byte rune at the head of a string, 0 when there is none.\<close>

fun utf8_len :: "string \<Rightarrow> nat" where
  "utf8_len (a # b # s) =
     (if in_range 194 223 a then (if in_range 128 191 b then 2 else 0)
      else (case s of
          [] \<Rightarrow> 0
        | c # s' \<Rightarrow>
            if in_range 224 239 a then
              (if (if byte a = 224 then in_range 160 191 b
                   else if byte a = 237 then in_range 128 159 b
                   else in_range 128 191 b) \<and> in_range 128 191 c then 3 else 0)
            else (case s' of
                [] \<Rightarrow> 0
              | d # _ \<Rightarrow>
                  if in_range 240 244 a \<and>
                     (if byte a = 240 then in_range 144 191 b
                      else if byte a = 244 then in_range 128 143 b
                      else in_range 128 191 b) \<and> in_range 128 191 c \<and> in_range 128 191 d
                  then 4 else 0)))"
| "utf8_len _ = 0"

definition encode_rune :: "nat \<Rightarrow> string" where
  "encode_rune r =
     (if r < 128 then [char_of r]
      else if r < 2048 then [char_of (192 + r div 64), char_of (128 + r mod 64)]
      else if r < 65536 then
        [char_of (224 + r div 4096), char_of (128 + r div 64 mod 64), char_of (128 + r mod 64)]
      else [char_of (240 + r div 262144), char_of (128 + r div 4096 mod 64),
            char_of (128 + r div 64 mod 64), char_of (128 + r mod 64)])"

definition replacement :: string where
  "replacement = encode_rune 65533"

section \<open>Encoding\<close>

definition hex_digit :: "nat \<Rightarrow> char" where
  "hex_digit d = ''0123456789abcdef'' ! d"

definition u_escape :: "nat \<Rightarrow> string" where
  "u_escape n = [CHR 92, CHR ''u'', hex_digit (n div 4096), hex_digit (n div 256 mod 16),
     hex_digit (n div 16 mod 16), hex_digit (n mod 16)]"

definition escape_ascii :: "char \<Rightarrow> string" where
  "escape_ascii c =
     (let n = byte c in
      if n = 34 then [CHR 92, CHR 34]
      else if n = 92 then [CHR 92, CHR 92]
      else if n = 8 then [CHR 92, CHR ''b'']
      else if n = 12 then [CHR 92, CHR ''f'']
      else if n = 10 then [CHR 92, CHR ''n'']
      else if n = 13 then [CHR 92, CHR ''r'']
      else if n = 9 then [CHR 92, CHR ''t'']
      else if n < 32 \<or> n = 60 \<or> n = 62 \<or> n = 38 then u_escape n
      else [c])"

text \<open>U+2028 and U+2029 are escaped too.\<close>

definition line_separator :: "string \<Rightarrow> nat option" where
  "line_separator s =
     (if take 2 s = [CHR 226, CHR 128] then
        (if drop 2 s \<noteq> [] \<and> byte (s ! 2) = 168 then Some 8232
         else if drop 2 s \<noteq> [] \<and> byte (s ! 2) = 169 then Some 8233 else None)
      else None)"

function escape_string :: "string \<Rightarrow> string" where
  "escape_string [] = []"
| "escape_string (c # s) =
     (if byte c < 128 then escape_ascii c @ escape_string s
      else if utf8_len (c # s) = 0 then u_escape 65533 @ escape_string s
      else (case line_separator (c # s) of
          Some r \<Rightarrow> u_escape r @ escape_string (drop (utf8_len (c # s) - 1) s)
        | None \<Rightarrow> take (utf8_len (c # s)) (c # s) @ escape_string (drop (utf8_len (c # s) - 1) s)))"
  by pat_completeness auto
termination
  by (relation "measure length") auto

definition quote_string :: "string \<Rightarrow> string" where
  "quote_string s = CHR 34 # escape_string s @ [CHR 34]"

fun join_with :: "string \<Rightarrow> string list \<Rightarrow> string" where
  "join_with sep [] = []"
| "join_with sep [x] = x"
| "join_with sep (x # y # xs) = x @ sep @ join_with sep (y # xs)"

fun json_text :: "json \<Rightarrow> string" where
  "json_text JNull = ''null''"
| "json_text (JBool b) = (if b then ''true'' else ''false'')"
| "json_text (JInt i) = Itoa i"
| "json_text (JFloat s) = s"
| "json_text (JStr s) = quote_string s"
| "json_text (JArr xs) = ''['' @ join_with '','' (map json_text xs) @ '']''"
| "json_text (JObj fs) =
     CHR 123 # join_with '',''
       (map snd (sort_key fst (map (\<lambda>(k, v). (k, quote_string k @ '':'' @ json_text v)) fs))) @ [CHR 125]"

definition json_Marshal :: "json \<Rightarrow> go_error + string" where
  "json_Marshal v = Inr (json_text v)"

section \<open>Lexing\<close>

datatype token =
    LBrace | RBrace | LBrack | RBrack | Colon | Comma
  | StrTok string | NumTok string | TrueTok | FalseTok | NullTok

definition hex_val :: "char \<Rightarrow> nat option" where
  "hex_val c = (let n = byte c in
     if 48 \<le> n \<and> n \<le> 57 then Some (n - 48)
     else if 97 \<le> n \<and> n \<le> 102 then Some (n - 87)
     else if 65 \<le> n \<and> n \<le> 70 then Some (n - 55) else None)"

fun hex4 :: "string \<Rightarrow> (nat \<times> string) option" where
  "hex4 (a # b # c # d # s) =
     (case (hex_val a, hex_val b, hex_val c, hex_val d) of
        (Some w, Some x, Some y, Some z) \<Rightarrow> Some (((w * 16 + x) * 16 + y) * 16 + z, s)
      | _ \<Rightarrow> None)"
| "hex4 _ = None"

text \<open>A \<open>\uXXXX\<close> escape, after the \<open>u\<close>: surrogate pairs are combined, lone surrogates replaced.\<close>

definition u_unescape :: "string \<Rightarrow> (string \<times> string) option" where
  "u_unescape s =
     (case hex4 s of
        None \<Rightarrow> None
      | Some (r, s') \<Rightarrow>
          if 55296 \<le> r \<and> r < 57344 then
            (case s' of
               b # u # t \<Rightarrow>
                 if b = CHR 92 \<and> u = CHR ''u'' then
                   (case hex4 t of
                      Some (r2, t') \<Rightarrow>
                        if r < 56320 \<and> 56320 \<le> r2 \<and> r2 < 57344
                        then Some (encode_rune ((r - 55296) * 1024 + (r2 - 56320) + 65536), t')
                        else Some (replacement, s')
                    | None \<Rightarrow> Some (replacement, s'))
                 else Some (replacement, s')
             | _ \<Rightarrow> Some (replacement, s'))
          else Some (encode_rune r, s'))"

text \<open>An escape, after the backslash.\<close>

definition unescape :: "string \<Rightarrow> (string \<times> string) option" where
  "unescape s =
     (case s of
        [] \<Rightarrow> None
      | c # t \<Rightarrow>
          if c = CHR 34 \<or> c = CHR 92 \<or> c = CHR ''/'' then Some ([c], t)
          else if c = CHR ''b'' then Some ([CHR 8], t)
          else if c = CHR ''f'' then Some ([CHR 12], t)
          else if c = CHR ''n'' then Some ([CHR 10], t)
          else if c = CHR ''r'' then Some ([CHR 13], t)
          else if c = CHR ''t'' then Some ([CHR 9], t)
          else if c = CHR ''u'' then u_unescape t
          else None)"

lemma hex4_length: "hex4 s = Some (r, t) \<Longrightarrow> length t < length s"
  by (induction s rule: hex4.induct) (auto split: option.splits)

lemma u_unescape_length: "u_unescape s = Some (o', t) \<Longrightarrow> length t < length s"
  by (auto simp: u_unescape_def dest!: hex4_length split: option.splits if_splits list.splits)

lemma unescape_length: "unescape s = Some (o', t) \<Longrightarrow> length t < length s"
  by (auto simp: unescape_def dest!: u_unescape_length split: list.splits if_splits)

definition add_out :: "string \<Rightarrow> (string \<times> string) option \<Rightarrow> (string \<times> string) option" where
  "add_out o' r = (case r of None \<Rightarrow> None | Some (s, t) \<Rightarrow> Some (o' @ s, t))"

text \<open>A string, after the opening quote: its value and the rest of the input.\<close>

function lex_string :: "string \<Rightarrow> (string \<times> string) option" where
  "lex_string [] = None"
| "lex_string (c # s) =
     (if byte c = 34 then Some ([], s)
      else if byte c = 92 then
        (case unescape s of None \<Rightarrow> None | Some (o', t) \<Rightarrow> add_out o' (lex_string t))
      else if byte c < 32 then None
      else if byte c < 128 then add_out [c] (lex_string s)
      else if utf8_len (c # s) = 0 then add_out replacement (lex_string s)
      else add_out (take (utf8_len (c # s)) (c # s)) (lex_string (drop (utf8_len (c # s) - 1) s)))"
  by pat_completeness auto
termination
  by (relation "measure length") (auto dest: unescape_length)

lemma lex_string_length: "lex_string s = Some (v, t) \<Longrightarrow> length t < length s"
proof (induction s arbitrary: v t rule: lex_string.induct)
  case 1
  then show ?case by simp
next
  case (2 c s)
  note ih = "2.IH"
  show ?case
  proof (cases "byte c = 34 \<or> byte c < 32 \<and> byte c \<noteq> 92")
    case True
    with 2(5) show ?thesis by (auto split: if_splits)
  next
    case False
    then consider (esc) "byte c = 92" | (asc) "byte c \<noteq> 34" "byte c \<noteq> 92" "\<not> byte c < 32" "byte c < 128"
      | (bad) "\<not> byte c < 128" "utf8_len (c # s) = 0" | (multi) "\<not> byte c < 128" "utf8_len (c # s) \<noteq> 0"
      by linarith
    then show ?thesis
    proof cases
      case esc
      with 2(5) obtain o' t' v' where u: "unescape s = Some (o', t')" "lex_string t' = Some (v', t)"
        by (auto simp: add_out_def split: option.splits)
      from ih(1) [OF _ esc u(1) refl u(2)] unescape_length [OF u(1)] esc show ?thesis by simp
    next
      case asc
      with 2(5) obtain v' where "lex_string s = Some (v', t)"
        by (auto simp: add_out_def split: option.splits)
      from ih(2) [OF asc this] show ?thesis by simp
    next
      case bad
      with 2(5) obtain v' where "lex_string s = Some (v', t)"
        by (auto simp: add_out_def split: option.splits)
      from ih(3) [OF _ _ _ bad this] bad show ?thesis by simp
    next
      case multi
      with 2(5) obtain v' where "lex_string (drop (utf8_len (c # s) - 1) s) = Some (v', t)"
        by (auto simp: add_out_def split: option.splits)
      from ih(4) [OF _ _ _ multi this] multi show ?thesis by simp
    qed
  qed
qed

subsection \<open>Numbers\<close>

definition is_digit :: "char \<Rightarrow> bool" where
  "is_digit c \<longleftrightarrow> 48 \<le> byte c \<and> byte c \<le> 57"

definition digits :: "string \<Rightarrow> string" where
  "digits s = takeWhile is_digit s"

definition int_part :: "string \<Rightarrow> string" where
  "int_part s = (case s of [] \<Rightarrow> [] | c # _ \<Rightarrow> if c = CHR ''0'' then [c] else digits s)"

definition frac_part :: "string \<Rightarrow> string" where
  "frac_part s = (case s of
      c # t \<Rightarrow> if c = CHR ''.'' \<and> digits t \<noteq> [] then c # digits t else []
    | [] \<Rightarrow> [])"

definition exp_part :: "string \<Rightarrow> string" where
  "exp_part s = (case s of
      c # t \<Rightarrow>
        if c = CHR ''e'' \<or> c = CHR ''E'' then
          (case t of
             sg # u \<Rightarrow> if sg = CHR ''+'' \<or> sg = CHR ''-'' then
                         (if digits u \<noteq> [] then c # sg # digits u else [])
                       else if digits t \<noteq> [] then c # digits t else []
           | [] \<Rightarrow> [])
        else []
    | [] \<Rightarrow> [])"

text \<open>The longest number at the head of a string, empty when there is none.\<close>

definition number_prefix :: "string \<Rightarrow> string" where
  "number_prefix s =
     (let sg = (case s of c # _ \<Rightarrow> if c = CHR ''-'' then [c] else [] | [] \<Rightarrow> []);
          s1 = drop (length sg) s;
          i = int_part s1;
          s2 = drop (length i) s1;
          f = frac_part s2;
          s3 = drop (length f) s2
      in if i = [] then [] else sg @ i @ f @ exp_part s3)"

text \<open>
  \<open>strconv.ParseFloat\<close> fails on a magnitude that rounds beyond the largest float64, that is
  from \<open>2 ^ 1024 - 2 ^ 970\<close> on.
\<close>

definition float_in_range :: "string \<Rightarrow> bool" where
  "float_in_range lit =
     (let s = (case lit of c # t \<Rightarrow> if c = CHR ''-'' then t else lit | [] \<Rightarrow> []);
          i = int_part s;
          s2 = drop (length i) s;
          f = drop 1 (frac_part s2);
          e = exp_part (drop (length (frac_part s2)) s2);
          neg = (length e \<ge> 2 \<and> e ! 1 = CHR ''-'');
          ev = text_val (filter is_digit e);
          m = text_val (i @ f);
          bound = 2 ^ 1024 - 2 ^ 970
      in if neg then m < bound * 10 ^ (length f + ev) else m * 10 ^ ev < bound * 10 ^ length f)"

section \<open>Tokens\<close>

definition is_space :: "char \<Rightarrow> bool" where
  "is_space c \<longleftrightarrow> byte c \<in> {32, 9, 13, 10}"

fun punctuation :: "char \<Rightarrow> token option" where
  "punctuation c =
     (if byte c = 123 then Some LBrace else if byte c = 125 then Some RBrace
      else if byte c = 91 then Some LBrack else if byte c = 93 then Some RBrack
      else if byte c = 58 then Some Colon else if byte c = 44 then Some Comma else None)"

declare punctuation.simps [simp del]

definition add_tok :: "token \<Rightarrow> token list option \<Rightarrow> token list option" where
  "add_tok t r = map_option (Cons t) r"

function lex :: "string \<Rightarrow> token list option" where
  "lex [] = Some []"
| "lex (c # s) =
     (if is_space c then lex s
      else if punctuation c \<noteq> None then add_tok (the (punctuation c)) (lex s)
      else if byte c = 34 then
        (case lex_string s of None \<Rightarrow> None | Some (v, t) \<Rightarrow> add_tok (StrTok v) (lex t))
      else if HasPrefix (c # s) ''true'' then add_tok TrueTok (lex (drop 3 s))
      else if HasPrefix (c # s) ''false'' then add_tok FalseTok (lex (drop 4 s))
      else if HasPrefix (c # s) ''null'' then add_tok NullTok (lex (drop 3 s))
      else if number_prefix (c # s) = [] \<or> \<not> float_in_range (number_prefix (c # s)) then None
      else add_tok (NumTok (number_prefix (c # s))) (lex (drop (length (number_prefix (c # s)) - 1) s)))"
  by pat_completeness auto
termination
  by (relation "measure length") (auto dest: lex_string_length)

section \<open>The automaton\<close>

datatype frame =
    ArrFrame "json list"
  | ObjFrame "(string \<times> json) list" string

datatype mode =
    BeginValue | BeginValueOrEmpty | BeginStringOrEmpty | BeginString | ObjectKey string | EndValue json

definition maxNestingDepth :: nat where "maxNestingDepth = 10000"

text \<open>A Go map: a later member with the same key replaces the earlier one.\<close>

fun obj_put :: "(string \<times> json) list \<Rightarrow> string \<Rightarrow> json \<Rightarrow> (string \<times> json) list" where
  "obj_put [] k v = [(k, v)]"
| "obj_put ((k', v') # fs) k v = (if k' = k then (k, v) # fs else (k', v') # obj_put fs k v)"

text \<open>
  One token in one mode: the next mode and stack, or a syntax error. An object frame holds the
  members read so far and the key whose value is being read.
\<close>

type_synonym config = "mode \<times> frame list"

definition push :: "mode \<Rightarrow> frame \<Rightarrow> frame list \<Rightarrow> config option" where
  "push m f st = (if length st < maxNestingDepth then Some (m, f # st) else None)"

fun begin_value :: "frame list \<Rightarrow> token \<Rightarrow> config option" where
  "begin_value st LBrace = push BeginStringOrEmpty (ObjFrame [] []) st"
| "begin_value st LBrack = push BeginValueOrEmpty (ArrFrame []) st"
| "begin_value st (StrTok s) = Some (EndValue (JStr s), st)"
| "begin_value st (NumTok s) = Some (EndValue (JFloat s), st)"
| "begin_value st TrueTok = Some (EndValue (JBool True), st)"
| "begin_value st FalseTok = Some (EndValue (JBool False), st)"
| "begin_value st NullTok = Some (EndValue JNull, st)"
| "begin_value st _ = None"

fun end_value :: "json \<Rightarrow> frame list \<Rightarrow> token \<Rightarrow> config option" where
  "end_value v (ArrFrame xs # st) Comma = Some (BeginValue, ArrFrame (xs @ [v]) # st)"
| "end_value v (ArrFrame xs # st) RBrack = Some (EndValue (JArr (xs @ [v])), st)"
| "end_value v (ObjFrame fs k # st) Comma = Some (BeginString, ObjFrame (obj_put fs k v) [] # st)"
| "end_value v (ObjFrame fs k # st) RBrace = Some (EndValue (JObj (obj_put fs k v)), st)"
| "end_value v st t = None"

fun begin_string :: "frame list \<Rightarrow> token \<Rightarrow> config option" where
  "begin_string (ObjFrame fs _ # st) (StrTok s) = Some (ObjectKey s, ObjFrame fs s # st)"
| "begin_string st t = None"

fun json_step :: "config \<Rightarrow> token \<Rightarrow> config option" where
  "json_step (BeginValue, st) t = begin_value st t"
| "json_step (BeginValueOrEmpty, st) t =
     (if t = RBrack then Some (EndValue (JArr []), tl st) else begin_value st t)"
| "json_step (BeginStringOrEmpty, st) t =
     (if t = RBrace then Some (EndValue (JObj []), tl st) else begin_string st t)"
| "json_step (BeginString, st) t = begin_string st t"
| "json_step (ObjectKey k, st) t = (if t = Colon then Some (BeginValue, st) else None)"
| "json_step (EndValue v, st) t = end_value v st t"

fun json_run :: "config \<Rightarrow> token list \<Rightarrow> json option" where
  "json_run cfg [] = (case cfg of (EndValue v, []) \<Rightarrow> Some v | _ \<Rightarrow> None)"
| "json_run cfg (t # ts) = (case json_step cfg t of None \<Rightarrow> None | Some cfg' \<Rightarrow> json_run cfg' ts)"

definition json_parse :: "string \<Rightarrow> json option" where
  "json_parse s = Option.bind (lex s) (json_run (BeginValue, []))"

section \<open>Unmarshal\<close>

text \<open>Into a \<open>map[string]any\<close>: \<open>null\<close> leaves the nil map, which ranges like an empty one.\<close>

definition Unmarshal_map :: "string \<Rightarrow> (string \<times> json) list option" where
  "Unmarshal_map s = (case json_parse s of
      Some (JObj fs) \<Rightarrow> Some fs
    | Some JNull \<Rightarrow> Some []
    | _ \<Rightarrow> None)"

text \<open>Into a \<open>[]map[string]any\<close>: every element must be an object or \<open>null\<close>.\<close>

fun json_maps :: "json list \<Rightarrow> (string \<times> json) list list option" where
  "json_maps [] = Some []"
| "json_maps (JObj fs # xs) = map_option (Cons fs) (json_maps xs)"
| "json_maps (JNull # xs) = map_option (Cons []) (json_maps xs)"
| "json_maps (_ # xs) = None"

definition Unmarshal_maps :: "string \<Rightarrow> (string \<times> json) list list option" where
  "Unmarshal_maps s = (case json_parse s of
      Some (JArr xs) \<Rightarrow> json_maps xs
    | Some JNull \<Rightarrow> Some []
    | _ \<Rightarrow> None)"

text \<open>The type assertion \<open>s, _ := v.(string)\<close> on a member of a dynamic map.\<close>

definition as_string :: "json option \<Rightarrow> string" where
  "as_string v = (case v of Some (JStr s) \<Rightarrow> s | _ \<Rightarrow> [])"

end
