(* ===== verification/Auth_Callback.thy ===== *)
theory Auth_Callback
  imports Request_Validation Go_Json
begin

text \<open>
  \<open>Callback\<close> of \<open>authorizationcode/authorization.go\<close>: after a provider authenticated the user,
  the pending request becomes an authorization code item whose session is the template of the
  access token's session.
\<close>

definition extraClaimsMetadataKey :: string where
  "extraClaimsMetadataKey = ''extra_claims''"

definition person_role :: RoleEntity where
  "person_role = \<lparr>role_ID = ''person'', role_Code = ''person'', role_Name = ''Person''\<rparr>"

text \<open>
  The result of a callback: an error, a request with the caller's IP address, or a panic (the
  struct literal dereferences \<open>sess.CodeChallenge\<close> and \<open>sess.CodeChallengeMethod\<close>).
\<close>

datatype callback_result =
    CallbackError go_error
  | CallbackRequest string
  | CallbackNil
  | CallbackPanic

definition callback_metadata :: "(string \<times> json) list \<Rightarrow> go_error + strmap" where
  "callback_metadata rawClaims =
     (if length rawClaims > 0 then
        (case json_Marshal (JObj rawClaims) of
           Inl e \<Rightarrow> Inl e
         | Inr encoded \<Rightarrow> Inr (Some [extraClaimsMetadataKey \<mapsto> encoded]))
      else Inr None)"

definition callback_session :: "'w env \<Rightarrow> UserData \<Rightarrow> int \<Rightarrow> strmap \<Rightarrow> Session" where
  "callback_session E token now metadata =
     \<lparr>se_ID = [], se_Subject = ud_UserID token, se_FirstName = ud_FirstName token,
      se_LastName = ud_LastName token, se_Code = ud_PersonCode token, se_Scope = [],
      se_Rights = [\<lparr>gr_RoleID = role_ID person_role, gr_RightCode = ''citizen''\<rparr>],
      se_LastAccessed = Some now, se_State = SessionStateAuthorized E,
      se_Role = Some person_role, se_Roles = [person_role], se_Metadata = metadata\<rparr>"

definition callback_item ::
    "'w env \<Rightarrow> Correlation \<Rightarrow> string \<Rightarrow> string \<Rightarrow> UserData \<Rightarrow> StateItem \<Rightarrow> int \<Rightarrow> strmap \<Rightarrow> AuthCodeItem" where
  "callback_item E sess challenge method token stateItem now metadata =
     \<lparr>ac_Code = cor_ID sess, ac_ClientID = cor_ClientID sess, ac_UserID = ud_UserID token,
      ac_RedirectURI = cor_RedirectURI sess, ac_CodeChallenge = challenge,
      ac_CodeChallengeMethod = method, ac_Scope = st_Scope stateItem,
      ac_IssuerState = st_IssuerState stateItem, ac_NoTXCode = False,
      ac_Session = callback_session E token now metadata\<rparr>"

definition Callback ::
    "'w env \<Rightarrow> request \<Rightarrow> Correlation \<Rightarrow> UserData \<Rightarrow> StateItem \<Rightarrow> (string \<times> json) list
     \<Rightarrow> ('w, callback_result) state" where
  "Callback E rq sess token stateItem rawClaims = do {
     now \<leftarrow> TimeNow E;
     (case callback_metadata rawClaims of
        Inl e \<Rightarrow> return (CallbackError e)
      | Inr metadata \<Rightarrow>
          (case (cor_CodeChallenge sess, cor_CodeChallengeMethod sess) of
             (Some challenge, Some method) \<Rightarrow> do {
               err \<leftarrow> SetItem E (callback_item E sess challenge method token stateItem now metadata);
               return (case err of Some e \<Rightarrow> CallbackError e | None \<Rightarrow> CallbackRequest (rq_ip rq)) }
           | _ \<Rightarrow> return CallbackPanic)) }"

end
