(* ===== verification/Ec_Jwk.thy ===== *)
theory Ec_Jwk
  imports Go_Json
begin

text \<open>
  \<open>dpop/jwk.go\<close>: parsing an EC P-256 public key from a JWK and its RFC 7638 thumbprint. The
  check of \<open>ecdsa.ParseUncompressedPublicKey\<close> (format byte, length, coordinates in range, point on
  the curve) is written out on integers.
\<close>

section \<open>P-256 points\<close>

type_synonym ec_point = "int \<times> int"

definition p256_p :: int where
  "p256_p = 115792089210356248762697446949407573530086143415290314195533631308867097853951"

definition p256_b :: int where
  "p256_b = 41058363725152142129326129780047268409114441015993725554835256314039467401291"

definition on_p256 :: "int \<Rightarrow> int \<Rightarrow> bool" where
  "on_p256 x y \<longleftrightarrow> (y * y) mod p256_p = (x * x * x - 3 * x + p256_b) mod p256_p"

definition be_int :: "nat list \<Rightarrow> int" where
  "be_int bs = foldl (\<lambda>n b. 256 * n + int b) 0 bs"

text \<open>\<open>ecdsa.ParseUncompressedPublicKey(elliptic.P256(), data)\<close>.\<close>

definition ParseUncompressedPublicKey :: "nat list \<Rightarrow> ec_point option" where
  "ParseUncompressedPublicKey data =
     (if length data \<noteq> 65 \<or> hd data \<noteq> 4 then None
      else let x = be_int (take 32 (drop 1 data)); y = be_int (drop 33 data)
           in if x < p256_p \<and> y < p256_p \<and> on_p256 x y then Some (x, y) else None)"

section \<open>Go's \<open>copy(dst[off:], src)\<close>\<close>

definition copy_at :: "nat \<Rightarrow> nat list \<Rightarrow> nat list \<Rightarrow> nat list" where
  "copy_at off src dst =
     (let n = min (length src) (length dst - off)
      in take off dst @ take n src @ drop (off + n) dst)"

lemma length_copy_at: "off \<le> length dst \<Longrightarrow> length (copy_at off src dst) = length dst"
  by (simp add: copy_at_def Let_def)

definition uncompressed_point :: "nat list \<Rightarrow> nat list \<Rightarrow> nat list" where
  "uncompressed_point xb yb = copy_at 33 yb (copy_at 1 xb (4 # replicate 64 0))"

lemma length_uncompressed_point: "length (uncompressed_point xb yb) = 65"
  by (simp add: uncompressed_point_def length_copy_at)

section \<open>\<open>ParseECJWK\<close>\<close>

datatype jwk_error = NotP256 | PrivateKeyMaterial | BadCoordinate | NotOnCurve

type_synonym jwk = "string \<Rightarrow> json option"

definition jwk_members :: "string \<Rightarrow> string \<Rightarrow> json" where
  "jwk_members x y =
     JObj [(''crv'', JStr ''P-256''), (''kty'', JStr ''EC''), (''x'', JStr x), (''y'', JStr y)]"

text \<open>The thumbprint: the hash of the JSON text of the required members, base64url encoded.\<close>

definition thumbprint :: "string \<Rightarrow> string \<Rightarrow> string" where
  "thumbprint x y = RawEncodeToString URLAlphabet (Sum256 (json_text (jwk_members x y)))"

definition ParseECJWK :: "jwk \<Rightarrow> jwk_error + ec_point \<times> string" where
  "ParseECJWK raw =
     (let kty = as_string (raw ''kty''); crv = as_string (raw ''crv'');
          x = as_string (raw ''x''); y = as_string (raw ''y'')
      in if kty \<noteq> ''EC'' \<or> crv \<noteq> ''P-256'' \<or> x = [] \<or> y = [] then Inl NotP256
         else if raw ''d'' \<noteq> None then Inl PrivateKeyMaterial
         else (case RawDecodeString URLAlphabet x of
             None \<Rightarrow> Inl BadCoordinate
           | Some xb \<Rightarrow> (case RawDecodeString URLAlphabet y of
               None \<Rightarrow> Inl BadCoordinate
             | Some yb \<Rightarrow> (case ParseUncompressedPublicKey (uncompressed_point (bytes_of xb) (bytes_of yb)) of
                 None \<Rightarrow> Inl NotOnCurve
               | Some pub \<Rightarrow> Inr (pub, thumbprint x y)))))"

section \<open>What a parsed key is\<close>

lemma ParseUncompressed_Some:
  "ParseUncompressedPublicKey data = Some (x, y) \<Longrightarrow>
   x < p256_p \<and> y < p256_p \<and> on_p256 x y"
  by (auto simp: ParseUncompressedPublicKey_def Let_def split: if_splits)

lemma ParseECJWK_Inr:
  assumes "ParseECJWK raw = Inr ((px, py), tp)"
  shows "raw ''kty'' = Some (JStr ''EC'')" and "raw ''crv'' = Some (JStr ''P-256'')"
    and "raw ''d'' = None" and "on_p256 px py" and "px < p256_p" and "py < p256_p"
    and "tp = thumbprint (as_string (raw ''x'')) (as_string (raw ''y''))"
proof -
  note a = assms [unfolded ParseECJWK_def Let_def]
  have "as_string (raw ''kty'') = ''EC''" "as_string (raw ''crv'') = ''P-256''"
    using a by (auto split: if_splits)
  then show "raw ''kty'' = Some (JStr ''EC'')" "raw ''crv'' = Some (JStr ''P-256'')"
    by (auto simp: as_string_def split: option.splits json.splits)
  show "raw ''d'' = None" "tp = thumbprint (as_string (raw ''x'')) (as_string (raw ''y''))"
    using a by (auto split: if_splits option.splits)
  obtain xb yb where
    "ParseUncompressedPublicKey (uncompressed_point (bytes_of xb) (bytes_of yb)) = Some (px, py)"
    using a by (auto split: if_splits option.splits)
  from ParseUncompressed_Some [OF this] show "on_p256 px py" "px < p256_p" "py < p256_p"
    by simp_all
qed

lemma be_int_nonneg: "0 \<le> be_int bs"
proof -
  have "0 \<le> n \<Longrightarrow> 0 \<le> foldl (\<lambda>n b. 256 * n + int b) n bs" for n
    by (induction bs arbitrary: n) auto
  then show ?thesis by (simp add: be_int_def)
qed

lemma ParseECJWK_nonneg:
  assumes "ParseECJWK raw = Inr ((px, py), tp)"
  shows "0 \<le> px" "0 \<le> py"
proof -
  obtain data where "ParseUncompressedPublicKey data = Some (px, py)"
    using assms by (auto simp: ParseECJWK_def Let_def split: if_splits option.splits)
  then show "0 \<le> px" "0 \<le> py"
    using be_int_nonneg by (auto simp: ParseUncompressedPublicKey_def Let_def split: if_splits)
qed

text \<open>A thumbprint is 43 base64url characters.\<close>

lemma length_thumbprint: "length (thumbprint x y) = 43"
  by (simp add: thumbprint_def length_RawEncode length_Sum256)

lemma thumbprint_not_Nil: "thumbprint x y \<noteq> []"
  using length_thumbprint [of x y] by auto

section \<open>Over-long coordinates\<close>

text \<open>
  \<open>copy\<close> keeps at most 32 bytes of \<open>y\<close>, and the bytes of \<open>x\<close> past 32 are overwritten by \<open>y\<close>: bytes
  after the first 32 of either coordinate do not reach the point.
\<close>

lemma uncompressed_point_long:
  assumes "32 \<le> length xb" "32 \<le> length yb"
  shows "uncompressed_point xb yb = 4 # take 32 xb @ take 32 yb"
proof -
  have len: "length (copy_at 1 xb (4 # replicate 64 0)) = 65"
    by (simp add: length_copy_at)
  have tk: "take 33 (copy_at 1 xb (4 # replicate 64 0)) = 4 # take 32 xb"
    using assms by (simp add: copy_at_def Let_def min_def)
  show ?thesis
    using assms len tk
    by (simp add: uncompressed_point_def copy_at_def [of 33] Let_def min_def)
qed

end
