(* ===== verification/Dpop_Proof.thy ===== *)
theory Dpop_Proof
  imports Ec_Jwk Store_Contract
begin

text \<open>
  \<open>dpop/dpop.go\<close>: validation of DPoP proofs (RFC 9449), and the replay checks that
  \<open>routes.Init\<close> plugs into it and into the attestation verifier. The JWT library is a parameter:
  \<open>ParseWithClaims\<close> takes the options, the text and the key function, and returns the token.
\<close>

section \<open>JWTs\<close>

record RegisteredClaims =
  rc_Issuer :: string
  rc_Subject :: string
  rc_Audience :: "string list"
  rc_ExpiresAt :: "int option"
  rc_NotBefore :: "int option"
  rc_IssuedAt :: "int option"
  rc_ID :: string

record 'c JwtToken =
  jt_Header :: "string \<Rightarrow> json option"
  jt_Alg :: string
  jt_Claims :: 'c
  jt_Valid :: bool

record jwt_options =
  opt_ValidMethods :: "string list"
  opt_Leeway :: int
  opt_ExpirationRequired :: bool
  opt_Audience :: "string option"
  opt_IssuedAt :: bool

type_synonym ('w, 'c, 'k, 'e) jwt_parser =
  "jwt_options \<Rightarrow> string \<Rightarrow> ('c JwtToken \<Rightarrow> 'e + 'k) \<Rightarrow> ('w, go_error + 'c JwtToken) state"

text \<open>
  What the code relies on: a token comes back without an error only when the key function gave
  a key for it, the text is signed by that key, the algorithm is one of the valid methods and
  the token is marked valid. \<open>sig_ok k s\<close> is the library's signature check.
\<close>

definition jwt_sound :: "('w, 'c, 'k, 'e) jwt_parser \<Rightarrow> ('k \<Rightarrow> string \<Rightarrow> bool) \<Rightarrow> bool" where
  "jwt_sound parse sig_ok \<longleftrightarrow>
     (\<forall>opts s kf w t. result_of (parse opts s kf) w = Inr t \<longrightarrow>
        (\<exists>k. kf t = Inr k \<and> sig_ok k s) \<and> jt_Alg t \<in> set (opt_ValidMethods opts) \<and> jt_Valid t)"

lemma jwt_soundD:
  assumes "jwt_sound parse sig_ok" "result_of (parse opts s kf) w = Inr t"
  obtains k where "kf t = Inr k" "sig_ok k s" "jt_Alg t \<in> set (opt_ValidMethods opts)" "jt_Valid t"
  using assms unfolding jwt_sound_def by blast

section \<open>Time\<close>

text \<open>\<open>time.Since\<close>: a difference of instants, saturated to the range of \<open>time.Duration\<close>.\<close>

definition max_Duration :: int where
  "max_Duration = 2 ^ 63 - 1"

definition min_Duration :: int where
  "min_Duration = - (2 ^ 63)"

definition time_Since :: "int \<Rightarrow> int \<Rightarrow> int" where
  "time_Since now t = max min_Duration (min max_Duration (now - t))"

definition outside_window :: "int \<Rightarrow> int \<Rightarrow> int \<Rightarrow> bool" where
  "outside_window now t window \<longleftrightarrow>
     (let d = time_Since now t in d > window \<or> d < - window)"

text \<open>Saturation does not change the check for a window that is itself a duration.\<close>

lemma outside_window_iff:
  assumes "0 < window" "window < max_Duration"
  shows "outside_window now t window \<longleftrightarrow> window < \<bar>now - t\<bar>"
  using assms
  by (auto simp: outside_window_def Let_def time_Since_def max_Duration_def min_Duration_def)

section \<open>The validator\<close>

definition HeaderName :: string where "HeaderName = ''DPoP''"

record 'w DpopConfig =
  dc_AcceptedHTUs :: "string list"
  dc_IATWindow :: int
  dc_ReplayCheck :: "(string \<Rightarrow> ('w, go_error + bool) state) option"

record 'w Validator =
  va_htus :: "string set"
  va_iatWindow :: int
  va_replay :: "(string \<Rightarrow> ('w, go_error + bool) state) option"

definition NewValidator :: "'w DpopConfig \<Rightarrow> 'w Validator" where
  "NewValidator cfg =
     \<lparr>va_htus = set (dc_AcceptedHTUs cfg),
      va_iatWindow = (if dc_IATWindow cfg \<le> 0 then 60 * 1000000000 else dc_IATWindow cfg),
      va_replay = dc_ReplayCheck cfg\<rparr>"

record proofClaims =
  pc_HTM :: string
  pc_HTU :: string
  pc_ATH :: string
  pc_Registered :: RegisteredClaims

datatype dpop_error =
    InvalidProof string
  | ErrReplay
  | ReplayError go_error

definition proof_options :: jwt_options where
  "proof_options = \<lparr>opt_ValidMethods = [''ES256''], opt_Leeway = 0, opt_ExpirationRequired = False,
     opt_Audience = None, opt_IssuedAt = False\<rparr>"

text \<open>The key function: the type header, then the key in the \<open>jwk\<close> header with its thumbprint.\<close>

definition proof_key :: "'c JwtToken \<Rightarrow> string + ec_point \<times> string" where
  "proof_key t =
     (if as_string (jt_Header t ''typ'') \<noteq> ''dpop+jwt'' then Inl ''typ must be dpop+jwt''
      else (case jt_Header t ''jwk'' of
          Some (JObj fs) \<Rightarrow>
            (case ParseECJWK (map_of fs) of Inl e \<Rightarrow> Inl ''invalid jwk'' | Inr k \<Rightarrow> Inr k)
        | _ \<Rightarrow> Inl ''missing jwk header''))"

lemma proof_key_Inr:
  assumes "proof_key t = Inr (k, tp)"
  obtains fs where "jt_Header t ''typ'' = Some (JStr ''dpop+jwt'')" "jt_Header t ''jwk'' = Some (JObj fs)"
    "ParseECJWK (map_of fs) = Inr (k, tp)"
proof -
  have "as_string (jt_Header t ''typ'') = ''dpop+jwt''"
    using assms by (auto simp: proof_key_def split: if_splits)
  then have ty: "jt_Header t ''typ'' = Some (JStr ''dpop+jwt'')"
    by (auto simp: as_string_def split: option.splits json.splits)
  have "\<exists>fs. jt_Header t ''jwk'' = Some (JObj fs) \<and> ParseECJWK (map_of fs) = Inr (k, tp)"
    using assms by (auto simp: proof_key_def split: if_splits option.splits json.splits sum.splits)
  with ty that show thesis by blast
qed

text \<open>
  \<open>Validate\<close>. The Go variable \<open>jkt\<close> is assigned inside the key function; after a successful parse
  it holds the thumbprint of the token's header key.
\<close>

definition check_claims :: "'w Validator \<Rightarrow> int \<Rightarrow> string \<Rightarrow> string \<Rightarrow> proofClaims \<Rightarrow> string option" where
  "check_claims v now method accessToken c =
     (case rc_IssuedAt (pc_Registered c) of
        None \<Rightarrow> Some ''iat is required''
      | Some iat \<Rightarrow>
          if outside_window now iat (va_iatWindow v) then Some ''iat outside acceptance window''
          else if pc_HTM c \<noteq> method then Some ''htm mismatch''
          else if pc_HTU c \<notin> va_htus v then Some ''htu not accepted''
          else if rc_ID (pc_Registered c) = [] then Some ''jti is required''
          else if accessToken \<noteq> [] \<and>
                  pc_ATH c \<noteq> RawEncodeToString URLAlphabet (Sum256 accessToken)
               then Some ''ath mismatch''
          else None)"

definition dpop_Validate ::
    "'w env \<Rightarrow> ('w, proofClaims, ec_point, string) jwt_parser \<Rightarrow> 'w Validator
     \<Rightarrow> string \<Rightarrow> string \<Rightarrow> string \<Rightarrow> ('w, dpop_error + string) state" where
  "dpop_Validate E parse v prf method accessToken = do {
     r \<leftarrow> parse proof_options prf (\<lambda>t. map_sum id fst (proof_key t));
     (case r of
        Inl e \<Rightarrow> return (Inl (InvalidProof ''parse''))
      | Inr t \<Rightarrow> do {
          let jkt = (case proof_key t of Inr (k, tp) \<Rightarrow> tp | Inl _ \<Rightarrow> []);
          now \<leftarrow> TimeNow E;
          (case check_claims v now method accessToken (jt_Claims t) of
             Some msg \<Rightarrow> return (Inl (InvalidProof msg))
           | None \<Rightarrow>
               (case va_replay v of
                  None \<Rightarrow> return (Inr jkt)
                | Some replay \<Rightarrow> do {
                    s \<leftarrow> replay (rc_ID (pc_Registered (jt_Claims t)));
                    return (case s of
                       Inl e \<Rightarrow> Inl (ReplayError e)
                     | Inr seen \<Rightarrow> if seen then Inl ErrReplay else Inr jkt) })) }) }"

section \<open>The replay checks of \<open>routes.Init\<close>\<close>

text \<open>
  Both closures have the same body over a cache of their own: a read error counts as unseen and
  records nothing; otherwise a seen id is reported and an unseen one recorded.
\<close>

definition cache_ReplayCheck :: "'w env \<Rightarrow> string \<Rightarrow> string \<Rightarrow> ('w, go_error + bool) state" where
  "cache_ReplayCheck E name jti = do {
     r \<leftarrow> cache_Get as_Bool False E name jti;
     (case r of
        Inl e \<Rightarrow> return (Inr False)
      | Inr seen \<Rightarrow>
          if seen then return (Inr True)
          else do {
            e \<leftarrow> CacheSet E name jti (BoolVal True);
            return (case e of Some err \<Rightarrow> Inl err | None \<Rightarrow> Inr False) }) }"

definition dpop_replay :: "'w env \<Rightarrow> string \<Rightarrow> ('w, go_error + bool) state" where
  "dpop_replay E = cache_ReplayCheck E ''dpop-jti''"

definition attest_replay :: "'w env \<Rightarrow> string \<Rightarrow> ('w, go_error + bool) state" where
  "attest_replay E = cache_ReplayCheck E ''client-attestation-jti''"

text \<open>
  The contract of a replay check: an id is reported as seen only if it was recorded, and when
  the check can read its record it reports every recorded id.
\<close>

locale replay_checker =
  fixes check :: "string \<Rightarrow> ('w, go_error + bool) state"
    and recorded :: "'w \<Rightarrow> string \<Rightarrow> bool"
    and readable :: "'w \<Rightarrow> string \<Rightarrow> bool"
  assumes seen_recorded: "result_of (check j) w = Inr True \<Longrightarrow> recorded w j"
    and recorded_seen: "recorded w j \<Longrightarrow> readable w j \<Longrightarrow> result_of (check j) w = Inr True"
begin

lemma unseen_not_recorded:
  "result_of (check j) w = Inr False \<Longrightarrow> readable w j \<Longrightarrow> \<not> recorded w j"
  using recorded_seen by fastforce

end

definition held_bool :: "('w \<Rightarrow> string \<times> string \<Rightarrow> cache_value option) \<Rightarrow> string \<Rightarrow> 'w \<Rightarrow> string \<Rightarrow> bool" where
  "held_bool live name w j \<longleftrightarrow> live w (name, j) = Some (BoolVal True)"

text \<open>The cache answers a read of this key with the entry it holds.\<close>

definition answers :: "'w env \<Rightarrow> ('w \<Rightarrow> string \<times> string \<Rightarrow> cache_value option) \<Rightarrow> string \<Rightarrow> 'w \<Rightarrow> string \<Rightarrow> bool" where
  "answers E live name w j \<longleftrightarrow> result_of (CacheGet E name j) w = Inr (live w (name, j))"

sublocale cache_api \<subseteq> dpop_ids:
    replay_checker "dpop_replay E" "held_bool live ''dpop-jti''" "answers E live ''dpop-jti''"
proof
  fix j w
  assume "result_of (dpop_replay E j) w = Inr True"
  then have "result_of (cache_Get as_Bool False E ''dpop-jti'' j) w = Inr True"
    by (auto simp: dpop_replay_def cache_ReplayCheck_def split: sum.splits if_splits option.splits)
  from cache_Get_Inr [OF this] obtain v where v: "live w (''dpop-jti'', j) = Some v" "as_Bool v = Some True"
    by auto
  then show "held_bool live ''dpop-jti'' w j"
    by (cases v) (auto simp: held_bool_def)
next
  fix j w
  assume "held_bool live ''dpop-jti'' w j" "answers E live ''dpop-jti'' w j"
  then show "result_of (dpop_replay E j) w = Inr True"
    by (simp add: dpop_replay_def cache_ReplayCheck_def held_bool_def answers_def
        result_cache_Get cache_read_def)
qed

sublocale cache_api \<subseteq> attest_ids:
    replay_checker "attest_replay E" "held_bool live ''client-attestation-jti''"
      "answers E live ''client-attestation-jti''"
proof
  fix j w
  assume "result_of (attest_replay E j) w = Inr True"
  then have "result_of (cache_Get as_Bool False E ''client-attestation-jti'' j) w = Inr True"
    by (auto simp: attest_replay_def cache_ReplayCheck_def split: sum.splits if_splits option.splits)
  from cache_Get_Inr [OF this] obtain v where
    v: "live w (''client-attestation-jti'', j) = Some v" "as_Bool v = Some True"
    by auto
  then show "held_bool live ''client-attestation-jti'' w j"
    by (cases v) (auto simp: held_bool_def)
next
  fix j w
  assume "held_bool live ''client-attestation-jti'' w j" "answers E live ''client-attestation-jti'' w j"
  then show "result_of (attest_replay E j) w = Inr True"
    by (simp add: attest_replay_def cache_ReplayCheck_def held_bool_def answers_def
        result_cache_Get cache_read_def)
qed

context cache_api
begin

lemmas dpop_recorded_seen = dpop_ids.recorded_seen
lemmas attest_recorded_seen = attest_ids.recorded_seen

end

end
