(* ===== verification/Attestation.thy ===== *)
theory Attestation
  imports Dpop_Proof
begin

text \<open>
  \<open>clientattestation\<close>: loading the trust anchors (\<open>config.go\<close>) and verifying a Wallet Instance
  Attestation with its proof of possession (\<open>attestation.go\<close>). X.509 certificates are values of
  a type \<open>'cert\<close>; parsing them, reading their key and verifying a chain are parameters, as is
  the JWT library.
\<close>

section \<open>X.509\<close>

record ('cert, 'k) x509_lib =
  ParseCertificate :: "string \<Rightarrow> go_error + 'cert"
  ECPublicKey :: "'cert \<Rightarrow> 'k option"      \<comment> \<open>the type assertion \<open>cert.PublicKey.(*ecdsa.PublicKey)\<close>\<close>
  VerifyChain :: "'cert list \<Rightarrow> 'cert list \<Rightarrow> 'cert \<Rightarrow> go_error option"  \<comment> \<open>roots, intermediates, leaf\<close>

section \<open>Trust anchors\<close>

text \<open>
  \<open>pem.Decode\<close> is a parameter: the next block of a text, its type and its bytes, with the rest of
  the text, or \<open>None\<close> when there is no further block. The pool of anchors is the list of
  certificates in the order they are added.
\<close>

type_synonym pem_decoder = "string \<Rightarrow> ((string \<times> string) \<times> string) option"

text \<open>
  The loop of \<open>LoadTrustAnchors\<close> as it is written: it ends only when \<open>pem.Decode\<close> finds no
  block, so that \<open>None\<close> stands for a loop that goes on forever.
\<close>

partial_function (option) anchor_for ::
    "('cert, 'k) x509_lib \<Rightarrow> pem_decoder \<Rightarrow> string \<Rightarrow> 'cert list \<Rightarrow> bool \<Rightarrow> (string + 'cert list) option" where
  "anchor_for X pem_Decode buf pool found =
     (case pem_Decode buf of
        None \<Rightarrow> Some (if \<not> found then Inl ''no certificates found in trust anchors file'' else Inr pool)
      | Some (block, rest) \<Rightarrow>
          if fst block \<noteq> ''CERTIFICATE'' then anchor_for X pem_Decode rest pool found
          else (case ParseCertificate X (snd block) of
              Inl e \<Rightarrow> Some (Inl ''parsing certificate block'')
            | Inr cert \<Rightarrow> (case ECPublicKey X cert of
                None \<Rightarrow> Some (Inl ''trust anchor is not an EC key'')
              | Some k \<Rightarrow> anchor_for X pem_Decode rest (pool @ [cert]) True)))"

text \<open>
  The same loop over the blocks of the text: every call of \<open>pem.Decode\<close> takes a block off the
  text, so that there are at most as many blocks as bytes.
\<close>

fun pem_blocks :: "pem_decoder \<Rightarrow> nat \<Rightarrow> string \<Rightarrow> (string \<times> string) list" where
  "pem_blocks pem_Decode 0 buf = []"
| "pem_blocks pem_Decode (Suc n) buf =
     (case pem_Decode buf of None \<Rightarrow> [] | Some (block, rest) \<Rightarrow> block # pem_blocks pem_Decode n rest)"

fun anchor_loop :: "('cert, 'k) x509_lib \<Rightarrow> (string \<times> string) list \<Rightarrow> 'cert list \<Rightarrow> bool
    \<Rightarrow> string + 'cert list" where
  "anchor_loop X [] pool found =
     (if \<not> found then Inl ''no certificates found in trust anchors file'' else Inr pool)"
| "anchor_loop X ((ty, bytes) # blocks) pool found =
     (if ty \<noteq> ''CERTIFICATE'' then anchor_loop X blocks pool found
      else (case ParseCertificate X bytes of
          Inl e \<Rightarrow> Inl ''parsing certificate block''
        | Inr cert \<Rightarrow> (case ECPublicKey X cert of
            None \<Rightarrow> Inl ''trust anchor is not an EC key''
          | Some k \<Rightarrow> anchor_loop X blocks (pool @ [cert]) True)))"

definition LoadTrustAnchors ::
    "('cert, 'k) x509_lib \<Rightarrow> (string \<Rightarrow> string + string) \<Rightarrow> pem_decoder
     \<Rightarrow> string \<Rightarrow> string + 'cert list option" where
  "LoadTrustAnchors X ReadFile pem_Decode TrustAnchorsFile =
     (if TrustAnchorsFile = [] then Inr None
      else (case ReadFile TrustAnchorsFile of
          Inl e \<Rightarrow> Inl e
        | Inr buf \<Rightarrow> map_sum id Some (anchor_loop X (pem_blocks pem_Decode (length buf) buf) [] False)))"

lemma anchor_for_ends:
  assumes "\<And>s b r. pem_Decode s = Some (b, r) \<Longrightarrow> length r < length s" and "length buf \<le> n"
  shows "anchor_for X pem_Decode buf pool found = Some (anchor_loop X (pem_blocks pem_Decode n buf) pool found)"
  using assms(2)
proof (induction n arbitrary: buf pool found)
  case 0
  have "pem_Decode [] = None" using assms(1) [of "[]"] by (cases "pem_Decode []") auto
  with 0 show ?case by (simp add: anchor_for.simps)
next
  case (Suc n)
  show ?case
  proof (cases "pem_Decode buf")
    case None
    then show ?thesis by (simp add: anchor_for.simps)
  next
    case (Some br)
    obtain ty bytes rest where br: "br = ((ty, bytes), rest)" by (cases br) auto
    have "length rest \<le> n" using assms(1) [of buf "(ty, bytes)" rest] Some br Suc.prems by simp
    note ih = Suc.IH [OF this]
    show ?thesis
      using Some by (subst anchor_for.simps) (simp add: br ih split: sum.splits option.splits)
  qed
qed

lemma anchor_loop_Inr:
  assumes "anchor_loop X blocks pool found = Inr anchors"
  shows "\<exists>certs. anchors = pool @ certs \<and> (found \<or> certs \<noteq> []) \<and>
      (\<forall>c\<in>set certs. ECPublicKey X c \<noteq> None \<and>
         (\<exists>b. (''CERTIFICATE'', b) \<in> set blocks \<and> ParseCertificate X b = Inr c))"
  using assms
proof (induction X blocks pool found rule: anchor_loop.induct)
  case (1 X pool found)
  then show ?case by (auto split: if_splits)
next
  case (2 X ty bytes blocks pool found)
  show ?case
  proof (cases "ty = ''CERTIFICATE''")
    case False
    with 2 show ?thesis by fastforce
  next
    case True
    with 2(3) obtain cert k where c: "ParseCertificate X bytes = Inr cert" "ECPublicKey X cert = Some k"
      and l: "anchor_loop X blocks (pool @ [cert]) True = Inr anchors"
      by (auto split: sum.splits option.splits)
    from True have nt: "\<not> ty \<noteq> ''CERTIFICATE''" by simp
    from "2.IH"(2) [OF nt c l] obtain certs where
      "anchors = (pool @ [cert]) @ certs"
      "\<forall>c\<in>set certs. ECPublicKey X c \<noteq> None \<and>
         (\<exists>b. (''CERTIFICATE'', b) \<in> set blocks \<and> ParseCertificate X b = Inr c)"
      by blast
    with c True show ?thesis by (intro exI [of _ "cert # certs"]) auto
  qed
qed

section \<open>The verifier\<close>

definition typWIA :: string where "typWIA = ''oauth-client-attestation+jwt''"
definition typPoP :: string where "typPoP = ''oauth-client-attestation-pop+jwt''"

record ('w, 'cert) AttestConfig =
  acf_TrustAnchors :: "'cert list option"
  acf_Audiences :: "string list"
  acf_IATWindow :: int
  acf_ReplayCheck :: "(string \<Rightarrow> ('w, go_error + bool) state) option"
  acf_RequireKeyBinding :: bool

record ('w, 'cert) Verifier =
  ve_trustAnchors :: "'cert list"
  ve_audiences :: "string set"
  ve_iatWindow :: int
  ve_replay :: "(string \<Rightarrow> ('w, go_error + bool) state) option"
  ve_requireKeyBinding :: bool

definition NewVerifier :: "('w, 'cert) AttestConfig \<Rightarrow> string + ('w, 'cert) Verifier" where
  "NewVerifier cfg =
     (case acf_TrustAnchors cfg of
        None \<Rightarrow> Inl ''at least one trust anchor is required''
      | Some anchors \<Rightarrow>
          Inr \<lparr>ve_trustAnchors = anchors, ve_audiences = set (acf_Audiences cfg),
               ve_iatWindow = (if acf_IATWindow cfg \<le> 0 then 60 * 1000000000 else acf_IATWindow cfg),
               ve_replay = acf_ReplayCheck cfg,
               ve_requireKeyBinding = acf_RequireKeyBinding cfg\<rparr>)"

fun x5c_certs :: "('cert, 'k) x509_lib \<Rightarrow> json list \<Rightarrow> string + 'cert list" where
  "x5c_certs X [] = Inr []"
| "x5c_certs X (JStr s # es) =
     (case StdDecodeString s of
        None \<Rightarrow> Inl ''x5c base64''
      | Some der \<Rightarrow> (case ParseCertificate X der of
          Inl e \<Rightarrow> Inl ''x5c parse''
        | Inr cert \<Rightarrow> (case x5c_certs X es of Inl e \<Rightarrow> Inl e | Inr cs \<Rightarrow> Inr (cert # cs))))"
| "x5c_certs X (_ # es) = Inl ''x5c entry is not a string''"

definition leafKeyFromX5C ::
    "('cert, 'k) x509_lib \<Rightarrow> 'cert list \<Rightarrow> (string \<Rightarrow> json option) \<Rightarrow> string + 'k" where
  "leafKeyFromX5C X anchors header =
     (case header ''x5c'' of
        Some (JArr (e # es)) \<Rightarrow>
          (case x5c_certs X (e # es) of
             Inl err \<Rightarrow> Inl err
           | Inr [] \<Rightarrow> Inl ''WIA header missing x5c''
           | Inr (leaf # intermediates) \<Rightarrow>
               (case VerifyChain X anchors intermediates leaf of
                  Some err \<Rightarrow> Inl ''x5c chain''
                | None \<Rightarrow> (case ECPublicKey X leaf of
                    None \<Rightarrow> Inl ''x5c leaf key is not EC''
                  | Some k \<Rightarrow> Inr k)))
      | _ \<Rightarrow> Inl ''WIA header missing x5c'')"

lemma x5c_certs_length: "x5c_certs X es = Inr cs \<Longrightarrow> length cs = length es"
  by (induction X es arbitrary: cs rule: x5c_certs.induct) (auto split: option.splits sum.splits)

record wiaClaims =
  wc_CnfJWK :: "(string \<times> json) list option"   \<comment> \<open>\<open>None\<close>: no \<open>cnf.jwk\<close> member\<close>
  wc_Registered :: RegisteredClaims

record AttestResult =
  ar_ClientID :: string
  ar_CnfJKT :: string

definition wia_options :: jwt_options where
  "wia_options = \<lparr>opt_ValidMethods = [''ES256''], opt_Leeway = 0, opt_ExpirationRequired = True,
     opt_Audience = None, opt_IssuedAt = False\<rparr>"

definition pop_options :: "int \<Rightarrow> jwt_options" where
  "pop_options window = \<lparr>opt_ValidMethods = [''ES256''], opt_Leeway = window,
     opt_ExpirationRequired = False, opt_Audience = None, opt_IssuedAt = False\<rparr>"

text \<open>The checks on the attestation once its signature was verified.\<close>

definition check_wia :: "wiaClaims JwtToken \<Rightarrow> string + ec_point \<times> string" where
  "check_wia tok =
     (if \<not> jt_Valid tok then Inl ''WIA signature''
      else if as_string (jt_Header tok ''typ'') \<noteq> typWIA then Inl ''WIA typ''
      else if rc_Subject (wc_Registered (jt_Claims tok)) = [] then Inl ''WIA sub missing''
      else (case wc_CnfJWK (jt_Claims tok) of
          None \<Rightarrow> Inl ''WIA cnf.jwk missing''
        | Some fs \<Rightarrow> (case ParseECJWK (map_of fs) of
            Inl e \<Rightarrow> Inl ''WIA cnf.jwk''
          | Inr kt \<Rightarrow> Inr kt)))"

text \<open>The freshness check, made only when the PoP carries no \<open>exp\<close>.\<close>

definition check_pop_time :: "int \<Rightarrow> int \<Rightarrow> RegisteredClaims \<Rightarrow> string option" where
  "check_pop_time now window c =
     (case rc_ExpiresAt c of
        Some _ \<Rightarrow> None
      | None \<Rightarrow> (case rc_IssuedAt c of
          None \<Rightarrow> Some ''PoP must carry exp or iat''
        | Some iat \<Rightarrow> if outside_window now iat window then Some ''PoP iat outside acceptance window''
                      else None))"

definition check_pop :: "('w, 'cert) Verifier \<Rightarrow> string \<Rightarrow> RegisteredClaims JwtToken \<Rightarrow> string option" where
  "check_pop v subject popTok =
     (let c = jt_Claims popTok in
      if as_string (jt_Header popTok ''typ'') \<noteq> typPoP then Some ''PoP typ''
      else if rc_Issuer c \<noteq> subject then Some ''PoP iss != WIA sub''
      else if \<not> (\<exists>a\<in>set (rc_Audience c). a \<in> ve_audiences v) then Some ''PoP aud not accepted''
      else if rc_ID c = [] then Some ''PoP jti missing''
      else None)"

definition attest_Verify ::
    "'w env \<Rightarrow> ('cert, 'k) x509_lib \<Rightarrow> ('w, wiaClaims, 'k, string) jwt_parser
     \<Rightarrow> ('w, RegisteredClaims, ec_point, string) jwt_parser \<Rightarrow> ('w, 'cert) Verifier
     \<Rightarrow> string \<Rightarrow> string \<Rightarrow> ('w, string + AttestResult) state" where
  "attest_Verify E X parse_wia parse_pop v wia pop =
     (if wia = [] \<or> pop = [] then return (Inl ''missing attestation or PoP'')
      else do {
        r \<leftarrow> parse_wia wia_options wia (\<lambda>t. leafKeyFromX5C X (ve_trustAnchors v) (jt_Header t));
        (case r of
           Inl e \<Rightarrow> return (Inl ''WIA signature'')
         | Inr tok \<Rightarrow>
           (case check_wia tok of
              Inl e \<Rightarrow> return (Inl e)
            | Inr (cnfKey, jkt) \<Rightarrow> do {
                p \<leftarrow> parse_pop (pop_options (ve_iatWindow v)) pop (\<lambda>_. Inr cnfKey);
                (case p of
                   Inl e \<Rightarrow> return (Inl ''PoP'')
                 | Inr popTok \<Rightarrow>
                   if \<not> jt_Valid popTok then return (Inl ''PoP'')
                   else do {
                     now \<leftarrow> TimeNow E;
                     (case check_pop_time now (ve_iatWindow v) (jt_Claims popTok) of
                        Some e \<Rightarrow> return (Inl e)
                      | None \<Rightarrow>
                        (let subject = rc_Subject (wc_Registered (jt_Claims tok));
                             res = \<lparr>ar_ClientID = subject, ar_CnfJKT = jkt\<rparr>
                         in case check_pop v subject popTok of
                              Some e \<Rightarrow> return (Inl e)
                            | None \<Rightarrow> (case ve_replay v of
                                None \<Rightarrow> return (Inr res)
                              | Some replay \<Rightarrow> do {
                                  s \<leftarrow> replay (rc_ID (jt_Claims popTok));
                                  return (if s = Inr True then Inl ''PoP jti replayed'' else Inr res) }))) }) })) })"

section \<open>The verifier as the handlers see it\<close>

text \<open>The two methods of \<open>*clientattestation.Verifier\<close> that the handlers call.\<close>

record 'w Attester =
  at_Verify :: "string \<Rightarrow> string \<Rightarrow> ('w, string + AttestResult) state"
  at_RequireKeyBinding :: bool

definition attester_of ::
    "'w env \<Rightarrow> ('cert, 'k) x509_lib \<Rightarrow> ('w, wiaClaims, 'k, string) jwt_parser
     \<Rightarrow> ('w, RegisteredClaims, ec_point, string) jwt_parser \<Rightarrow> ('w, 'cert) Verifier \<Rightarrow> 'w Attester" where
  "attester_of E X parse_wia parse_pop v =
     \<lparr>at_Verify = attest_Verify E X parse_wia parse_pop v,
      at_RequireKeyBinding = ve_requireKeyBinding v\<rparr>"

section \<open>What a verified attestation establishes\<close>

lemma check_wia_Inr:
  assumes "check_wia tok = Inr (k, jkt)"
  shows "jt_Valid tok" "jt_Header tok ''typ'' = Some (JStr typWIA)"
    "rc_Subject (wc_Registered (jt_Claims tok)) \<noteq> []"
    "\<exists>fs. wc_CnfJWK (jt_Claims tok) = Some fs \<and> ParseECJWK (map_of fs) = Inr (k, jkt)"
proof -
  note a = assms [unfolded check_wia_def]
  show "jt_Valid tok" "rc_Subject (wc_Registered (jt_Claims tok)) \<noteq> []"
    "\<exists>fs. wc_CnfJWK (jt_Claims tok) = Some fs \<and> ParseECJWK (map_of fs) = Inr (k, jkt)"
    using a by (auto split: if_splits option.splits sum.splits)
  have "as_string (jt_Header tok ''typ'') = typWIA"
    using a by (auto split: if_splits)
  then show "jt_Header tok ''typ'' = Some (JStr typWIA)"
    by (auto simp: as_string_def typWIA_def split: option.splits json.splits)
qed

lemma check_pop_None:
  assumes "check_pop v subject popTok = None"
  shows "jt_Header popTok ''typ'' = Some (JStr typPoP)" "rc_Issuer (jt_Claims popTok) = subject"
    "\<exists>a\<in>set (rc_Audience (jt_Claims popTok)). a \<in> ve_audiences v"
    "rc_ID (jt_Claims popTok) \<noteq> []"
proof -
  note a = assms [unfolded check_pop_def Let_def]
  show "rc_Issuer (jt_Claims popTok) = subject"
    "\<exists>a\<in>set (rc_Audience (jt_Claims popTok)). a \<in> ve_audiences v" "rc_ID (jt_Claims popTok) \<noteq> []"
    using a by (auto split: if_splits)
  have "as_string (jt_Header popTok ''typ'') = typPoP"
    using a by (auto split: if_splits)
  then show "jt_Header popTok ''typ'' = Some (JStr typPoP)"
    by (auto simp: as_string_def typPoP_def split: option.splits json.splits)
qed

lemma leafKey_Inr:
  assumes "leafKeyFromX5C X anchors header = Inr k"
  shows "\<exists>leaf ims. VerifyChain X anchors ims leaf = None \<and> ECPublicKey X leaf = Some k"
  using assms by (auto simp: leafKeyFromX5C_def split: option.splits json.splits list.splits sum.splits)

text \<open>The steps of a verification that succeeded, with the tokens it read.\<close>

lemma attest_Verify_Inr:
  assumes "result_of (attest_Verify E X parse_wia parse_pop v wia pop) w = Inr res"
  obtains tok cnfKey popTok w1 where
    "wia \<noteq> []" "pop \<noteq> []"
    "result_of (parse_wia wia_options wia (\<lambda>t. leafKeyFromX5C X (ve_trustAnchors v) (jt_Header t))) w = Inr tok"
    "check_wia tok = Inr (cnfKey, ar_CnfJKT res)"
    "ar_ClientID res = rc_Subject (wc_Registered (jt_Claims tok))"
    "result_of (parse_pop (pop_options (ve_iatWindow v)) pop (\<lambda>_. Inr cnfKey)) w1 = Inr popTok"
    "jt_Valid popTok"
    "check_pop v (ar_ClientID res) popTok = None"
    "\<exists>now. check_pop_time now (ve_iatWindow v) (jt_Claims popTok) = None"
proof -
  let ?pw = "parse_wia wia_options wia (\<lambda>t. leafKeyFromX5C X (ve_trustAnchors v) (jt_Header t))"
  have ne: "wia \<noteq> []" "pop \<noteq> []"
    using assms by (auto simp: attest_Verify_def split: if_splits)
  then obtain tok where t: "result_of ?pw w = Inr tok"
    using assms by (cases "result_of ?pw w") (auto simp: attest_Verify_def)
  obtain cnfKey jkt where cw: "check_wia tok = Inr (cnfKey, jkt)"
    using assms ne t by (cases "check_wia tok") (auto simp: attest_Verify_def)
  let ?w1 = "world_after ?pw w"
  let ?pp = "parse_pop (pop_options (ve_iatWindow v)) pop (\<lambda>_. Inr cnfKey)"
  obtain popTok where p: "result_of ?pp ?w1 = Inr popTok"
    using assms ne t cw by (cases "result_of ?pp ?w1") (auto simp: attest_Verify_def)
  have pv: "jt_Valid popTok"
    using assms ne t cw p by (auto simp: attest_Verify_def split: if_splits)
  define now where "now = result_of (TimeNow E) (world_after ?pp ?w1)"
  have ct: "check_pop_time now (ve_iatWindow v) (jt_Claims popTok) = None"
    using assms ne t cw p pv
    by (cases "check_pop_time now (ve_iatWindow v) (jt_Claims popTok)")
       (auto simp: attest_Verify_def now_def)
  let ?s = "rc_Subject (wc_Registered (jt_Claims tok))"
  have cp: "check_pop v ?s popTok = None"
    using assms ne t cw p pv ct
    by (cases "check_pop v ?s popTok") (auto simp: attest_Verify_def now_def Let_def)
  have "res = \<lparr>ar_ClientID = ?s, ar_CnfJKT = jkt\<rparr>"
    using assms ne t cw p pv ct cp
    by (auto simp: attest_Verify_def now_def Let_def split: option.splits if_splits)
  then have r: "ar_ClientID res = ?s" "ar_CnfJKT res = jkt" by simp_all
  show ?thesis
    by (rule that [of tok cnfKey ?w1 popTok]) (use ne t cw p pv ct cp r in auto)
qed

end
