(* ===== verification/Token_Common.thy ===== *)
theory Token_Common
  imports Auth_Callback Attestation
begin

text \<open>
  What the grants of \<open>authorizationcode/token.go\<close> share: the client attestation branch, the
  binding of a session to the DPoP key, and the HTTP Basic credentials of a confidential client.
\<close>

definition status_BadRequest :: nat where "status_BadRequest = 400"
definition status_Unauthorized :: nat where "status_Unauthorized = 401"

definition dpop_jkt_key :: string where "dpop_jkt_key = ''dpop_jkt''"

section \<open>Client attestation\<close>

text \<open>
  The attestation branch, written twice in the source (\<open>HandleAuthorization\<close>, with 401 and its own
  error code, and \<open>HandlePreAuthorized\<close>, with 400): the verifier must be configured, the
  attestation must verify, a DPoP key must be there, and with key binding it must be the
  attested key. The \<open>reply\<close> is the early return.
\<close>

definition attestation_branch ::
    "Code \<Rightarrow> nat \<Rightarrow> request \<Rightarrow> string \<Rightarrow> 'w Attester option \<Rightarrow> string \<Rightarrow> ('w, reply + AttestResult) state" where
  "attestation_branch code status rq jkt attest wia =
     (case attest of
        None \<Rightarrow> return (Inl (SetHeader code (respond
          (JSON status (TokenResponseError ''invalid_client'' ''client attestation not supported'')))))
      | Some a \<Rightarrow> do {
          r \<leftarrow> at_Verify a wia (rq_header rq ''OAuth-Client-Attestation-PoP'');
          return (case r of
            Inl err \<Rightarrow> Inl (SetHeader code (respond
              (JSON status (TokenResponseError ''invalid_client'' ''invalid client attestation''))))
          | Inr res \<Rightarrow>
              if jkt = [] then Inl (SetHeader TokenDPoPProofMissing (respond
                (JSON status_BadRequest (TokenResponseError ''invalid_dpop_proof''
                   ''DPoP proof required for attested clients''))))
              else if at_RequireKeyBinding a \<and> jkt \<noteq> ar_CnfJKT res then
                Inl (SetHeader TokenDPoPProofInvalid (respond
                  (JSON status_BadRequest (TokenResponseError ''invalid_dpop_proof''
                     ''DPoP key does not match attested wallet key''))))
              else Inr res) })"

lemma attestation_branch_Inr:
  assumes "result_of (attestation_branch code status rq jkt attest wia) w = Inr res"
  obtains a where "attest = Some a"
    "result_of (at_Verify a wia (rq_header rq ''OAuth-Client-Attestation-PoP'')) w = Inr res"
    "jkt \<noteq> []" "at_RequireKeyBinding a \<longrightarrow> jkt = ar_CnfJKT res"
  using assms that
  by (auto simp: attestation_branch_def split: option.splits sum.splits if_splits)

lemma attestation_branch_Inl:
  assumes "result_of (attestation_branch code status rq jkt attest wia) w = Inl r"
  shows "\<not> grants_token r" "problem_registered r"
  using assms
  by (auto simp: attestation_branch_def split: option.splits sum.splits if_splits)

section \<open>The session of an access token\<close>

text \<open>
  The template session gets a fresh id and access time; with a DPoP key, the key's thumbprint is
  put into its metadata.
\<close>

definition bind_session :: "Session \<Rightarrow> string \<Rightarrow> int \<Rightarrow> string \<Rightarrow> Session" where
  "bind_session s sid now jkt =
     (let s' = s\<lparr>se_ID := sid, se_LastAccessed := Some now\<rparr>
      in if jkt \<noteq> [] then s'\<lparr>se_Metadata := map_alloc_put (se_Metadata s') dpop_jkt_key jkt\<rparr> else s')"

definition token_type :: "string \<Rightarrow> string" where
  "token_type jkt = (if jkt \<noteq> [] then ''DPoP'' else ''Bearer'')"

lemma bind_session_simps [simp]:
  "se_ID (bind_session s sid now jkt) = sid"
  "se_LastAccessed (bind_session s sid now jkt) = Some now"
  "se_Subject (bind_session s sid now jkt) = se_Subject s"
  "se_State (bind_session s sid now jkt) = se_State s"
  by (simp_all add: bind_session_def Let_def)

lemma bind_session_jkt:
  "jkt \<noteq> [] \<Longrightarrow> map_index (se_Metadata (bind_session s sid now jkt)) dpop_jkt_key = jkt"
  by (simp add: bind_session_def Let_def map_index_put)

lemma bind_session_plain:
  "se_Metadata (bind_session s sid now []) = se_Metadata s"
  by (simp add: bind_session_def Let_def)

section \<open>HTTP Basic credentials\<close>

text \<open>
  \<open>authHeader[len("Basic "):]\<close> panics when the header is shorter than the prefix; the scheme
  itself is not looked at. The rest must be base64 of \<open>id:secret\<close>.
\<close>

datatype basic_result = BasicPanic | BasicInvalid | BasicCredentials string string

definition basic_credentials :: "string \<Rightarrow> basic_result" where
  "basic_credentials authHeader =
     (if length authHeader < length ''Basic '' then BasicPanic
      else (case StdDecodeString (drop (length ''Basic '') authHeader) of
          None \<Rightarrow> BasicInvalid
        | Some decoded \<Rightarrow> (case SplitN2 (CHR '':'') decoded of
            [i, s] \<Rightarrow> BasicCredentials i s
          | _ \<Rightarrow> BasicInvalid)))"

lemma basic_credentials_encode:
  assumes "CHR '':'' \<notin> set i"
  shows "basic_credentials (''Basic '' @ StdEncodeToString (i @ CHR '':'' # s)) = BasicCredentials i s"
  using assms
  by (simp add: basic_credentials_def StdDecode_Encode SplitN2_append)

text \<open>\<open>client.Metadata["token_binding"] == "dpop"\<close>.\<close>

definition requires_dpop :: "Client \<Rightarrow> bool" where
  "requires_dpop client \<longleftrightarrow> map_index (cl_Metadata client) ''token_binding'' = ''dpop''"

end
