(* ===== verification/Token_AuthCode.thy ===== *)
theory Token_AuthCode
  imports Token_Common
begin

text \<open>
  \<open>HandleAuthorization\<close> of \<open>authorizationcode/token.go\<close>, the authorization_code grant, in the
  three stages of the source: authenticate the client, look the code up and check it, issue the
  token and clean up.
\<close>

section \<open>Stage 1: client authentication\<close>

text \<open>
  The result is the early reply, or \<open>(attested, clientID)\<close>: attested wallets by the attestation
  headers, everybody else by the \<open>Authorization\<close> header.
\<close>

definition authenticate_confidential :: "'w env \<Rightarrow> request \<Rightarrow> string \<Rightarrow> reply + string" where
  "authenticate_confidential E rq jkt =
     (let authHeader = rq_header rq ''Authorization'' in
      if authHeader = [] then
        Inl (SetHeader AuthCodeMissingAuthHeader (respond
          (JSON status_BadRequest (TextBody ''missing authorization header''))))
      else (case basic_credentials authHeader of
          BasicPanic \<Rightarrow> Inl (respond (Panic ''slice bounds out of range''))
        | BasicInvalid \<Rightarrow> Inl (respond (Problem ''err:token:authHeaderInvalid'' None))
        | BasicCredentials basicClientID secret \<Rightarrow>
            (case GetClient E basicClientID of
               Inl e \<Rightarrow> Inl (respond (Problem ''err:token:clientLookupFailed'' None))
             | Inr None \<Rightarrow> Inl (SetHeader AuthCodeInvalidClient (respond
                 (JSON status_BadRequest (TextBody ''invalid client''))))
             | Inr (Some client) \<Rightarrow>
                 if secret \<notin> set (cl_Secrets client) then
                   Inl (SetHeader AuthCodeInvalidClient (respond
                     (JSON status_BadRequest (TextBody ''invalid client''))))
                 else if requires_dpop client \<and> jkt = [] then
                   Inl (SetHeader TokenDPoPProofMissing (respond
                     (JSON status_BadRequest (TokenResponseError ''invalid_dpop_proof''
                        ''client requires DPoP-bound tokens''))))
                 else Inr basicClientID)))"

definition authenticate ::
    "'w env \<Rightarrow> request \<Rightarrow> string \<Rightarrow> 'w Attester option \<Rightarrow> ('w, reply + bool \<times> string) state" where
  "authenticate E rq jkt attest =
     (let wia = rq_header rq ''OAuth-Client-Attestation'' in
      if wia \<noteq> [] then do {
        r \<leftarrow> attestation_branch AuthCodeInvalidClient status_Unauthorized rq jkt attest wia;
        return (case r of Inl rep \<Rightarrow> Inl rep | Inr res \<Rightarrow> Inr (True, ar_ClientID res)) }
      else return (case authenticate_confidential E rq jkt of
             Inl rep \<Rightarrow> Inl rep | Inr i \<Rightarrow> Inr (False, i)))"

section \<open>Stage 2: the code\<close>

definition check_code ::
    "'w env \<Rightarrow> request \<Rightarrow> bool \<times> string \<Rightarrow> ('w, reply + AuthCodeItem) state" where
  "check_code E rq auth = do {
     let code = value_or [] (form_String rq ''code'');
     let codeVerifier = value_or [] (form_String rq ''code_verifier'');
     let redirectURI = value_or [] (form_String rq ''redirect_uri'');
     r \<leftarrow> GetItem E code codeVerifier;
     return (case r of
       Inl err \<Rightarrow> Inl (SetHeader AuthCodeInvalidOrExpiredCode (respond
         (JSON status_BadRequest (AuthorizeError (AuthErrText E AuthErrInvalidRequest) err))))
     | Inr tempData \<Rightarrow>
         if ac_RedirectURI tempData \<noteq> redirectURI then
           Inl (SetHeader AuthCodeRedirectURIMismatch (respond
             (JSON status_BadRequest (AuthorizeErrorMsg (AuthErrText E AuthErrInvalidRequest) ''redirect_uri mismatch''))))
         else if fst auth \<and> ac_ClientID tempData \<noteq> snd auth then
           Inl (SetHeader AuthCodeInvalidClient (respond
             (JSON status_BadRequest (AuthorizeErrorMsg (AuthErrText E AuthErrInvalidRequest)
                ''code was not issued to this client''))))
         else Inr tempData) }"

section \<open>Stage 3: the token\<close>

definition login_audit :: "request \<Rightarrow> string \<Rightarrow> AuthCodeItem \<Rightarrow> string \<Rightarrow> AuditRequest" where
  "login_audit rq loginSuccess tempData sid =
     \<lparr>au_ClientID = ''idauth'', au_Endpoint = rq_router_path rq, au_Action = loginSuccess,
      au_GivenName = se_FirstName (ac_Session tempData),
      au_FamilyName = se_LastName (ac_Session tempData),
      au_Identifier = ac_UserID tempData, au_IPAddress = rq_ip rq,
      au_UserAgent = rq_user_agent rq, au_Bearer = sid\<rparr>"

text \<open>
  The refresh token goes out only with a DPoP-bound access token; failing to store it is logged
  and leaves the field empty.
\<close>

definition issue_refresh ::
    "'w env \<Rightarrow> string \<Rightarrow> string \<Rightarrow> AuthCodeItem \<Rightarrow> ('w, string) state" where
  "issue_refresh E jkt clientID tempData =
     (if token_type jkt = ''DPoP'' then do {
        r \<leftarrow> IssueRefreshToken E \<lparr>rt_ClientID = clientID, rt_Scope = ac_Scope tempData,
               rt_JKT = jkt, rt_Session = ac_Session tempData\<rparr>;
        return (value_or [] r) }
      else return [])"

definition issue_token ::
    "'w env \<Rightarrow> request \<Rightarrow> int \<Rightarrow> string \<Rightarrow> string \<Rightarrow> AuthCodeItem \<Rightarrow> ('w, reply) state" where
  "issue_token E rq sessionTimeout jkt clientID item = do {
     now \<leftarrow> TimeNow E;
     sid \<leftarrow> UlidMake E;
     let tempData = item\<lparr>ac_Session := bind_session (ac_Session item) sid now jkt\<rparr>;
     r \<leftarrow> SessionCreate E (ac_Session tempData);
     (case r of
        Inl err \<Rightarrow> return (respond (Problem ''err:token:sessionCreateFailed'' None))
      | Inr sess \<Rightarrow> do {
          _ \<leftarrow> PersonRequest E (login_audit rq (ActionLoginSuccess E) tempData (se_ID sess));
          _ \<leftarrow> SessionDelete E (value_or [] (form_String rq ''code''));
          err \<leftarrow> DeleteItem E (value_or [] (form_String rq ''code''));
          (case err of
             Some e \<Rightarrow> return (respond (Problem ''err:token:cleanupFailed'' None))
           | None \<Rightarrow> do {
               refreshToken \<leftarrow> issue_refresh E jkt clientID tempData;
               return (respond (JSON 200 (TokenResponseBody
                 \<lparr>resp_AccessToken = se_ID sess, resp_TokenType = token_type jkt,
                  resp_ExpiresIn = GetSecondsToLive E sessionTimeout (se_LastAccessed sess),
                  resp_Scope = ac_Scope tempData, resp_RefreshToken = refreshToken\<rparr>))) }) }) }"

section \<open>The handler\<close>

definition HandleAuthorization ::
    "'w env \<Rightarrow> request \<Rightarrow> int \<Rightarrow> string \<Rightarrow> 'w Attester option \<Rightarrow> ('w, reply) state" where
  "HandleAuthorization E rq sessionTimeout jkt attest = do {
     a \<leftarrow> authenticate E rq jkt attest;
     (case a of
        Inl rep \<Rightarrow> return rep
      | Inr auth \<Rightarrow> do {
          c \<leftarrow> check_code E rq auth;
          (case c of
             Inl rep \<Rightarrow> return rep
           | Inr item \<Rightarrow> issue_token E rq sessionTimeout jkt (snd auth) item) }) }"

section \<open>Facts about the stages\<close>

lemma authenticate_confidential_Inr:
  assumes "authenticate_confidential E rq jkt = Inr i"
  obtains client secret where
    "basic_credentials (rq_header rq ''Authorization'') = BasicCredentials i secret"
    "GetClient E i = Inr (Some client)" "secret \<in> set (cl_Secrets client)"
    "requires_dpop client \<longrightarrow> jkt \<noteq> []"
  using assms that
  by (auto simp: authenticate_confidential_def Let_def
      split: if_splits basic_result.splits sum.splits option.splits)

lemma authenticate_confidential_Inl:
  "authenticate_confidential E rq jkt = Inl r \<Longrightarrow> \<not> grants_token r"
  by (auto simp: authenticate_confidential_def Let_def
      split: if_splits basic_result.splits sum.splits option.splits)

lemma authenticate_Inl:
  assumes "result_of (authenticate E rq jkt attest) w = Inl r"
  shows "\<not> grants_token r"
  using assms attestation_branch_Inl authenticate_confidential_Inl
  by (fastforce simp: authenticate_def Let_def split: if_splits sum.splits)

text \<open>What authentication of a client means, on both branches.\<close>

definition authenticated_client ::
    "'w env \<Rightarrow> request \<Rightarrow> string \<Rightarrow> 'w Attester option \<Rightarrow> 'w \<Rightarrow> string \<Rightarrow> bool" where
  "authenticated_client E rq jkt attest w i \<longleftrightarrow>
     (let wia = rq_header rq ''OAuth-Client-Attestation'' in
      if wia \<noteq> [] then
        (\<exists>a res. attest = Some a
           \<and> result_of (at_Verify a wia (rq_header rq ''OAuth-Client-Attestation-PoP'')) w = Inr res
           \<and> ar_ClientID res = i \<and> jkt \<noteq> [] \<and> (at_RequireKeyBinding a \<longrightarrow> jkt = ar_CnfJKT res))
      else
        (\<exists>client secret. basic_credentials (rq_header rq ''Authorization'') = BasicCredentials i secret
           \<and> GetClient E i = Inr (Some client) \<and> secret \<in> set (cl_Secrets client)
           \<and> (requires_dpop client \<longrightarrow> jkt \<noteq> [])))"

lemma authenticate_Inr:
  assumes "result_of (authenticate E rq jkt attest) w = Inr auth"
  shows "authenticated_client E rq jkt attest w (snd auth)"
    and "fst auth \<longleftrightarrow> rq_header rq ''OAuth-Client-Attestation'' \<noteq> []"
proof -
  let ?wia = "rq_header rq ''OAuth-Client-Attestation''"
  have "authenticated_client E rq jkt attest w (snd auth)
      \<and> (fst auth \<longleftrightarrow> ?wia \<noteq> [])"
  proof (cases "?wia = []")
    case True
    with assms obtain i where i: "authenticate_confidential E rq jkt = Inr i" "auth = (False, i)"
      by (auto simp: authenticate_def split: sum.splits)
    obtain client secret where "basic_credentials (rq_header rq ''Authorization'') = BasicCredentials i secret"
      "GetClient E i = Inr (Some client)" "secret \<in> set (cl_Secrets client)" "requires_dpop client \<longrightarrow> jkt \<noteq> []"
      by (rule authenticate_confidential_Inr [OF i(1)])
    with True i(2) show ?thesis by (auto simp: authenticated_client_def)
  next
    case False
    with assms obtain res where
      r: "result_of (attestation_branch AuthCodeInvalidClient status_Unauthorized rq jkt attest ?wia) w = Inr res"
      and a: "auth = (True, ar_ClientID res)"
      by (auto simp: authenticate_def Let_def split: sum.splits)
    obtain at where "attest = Some at"
      "result_of (at_Verify at ?wia (rq_header rq ''OAuth-Client-Attestation-PoP'')) w = Inr res"
      "jkt \<noteq> []" "at_RequireKeyBinding at \<longrightarrow> jkt = ar_CnfJKT res"
      by (rule attestation_branch_Inr [OF r])
    with False a show ?thesis by (auto simp: authenticated_client_def)
  qed
  then show "authenticated_client E rq jkt attest w (snd auth)" "fst auth \<longleftrightarrow> ?wia \<noteq> []" by auto
qed

lemma check_code_Inl:
  "result_of (check_code E rq auth) w = Inl r \<Longrightarrow> \<not> grants_token r"
  by (auto simp: check_code_def Let_def split: sum.splits if_splits)

lemma check_code_Inr:
  assumes "result_of (check_code E rq auth) w = Inr item"
  shows "result_of (GetItem E (value_or [] (form_String rq ''code''))
            (value_or [] (form_String rq ''code_verifier''))) w = Inr item"
    and "ac_RedirectURI item = value_or [] (form_String rq ''redirect_uri'')"
    and "fst auth \<longrightarrow> ac_ClientID item = snd auth"
  using assms
  by (auto simp: check_code_def Let_def split: sum.splits if_splits)

text \<open>The handler grants a token only through all three stages.\<close>

lemma HandleAuthorization_grants:
  assumes "grants_token (result_of (HandleAuthorization E rq timeout jkt attest) w)"
  obtains auth item w1 w2 where
    "result_of (authenticate E rq jkt attest) w = Inr auth"
    "w1 = world_after (authenticate E rq jkt attest) w"
    "result_of (check_code E rq auth) w1 = Inr item"
    "w2 = world_after (check_code E rq auth) w1"
    "grants_token (result_of (issue_token E rq timeout jkt (snd auth) item) w2)"
    "result_of (HandleAuthorization E rq timeout jkt attest) w =
       result_of (issue_token E rq timeout jkt (snd auth) item) w2"
    "world_after (HandleAuthorization E rq timeout jkt attest) w =
       world_after (issue_token E rq timeout jkt (snd auth) item) w2"
proof -
  obtain auth where a: "result_of (authenticate E rq jkt attest) w = Inr auth"
  proof (cases "result_of (authenticate E rq jkt attest) w")
    case (Inl r)
    with assms authenticate_Inl [OF Inl] show ?thesis by (simp add: HandleAuthorization_def)
  qed
  let ?w1 = "world_after (authenticate E rq jkt attest) w"
  obtain item where c: "result_of (check_code E rq auth) ?w1 = Inr item"
  proof (cases "result_of (check_code E rq auth) ?w1")
    case (Inl r)
    with assms a check_code_Inl [OF Inl] show ?thesis by (simp add: HandleAuthorization_def)
  qed
  show ?thesis
    by (rule that [OF a refl c refl]) (use assms a c in \<open>auto simp: HandleAuthorization_def\<close>)
qed

text \<open>A token is issued only after the code was deleted without an error.\<close>

lemma issue_token_grants:
  assumes "grants_token (result_of (issue_token E rq timeout jkt clientID item) w)"
  obtains now sid sess w1 w2 rt where
    "now = result_of (TimeNow E) w"
    "w1 = world_after (TimeNow E) w"
    "sid = result_of (UlidMake E) w1"
    "result_of (SessionCreate E (bind_session (ac_Session item) sid now jkt))
        (world_after (UlidMake E) w1) = Inr sess"
    "result_of (DeleteItem E (value_or [] (form_String rq ''code''))) w2 = None"
    "content (result_of (issue_token E rq timeout jkt clientID item) w) =
       JSON 200 (TokenResponseBody
         \<lparr>resp_AccessToken = se_ID sess, resp_TokenType = token_type jkt,
          resp_ExpiresIn = GetSecondsToLive E timeout (se_LastAccessed sess),
          resp_Scope = ac_Scope item, resp_RefreshToken = rt\<rparr>)"
    "jkt = [] \<longrightarrow> rt = []"
    "world_after (issue_token E rq timeout jkt clientID item) w =
       world_after (issue_refresh E jkt clientID
          (item\<lparr>ac_Session := bind_session (ac_Session item) sid now jkt\<rparr>))
        (world_after (DeleteItem E (value_or [] (form_String rq ''code''))) w2)"
proof -
  let ?now = "result_of (TimeNow E) w" and ?w1 = "world_after (TimeNow E) w"
  let ?sid = "result_of (UlidMake E) ?w1" and ?wu = "world_after (UlidMake E) ?w1"
  let ?s = "bind_session (ac_Session item) ?sid ?now jkt"
  let ?code = "value_or [] (form_String rq ''code'')"
  obtain sess where s: "result_of (SessionCreate E ?s) ?wu = Inr sess"
    using assms by (cases "result_of (SessionCreate E ?s) ?wu") (auto simp: issue_token_def Let_def)
  let ?ws = "world_after (SessionCreate E ?s) ?wu"
  let ?au = "PersonRequest E (login_audit rq (ActionLoginSuccess E) (item\<lparr>ac_Session := ?s\<rparr>) (se_ID sess))"
  let ?w2 = "world_after (SessionDelete E ?code) (world_after ?au ?ws)"
  have d: "result_of (DeleteItem E ?code) ?w2 = None"
    using assms s by (cases "result_of (DeleteItem E ?code) ?w2") (auto simp: issue_token_def Let_def)
  let ?item = "item\<lparr>ac_Session := ?s\<rparr>" and ?w3 = "world_after (DeleteItem E ?code) ?w2"
  have e: "jkt = [] \<longrightarrow> result_of (issue_refresh E jkt clientID ?item) ?w3 = []"
    by (simp add: issue_refresh_def token_type_def)
  show ?thesis
    by (rule that [OF refl refl refl s d, of "result_of (issue_refresh E jkt clientID ?item) ?w3"])
       (use s d e in \<open>auto simp: issue_token_def Let_def\<close>)
qed

end
