(* ===== verification/Store_Logic.thy ===== *)
theory Store_Logic
  imports Store_Contract
begin

text \<open>
  A program logic for the operations over the cache and the session store: \<open>upholds I m Q\<close> says
  that \<open>m\<close>, run in a world that satisfies \<open>I\<close>, ends in such a world with a result in \<open>Q\<close>. The
  locale \<open>store_logic\<close> asks for each primitive operation once what it needs to preserve \<open>I\<close>; its
  step rules follow the calls a handler makes, so that an invariant is proved for a handler by
  walking along its definition. The first instance are the invariants \<open>stored_ok\<close> of the cached
  values alone.
\<close>

definition upholds :: "('w \<Rightarrow> bool) \<Rightarrow> ('w, 'a) state \<Rightarrow> ('a \<Rightarrow> bool) \<Rightarrow> bool" where
  "upholds I m Q \<longleftrightarrow> (\<forall>w. I w \<longrightarrow> Q (result_of m w) \<and> I (world_after m w))"

lemma upholdsI:
  "(\<And>w. I w \<Longrightarrow> Q (result_of m w)) \<Longrightarrow> (\<And>w. I w \<Longrightarrow> I (world_after m w)) \<Longrightarrow> upholds I m Q"
  by (simp add: upholds_def)

lemma upholdsD:
  assumes "upholds I m Q" "I w"
  shows "Q (result_of m w)" "I (world_after m w)"
  using assms by (simp_all add: upholds_def)

section \<open>Control flow\<close>

lemma upholds_return: "Q x \<Longrightarrow> upholds I (return x) Q"
  by (simp add: upholds_def)

lemma upholds_bind:
  assumes "upholds I m R" "\<And>r. R r \<Longrightarrow> upholds I (f r) Q"
  shows "upholds I (State_Monad.bind m f) Q"
  using assms by (simp add: upholds_def)

lemma upholds_weaken: "upholds I m R \<Longrightarrow> (\<And>r. R r \<Longrightarrow> Q r) \<Longrightarrow> upholds I m Q"
  by (simp add: upholds_def)

lemma upholds_if:
  "(b \<Longrightarrow> upholds I m Q) \<Longrightarrow> (\<not> b \<Longrightarrow> upholds I n Q) \<Longrightarrow> upholds I (if b then m else n) Q"
  by simp

lemma upholds_case_sum:
  "(\<And>e. r = Inl e \<Longrightarrow> upholds I (f e) Q) \<Longrightarrow> (\<And>x. r = Inr x \<Longrightarrow> upholds I (g x) Q) \<Longrightarrow>
   upholds I (case r of Inl e \<Rightarrow> f e | Inr x \<Rightarrow> g x) Q"
  by (cases r) simp_all

lemma upholds_case_option:
  "(r = None \<Longrightarrow> upholds I f Q) \<Longrightarrow> (\<And>x. r = Some x \<Longrightarrow> upholds I (g x) Q) \<Longrightarrow>
   upholds I (case r of None \<Rightarrow> f | Some x \<Rightarrow> g x) Q"
  by (cases r) simp_all

lemma upholds_case_prod:
  "(\<And>a b. r = (a, b) \<Longrightarrow> upholds I (f a b) Q) \<Longrightarrow> upholds I (case r of (a, b) \<Rightarrow> f a b) Q"
  by (cases r) simp_all

lemma upholds_let:
  "(\<And>x. x = a \<Longrightarrow> upholds I (f x) Q) \<Longrightarrow> upholds I (let x = a in f x) Q"
  by simp

lemmas upholds_control = upholds_return upholds_if upholds_case_sum upholds_case_option
  upholds_case_prod upholds_let

text \<open>An operation that preserves the invariant, whatever its result.\<close>

lemma upholds_step:
  assumes "\<And>w. I w \<Longrightarrow> I (world_after m w)"
  shows "upholds I m (\<lambda>r. \<exists>w. I w \<and> r = result_of m w)"
  using assms by (auto simp: upholds_def)

lemma upholds_step_bind:
  assumes "\<And>w. I w \<Longrightarrow> I (world_after m w)" "\<And>r w. r = result_of m w \<Longrightarrow> upholds I (f r) Q"
  shows "upholds I (State_Monad.bind m f) Q"
  by (rule upholds_bind [OF upholds_step [where I = I and m = m, OF assms(1)]]) (blast intro: assms(2))+

lemma upholds_still:
  assumes "\<And>w. I w \<Longrightarrow> I (world_after m w)"
  shows "upholds I m (\<lambda>_. True)"
  using assms by (simp add: upholds_def)

section \<open>The primitive operations\<close>

text \<open>
  \<open>I\<close> is the invariant of the world; \<open>P\<close> holds of the values that are read from and stored in the
  caches, \<open>S\<close> of the sessions that are created, \<open>H\<close> of the hashes of the refresh tokens and \<open>U\<close> of
  the ULIDs that are drawn.
\<close>

locale store_logic =
  fixes E :: "'w env" and I :: "'w \<Rightarrow> bool"
    and P :: "string \<Rightarrow> string \<Rightarrow> cache_value \<Rightarrow> bool"
    and S :: "Session \<Rightarrow> bool" and H :: "string \<Rightarrow> bool" and U :: "string \<Rightarrow> bool"
  assumes get_ok: "I w \<Longrightarrow> I (world_after (CacheGet E n k) w)"
    and get_val: "I w \<Longrightarrow> result_of (CacheGet E n k) w = Inr (Some v) \<Longrightarrow> P n k v"
    and pop_ok: "I w \<Longrightarrow> I (world_after (CachePop E n k) w)"
    and pop_val: "I w \<Longrightarrow> result_of (CachePop E n k) w = Inr r \<Longrightarrow> \<exists>v. r = Some v \<and> P n k v"
    and set_ok: "I w \<Longrightarrow> P n k v \<Longrightarrow> I (world_after (CacheSet E n k v) w)"
    and delete_ok: "I w \<Longrightarrow> I (world_after (CacheDelete E n k) w)"
    and create_ok: "I w \<Longrightarrow> S s \<Longrightarrow> I (world_after (SessionCreate E s) w)"
    and session_delete_ok: "I w \<Longrightarrow> I (world_after (SessionDelete E c) w)"
    and session_get_ok: "I w \<Longrightarrow> I (world_after (GetSessionByID E c) w)"
    and audit_ok: "I w \<Longrightarrow> I (world_after (PersonRequest E a) w)"
    and ulid_ok: "I w \<Longrightarrow> I (world_after (UlidMake E) w)"
    and ulid_val: "I w \<Longrightarrow> U (result_of (UlidMake E) w)"
    and now_ok: "I w \<Longrightarrow> I (world_after (TimeNow E) w)"
    and rand_ok: "I w \<Longrightarrow> I (world_after (RandRead E m) w)"
    and rand_val: "I w \<Longrightarrow> result_of (RandRead E 32) w = Inr buf \<Longrightarrow>
        H (hashRefreshToken (RawEncodeToString URLAlphabet buf))"
    and intn_ok: "I w \<Longrightarrow> I (world_after (RandIntn E i) w)"
begin

text \<open>The operations that need nothing; \<open>r\<close> is some result of the operation.\<close>

lemma quiet_steps:
  "(\<And>r w. r = result_of (SessionDelete E c) w \<Longrightarrow> upholds I (f0 r) Q) \<Longrightarrow> upholds I (State_Monad.bind (SessionDelete E c) f0) Q"
  "(\<And>r w. r = result_of (GetSessionByID E c) w \<Longrightarrow> upholds I (f1 r) Q) \<Longrightarrow> upholds I (State_Monad.bind (GetSessionByID E c) f1) Q"
  "(\<And>r w. r = result_of (PersonRequest E a) w \<Longrightarrow> upholds I (f2 r) Q) \<Longrightarrow> upholds I (State_Monad.bind (PersonRequest E a) f2) Q"
  "(\<And>r w. r = result_of (TimeNow E) w \<Longrightarrow> upholds I (f3 r) Q) \<Longrightarrow> upholds I (State_Monad.bind (TimeNow E) f3) Q"
  "(\<And>r w. r = result_of (RandIntn E z) w \<Longrightarrow> upholds I (f4 r) Q) \<Longrightarrow> upholds I (State_Monad.bind (RandIntn E z) f4) Q"
  "(\<And>r w. r = result_of (CacheDelete E n k) w \<Longrightarrow> upholds I (f5 r) Q) \<Longrightarrow> upholds I (State_Monad.bind (CacheDelete E n k) f5) Q"
  by (rule upholds_step_bind; simp add: session_delete_ok session_get_ok audit_ok now_ok intn_ok delete_ok)+

lemma upholds_get: "upholds I (cache_Get proj zero E n k)
    (\<lambda>r. \<forall>x. r = Inr x \<longrightarrow> x = zero \<or> (\<exists>v. proj v = Some x \<and> P n k v))"
  by (rule upholdsI)
     (auto simp: result_cache_Get world_cache_Get dest!: cache_read_Inr intro: get_ok dest: get_val)

lemma upholds_pop: "upholds I (cache_Pop proj zero E n k)
    (\<lambda>r. \<forall>x. r = Inr x \<longrightarrow> (\<exists>v. proj v = Some x \<and> P n k v))"
proof (rule upholdsI)
  fix w assume i: "I w"
  show "\<forall>x. result_of (cache_Pop proj zero E n k) w = Inr x \<longrightarrow> (\<exists>v. proj v = Some x \<and> P n k v)"
  proof (intro allI impI)
    fix x assume "result_of (cache_Pop proj zero E n k) w = Inr x"
    then obtain r where r: "result_of (CachePop E n k) w = Inr r"
      and x: "(r = None \<and> x = zero) \<or> (\<exists>v. r = Some v \<and> proj v = Some x)"
      unfolding result_cache_Pop by (blast dest: cache_read_Inr)
    from pop_val [OF i r] x show "\<exists>v. proj v = Some x \<and> P n k v" by auto
  qed
  show "I (world_after (cache_Pop proj zero E n k) w)" using i by (simp add: world_cache_Pop pop_ok)
qed

lemma upholds_set: "P n k v \<Longrightarrow> upholds I (CacheSet E n k v) (\<lambda>_. True)"
  by (simp add: upholds_def set_ok)

lemma upholds_delete: "upholds I (CacheDelete E n k) (\<lambda>_. True)"
  by (simp add: upholds_def delete_ok)

lemma upholds_create: "S s \<Longrightarrow> upholds I (SessionCreate E s) (\<lambda>_. True)"
  by (simp add: upholds_def create_ok)

lemma upholds_ulid: "upholds I (UlidMake E) U"
  by (simp add: upholds_def ulid_ok ulid_val)

lemma upholds_rand: "upholds I (RandRead E 32)
    (\<lambda>r. \<forall>buf. r = Inr buf \<longrightarrow> H (hashRefreshToken (RawEncodeToString URLAlphabet buf)))"
  by (auto simp: upholds_def rand_ok rand_val)

text \<open>The same as rules for the continuation: each premise binds what is known of the result.\<close>

lemma get_bind:
  assumes "\<And>r. (\<And>x. r = Inr x \<Longrightarrow> x = zero \<or> (\<exists>v. proj v = Some x \<and> P n k v)) \<Longrightarrow> upholds I (f r) Q"
  shows "upholds I (State_Monad.bind (cache_Get proj zero E n k) f) Q"
  by (rule upholds_bind [OF upholds_get]) (blast intro: assms)

lemma pop_bind:
  assumes "\<And>r. (\<And>x. r = Inr x \<Longrightarrow> (\<exists>v. proj v = Some x \<and> P n k v)) \<Longrightarrow> upholds I (f r) Q"
  shows "upholds I (State_Monad.bind (cache_Pop proj zero E n k) f) Q"
  by (rule upholds_bind [OF upholds_pop]) (blast intro: assms)

lemma set_bind:
  assumes "P n k v" "\<And>r. upholds I (f r) Q"
  shows "upholds I (State_Monad.bind (CacheSet E n k v) f) Q"
  by (rule upholds_bind [OF upholds_set [OF assms(1)]]) (rule assms(2))

lemma create_bind:
  assumes "S s" "\<And>r. upholds I (f r) Q"
  shows "upholds I (State_Monad.bind (SessionCreate E s) f) Q"
  by (rule upholds_bind [OF upholds_create [OF assms(1)]]) (rule assms(2))

lemmas ulid_bind = upholds_bind [OF upholds_ulid]

lemma rand_bind:
  assumes "\<And>r. (\<And>buf. r = Inr buf \<Longrightarrow> H (hashRefreshToken (RawEncodeToString URLAlphabet buf))) \<Longrightarrow> upholds I (f r) Q"
  shows "upholds I (State_Monad.bind (RandRead E 32) f) Q"
  by (rule upholds_bind [OF upholds_rand]) (blast intro: assms)

lemmas upholds_steps = upholds_control quiet_steps get_bind pop_bind set_bind create_bind ulid_bind rand_bind

subsection \<open>The operations of the code store\<close>

text \<open>What may be assumed of an item that was read, and what must hold of an item that is stored.\<close>

lemma upholds_GetItem: "upholds I (GetItem E c v)
    (\<lambda>r. \<forall>i. r = Inr i \<longrightarrow> i = zero_AuthCodeItem \<or> P authCodeCache c (AuthCodeVal i))"
  unfolding GetItem_def
  by (intro upholds_steps)
     (auto simp: check_challenge_def Let_def elim!: as_AuthCode.elims split: sum.splits if_splits)

lemma upholds_GetPreAuthItem: "upholds I (GetPreAuthItem E c)
    (\<lambda>r. \<forall>i. r = Inr i \<longrightarrow> P authCodeCache c (AuthCodeVal i) \<and> ac_Code i \<noteq> [])"
  unfolding GetPreAuthItem_def
  by (intro upholds_steps)
     (auto simp: zero_AuthCodeItem_def elim!: as_AuthCode.elims split: sum.splits if_splits)

lemma upholds_ValidateTXCode: "upholds I (ValidateTXCode E c t) (\<lambda>_. True)"
  unfolding ValidateTXCode_def by (intro upholds_steps) simp

lemma upholds_DeleteItem: "upholds I (DeleteItem E c) (\<lambda>_. True)"
  unfolding DeleteItem_def by (rule upholds_delete)

lemma upholds_DeleteTXCode: "upholds I (DeleteTXCode E c) (\<lambda>_. True)"
  unfolding DeleteTXCode_def by (rule upholds_delete)

lemma upholds_SetItem:
  "P authCodeCache (ac_Code i) (AuthCodeVal i) \<Longrightarrow> upholds I (SetItem E i) (\<lambda>_. True)"
  unfolding SetItem_def by (rule upholds_set)

lemma upholds_SetTXCode:
  "P preAuthCache c (IntVal t) \<Longrightarrow> upholds I (SetTXCode E c t) (\<lambda>_. True)"
  unfolding SetTXCode_def by (rule upholds_set)

lemma upholds_SetState:
  "P stateCache (st_State i) (StateVal i) \<Longrightarrow> upholds I (SetState E i) (\<lambda>_. True)"
  unfolding SetState_def by (rule upholds_set)

lemma upholds_PopState: "upholds I (PopState E s)
    (\<lambda>r. \<forall>i. r = Inr i \<longrightarrow> P stateCache s (StateVal i))"
  unfolding PopState_def by (rule upholds_weaken [OF upholds_pop]) (auto elim!: as_State.elims)

lemma upholds_SetPAR:
  assumes "\<And>k. U k \<Longrightarrow> P parCacheName k (PARVal i)"
  shows "upholds I (SetPAR E i) (\<lambda>_. True)"
  unfolding SetPAR_def by (intro upholds_steps assms TrueI)

lemma upholds_PopPAR: "upholds I (PopPAR E k)
    (\<lambda>r. \<forall>i. r = Inr i \<longrightarrow> P parCacheName k (PARVal i))"
  unfolding PopPAR_def by (rule upholds_weaken [OF upholds_pop]) (auto elim!: as_PAR.elims)

lemma upholds_RedeemRefreshToken: "upholds I (RedeemRefreshToken E t)
    (\<lambda>r. \<forall>i. r = Inr i \<longrightarrow> P refreshTokenCacheName (hashRefreshToken t) (RefreshVal i))"
  unfolding RedeemRefreshToken_def by (rule upholds_weaken [OF upholds_pop]) (auto elim!: as_Refresh.elims)

lemma upholds_IssueRefreshToken:
  assumes "\<And>h. H h \<Longrightarrow> P refreshTokenCacheName h (RefreshVal i)"
  shows "upholds I (IssueRefreshToken E i) (\<lambda>_. True)"
  unfolding IssueRefreshToken_def by (intro upholds_steps TrueI) (simp add: assms)

lemmas upholds_store =
  upholds_GetItem upholds_GetPreAuthItem upholds_ValidateTXCode upholds_DeleteItem upholds_DeleteTXCode
  upholds_PopState upholds_PopPAR upholds_RedeemRefreshToken

lemmas upholds_store_set =
  upholds_SetItem upholds_SetTXCode upholds_SetState upholds_SetPAR upholds_IssueRefreshToken

lemmas store_steps = upholds_store [THEN upholds_bind] upholds_store_set [THEN upholds_bind]

end

section \<open>Invariants of the cached values\<close>

definition stored_ok ::
    "('w \<Rightarrow> string \<times> string \<Rightarrow> cache_value option) \<Rightarrow> (string \<Rightarrow> string \<Rightarrow> cache_value \<Rightarrow> bool) \<Rightarrow> 'w \<Rightarrow> bool" where
  "stored_ok live P w \<longleftrightarrow> (\<forall>n k v. live w (n, k) = Some v \<longrightarrow> P n k v)"

lemma stored_okD: "stored_ok live P w \<Longrightarrow> live w (n, k) = Some v \<Longrightarrow> P n k v"
  by (simp add: stored_ok_def)

lemma stored_ok_shrinks:
  assumes "stored_ok live P w" "shrinks (live w') (live w)"
  shows "stored_ok live P w'"
  unfolding stored_ok_def
proof (intro allI impI)
  fix n k v assume "live w' (n, k) = Some v"
  from shrinks_Some [OF assms(2) this] show "P n k v" by (rule stored_okD [OF assms(1)])
qed

text \<open>The hashes that the random source may produce.\<close>

definition drawable :: "'w env \<Rightarrow> string \<Rightarrow> bool" where
  "drawable E h \<longleftrightarrow> (\<exists>w buf. result_of (RandRead E 32) w = Inr buf
     \<and> hashRefreshToken (RawEncodeToString URLAlphabet buf) = h)"

context cache_api
begin

lemma stored_ok_set:
  assumes "stored_ok live P w" "P n k v"
  shows "stored_ok live P (world_after (CacheSet E n k v) w)"
  unfolding stored_ok_def
proof (intro allI impI)
  fix n' k' v' assume v': "live (world_after (CacheSet E n k v) w) (n', k') = Some v'"
  show "P n' k' v'"
    using set_frame [of n k v w]
  proof
    assume "shrinks (live (world_after (CacheSet E n k v) w)) ((live w)((n, k) \<mapsto> v))"
    from shrinks_Some [OF this v'] show ?thesis
      using assms(2) stored_okD [OF assms(1)] by (auto split: if_splits)
  next
    assume "shrinks (live (world_after (CacheSet E n k v) w)) (live w)"
    from shrinks_Some [OF this v'] show ?thesis by (rule stored_okD [OF assms(1)])
  qed
qed

lemma stored_ok_pop:
  assumes "stored_ok live P w" "result_of (CachePop E n k) w = Inr r"
  shows "\<exists>v. r = Some v \<and> P n k v"
  using pop_some [of n k w r] run_state_eq [of "CachePop E n k" w] assms by (auto dest: stored_okD)

lemmas stored_ok_frame = stored_ok_shrinks [where live = live]

lemma stored_ok_get:
  "stored_ok live P w \<Longrightarrow> result_of (CacheGet E n k) w = Inr (Some v) \<Longrightarrow> P n k v"
  using get_some [of n k w v] run_state_eq [of "CacheGet E n k" w] by (auto dest: stored_okD)

end

sublocale cache_api \<subseteq> cached: store_logic E "stored_ok live P" P "\<lambda>_. True" "drawable E" "\<lambda>_. True" for P
proof
  fix w m buf
  assume "result_of (RandRead E 32) w = Inr buf"
  then show "drawable E (hashRefreshToken (RawEncodeToString URLAlphabet buf))"
    unfolding drawable_def by blast
qed (simp_all add: stored_ok_set stored_ok_get stored_ok_pop stored_ok_frame [OF _ get_frame]
      stored_ok_frame [OF _ pop_frame] stored_ok_frame [OF _ delete_frame] stored_ok_frame [OF _ create_frame]
      stored_ok_frame [OF _ session_delete_frame] stored_ok_frame [OF _ session_get_frame]
      stored_ok_frame [OF _ audit_frame] stored_ok_frame [OF _ ulid_frame] stored_ok_frame [OF _ now_frame]
      stored_ok_frame [OF _ rand_frame] stored_ok_frame [OF _ intn_frame])

text \<open>The step rules of this instance, by name.\<close>

context cache_api
begin

lemmas cached_store_steps = cached.upholds_steps cached.store_steps
lemmas cached_logic = cached.store_logic_axioms

end

end
