(* ===== verification/Token_Refresh.thy ===== *)
theory Token_Refresh
  imports Token_AuthCode Store_Logic
begin

text \<open>
  \<open>HandleRefreshToken\<close> of \<open>authorizationcode/token.go\<close>: a refresh token is redeemed by popping it,
  must be presented with a proof by the key it was bound to, and is replaced by a fresh one.
\<close>

text \<open>
  \<open>sess := item.Session\<close> copies the struct and shares its metadata map: when the map is not nil,
  writing the thumbprint through \<open>sess\<close> also changes \<open>item.Session\<close>, which is stored again with
  the next refresh token. A nil map is replaced in \<open>sess\<close> alone.
\<close>

definition template_after_bind :: "Session \<Rightarrow> string \<Rightarrow> Session" where
  "template_after_bind s jkt =
     (case se_Metadata s of
        None \<Rightarrow> s
      | Some m \<Rightarrow> s\<lparr>se_Metadata := Some (m(dpop_jkt_key \<mapsto> jkt))\<rparr>)"

definition refresh_session :: "Session \<Rightarrow> string \<Rightarrow> int \<Rightarrow> string \<Rightarrow> Session" where
  "refresh_session s sid now jkt =
     s\<lparr>se_ID := sid, se_LastAccessed := Some now,
       se_Metadata := map_alloc_put (se_Metadata s) dpop_jkt_key jkt\<rparr>"

text \<open>After the redemption: a new session and a new refresh token.\<close>

definition rotate_token ::
    "'w env \<Rightarrow> int \<Rightarrow> string \<Rightarrow> RefreshTokenItem \<Rightarrow> ('w, reply) state" where
  "rotate_token E sessionTimeout jkt item = do {
     now \<leftarrow> TimeNow E;
     sid \<leftarrow> UlidMake E;
     r \<leftarrow> SessionCreate E (refresh_session (rt_Session item) sid now jkt);
     (case r of
        Inl err \<Rightarrow> return (respond (Problem ''err:token:sessionCreateFailed'' None))
      | Inr newSess \<Rightarrow> do {
          t \<leftarrow> IssueRefreshToken E \<lparr>rt_ClientID = rt_ClientID item, rt_Scope = rt_Scope item,
                 rt_JKT = jkt, rt_Session = template_after_bind (rt_Session item) jkt\<rparr>;
          return (respond (JSON 200 (TokenResponseBody
            \<lparr>resp_AccessToken = se_ID newSess, resp_TokenType = ''DPoP'',
             resp_ExpiresIn = GetSecondsToLive E sessionTimeout (se_LastAccessed newSess),
             resp_Scope = rt_Scope item, resp_RefreshToken = value_or [] t\<rparr>))) }) }"

definition HandleRefreshToken ::
    "'w env \<Rightarrow> request \<Rightarrow> int \<Rightarrow> string \<Rightarrow> ('w, reply) state" where
  "HandleRefreshToken E rq sessionTimeout jkt =
     (if jkt = [] then
        return (SetHeader TokenDPoPProofMissing (respond (JSON status_BadRequest
          (TokenResponseError ''invalid_dpop_proof'' ''DPoP proof required for the refresh_token grant''))))
      else if value_or [] (form_String rq ''refresh_token'') = [] then
        return (respond (JSON status_BadRequest
          (TokenResponseError ''invalid_request'' ''refresh_token is required'')))
      else do {
        r \<leftarrow> RedeemRefreshToken E (value_or [] (form_String rq ''refresh_token''));
        (case r of
           Inl err \<Rightarrow> return (SetHeader RefreshTokenInvalidOrExpired (respond (JSON status_BadRequest
             (TokenResponseError ''invalid_grant'' ''invalid or expired refresh_token''))))
         | Inr item \<Rightarrow>
             if rt_JKT item \<noteq> jkt then
               return (SetHeader TokenDPoPProofInvalid (respond (JSON status_BadRequest
                 (TokenResponseError ''invalid_dpop_proof''
                    ''DPoP key does not match the key this refresh_token was bound to''))))
             else rotate_token E sessionTimeout jkt item) })"

section \<open>What a refresh establishes\<close>

lemma refresh_session_jkt:
  "map_index (se_Metadata (refresh_session s sid now jkt)) dpop_jkt_key = jkt"
  by (simp add: refresh_session_def map_index_put)

lemma template_after_bind_jkt:
  "map_index (se_Metadata s) dpop_jkt_key = jkt \<Longrightarrow>
   map_index (se_Metadata (template_after_bind s jkt)) dpop_jkt_key = jkt"
  by (auto simp: template_after_bind_def map_index_def split: option.splits)

lemma template_after_bind_same:
  assumes "map_index (se_Metadata s) dpop_jkt_key = jkt" "jkt \<noteq> []"
  shows "template_after_bind s jkt = s"
proof -
  from assms obtain m where m: "se_Metadata s = Some m" "m dpop_jkt_key = Some jkt"
    by (auto simp: map_index_def split: option.splits)
  then have "m(dpop_jkt_key \<mapsto> jkt) = m" by (auto simp: fun_eq_iff)
  with m show ?thesis by (cases s) (simp add: template_after_bind_def)
qed

lemma HandleRefreshToken_grants:
  assumes "grants_token (result_of (HandleRefreshToken E rq timeout jkt) w)"
  obtains t item where
    "form_String rq ''refresh_token'' = Inr t" "t \<noteq> []" "jkt \<noteq> []"
    "result_of (RedeemRefreshToken E t) w = Inr item" "rt_JKT item = jkt"
    "result_of (HandleRefreshToken E rq timeout jkt) w =
       result_of (rotate_token E timeout jkt item) (world_after (RedeemRefreshToken E t) w)"
    "world_after (HandleRefreshToken E rq timeout jkt) w =
       world_after (rotate_token E timeout jkt item) (world_after (RedeemRefreshToken E t) w)"
proof -
  let ?t = "value_or [] (form_String rq ''refresh_token'')"
  have j: "jkt \<noteq> []" and t: "?t \<noteq> []"
    using assms by (auto simp: HandleRefreshToken_def split: if_splits)
  from t have f: "form_String rq ''refresh_token'' = Inr ?t"
    by (cases "form_String rq ''refresh_token''") auto
  obtain item where r: "result_of (RedeemRefreshToken E ?t) w = Inr item"
    using assms j t by (cases "result_of (RedeemRefreshToken E ?t) w") (auto simp: HandleRefreshToken_def)
  have k: "rt_JKT item = jkt"
    using assms j t r by (auto simp: HandleRefreshToken_def split: if_splits)
  show ?thesis
    by (rule that [OF f t j r k]) (use j t r k in \<open>simp_all add: HandleRefreshToken_def\<close>)
qed

context cache_api
begin

lemma HandleRefreshToken_absent:
  assumes "form_String rq ''refresh_token'' = Inr t" "held_refresh live w t = None"
  shows "\<not> grants_token (result_of (HandleRefreshToken E rq timeout jkt) w)"
proof
  assume g: "grants_token (result_of (HandleRefreshToken E rq timeout jkt) w)"
  obtain t' item where "form_String rq ''refresh_token'' = Inr t'"
    and "result_of (RedeemRefreshToken E t') w = Inr item"
    by (rule HandleRefreshToken_grants [OF g]) (rule that; assumption)
  with assms refresh.take_ok show False by fastforce
qed

end

end
