(* ===== verification/Token_PreAuth.thy ===== *)
theory Token_PreAuth
  imports Token_Refresh
begin

text \<open>
  The pre-authorized code flow: \<open>preauthGenerate\<close> of \<open>routes/preauth.go\<close>, which creates a code
  and its transaction code, and \<open>HandlePreAuthorized\<close> of \<open>authorizationcode/token.go\<close>, which
  redeems them. The items live in the cache of the authorization codes.
\<close>

section \<open>Creating a pre-authorized code\<close>

text \<open>\<open>sessionID == nil || *sessionID == ""\<close>: a fresh ULID is the subject.\<close>

definition given :: "string option \<Rightarrow> bool" where
  "given v \<longleftrightarrow> (case v of None \<Rightarrow> False | Some s \<Rightarrow> s \<noteq> [])"

definition truthy :: "string option \<Rightarrow> bool" where
  "truthy v \<longleftrightarrow> v = Some ''true'' \<or> v = Some ''1''"

definition preauth_session :: "'w env \<Rightarrow> request \<Rightarrow> string \<Rightarrow> Session" where
  "preauth_session E rq sessionID =
     zero_Session\<lparr>se_Subject := sessionID, se_State := SessionStateAuthorized E,
       se_FirstName := (case rq_form rq ''given_name'' of None \<Rightarrow> [] | Some s \<Rightarrow> s),
       se_LastName := (case rq_form rq ''family_name'' of None \<Rightarrow> [] | Some s \<Rightarrow> s)\<rparr>"

definition preauth_item :: "'w env \<Rightarrow> request \<Rightarrow> string \<Rightarrow> string \<Rightarrow> string \<Rightarrow> AuthCodeItem" where
  "preauth_item E rq preAuthCode sessionID scope =
     \<lparr>ac_Code = preAuthCode, ac_ClientID = ''issuer-backend'', ac_UserID = sessionID,
      ac_RedirectURI = [], ac_CodeChallenge = [], ac_CodeChallengeMethod = [], ac_Scope = scope,
      ac_IssuerState = [], ac_NoTXCode = truthy (rq_form rq ''no_tx_code''),
      ac_Session = preauth_session E rq sessionID\<rparr>"

definition preauthGenerate :: "'w env \<Rightarrow> request \<Rightarrow> ('w, reply) state" where
  "preauthGenerate E rq =
     (let scope = value_or [] (form_String rq ''scope'') in
      if scope = [] then return (respond (Problem ''err:preauth:scopeRequired'' (Some ''scope is required'')))
      else do {
        sessionID \<leftarrow> (case rq_form rq ''session_id'' of
            Some s \<Rightarrow> if s = [] then UlidMake E else return s
          | None \<Rightarrow> UlidMake E);
        preAuthCode \<leftarrow> UlidMake E;
        n \<leftarrow> RandIntn E 90000;
        let txCode = n + 10000;
        let item = preauth_item E rq preAuthCode sessionID scope;
        e \<leftarrow> SetItem E item;
        (case e of
           Some err \<Rightarrow> return (respond (Problem ''err:preauth:itemStoreFailed'' None))
         | None \<Rightarrow>
             let resp = [(''preauth_code'', JStr preAuthCode), (''session_id'', JStr sessionID)]
             in if ac_NoTXCode item then return (respond (JSON 200 (JsonBody (JObj resp))))
                else do {
                  e2 \<leftarrow> SetTXCode E preAuthCode txCode;
                  return (case e2 of
                    Some err \<Rightarrow> respond (Problem ''err:preauth:txCodeStoreFailed'' None)
                  | None \<Rightarrow> respond (JSON 200 (JsonBody (JObj (resp @ [(''tx_code'', JInt txCode)])))) ) }) })"

section \<open>Redeeming it\<close>

text \<open>Attestation: verified when present, required by configuration; \<open>None\<close> goes on.\<close>

definition preauth_attestation ::
    "request \<Rightarrow> string \<Rightarrow> 'w Attester option \<Rightarrow> bool \<Rightarrow> ('w, reply option) state" where
  "preauth_attestation rq jkt attest requireAttestation =
     (let wia = rq_header rq ''OAuth-Client-Attestation'' in
      if wia = [] \<and> requireAttestation then
        return (Some (SetHeader PreAuthAttestationRequired (respond (JSON status_BadRequest
          (TokenResponseError ''invalid_client'' ''client attestation is required'')))))
      else if wia \<noteq> [] then do {
        r \<leftarrow> attestation_branch PreAuthInvalidClient status_BadRequest rq jkt attest wia;
        return (case r of Inl rep \<Rightarrow> Some rep | Inr _ \<Rightarrow> None) }
      else return None)"

text \<open>The code and, unless it was issued without one, its transaction code.\<close>

definition preauth_lookup :: "'w env \<Rightarrow> request \<Rightarrow> ('w, reply + AuthCodeItem) state" where
  "preauth_lookup E rq =
     (let preAuthCode = value_or [] (form_String rq ''pre-authorized_code'') in
      if preAuthCode = [] then
        return (Inl (respond (Problem ''err:session:preAuthCodeMissing''
          (Some ''pre-authorized_code is required''))))
      else do {
        r \<leftarrow> GetPreAuthItem E preAuthCode;
        (case r of
           Inl err \<Rightarrow> return (Inl (respond (Problem ''err:session:preAuthCodeInvalidOrExpired''
             (Some ''Invalid or expired pre-authorized code''))))
         | Inr item \<Rightarrow>
             if ac_NoTXCode item then return (Inr item)
             else do {
               ok \<leftarrow> ValidateTXCode E preAuthCode (value_or [] (form_String rq ''tx_code''));
               if \<not> ok then return (Inl (respond (Problem ''err:session:preAuthTXCodeInvalid''
                 (Some ''Invalid transaction code''))))
               else do {
                 _ \<leftarrow> DeleteTXCode E preAuthCode;
                 return (Inr item) } }) })"

text \<open>A named client that requires DPoP does not get a bearer token.\<close>

definition preauth_needs_dpop :: "'w env \<Rightarrow> request \<Rightarrow> string \<Rightarrow> bool" where
  "preauth_needs_dpop E rq jkt \<longleftrightarrow>
     (case rq_form rq ''client_id'' of
        None \<Rightarrow> False
      | Some clientID \<Rightarrow> clientID \<noteq> [] \<and> jkt = [] \<and>
          (case GetClient E clientID of Inr (Some client) \<Rightarrow> requires_dpop client | _ \<Rightarrow> False))"

definition authorization_detail :: "string \<Rightarrow> (string \<times> json) list \<Rightarrow> json list" where
  "authorization_detail subject ad =
     (if map_of ad ''type'' = Some (JStr ''openid_credential'') then
        let credConfID = as_string (map_of ad ''credential_configuration_id'') in
        [JObj [(''type'', JStr ''openid_credential''),
               (''credential_configuration_id'', JStr credConfID),
               (''credential_identifiers'', JArr [JStr (subject @ '':'' @ credConfID)])]]
      else [])"

definition authorization_details :: "string \<Rightarrow> string option \<Rightarrow> json list" where
  "authorization_details subject rawAD =
     (case rawAD of
        None \<Rightarrow> []
      | Some s \<Rightarrow> if s = [] then [] else (case Unmarshal_maps s of
          None \<Rightarrow> []
        | Some requested \<Rightarrow> concat (map (authorization_detail subject) requested)))"

definition preauth_issue ::
    "'w env \<Rightarrow> request \<Rightarrow> int \<Rightarrow> string \<Rightarrow> AuthCodeItem \<Rightarrow> ('w, reply) state" where
  "preauth_issue E rq sessionTimeout jkt item = do {
     now \<leftarrow> TimeNow E;
     sid \<leftarrow> UlidMake E;
     let session = bind_session (ac_Session item) sid now jkt;
     r \<leftarrow> SessionCreate E session;
     (case r of
        Inl err \<Rightarrow> return (respond (Problem ''err:session:preAuthSessionCreateFailed''
          (Some ''Failed to create session'')))
      | Inr sess \<Rightarrow> do {
          _ \<leftarrow> DeleteItem E (value_or [] (form_String rq ''pre-authorized_code''));
          let details = authorization_details (se_Subject session) (rq_form rq ''authorization_details'');
          return (respond (JSON 200 (JsonBody (JObj (
            [(''access_token'', JStr (se_ID sess)), (''token_type'', JStr (token_type jkt)),
             (''expires_in'', JInt (GetSecondsToLive E sessionTimeout (se_LastAccessed sess))),
             (''scope'', JStr (ac_Scope item))]
            @ (if details \<noteq> [] then [(''authorization_details'', JArr details)] else [])))))) }) }"

definition HandlePreAuthorized ::
    "'w env \<Rightarrow> request \<Rightarrow> int \<Rightarrow> string \<Rightarrow> 'w Attester option \<Rightarrow> bool \<Rightarrow> ('w, reply) state" where
  "HandlePreAuthorized E rq sessionTimeout jkt attest requireAttestation = do {
     a \<leftarrow> preauth_attestation rq jkt attest requireAttestation;
     (case a of
        Some rep \<Rightarrow> return rep
      | None \<Rightarrow> do {
          r \<leftarrow> preauth_lookup E rq;
          (case r of
             Inl rep \<Rightarrow> return rep
           | Inr item \<Rightarrow>
               if preauth_needs_dpop E rq jkt then
                 return (respond (JSON status_BadRequest (TokenResponseError ''invalid_dpop_proof''
                   ''client requires DPoP-bound tokens'')))
               else preauth_issue E rq sessionTimeout jkt item) }) }"

section \<open>Facts about the stages\<close>

lemma preauth_attestation_None:
  assumes "result_of (preauth_attestation rq jkt attest req) w = None"
  shows "req \<longrightarrow> rq_header rq ''OAuth-Client-Attestation'' \<noteq> []"
    and "rq_header rq ''OAuth-Client-Attestation'' \<noteq> [] \<longrightarrow>
      (\<exists>res. result_of (attestation_branch PreAuthInvalidClient status_BadRequest rq jkt attest
          (rq_header rq ''OAuth-Client-Attestation'')) w = Inr res)"
  using assms by (auto simp: preauth_attestation_def Let_def split: if_splits sum.splits)

lemma preauth_attestation_Some:
  assumes "result_of (preauth_attestation rq jkt attest req) w = Some r"
  shows "\<not> grants_token r"
  using assms
  by (auto simp: preauth_attestation_def Let_def split: if_splits sum.splits
      dest: attestation_branch_Inl(1))

lemma preauth_lookup_Inl:
  assumes "result_of (preauth_lookup E rq) w = Inl r"
  shows "\<not> grants_token r"
  using assms by (auto simp: preauth_lookup_def Let_def split: if_splits sum.splits)

lemma HandlePreAuthorized_grants:
  assumes "grants_token (result_of (HandlePreAuthorized E rq timeout jkt attest req) w)"
  obtains item w1 w2 where
    "result_of (preauth_attestation rq jkt attest req) w = None"
    "w1 = world_after (preauth_attestation rq jkt attest req) w"
    "result_of (preauth_lookup E rq) w1 = Inr item"
    "w2 = world_after (preauth_lookup E rq) w1"
    "\<not> preauth_needs_dpop E rq jkt"
    "result_of (HandlePreAuthorized E rq timeout jkt attest req) w = result_of (preauth_issue E rq timeout jkt item) w2"
    "world_after (HandlePreAuthorized E rq timeout jkt attest req) w = world_after (preauth_issue E rq timeout jkt item) w2"
proof -
  have a: "result_of (preauth_attestation rq jkt attest req) w = None"
  proof (cases "result_of (preauth_attestation rq jkt attest req) w")
    case (Some r)
    with assms preauth_attestation_Some [OF Some] show ?thesis by (simp add: HandlePreAuthorized_def)
  qed
  let ?w1 = "world_after (preauth_attestation rq jkt attest req) w"
  obtain item where l: "result_of (preauth_lookup E rq) ?w1 = Inr item"
  proof (cases "result_of (preauth_lookup E rq) ?w1")
    case (Inl r)
    with assms a preauth_lookup_Inl [OF Inl] show ?thesis by (simp add: HandlePreAuthorized_def)
  qed
  have d: "\<not> preauth_needs_dpop E rq jkt"
    using assms a l by (auto simp: HandlePreAuthorized_def)
  show ?thesis
    by (rule that [OF a refl l refl d]) (use a l d in \<open>simp_all add: HandlePreAuthorized_def\<close>)
qed

context cache_api
begin

lemma ValidateTXCode_after_lookup:
  assumes "result_of (ValidateTXCode E c t) (world_after (GetPreAuthItem E c) w)"
  shows "(\<exists>n. held_tx live w c = Some n \<and> Itoa n = t) \<or> t = ''0''"
proof -
  have "shrinks (held_tx live (world_after (GetPreAuthItem E c) w)) (held_tx live w)"
    by (rule shrinks_held(5) [where live = live]) (simp add: world_GetPreAuthItem get_frame)
  then show ?thesis
    using ValidateTXCode_True [OF assms] shrinks_Some by metis
qed

lemma preauth_lookup_Inr:
  assumes "result_of (preauth_lookup E rq) w = Inr item"
  obtains c where "form_String rq ''pre-authorized_code'' = Inr c" "c \<noteq> []"
    "held_code live w c = Some item" "ac_Code item \<noteq> []"
    "\<not> ac_NoTXCode item \<longrightarrow>
       (let t = value_or [] (form_String rq ''tx_code'') in
        (\<exists>n. held_tx live w c = Some n \<and> Itoa n = t) \<or> t = ''0'')"
proof -
  let ?c = "value_or [] (form_String rq ''pre-authorized_code'')"
  have ne: "?c \<noteq> []" using assms by (auto simp: preauth_lookup_def Let_def split: if_splits)
  then have f: "form_String rq ''pre-authorized_code'' = Inr ?c"
    by (cases "form_String rq ''pre-authorized_code''") auto
  have g: "result_of (GetPreAuthItem E ?c) w = Inr item"
    using assms ne by (auto simp: preauth_lookup_def Let_def split: sum.splits if_splits)
  note held = GetPreAuthItem_Inr [OF g]
  let ?t = "value_or [] (form_String rq ''tx_code'')"
  have tx: "\<not> ac_NoTXCode item \<longrightarrow>
      (\<exists>n. held_tx live w ?c = Some n \<and> Itoa n = ?t) \<or> ?t = ''0''"
  proof
    assume n: "\<not> ac_NoTXCode item"
    let ?w1 = "world_after (GetPreAuthItem E ?c) w"
    have "result_of (ValidateTXCode E ?c ?t) ?w1"
      using assms ne g n by (auto simp: preauth_lookup_def Let_def split: if_splits)
    then show "(\<exists>n. held_tx live w ?c = Some n \<and> Itoa n = ?t) \<or> ?t = ''0''"
      by (rule ValidateTXCode_after_lookup)
  qed
  show ?thesis
    by (rule that [OF f ne]) (use held tx in \<open>auto simp: Let_def\<close>)
qed

end

end
