(* ===== verification/Client_Credentials.thy ===== *)
theory Client_Credentials
  imports Token_PreAuth
begin

text \<open>
  \<open>handleClientCredentials\<close> of \<open>routes/token.go\<close>: a client authenticates with a signed assertion
  (RFC 7523) and gets a system session. The JWT library, the PEM parsers of the client keys and
  the classification of the library's errors are parameters, as is \<open>url.JoinPath\<close>.
\<close>

section \<open>Keys of a client\<close>

datatype 'k verification_key = PemKey 'k | SecretKey string

record 'k pem_parsers =
  ParseECPublicKeyFromPEM :: "string \<Rightarrow> go_error + 'k"
  ParseEdPublicKeyFromPEM :: "string \<Rightarrow> go_error + 'k"
  ParseRSAPublicKeyFromPEM :: "string \<Rightarrow> go_error + 'k"

text \<open>
  What the key function returns instead of keys; \<open>CCPanic\<close> is the dereference of a nil client
  without an error, which the registry never returns (\<open>client_registry.no_nil_client\<close>).
\<close>

datatype cc_key_error = CCInvalidClient | CCLookup go_error | CCPanic

definition es_algs :: "string list" where "es_algs = [''ES256'', ''ES384'', ''ES512'']"
definition rs_algs :: "string list" where "rs_algs = [''RS256'', ''RS384'', ''RS512'']"

definition pem_parser :: "'k pem_parsers \<Rightarrow> string \<Rightarrow> (string \<Rightarrow> go_error + 'k) option" where
  "pem_parser Pp alg =
     (if alg \<in> set es_algs then Some (ParseECPublicKeyFromPEM Pp)
      else if alg = ''EdDSA'' then Some (ParseEdPublicKeyFromPEM Pp)
      else if alg \<in> set rs_algs then Some (ParseRSAPublicKeyFromPEM Pp)
      else None)"

text \<open>The loop over the certificates: keys that do not parse are skipped.\<close>

fun cert_keys :: "'k pem_parsers \<Rightarrow> string \<Rightarrow> string list \<Rightarrow> 'k verification_key list
    \<Rightarrow> cc_key_error + 'k verification_key list" where
  "cert_keys Pp alg [] keys = Inr keys"
| "cert_keys Pp alg (cert # certs) keys =
     (case pem_parser Pp alg of
        None \<Rightarrow> Inl CCInvalidClient
      | Some p \<Rightarrow> cert_keys Pp alg certs (case p cert of Inl e \<Rightarrow> keys | Inr k \<Rightarrow> keys @ [PemKey k]))"

fun scope_loop :: "string \<Rightarrow> string list \<Rightarrow> bool" where
  "scope_loop sc [] = False"
| "scope_loop sc (s # ss) = (if sc = s then True else scope_loop sc ss)"

definition client_keys ::
    "'w env \<Rightarrow> 'k pem_parsers \<Rightarrow> TokenRequest \<Rightarrow> RegisteredClaims JwtToken
     \<Rightarrow> cc_key_error + 'k verification_key list" where
  "client_keys E Pp req token =
     (let sub = rc_Subject (jt_Claims token) in
      if sub = [] \<or> (tr_ClientID req \<noteq> [] \<and> sub \<noteq> tr_ClientID req) then Inl CCInvalidClient
      else (case GetClient E sub of
          Inl e \<Rightarrow> Inl (if e = NotFoundError ''client'' then CCInvalidClient else CCLookup e)
        | Inr None \<Rightarrow> Inl CCPanic
        | Inr (Some client) \<Rightarrow>
            if cl_Certificates client = [] \<and> cl_Secrets client = [] then Inl CCInvalidClient
            else if \<not> scope_loop (tr_Scope req) (cl_Scopes client) then Inl CCInvalidClient
            else (case cert_keys Pp (jt_Alg token) (cl_Certificates client) [] of
                Inl e \<Rightarrow> Inl e
              | Inr keys \<Rightarrow>
                  let keys' = keys @ map SecretKey (cl_Secrets client)
                  in if keys' = [] then Inl CCInvalidClient else Inr keys')))"

lemma scope_loop_iff: "scope_loop sc ss \<longleftrightarrow> sc \<in> set ss"
  by (induction ss) auto

section \<open>The handler\<close>

definition ClientAssertationTypeJWTBearer :: string where
  "ClientAssertationTypeJWTBearer = ''urn:ietf:params:oauth:client-assertion-type:jwt-bearer''"

definition assertion_options :: "string \<Rightarrow> jwt_options" where
  "assertion_options aud = \<lparr>opt_ValidMethods = es_algs @ [''EdDSA''] @ rs_algs,
     opt_Leeway = 30 * second, opt_ExpirationRequired = False, opt_Audience = Some aud,
     opt_IssuedAt = True\<rparr>"

text \<open>How \<open>errors.As\<close> and \<open>errors.Is\<close> see an error of \<open>ParseWithClaims\<close>.\<close>

datatype jwt_error_class = IsTokenResponse string string | IsJwtError | IsOther

record ('w, 'k) assertion_lib =
  al_parse :: "('w, RegisteredClaims, 'k verification_key list, cc_key_error) jwt_parser"
  al_class :: "go_error \<Rightarrow> jwt_error_class"
  al_pem :: "'k pem_parsers"
  al_JoinPath :: "string \<Rightarrow> string \<Rightarrow> go_error + string"

definition unsupportedGrantType :: body where
  "unsupportedGrantType = TokenResponseError ''unsupported_grant_type'' ''Unsupported grant type''"

definition invalidClient :: body where
  "invalidClient = TokenResponseError ''invalid_client'' ''Invalid client: Possible causes may be missing / invalid client_id, missing client authentication, invalid or expired client secret, invalid or expired JWT authentication, invalid or expired client X.509 certificate, or an unexpected client authentication method''"

definition invalidDPoPProof :: body where
  "invalidDPoPProof = TokenResponseError ''invalid_dpop_proof'' ''Invalid DPoP proof: missing, malformed, expired, replayed, or bound to a different request''"

definition reject_assertion :: "body \<Rightarrow> reply" where
  "reject_assertion b = SetHeader ClientCredentialsAssertionInvalid (respond (JSON status_BadRequest b))"

text \<open>
  \<open>jwt.RegisteredClaims.GetExpirationTime\<close> never returns an error; the condition is the code's
  \<open>err != nil && time.Until(exp.Time) > 5*time.Minute\<close>.
\<close>

definition GetExpirationTime :: "RegisteredClaims \<Rightarrow> int option \<times> go_error option" where
  "GetExpirationTime c = (rc_ExpiresAt c, None)"

definition exp_too_far :: "int \<Rightarrow> RegisteredClaims \<Rightarrow> bool" where
  "exp_too_far now c =
     (case GetExpirationTime c of (exp, err) \<Rightarrow>
        err \<noteq> None \<and> (case exp of None \<Rightarrow> False | Some t \<Rightarrow> t - now > 5 * minute))"

definition system_role :: RoleEntity where
  "system_role = \<lparr>role_ID = ''system'', role_Code = ''system'', role_Name = ''System''\<rparr>"

definition system_session :: "'w env \<Rightarrow> string \<Rightarrow> int \<Rightarrow> string \<Rightarrow> string \<Rightarrow> Session" where
  "system_session E sessID now scope jkt =
     zero_Session\<lparr>se_ID := sessID, se_Subject := ''SYSTEM'',
       se_Rights := [\<lparr>gr_RoleID = role_ID system_role, gr_RightCode = scope\<rparr>],
       se_LastAccessed := Some now, se_State := SessionStateAuthorized E,
       se_Role := Some system_role, se_Roles := [system_role],
       se_Metadata := (if jkt \<noteq> [] then Some [dpop_jkt_key \<mapsto> jkt] else None)\<rparr>"

text \<open>The assertion's id: once seen it is refused; a failing cache does not stop the request.\<close>

definition assertion_jti :: "'w env \<Rightarrow> string \<Rightarrow> ('w, bool) state" where
  "assertion_jti E jti = do {
     r \<leftarrow> cache_Get as_Bool False E ''system-token-jti'' jti;
     if value_or False r then return True
     else do {
       _ \<leftarrow> CacheSet E ''system-token-jti'' jti (BoolVal True);
       return False } }"

text \<open>The last part: the session and the token, for an accepted assertion.\<close>

definition issue_system_token ::
    "'w env \<Rightarrow> int \<Rightarrow> TokenRequest \<Rightarrow> string \<Rightarrow> RegisteredClaims \<Rightarrow> ('w, reply) state" where
  "issue_system_token E sessionTimeout req jkt claims =
     (if jkt = [] \<and> (case GetClient E (rc_Subject claims) of
            Inr (Some client) \<Rightarrow> requires_dpop client | _ \<Rightarrow> False) then
        return (SetHeader TokenDPoPProofMissing (respond (JSON status_BadRequest invalidDPoPProof)))
      else do {
        sessID \<leftarrow> UlidMake E;
        now \<leftarrow> TimeNow E;
        r \<leftarrow> SessionCreate E (system_session E sessID now (tr_Scope req) jkt);
        return (case r of
          Inl err \<Rightarrow> respond (Problem ''err:token:sessionCreateFailed'' None)
        | Inr sess \<Rightarrow> respond (JSON 200 (TokenResponseBody
            \<lparr>resp_AccessToken = se_ID sess, resp_TokenType = token_type jkt,
             resp_ExpiresIn = GetSecondsToLive E sessionTimeout (se_LastAccessed sess),
             resp_Scope = [], resp_RefreshToken = []\<rparr>))) })"

definition accept_assertion ::
    "'w env \<Rightarrow> int \<Rightarrow> TokenRequest \<Rightarrow> string \<Rightarrow> RegisteredClaims JwtToken \<Rightarrow> ('w, reply) state" where
  "accept_assertion E sessionTimeout req jkt token =
     (let claims = jt_Claims token in
      if \<not> jt_Valid token then return (reject_assertion invalidClient)
      else do {
        now \<leftarrow> (if snd (GetExpirationTime claims) \<noteq> None then TimeNow E else return 0);
        if exp_too_far now claims then return (reject_assertion invalidClient)
        else if rc_ID claims = [] then return (reject_assertion invalidClient)
        else do {
          seen \<leftarrow> assertion_jti E (rc_ID claims);
          if seen then return (reject_assertion invalidClient)
          else issue_system_token E sessionTimeout req jkt claims } })"

definition handleClientCredentials ::
    "'w env \<Rightarrow> ('w, 'k) assertion_lib \<Rightarrow> int \<Rightarrow> request \<Rightarrow> string \<Rightarrow> ('w, reply) state" where
  "handleClientCredentials E L sessionTimeout rq jkt =
     (case rq_body rq of
        Inl e \<Rightarrow> return (respond (Problem ''err:token:invalidRequestBody'' None))
      | Inr req \<Rightarrow>
          if tr_ClientAssertionType req \<noteq> ClientAssertationTypeJWTBearer then
            return (SetHeader ClientCredentialsUnsupportedAssertionType
              (respond (JSON status_BadRequest unsupportedGrantType)))
          else (case al_JoinPath L (rq_base_url rq) (rq_router_path rq) of
              Inl e \<Rightarrow> return (respond (Problem ''err:token:audienceBuildFailed'' None))
            | Inr aud \<Rightarrow> do {
                r \<leftarrow> al_parse L (assertion_options aud) (tr_ClientAssertion req) (client_keys E (al_pem L) req);
                (case r of
                   Inl err \<Rightarrow> return (case al_class L err of
                       IsTokenResponse ty desc \<Rightarrow> reject_assertion (TokenResponseError ty desc)
                     | IsJwtError \<Rightarrow> reject_assertion invalidClient
                     | IsOther \<Rightarrow> respond (Problem ''err:token:assertionParseFailed'' None))
                 | Inr token \<Rightarrow> accept_assertion E sessionTimeout req jkt token) }))"

section \<open>What a token of this grant establishes\<close>

lemma exp_too_far_never: "\<not> exp_too_far now c"
  by (simp add: exp_too_far_def GetExpirationTime_def)

lemma reject_not_grants [simp]: "\<not> grants_token (reject_assertion invalidClient)"
  "\<not> grants_token (reject_assertion (TokenResponseError a b))"
  by (simp_all add: reject_assertion_def invalidClient_def)

lemma invalidDPoPProof_not_grants [simp]:
  "\<not> grants_token (respond (JSON s invalidDPoPProof))"
  "\<not> grants_token (respond (JSON s unsupportedGrantType))"
  by (simp_all add: invalidDPoPProof_def unsupportedGrantType_def)

lemma cert_keys_PemKey:
  "cert_keys Pp alg certs keys = Inr ks \<Longrightarrow>
   \<exists>new. ks = keys @ new \<and> (\<forall>k\<in>set new. \<exists>p c k'. c \<in> set certs \<and> pem_parser Pp alg = Some p
       \<and> p c = Inr k' \<and> k = PemKey k')"
proof (induction Pp alg certs keys rule: cert_keys.induct)
  case (2 Pp alg cert certs keys)
  then obtain p where p: "pem_parser Pp alg = Some p" by (auto split: option.splits)
  from "2.IH" [OF p] "2.prems" p obtain new where n:
    "ks = (case p cert of Inl e \<Rightarrow> keys | Inr k \<Rightarrow> keys @ [PemKey k]) @ new"
    "\<forall>k\<in>set new. \<exists>p c k'. c \<in> set certs \<and> pem_parser Pp alg = Some p \<and> p c = Inr k' \<and> k = PemKey k'"
    by auto
  show ?case
  proof (cases "p cert")
    case (Inl e)
    with n show ?thesis by (intro exI [of _ new]) fastforce
  next
    case (Inr k)
    with n p show ?thesis by (intro exI [of _ "PemKey k # new"]) fastforce
  qed
qed simp

lemma client_keys_Inr:
  assumes "client_keys E Pp req token = Inr ks"
  obtains client where
    "rc_Subject (jt_Claims token) \<noteq> []"
    "tr_ClientID req = [] \<or> tr_ClientID req = rc_Subject (jt_Claims token)"
    "GetClient E (rc_Subject (jt_Claims token)) = Inr (Some client)"
    "tr_Scope req \<in> set (cl_Scopes client)"
    "ks \<noteq> []"
    "\<forall>k\<in>set ks. (\<exists>s\<in>set (cl_Secrets client). k = SecretKey s) \<or>
       (\<exists>c\<in>set (cl_Certificates client). \<exists>p k'. pem_parser Pp (jt_Alg token) = Some p \<and> p c = Inr k' \<and> k = PemKey k')"
proof -
  note a = assms [unfolded client_keys_def Let_def]
  obtain client keys where c: "GetClient E (rc_Subject (jt_Claims token)) = Inr (Some client)"
    and k: "cert_keys Pp (jt_Alg token) (cl_Certificates client) [] = Inr keys"
    and ks: "ks = keys @ map SecretKey (cl_Secrets client)" "ks \<noteq> []"
    and sc: "tr_Scope req \<in> set (cl_Scopes client)"
    using a by (auto simp: scope_loop_iff split: if_splits sum.splits option.splits)
  show ?thesis
    by (rule that [OF _ _ c sc ks(2)]) (use a ks cert_keys_PemKey [OF k] in \<open>auto split: if_splits\<close>)
qed

lemma issue_system_token_grants:
  assumes "grants_token (result_of (issue_system_token E timeout req jkt claims) w)"
  shows "jkt = [] \<longrightarrow> (\<forall>c. GetClient E (rc_Subject claims) = Inr (Some c) \<longrightarrow> \<not> requires_dpop c)"
    and "\<exists>t. content (result_of (issue_system_token E timeout req jkt claims) w) = JSON 200 (TokenResponseBody t)
      \<and> resp_TokenType t = token_type jkt \<and> resp_RefreshToken t = []"
  using assms by (auto simp: issue_system_token_def split: if_splits sum.splits)

lemma accept_assertion_grants:
  assumes "grants_token (result_of (accept_assertion E timeout req jkt token) w)"
  shows "jt_Valid token" "rc_ID (jt_Claims token) \<noteq> []"
    and "\<not> result_of (assertion_jti E (rc_ID (jt_Claims token))) w"
    and "result_of (accept_assertion E timeout req jkt token) w =
       result_of (issue_system_token E timeout req jkt (jt_Claims token))
         (world_after (assertion_jti E (rc_ID (jt_Claims token))) w)"
  using assms
  by (auto simp: accept_assertion_def Let_def GetExpirationTime_def exp_too_far_never split: if_splits)

lemma handleClientCredentials_grants:
  assumes "grants_token (result_of (handleClientCredentials E L timeout rq jkt) w)"
  obtains req aud token w1 where
    "rq_body rq = Inr req" "tr_ClientAssertionType req = ClientAssertationTypeJWTBearer"
    "result_of (al_parse L (assertion_options aud) (tr_ClientAssertion req) (client_keys E (al_pem L) req)) w = Inr token"
    "w1 = world_after (al_parse L (assertion_options aud) (tr_ClientAssertion req) (client_keys E (al_pem L) req)) w"
    "grants_token (result_of (accept_assertion E timeout req jkt token) w1)"
    "result_of (handleClientCredentials E L timeout rq jkt) w = result_of (accept_assertion E timeout req jkt token) w1"
    "world_after (handleClientCredentials E L timeout rq jkt) w = world_after (accept_assertion E timeout req jkt token) w1"
proof -
  obtain req where b: "rq_body rq = Inr req"
    using assms by (cases "rq_body rq") (auto simp: handleClientCredentials_def)
  have t: "tr_ClientAssertionType req = ClientAssertationTypeJWTBearer"
    using assms b by (auto simp: handleClientCredentials_def split: if_splits)
  obtain aud where j: "al_JoinPath L (rq_base_url rq) (rq_router_path rq) = Inr aud"
    using assms b t by (cases "al_JoinPath L (rq_base_url rq) (rq_router_path rq)")
      (auto simp: handleClientCredentials_def)
  let ?p = "al_parse L (assertion_options aud) (tr_ClientAssertion req) (client_keys E (al_pem L) req)"
  obtain token where p: "result_of ?p w = Inr token"
    using assms b t j by (cases "result_of ?p w") (auto simp: handleClientCredentials_def split: jwt_error_class.splits)
  show ?thesis
    by (rule that [OF b t p refl]) (use assms b t j p in \<open>simp_all add: handleClientCredentials_def\<close>)
qed

end
