(* ===== verification/Token_Route.thy ===== *)
theory Token_Route
  imports Client_Credentials
begin

text \<open>
  \<open>router.token\<close> and \<open>router.dpopJKT\<close> of \<open>routes/token.go\<close>: the DPoP proof is checked first, then
  the grant type selects the handler. \<open>router\<close> gathers what the handlers of package \<open>routes\<close> read:
  configuration values and the components built by \<open>Init\<close>.
\<close>

record ('w, 'k) router =
  ro_SessionTimeout :: int
  ro_RequireClientAttestationPreauth :: bool
  ro_RequireIntrospectionAuth :: bool
  ro_RequirePAR :: bool
  ro_PARTTL :: int
  ro_PublicURL :: string
  ro_Store :: Store
  ro_dpop :: "'w Validator"
  ro_dpop_parse :: "('w, proofClaims, ec_point, string) jwt_parser"
  ro_attest :: "'w Attester option"
  ro_assertions :: "('w, 'k) assertion_lib"

definition no_store :: "reply \<Rightarrow> reply" where
  "no_store r = set_header ''Cache-Control'' ''no-store'' r"

lemma no_store_simps [simp]:
  "content (no_store r) = content r" "grants_token (no_store r) = grants_token r"
  "problem_registered (no_store r) = problem_registered r"
  by (simp_all add: no_store_def)

definition dpopJKT :: "'w env \<Rightarrow> ('w, 'k) router \<Rightarrow> request \<Rightarrow> ('w, reply + string) state" where
  "dpopJKT E R rq =
     (let prf = rq_header rq HeaderName in
      if prf = [] then return (Inr [])
      else do {
        r \<leftarrow> dpop_Validate E (ro_dpop_parse R) (ro_dpop R) prf ''POST'' [];
        return (case r of
          Inl err \<Rightarrow> Inl (SetHeader TokenDPoPProofInvalid (respond (JSON status_BadRequest invalidDPoPProof)))
        | Inr jkt \<Rightarrow> Inr jkt) })"

definition GrantTypeAuthorizationCode :: string where "GrantTypeAuthorizationCode = ''authorization_code''"
definition GrantTypeRefreshToken :: string where "GrantTypeRefreshToken = ''refresh_token''"
definition GrantTypePreAuthorizedCode :: string where
  "GrantTypePreAuthorizedCode = ''urn:ietf:params:oauth:grant-type:pre-authorized_code''"

definition dispatch_grant :: "'w env \<Rightarrow> ('w, 'k) router \<Rightarrow> request \<Rightarrow> string \<Rightarrow> ('w, reply) state" where
  "dispatch_grant E R rq jkt =
     (let grantType = rq_form rq ''grant_type'' in
      if grantType = Some GrantTypeAuthorizationCode then
        HandleAuthorization E rq (ro_SessionTimeout R) jkt (ro_attest R)
      else if grantType = Some GrantTypeRefreshToken then
        HandleRefreshToken E rq (ro_SessionTimeout R) jkt
      else if grantType = Some GrantTypePreAuthorizedCode then
        HandlePreAuthorized E rq (ro_SessionTimeout R) jkt (ro_attest R) (ro_RequireClientAttestationPreauth R)
      else handleClientCredentials E (ro_assertions R) (ro_SessionTimeout R) rq jkt)"

definition token :: "'w env \<Rightarrow> ('w, 'k) router \<Rightarrow> request \<Rightarrow> ('w, reply) state" where
  "token E R rq = do {
     j \<leftarrow> dpopJKT E R rq;
     (case j of
        Inl rep \<Rightarrow> return (no_store rep)
      | Inr jkt \<Rightarrow> do { r \<leftarrow> dispatch_grant E R rq jkt; return (no_store r) }) }"

section \<open>Facts\<close>

lemma grant_types_distinct:
  "GrantTypeAuthorizationCode \<noteq> GrantTypeRefreshToken"
  "GrantTypeAuthorizationCode \<noteq> GrantTypePreAuthorizedCode"
  "GrantTypeRefreshToken \<noteq> GrantTypePreAuthorizedCode"
  by (simp_all add: GrantTypeAuthorizationCode_def GrantTypeRefreshToken_def GrantTypePreAuthorizedCode_def)

lemma dpop_Validate_Inr:
  assumes "result_of (dpop_Validate E parse v prf method accessToken) w = Inr jkt"
  obtains t now where
    "result_of (parse proof_options prf (\<lambda>t. map_sum id fst (proof_key t))) w = Inr t"
    "jkt = (case proof_key t of Inr (k, tp) \<Rightarrow> tp | Inl _ \<Rightarrow> [])"
    "check_claims v now method accessToken (jt_Claims t) = None"
    "\<forall>replay. va_replay v = Some replay \<longrightarrow>
       (\<exists>w'. result_of (replay (rc_ID (pc_Registered (jt_Claims t)))) w' = Inr False)"
proof -
  let ?p = "parse proof_options prf (\<lambda>t. map_sum id fst (proof_key t))"
  obtain t where t: "result_of ?p w = Inr t"
    using assms by (cases "result_of ?p w") (auto simp: dpop_Validate_def)
  define now where "now = result_of (TimeNow E) (world_after ?p w)"
  have c: "check_claims v now method accessToken (jt_Claims t) = None"
    using assms t by (cases "check_claims v now method accessToken (jt_Claims t)")
      (auto simp: dpop_Validate_def now_def Let_def)
  have j: "jkt = (case proof_key t of Inr (k, tp) \<Rightarrow> tp | Inl _ \<Rightarrow> [])"
    using assms t c
    by (auto simp: dpop_Validate_def now_def Let_def split: option.splits sum.splits if_splits)
  have r: "\<forall>replay. va_replay v = Some replay \<longrightarrow>
       (\<exists>w'. result_of (replay (rc_ID (pc_Registered (jt_Claims t)))) w' = Inr False)"
    using assms t c
    by (auto simp: dpop_Validate_def now_def Let_def split: sum.splits if_splits)
  show ?thesis by (rule that [OF t j c r])
qed

lemma check_claims_None:
  assumes "check_claims v now method accessToken c = None"
  shows "\<exists>iat. rc_IssuedAt (pc_Registered c) = Some iat \<and> \<not> outside_window now iat (va_iatWindow v)"
    and "pc_HTM c = method" "pc_HTU c \<in> va_htus v" "rc_ID (pc_Registered c) \<noteq> []"
    and "accessToken \<noteq> [] \<longrightarrow> pc_ATH c = RawEncodeToString URLAlphabet (Sum256 accessToken)"
  using assms by (auto simp: check_claims_def split: option.splits if_splits)

lemma dpopJKT_Inl: "result_of (dpopJKT E R rq) w = Inl r \<Longrightarrow> \<not> grants_token r"
  by (auto simp: dpopJKT_def Let_def split: if_splits sum.splits)

lemma token_grants:
  assumes "grants_token (result_of (token E R rq) w)"
  obtains jkt w1 where
    "result_of (dpopJKT E R rq) w = Inr jkt" "w1 = world_after (dpopJKT E R rq) w"
    "grants_token (result_of (dispatch_grant E R rq jkt) w1)"
    "result_of (token E R rq) w = no_store (result_of (dispatch_grant E R rq jkt) w1)"
    "world_after (token E R rq) w = world_after (dispatch_grant E R rq jkt) w1"
proof -
  obtain jkt where j: "result_of (dpopJKT E R rq) w = Inr jkt"
  proof (cases "result_of (dpopJKT E R rq) w")
    case (Inl r)
    with assms dpopJKT_Inl [OF Inl] show ?thesis by (simp add: token_def)
  qed
  show ?thesis by (rule that [OF j refl]) (use assms j in \<open>simp_all add: token_def\<close>)
qed

end
