(* ===== verification/Go_Url.thy ===== *)
theory Go_Url
  imports Go_Json
begin

text \<open>
  The part of \<open>net/url\<close> the repository uses: \<open>QueryEscape\<close> and \<open>Values.Encode\<close>. \<open>ParseQuery\<close> is
  the reader of such a query; it serves to state what an encoded query means.
\<close>

section \<open>Escaping\<close>

definition unreserved :: "char \<Rightarrow> bool" where
  "unreserved c \<longleftrightarrow> (let n = byte c in (48 \<le> n \<and> n \<le> 57) \<or> (65 \<le> n \<and> n \<le> 90) \<or> (97 \<le> n \<and> n \<le> 122)
     \<or> n = 45 \<or> n = 95 \<or> n = 46 \<or> n = 126)"

definition upper_hex :: "nat \<Rightarrow> char" where
  "upper_hex d = ''0123456789ABCDEF'' ! d"

definition escape_byte :: "char \<Rightarrow> string" where
  "escape_byte c =
     (if unreserved c then [c]
      else if byte c = 32 then ''+''
      else [CHR ''%'', upper_hex (byte c div 16), upper_hex (byte c mod 16)])"

definition QueryEscape :: "string \<Rightarrow> string" where
  "QueryEscape s = concat (map escape_byte s)"

fun QueryUnescape :: "string \<Rightarrow> string option" where
  "QueryUnescape [] = Some []"
| "QueryUnescape (c # s) =
     (if c = CHR ''%'' then
        (case s of
           h # l # t \<Rightarrow>
             (case (hex_val h, hex_val l) of
                (Some x, Some y) \<Rightarrow> map_option (Cons (char_of (16 * x + y))) (QueryUnescape t)
              | _ \<Rightarrow> None)
         | _ \<Rightarrow> None)
      else map_option (Cons (if c = CHR ''+'' then CHR '' '' else c)) (QueryUnescape s))"

section \<open>Values\<close>

text \<open>
  \<open>url.Values\<close> is a map from keys to lists; \<open>Add\<close> appends. A list of pairs in the order of the
  additions carries the same information, and \<open>Encode\<close> writes it in key order, keeping the
  order of the values of one key.
\<close>

definition encode_pair :: "string \<times> string \<Rightarrow> string" where
  "encode_pair kv = QueryEscape (fst kv) @ CHR ''='' # QueryEscape (snd kv)"

definition Values_Encode :: "(string \<times> string) list \<Rightarrow> string" where
  "Values_Encode vs = Join (CHR ''&'') (map encode_pair (sort_key fst vs))"

definition decode_pair :: "string \<Rightarrow> (string \<times> string) option" where
  "decode_pair s = (case SplitN2 (CHR ''='') s of
      [k, v] \<Rightarrow> (case (QueryUnescape k, QueryUnescape v) of
          (Some k', Some v') \<Rightarrow> Some (k', v') | _ \<Rightarrow> None)
    | [k] \<Rightarrow> map_option (\<lambda>k'. (k', [])) (QueryUnescape k)
    | _ \<Rightarrow> None)"

fun all_some :: "'a option list \<Rightarrow> 'a list option" where
  "all_some [] = Some []"
| "all_some (None # xs) = None"
| "all_some (Some x # xs) = map_option (Cons x) (all_some xs)"

definition ParseQuery :: "string \<Rightarrow> (string \<times> string) list option" where
  "ParseQuery q = all_some (map decode_pair (filter (\<lambda>p. p \<noteq> []) (Split (CHR ''&'') q)))"

section \<open>The round trip\<close>

lemma hex_val_upper: "d < 16 \<Longrightarrow> hex_val (upper_hex d) = Some d"
proof -
  have "\<forall>d\<in>{..<16}. hex_val (upper_hex d) = Some d"
    by (simp add: lessThan_nat_numeral lessThan_Suc hex_val_def upper_hex_def byte_def Let_def)
  then show "d < 16 \<Longrightarrow> hex_val (upper_hex d) = Some d" by simp
qed

lemma char_of_byte: "char_of (byte c) = c"
  by (simp add: byte_def)

lemma unescape_escape_byte: "QueryUnescape (escape_byte c @ s) = map_option (Cons c) (QueryUnescape s)"
proof -
  consider "unreserved c" | "\<not> unreserved c" "byte c = 32" | "\<not> unreserved c" "byte c \<noteq> 32" by blast
  then show ?thesis
  proof cases
    case 1
    then have "c \<noteq> CHR ''%''" "c \<noteq> CHR ''+''"
      by (auto simp: unreserved_def byte_def)
    with 1 show ?thesis by (simp add: escape_byte_def)
  next
    case 2
    then have "c = CHR '' ''"
      using char_of_byte [of c] by (simp add: char_of_def bit_Suc_0_iff)
    with 2 show ?thesis by (simp add: escape_byte_def)
  next
    case 3
    have "byte c < 256" by (simp add: byte_def)
    then have "hex_val (upper_hex (byte c div 16)) = Some (byte c div 16)"
      "hex_val (upper_hex (byte c mod 16)) = Some (byte c mod 16)"
      by (auto intro: hex_val_upper)
    with 3 char_of_byte [of c] show ?thesis by (simp add: escape_byte_def)
  qed
qed

lemma unescape_escape: "QueryUnescape (QueryEscape s) = Some s"
  by (induction s) (simp_all add: QueryEscape_def unescape_escape_byte)

lemma escape_byte_chars: "x \<in> set (escape_byte c) \<Longrightarrow> x \<noteq> CHR ''&'' \<and> x \<noteq> CHR ''=''"
proof -
  have "\<forall>d\<in>{..<16}. upper_hex d \<noteq> CHR ''&'' \<and> upper_hex d \<noteq> CHR ''=''"
    by (simp add: lessThan_nat_numeral lessThan_Suc upper_hex_def)
  moreover have "byte c div 16 \<in> {..<16}" "byte c mod 16 \<in> {..<16}"
  proof -
    have "byte c < 256" by (simp add: byte_def)
    then show "byte c div 16 \<in> {..<16}" "byte c mod 16 \<in> {..<16}" by auto
  qed
  ultimately show "x \<in> set (escape_byte c) \<Longrightarrow> x \<noteq> CHR ''&'' \<and> x \<noteq> CHR ''=''"
    by (auto simp: escape_byte_def unreserved_def byte_def split: if_splits)
qed

lemma escape_chars: "CHR ''&'' \<notin> set (QueryEscape s)" "CHR ''='' \<notin> set (QueryEscape s)"
  using escape_byte_chars by (auto simp: QueryEscape_def)

lemma decode_encode_pair: "decode_pair (encode_pair kv) = Some kv"
  by (simp add: decode_pair_def encode_pair_def SplitN2_append escape_chars unescape_escape)

lemma encode_pair_chars: "CHR ''&'' \<notin> set (encode_pair kv)" "encode_pair kv \<noteq> []"
  by (simp_all add: encode_pair_def escape_chars)

lemma all_some_map_Some: "all_some (map (\<lambda>x. Some (f x)) xs) = Some (map f xs)"
  by (induction xs) simp_all

lemma ParseQuery_Encode: "ParseQuery (Values_Encode vs) = Some (sort_key fst vs)"
proof (cases "vs = []")
  case True
  then show ?thesis by (simp add: ParseQuery_def Values_Encode_def)
next
  case False
  let ?ps = "map encode_pair (sort_key fst vs)"
  have "Split (CHR ''&'') (Values_Encode vs) = ?ps"
    unfolding Values_Encode_def
  proof (rule Split_Join)
    from False have "length (sort_key fst vs) \<noteq> 0" by simp
    then show "?ps \<noteq> []" by fastforce
    show "\<forall>p\<in>set ?ps. CHR ''&'' \<notin> set p" by (simp add: encode_pair_chars)
  qed
  moreover have "filter (\<lambda>p. p \<noteq> []) ?ps = ?ps"
    by (simp add: encode_pair_chars filter_True)
  ultimately show ?thesis
    using all_some_map_Some [of id] by (simp add: ParseQuery_def decode_encode_pair comp_def)
qed

end
