(* ===== verification/Par.thy ===== *)
theory Par
  imports Token_Route Go_Url
begin

text \<open>
  The authorization endpoint: \<open>routes/par.go\<close> (pushed authorization requests) and
  \<open>routes/authorization.go\<close> (the browser redirect, from parameters or from a pushed request).
\<close>

section \<open>Pushing a request\<close>

definition parError :: "nat \<Rightarrow> string \<Rightarrow> string \<Rightarrow> reply" where
  "parError status code desc = respond (JSON status (JsonBody (JObj
     [(''error'', JStr code), (''error_description'', JStr desc)])))"

definition parURNPrefix :: string where
  "parURNPrefix = ''urn:ietf:params:oauth:request_uri:''"

text \<open>\<open>int(d.Seconds())\<close>: whole seconds, towards zero.\<close>

definition whole_seconds :: "int \<Rightarrow> int" where
  "whole_seconds d = sgn d * (\<bar>d\<bar> div second)"

text \<open>The checks after the attestation: the error reply, or the client id.\<close>

definition par_checks :: "'w env \<Rightarrow> Store \<Rightarrow> request \<Rightarrow> string \<Rightarrow> reply + string" where
  "par_checks E store rq attested =
     (case rq_form rq ''client_id'' of
        None \<Rightarrow> Inl (parError 400 ''invalid_request'' ''client_id is required'')
      | Some clientID \<Rightarrow>
        if clientID = [] then Inl (parError 400 ''invalid_request'' ''client_id is required'')
        else if attested \<noteq> clientID then
          Inl (parError 401 ''invalid_client'' ''attestation does not match client_id'')
        else (case GetClient E clientID of
            Inl e \<Rightarrow> Inl (parError 400 ''invalid_client'' ''unknown client'')
          | Inr None \<Rightarrow> Inl (parError 400 ''invalid_client'' ''unknown client'')
          | Inr (Some client) \<Rightarrow>
            if \<not> opt_holds (\<lambda>u. u \<in> set (cl_RedirectURI client)) (rq_form rq ''redirect_uri'') then
              Inl (parError 400 ''invalid_request'' ''invalid redirect_uri'')
            else if rq_form rq ''response_type'' \<noteq> Some ''code'' then
              Inl (parError 400 ''invalid_request'' ''only response_type=code is supported'')
            else if \<not> opt_holds (\<lambda>c. 43 \<le> length c \<and> length c \<le> 128) (rq_form rq ''code_challenge'') then
              Inl (parError 400 ''invalid_request'' ''code_challenge is required (43-128 chars)'')
            else if rq_form rq ''code_challenge_method'' \<noteq> Some ''S256'' then
              Inl (parError 400 ''invalid_request'' ''code_challenge_method must be S256'')
            else if \<not> opt_holds (IsScopeSupported store) (rq_form rq ''scope'') then
              Inl (parError 400 ''invalid_scope'' ''unsupported scope'')
            else Inr clientID))"

definition par :: "'w env \<Rightarrow> ('w, 'k) router \<Rightarrow> request \<Rightarrow> ('w, reply) state" where
  "par E R rq =
     (case ro_attest R of
        None \<Rightarrow> return (no_store (parError 401 ''invalid_client'' ''client attestation not supported''))
      | Some a \<Rightarrow> do {
          r \<leftarrow> at_Verify a (rq_header rq ''OAuth-Client-Attestation'') (rq_header rq ''OAuth-Client-Attestation-PoP'');
          (case r of
             Inl err \<Rightarrow> return (no_store (parError 401 ''invalid_client'' ''invalid client attestation''))
           | Inr res \<Rightarrow>
             (case par_checks E (ro_Store R) rq (ar_ClientID res) of
                Inl rep \<Rightarrow> return (no_store rep)
              | Inr clientID \<Rightarrow> do {
                  i \<leftarrow> SetPAR E \<lparr>par_ClientID = clientID, par_RawQuery = Values_Encode (rq_post_args rq)\<rparr>;
                  return (no_store (case i of
                    Inl err \<Rightarrow> parError 500 ''server_error'' ''failed to store request''
                  | Inr i \<Rightarrow> respond (JSON 201 (JsonBody (JObj
                      [(''request_uri'', JStr (parURNPrefix @ i)),
                       (''expires_in'', JInt (whole_seconds (ro_PARTTL R)))]))))) })) })"

section \<open>The authorization endpoint\<close>

definition authorizeDelegatePath :: string where
  "authorizeDelegatePath = ''/authorize''"

definition badAuthRequest :: "string \<Rightarrow> reply" where
  "badAuthRequest msg = respond (JSON 400 (JsonBody (JObj
     [(''error'', JStr ''invalid_request''), (''error_description'', JStr msg)])))"

definition redirectAuthError :: "string \<Rightarrow> string option \<Rightarrow> string \<Rightarrow> string \<Rightarrow> reply" where
  "redirectAuthError redirectURI state code desc =
     respond (Redirect (redirectURI @ (if Contains redirectURI ''?'' then ''&'' else ''?'')
       @ Values_Encode ([(''error'', code), (''error_description'', desc)]
           @ (if given state then [(''state'', the state)] else []))))"

definition authorizationV3FromPAR :: "'w env \<Rightarrow> request \<Rightarrow> string \<Rightarrow> ('w, reply) state" where
  "authorizationV3FromPAR E rq requestURI =
     (let clientID = rq_query rq ''client_id'' in
      if \<not> given clientID then return (badAuthRequest ''client_id is required alongside request_uri'')
      else if \<not> HasPrefix requestURI parURNPrefix then return (badAuthRequest ''invalid request_uri'')
      else do {
        r \<leftarrow> PopPAR E (TrimPrefix requestURI parURNPrefix);
        return (case r of
          Inl err \<Rightarrow> badAuthRequest ''invalid or expired request_uri''
        | Inr item \<Rightarrow>
            if Some (par_ClientID item) \<noteq> clientID then badAuthRequest ''client_id does not match pushed request''
            else respond (Redirect (authorizeDelegatePath @ ''?'' @ par_RawQuery item))) })"

definition authorize_checks :: "'w env \<Rightarrow> Store \<Rightarrow> request \<Rightarrow> reply" where
  "authorize_checks E store rq =
     (case rq_query rq ''client_id'' of
        None \<Rightarrow> badAuthRequest ''client_id is required''
      | Some clientID \<Rightarrow>
        if clientID = [] then badAuthRequest ''client_id is required''
        else (case GetClient E clientID of
            Inl e \<Rightarrow> badAuthRequest ''unknown client''
          | Inr None \<Rightarrow> badAuthRequest ''unknown client''
          | Inr (Some client) \<Rightarrow>
            (case rq_query rq ''redirect_uri'' of
               None \<Rightarrow> badAuthRequest ''invalid redirect_uri''
             | Some redirectURI \<Rightarrow>
               if redirectURI \<notin> set (cl_RedirectURI client) then badAuthRequest ''invalid redirect_uri''
               else let state = rq_query rq ''state'' in
               if rq_query rq ''response_type'' \<noteq> Some ''code'' then
                 redirectAuthError redirectURI state ''unsupported_response_type'' ''only response_type=code is supported''
               else if \<not> opt_holds (\<lambda>c. 43 \<le> length c \<and> length c \<le> 128) (rq_query rq ''code_challenge'') then
                 redirectAuthError redirectURI state ''invalid_request'' ''code_challenge is required (43-128 chars)''
               else if rq_query rq ''code_challenge_method'' \<noteq> Some ''S256'' then
                 redirectAuthError redirectURI state ''invalid_request'' ''code_challenge_method must be S256''
               else if \<not> opt_holds (IsScopeSupported store) (rq_query rq ''scope'') then
                 redirectAuthError redirectURI state ''invalid_scope'' ''unsupported scope''
               else respond (Redirect (authorizeDelegatePath @ ''?'' @ rq_query_string rq)))))"

definition authorizationV3 :: "'w env \<Rightarrow> ('w, 'k) router \<Rightarrow> request \<Rightarrow> ('w, reply) state" where
  "authorizationV3 E R rq =
     (if given (rq_query rq ''request_uri'') then do {
        r \<leftarrow> authorizationV3FromPAR E rq (the (rq_query rq ''request_uri''));
        return (no_store r) }
      else if ro_RequirePAR R then
        return (no_store (badAuthRequest ''pushed authorization requests are required''))
      else return (no_store (authorize_checks E (ro_Store R) rq)))"

section \<open>Facts\<close>

text \<open>What a request must satisfy, over any source \<open>p\<close> of parameters.\<close>

definition valid_code_request :: "'w env \<Rightarrow> Store \<Rightarrow> (string \<rightharpoonup> string) \<Rightarrow> string \<Rightarrow> bool" where
  "valid_code_request E store p clientID \<longleftrightarrow>
     p ''client_id'' = Some clientID \<and> clientID \<noteq> []
     \<and> (\<exists>client u. GetClient E clientID = Inr (Some client)
          \<and> p ''redirect_uri'' = Some u \<and> u \<in> set (cl_RedirectURI client))
     \<and> p ''response_type'' = Some ''code''
     \<and> (\<exists>c. p ''code_challenge'' = Some c \<and> 43 \<le> length c \<and> length c \<le> 128)
     \<and> p ''code_challenge_method'' = Some ''S256''
     \<and> (\<exists>s. p ''scope'' = Some s \<and> IsScopeSupported store s)"

lemma par_checks_Inr:
  "par_checks E store rq attested = Inr c \<longleftrightarrow> c = attested \<and> valid_code_request E store (rq_form rq) c"
  by (auto simp: par_checks_def valid_code_request_def opt_holds_iff split: option.splits sum.splits if_splits)

lemma contents [simp]:
  "content (parError st c d) = JSON st (JsonBody (JObj [(''error'', JStr c), (''error_description'', JStr d)]))"
  "content (badAuthRequest m) = JSON 400 (JsonBody (JObj [(''error'', JStr ''invalid_request''), (''error_description'', JStr m)]))"
  by (simp_all add: parError_def badAuthRequest_def)

text \<open>Without a pushed request, a valid request is sent on.\<close>

lemma authorize_checks_valid:
  assumes "valid_code_request E store (rq_query rq) c"
  shows "authorize_checks E store rq = respond (Redirect (authorizeDelegatePath @ ''?'' @ rq_query_string rq))"
  using assms by (auto simp: authorize_checks_def valid_code_request_def opt_holds_iff Let_def)

text \<open>Otherwise the reply is an error in place, or an error sent to a redirect URI of the client.\<close>

lemma authorize_checks_invalid:
  assumes "\<nexists>c. valid_code_request E store (rq_query rq) c"
  shows "(\<exists>m. authorize_checks E store rq = badAuthRequest m) \<or>
    (\<exists>c client u e d. rq_query rq ''client_id'' = Some c \<and> GetClient E c = Inr (Some client)
       \<and> rq_query rq ''redirect_uri'' = Some u \<and> u \<in> set (cl_RedirectURI client)
       \<and> authorize_checks E store rq = redirectAuthError u (rq_query rq ''state'') e d)"
    (is "?bad \<or> ?redir")
proof (rule ccontr)
  assume no: "\<not> (?bad \<or> ?redir)"
  then have nb: "authorize_checks E store rq \<noteq> badAuthRequest m" for m by blast
  have "rq_query rq ''client_id'' \<noteq> None"
  proof
    assume "rq_query rq ''client_id'' = None"
    with nb [of "''client_id is required''"] show False by (simp add: authorize_checks_def)
  qed
  then obtain c where c: "rq_query rq ''client_id'' = Some c" by blast
  have cne: "c \<noteq> []"
    using nb [of "''client_id is required''"] c by (auto simp: authorize_checks_def)
  have "\<exists>client. GetClient E c = Inr (Some client)"
    using nb [of "''unknown client''"] c cne
    by (auto simp: authorize_checks_def split: sum.splits option.splits)
  then obtain client where g: "GetClient E c = Inr (Some client)" by blast
  have "rq_query rq ''redirect_uri'' \<noteq> None"
  proof
    assume "rq_query rq ''redirect_uri'' = None"
    with nb [of "''invalid redirect_uri''"] c cne g show False by (simp add: authorize_checks_def)
  qed
  then obtain u where u1: "rq_query rq ''redirect_uri'' = Some u" by blast
  have u2: "u \<in> set (cl_RedirectURI client)"
  proof (rule ccontr)
    assume "u \<notin> set (cl_RedirectURI client)"
    with nb [of "''invalid redirect_uri''"] c cne g u1 show False by (simp add: authorize_checks_def)
  qed
  note c = c cne and u = u1 u2
  have nr: "authorize_checks E store rq \<noteq> redirectAuthError u (rq_query rq ''state'') e d" for e d
    using no c g u by blast
  have eq: "authorize_checks E store rq =
      (let state = rq_query rq ''state'' in
       if rq_query rq ''response_type'' \<noteq> Some ''code'' then
         redirectAuthError u state ''unsupported_response_type'' ''only response_type=code is supported''
       else if \<not> opt_holds (\<lambda>c. 43 \<le> length c \<and> length c \<le> 128) (rq_query rq ''code_challenge'') then
         redirectAuthError u state ''invalid_request'' ''code_challenge is required (43-128 chars)''
       else if rq_query rq ''code_challenge_method'' \<noteq> Some ''S256'' then
         redirectAuthError u state ''invalid_request'' ''code_challenge_method must be S256''
       else if \<not> opt_holds (IsScopeSupported store) (rq_query rq ''scope'') then
         redirectAuthError u state ''invalid_scope'' ''unsupported scope''
       else respond (Redirect (authorizeDelegatePath @ ''?'' @ rq_query_string rq)))"
    using c g u by (simp add: authorize_checks_def)
  have r: "rq_query rq ''response_type'' = Some ''code''"
    using nr unfolding eq Let_def by (metis (no_types))
  have ch: "opt_holds (\<lambda>c. 43 \<le> length c \<and> length c \<le> 128) (rq_query rq ''code_challenge'')"
    using nr r unfolding eq Let_def by (metis (no_types))
  have m: "rq_query rq ''code_challenge_method'' = Some ''S256''"
    using nr r ch unfolding eq Let_def by (metis (no_types))
  have sc: "opt_holds (IsScopeSupported store) (rq_query rq ''scope'')"
    using nr r ch m unfolding eq Let_def by (metis (no_types))
  have "valid_code_request E store (rq_query rq) c"
    using c g u r ch m sc unfolding valid_code_request_def opt_holds_iff by blast
  with assms show False by blast
qed

end
