(* ===== verification/Introspection.thy ===== *)
theory Introspection
  imports Par
begin

text \<open>
  \<open>routes/introspection.go\<close>: token introspection (RFC 7662). A caller that sends a Basic header
  must be a known client; without one the answer depends on the configuration.
\<close>

section \<open>Basic authentication\<close>

definition basicAuthPrefix :: string where "basicAuthPrefix = ''Basic ''"

definition isBasicAuthScheme :: "string \<Rightarrow> bool" where
  "isBasicAuthScheme header \<longleftrightarrow>
     length header \<ge> length basicAuthPrefix
     \<and> EqualFold (take (length basicAuthPrefix) header) basicAuthPrefix"

definition parseBasicAuth :: "string \<Rightarrow> (string \<times> string) option" where
  "parseBasicAuth header =
     (if \<not> isBasicAuthScheme header then None
      else (case StdDecodeString (drop (length basicAuthPrefix) header) of
          None \<Rightarrow> None
        | Some decoded \<Rightarrow> (case SplitN2 (CHR '':'') decoded of [i, s] \<Rightarrow> Some (i, s) | _ \<Rightarrow> None)))"

section \<open>The response\<close>

text \<open>\<open>sess.LastAccessed.Add(timeout).Unix()\<close>, 0 for a session without access time.\<close>

definition introspection_exp :: "Session \<Rightarrow> int \<Rightarrow> int" where
  "introspection_exp sess sessionTimeout =
     (case se_LastAccessed sess of None \<Rightarrow> 0 | Some la \<Rightarrow> (la + sessionTimeout) div second)"

definition named_claims :: "Session \<Rightarrow> (string \<times> json) list" where
  "named_claims sess =
     (if se_FirstName sess \<noteq> [] then [(''given_name'', JStr (se_FirstName sess))] else [])
     @ (if se_LastName sess \<noteq> [] then [(''family_name'', JStr (se_LastName sess))] else [])
     @ (if se_Code sess \<noteq> [] then [(''personal_administrative_number'', JStr (se_Code sess))] else [])"

text \<open>The extra claims are added without replacing a claim that is there.\<close>

definition add_extra :: "(string \<times> json) list \<Rightarrow> (string \<times> json) list \<Rightarrow> (string \<times> json) list" where
  "add_extra claims extra = claims @ filter (\<lambda>kv. fst kv \<notin> set (map fst claims)) extra"

definition session_claims :: "Session \<Rightarrow> (string \<times> json) list" where
  "session_claims sess =
     (let claims = named_claims sess; raw = map_index (se_Metadata sess) ''extra_claims'' in
      if raw = [] then claims
      else (case Unmarshal_map raw of None \<Rightarrow> claims | Some extra \<Rightarrow> add_extra claims extra))"

definition buildIntrospectionResponse :: "Session \<Rightarrow> string \<Rightarrow> int \<Rightarrow> (string \<times> json) list" where
  "buildIntrospectionResponse sess issuerPublicURL sessionTimeout =
     (let jkt = map_index (se_Metadata sess) dpop_jkt_key; claims = session_claims sess in
      [(''active'', JBool True), (''iss'', JStr issuerPublicURL), (''sub'', JStr (se_Subject sess)),
       (''username'', JStr (se_Subject sess)), (''scope'', JStr (se_Scope sess)),
       (''client_id'', JStr (se_ID sess)), (''exp'', JInt (introspection_exp sess sessionTimeout)),
       (''token_type'', JStr (if jkt \<noteq> [] then ''DPoP'' else ''Bearer''))]
      @ (if claims \<noteq> [] then [(''claims'', JObj claims)] else [])
      @ (if jkt \<noteq> [] then [(''cnf'', JObj [(''jkt'', JStr jkt)])] else []))"

section \<open>The handler\<close>

definition error_json :: "nat \<Rightarrow> (string \<times> string) list \<Rightarrow> reply" where
  "error_json st fs = respond (JSON st (JsonBody (JObj (map (\<lambda>(k, v). (k, JStr v)) fs))))"

definition inactive :: reply where
  "inactive = respond (JSON 200 (JsonBody (JObj [(''active'', JBool False)])))"

text \<open>The caller's authentication: \<open>None\<close> goes on.\<close>

definition introspection_auth :: "'w env \<Rightarrow> ('w, 'k) router \<Rightarrow> request \<Rightarrow> reply option" where
  "introspection_auth E R rq =
     (let authHeader = rq_header rq ''Authorization'';
          bad = SetHeader IntrospectionInvalidClient (error_json 401 [(''error'', ''invalid_client'')])
      in if isBasicAuthScheme authHeader then
           (case parseBasicAuth authHeader of
              None \<Rightarrow> Some bad
            | Some (clientID, secret) \<Rightarrow>
                (case GetClient E clientID of
                   Inr (Some client) \<Rightarrow> if secret \<in> set (cl_Secrets client) then None else Some bad
                 | _ \<Rightarrow> Some bad))
         else if ro_RequireIntrospectionAuth R then
           Some (SetHeader IntrospectionAuthRequired (error_json 401
             [(''error'', ''invalid_client''), (''error_description'', ''client authentication required'')]))
         else None)"

definition introspection :: "'w env \<Rightarrow> ('w, 'k) router \<Rightarrow> request \<Rightarrow> ('w, reply) state" where
  "introspection E R rq =
     (case introspection_auth E R rq of
        Some rep \<Rightarrow> return (no_store rep)
      | None \<Rightarrow>
          let tok = value_or [] (form_String rq ''token'') in
          if tok = [] then
            return (no_store (error_json 400
              [(''error'', ''invalid_request''), (''error_description'', ''token is required'')]))
          else do {
            r \<leftarrow> GetSessionByID E tok;
            return (no_store (case r of
                Inl e \<Rightarrow> inactive
              | Inr None \<Rightarrow> inactive
              | Inr (Some sess) \<Rightarrow>
                  if \<not> SessionIsActive E sess then inactive
                  else respond (JSON 200 (JsonBody (JObj
                    (buildIntrospectionResponse sess (ro_PublicURL R) (ro_SessionTimeout R))))))) })"

section \<open>Facts\<close>

lemma parseBasicAuth_basic:
  "parseBasicAuth h = Some (i, s) \<Longrightarrow> basic_credentials h = BasicCredentials i s"
  by (auto simp: parseBasicAuth_def basic_credentials_def isBasicAuthScheme_def basicAuthPrefix_def
      split: if_splits option.splits list.splits)

lemma parseBasicAuth_encode:
  assumes "CHR '':'' \<notin> set i"
  shows "parseBasicAuth (''Basic '' @ StdEncodeToString (i @ CHR '':'' # s)) = Some (i, s)"
  using assms
  by (simp add: parseBasicAuth_def isBasicAuthScheme_def basicAuthPrefix_def StdDecode_Encode SplitN2_append)

lemma introspection_auth_None:
  assumes "introspection_auth E R rq = None"
  shows "(\<exists>i s client. parseBasicAuth (rq_header rq ''Authorization'') = Some (i, s)
       \<and> GetClient E i = Inr (Some client) \<and> s \<in> set (cl_Secrets client))
     \<or> (\<not> isBasicAuthScheme (rq_header rq ''Authorization'') \<and> \<not> ro_RequireIntrospectionAuth R)"
  using assms
  by (auto simp: introspection_auth_def Let_def split: if_splits option.splits sum.splits)

lemma named_claims_keys:
  "kv \<in> set (named_claims sess) \<Longrightarrow> fst kv \<in> {''given_name'', ''family_name'', ''personal_administrative_number''}"
  by (auto simp: named_claims_def split: if_splits)

lemma distinct_named_claims: "distinct (map fst (named_claims sess))"
  by (simp add: named_claims_def)

lemma map_of_add_extra: "map_of (add_extra claims extra) k =
   (case map_of claims k of Some v \<Rightarrow> Some v | None \<Rightarrow> map_of extra k)"
proof (cases "map_of claims k")
  case None
  then have k: "k \<notin> set (map fst claims)" by (simp add: map_of_eq_None_iff)
  have "map_of (filter (\<lambda>kv. fst kv \<notin> set (map fst claims)) extra) k = map_of extra k"
    using k by (induction extra) auto
  with None show ?thesis by (simp add: add_extra_def map_add_def)
next
  case (Some v)
  then have "map_of (claims @ xs) k = Some v" for xs by (simp add: map_add_Some_iff)
  with Some show ?thesis
    by (simp add: add_extra_def map_of_append [symmetric] del: map_of_append)
qed

end
