(* ===== verification/Go_Path.thy ===== *)
theory Go_Path
  imports Go_Strings
begin

text \<open>
  The function \<open>Join\<close> of Go's package \<open>path\<close>, with which the providers build the URLs of their
  pages from the base path: the non-empty elements are joined with a slash and the result is
  cleaned.
\<close>

section \<open>\<open>path.Clean\<close>\<close>

text \<open>
  The lexical processing of the elements: empty ones and \<open>.\<close> are dropped, \<open>..\<close> removes the
  element before it; in a rooted path a leading \<open>..\<close> is dropped. \<open>out\<close> is reversed.
\<close>

fun clean_elems :: "bool \<Rightarrow> string list \<Rightarrow> string list \<Rightarrow> string list" where
  "clean_elems rooted out [] = rev out"
| "clean_elems rooted out (e # es) =
     (if e = [] \<or> e = ''.'' then clean_elems rooted out es
      else if e = ''..'' then
        (case out of
           [] \<Rightarrow> clean_elems rooted (if rooted then [] else [''..'']) es
         | o1 # os \<Rightarrow> clean_elems rooted (if o1 = ''..'' then ''..'' # out else os) es)
      else clean_elems rooted (e # out) es)"

definition path_Clean :: "string \<Rightarrow> string" where
  "path_Clean p =
     (let rooted = HasPrefix p ''/'';
          q = Join (CHR ''/'') (clean_elems rooted [] (Split (CHR ''/'') p))
      in if rooted then CHR ''/'' # q else if q = [] then ''.'' else q)"

definition path_Join :: "string list \<Rightarrow> string" where
  "path_Join elems =
     (let es = filter (\<lambda>e. e \<noteq> []) elems
      in if es = [] then [] else path_Clean (Join (CHR ''/'') es))"

text \<open>
  \<open>filepath.Dir\<close> and \<open>filepath.Base\<close>, on Unix: what precedes the last slash, cleaned, and the last
  element. \<open>filepath.Join\<close> is \<open>path.Join\<close> there.
\<close>

definition filepath_Dir :: "string \<Rightarrow> string" where
  "filepath_Dir p = path_Clean (rev (dropWhile (\<lambda>c. c \<noteq> CHR ''/'') (rev p)))"

definition filepath_Base :: "string \<Rightarrow> string" where
  "filepath_Base p =
     (if p = [] then ''.''
      else let q = rev (dropWhile (\<lambda>c. c = CHR ''/'') (rev p));
               b = rev (takeWhile (\<lambda>c. c \<noteq> CHR ''/'') (rev q))
           in if b = [] then ''/'' else b)"

section \<open>Paths that need no cleaning\<close>

definition plain_elem :: "string \<Rightarrow> bool" where
  "plain_elem e \<longleftrightarrow> e \<noteq> [] \<and> e \<noteq> ''.'' \<and> e \<noteq> ''..'' \<and> CHR ''/'' \<notin> set e"

lemma clean_plain:
  "\<forall>e\<in>set es. plain_elem e \<Longrightarrow> clean_elems rooted out es = rev out @ es"
  by (induction es arbitrary: out) (auto simp: plain_elem_def)

lemma clean_plain_snoc: "\<forall>e\<in>set es. plain_elem e \<Longrightarrow> clean_elems rooted out (es @ [[]]) = rev out @ es"
  by (induction es arbitrary: out) (auto simp: plain_elem_def)

text \<open>A rooted path as its elements.\<close>

definition rooted_path :: "string list \<Rightarrow> string" where
  "rooted_path es = CHR ''/'' # Join (CHR ''/'') es"

lemma Join_Cons: "es \<noteq> [] \<Longrightarrow> Join d (e # es) = e @ d # Join d es"
  by (cases es) auto

lemma Join_append:
  "xs \<noteq> [] \<Longrightarrow> ys \<noteq> [] \<Longrightarrow> Join d (xs @ ys) = Join d xs @ d # Join d ys"
  by (induction d xs rule: Join.induct) (auto simp: Join_Cons)

lemma Clean_rooted:
  assumes "\<forall>e\<in>set es. plain_elem e" "es \<noteq> []"
  shows "path_Clean (rooted_path es) = rooted_path es"
proof -
  have "Split (CHR ''/'') (rooted_path es) = [] # es"
    using Split_Join [of es "CHR ''/''"] assms by (auto simp: rooted_path_def plain_elem_def)
  moreover have "HasPrefix (rooted_path es) ''/''"
    by (simp add: rooted_path_def HasPrefix_def)
  ultimately show ?thesis
    using clean_plain [OF assms(1), of True "[]"] by (simp add: path_Clean_def rooted_path_def)
qed

text \<open>Joining a plain base path and a plain rooted path is concatenation.\<close>

lemma Clean_two_rooted:
  assumes "\<forall>e\<in>set (bs @ es). plain_elem e" "bs \<noteq> []" "es \<noteq> []"
  shows "path_Clean (rooted_path bs @ CHR ''/'' # rooted_path es) = rooted_path bs @ rooted_path es"
proof -
  have "rooted_path bs @ CHR ''/'' # rooted_path es = Join (CHR ''/'') ([] # bs @ [] # es)"
    using assms(2,3) by (simp add: rooted_path_def Join_Cons Join_append)
  then have s: "Split (CHR ''/'') (rooted_path bs @ CHR ''/'' # rooted_path es) = [] # bs @ [] # es"
    using Split_Join [of "[] # bs @ [] # es" "CHR ''/''"] assms(1) by (auto simp: plain_elem_def)
  have skip: "clean_elems True out (xs @ [] # ys) = clean_elems True (rev xs @ out) ys"
    if "\<forall>e\<in>set xs. plain_elem e" for out xs ys
    using that by (induction xs arbitrary: out) (auto simp: plain_elem_def)
  have p: "HasPrefix (rooted_path bs @ CHR ''/'' # rooted_path es) ''/''"
    by (simp add: rooted_path_def HasPrefix_def)
  have "clean_elems True [] ([] # bs @ [] # es) = bs @ es"
    using skip [of bs "[]" es] clean_plain [of es True "rev bs"] assms(1) by simp
  with s p show ?thesis
    using assms(2,3) by (simp add: path_Clean_def rooted_path_def Join_append)
qed

lemma path_Join_rooted:
  assumes "\<forall>e\<in>set (bs @ es). plain_elem e" "bs \<noteq> []" "es \<noteq> []"
  shows "path_Join [rooted_path bs, rooted_path es] = rooted_path bs @ rooted_path es"
  using Clean_two_rooted [OF assms] by (simp add: path_Join_def rooted_path_def)

lemma path_Join_no_base:
  assumes "\<forall>e\<in>set es. plain_elem e" "es \<noteq> []"
  shows "path_Join [[], rooted_path es] = rooted_path es"
  using Clean_rooted [OF assms] by (simp add: path_Join_def rooted_path_def)

section \<open>Directory and last element of a plain path\<close>

lemma rooted_path_snoc: "es \<noteq> [] \<Longrightarrow> rooted_path (es @ [e]) = rooted_path es @ CHR ''/'' # e"
  by (simp add: rooted_path_def Join_append)

lemma split_at_slash:
  assumes "CHR ''/'' \<notin> set xs"
  shows "dropWhile (\<lambda>c. c \<noteq> CHR ''/'') (xs @ CHR ''/'' # ys) = CHR ''/'' # ys"
    and "takeWhile (\<lambda>c. c \<noteq> CHR ''/'') (xs @ CHR ''/'' # ys) = xs"
  using assms by (induction xs) auto

lemma dropWhile_last_elem:
  "CHR ''/'' \<notin> set e \<Longrightarrow> dropWhile (\<lambda>c. c \<noteq> CHR ''/'') (rev (s @ CHR ''/'' # e)) = CHR ''/'' # rev s"
  by (simp add: split_at_slash)

lemma Clean_trailing_slash:
  assumes "\<forall>e\<in>set es. plain_elem e" "es \<noteq> []"
  shows "path_Clean (rooted_path es @ ''/'') = rooted_path es"
proof -
  have "rooted_path es @ ''/'' = Join (CHR ''/'') ([] # es @ [[]])"
    using assms(2) by (simp add: rooted_path_def Join_Cons Join_append)
  then have "Split (CHR ''/'') (rooted_path es @ ''/'') = [] # es @ [[]]"
    using Split_Join [of "[] # es @ [[]]" "CHR ''/''"] assms(1) by (auto simp: plain_elem_def)
  moreover have "clean_elems True [] ([] # es @ [[]]) = es"
    using assms(1) clean_plain_snoc [of es] by simp
  moreover have "HasPrefix (rooted_path es @ ''/'') ''/''" by (simp add: rooted_path_def HasPrefix_def)
  ultimately show ?thesis by (simp add: path_Clean_def rooted_path_def)
qed

lemma filepath_Dir_rooted:
  assumes "\<forall>e\<in>set es. plain_elem e" "es \<noteq> []" "plain_elem e"
  shows "filepath_Dir (rooted_path (es @ [e])) = rooted_path es"
proof -
  have e: "CHR ''/'' \<notin> set e" using assms(3) by (simp add: plain_elem_def)
  have "filepath_Dir (rooted_path (es @ [e])) = path_Clean (rooted_path es @ ''/'')"
    unfolding filepath_Dir_def rooted_path_snoc [OF assms(2)] dropWhile_last_elem [OF e] by simp
  then show ?thesis by (simp add: Clean_trailing_slash [OF assms(1,2)])
qed

lemma filepath_Base_rooted:
  assumes "plain_elem e"
  shows "filepath_Base (rooted_path (es @ [e])) = e"
proof -
  obtain s where s: "rooted_path (es @ [e]) = s @ CHR ''/'' # e"
    by (cases "es = []") (auto simp: rooted_path_def Join_append)
  have e: "CHR ''/'' \<notin> set e" "e \<noteq> []" using assms by (simp_all add: plain_elem_def)
  then have "dropWhile (\<lambda>c. c = CHR ''/'') (rev (s @ CHR ''/'' # e)) = rev (s @ CHR ''/'' # e)"
    by (cases e rule: rev_cases) auto
  moreover have "takeWhile (\<lambda>c. c \<noteq> CHR ''/'') (rev (s @ CHR ''/'' # e)) = rev e"
    using e(1) by (simp add: split_at_slash)
  ultimately show ?thesis using e(2) by (simp add: filepath_Base_def s)
qed

end
