(* ===== verification/Provider_Common.thy ===== *)
theory Provider_Common
  imports Auth_Callback Go_Path
begin

text \<open>
  What the three identity providers (\<open>smartid\<close>, \<open>edim\<close>, \<open>oauth2generic\<close>) share. The library
  \<open>lx-idauth\<close> calls a provider twice: \<open>Authorize(ctx, sess)\<close> starts an authentication and
  \<open>Callback(ctx, sess)\<close> ends it. \<open>sess\<close> is the correlation of the browser, a pointer through which
  the provider sets the error code, the id and the flag that it produced the result itself: the
  model returns the updated correlation next to the outcome.
\<close>

section \<open>Starting an authentication\<close>

datatype page =
    LoginPage string string string int int      \<comment> \<open>login, verifier and callback URL, retries, wait\<close>
  | OfferPage string string string int int      \<comment> \<open>link, verifier and callback URL, retries, wait\<close>

datatype authorize_result =
    AuthorizeFailed go_error
  | AuthorizeRedirect string
  | AuthorizePage page
  | AuthorizePanic                              \<comment> \<open>dereferences the nil pointer \<open>sess.State\<close>\<close>

definition fail_with :: "'w env \<Rightarrow> AuthErrCode \<Rightarrow> Correlation \<Rightarrow> Correlation" where
  "fail_with E c sess = sess\<lparr>cor_ErrorCode := AuthErrText E c\<rparr>"

section \<open>Ending an authentication\<close>

text \<open>
  The outcome of a callback is that of \<open>authorizationcode.Callback\<close>; \<open>CallbackNil\<close> is
  \<open>return nil, nil\<close>. The pending request, if any, is taken out of the store.
\<close>

definition pending_state :: "'w env \<Rightarrow> string \<Rightarrow> ('w, StateItem option) state" where
  "pending_state E state = do {
     r \<leftarrow> PopState E state;
     return (case r of Inl _ \<Rightarrow> None
       | Inr item \<Rightarrow> if st_ResponseType item = ''code'' then Some item else None) }"

text \<open>
  The code flow of the three callbacks: the template goes into the code store, and an error is
  reported as an invalid callback.
\<close>

definition finish_code_flow ::
    "'w env \<Rightarrow> request \<Rightarrow> Correlation \<Rightarrow> UserData \<Rightarrow> StateItem \<Rightarrow> (string \<times> json) list
     \<Rightarrow> ('w, callback_result \<times> Correlation) state" where
  "finish_code_flow E rq sess user stateItem rawClaims = do {
     r \<leftarrow> Callback E rq sess user stateItem rawClaims;
     return (case r of
        CallbackError e \<Rightarrow> (CallbackError e, fail_with E AuthErrInvalidCallback sess)
      | CallbackPanic \<Rightarrow> (CallbackPanic, sess)
      | res \<Rightarrow> (res, sess\<lparr>cor_ManagedByProvider := True\<rparr>)) }"

definition ensure_id :: "'w env \<Rightarrow> Correlation \<Rightarrow> ('w, Correlation) state" where
  "ensure_id E sess =
     (if cor_ID sess = [] then do { i \<leftarrow> UlidMake E; return (sess\<lparr>cor_ID := i\<rparr>) } else return sess)"

text \<open>The session a provider creates itself, and the audit event of the login.\<close>

definition direct_session :: "'w env \<Rightarrow> string \<Rightarrow> UserData \<Rightarrow> int \<Rightarrow> strmap \<Rightarrow> Session" where
  "direct_session E i user now metadata =
     \<lparr>se_ID = i, se_Subject = ud_UserID user, se_FirstName = ud_FirstName user,
      se_LastName = ud_LastName user, se_Code = ud_PersonCode user, se_Scope = [],
      se_Rights = [\<lparr>gr_RoleID = role_ID person_role, gr_RightCode = ''citizen''\<rparr>],
      se_LastAccessed = Some now, se_State = SessionStateAuthorized E,
      se_Role = Some person_role, se_Roles = [person_role], se_Metadata = metadata\<rparr>"

definition provider_audit :: "'w env \<Rightarrow> request \<Rightarrow> UserData \<Rightarrow> string \<Rightarrow> AuditRequest" where
  "provider_audit E rq user i =
     \<lparr>au_ClientID = ''idauth'', au_Endpoint = rq_router_path rq, au_Action = ActionLoginSuccess E,
      au_GivenName = ud_FirstName user, au_FamilyName = ud_LastName user,
      au_Identifier = ud_PersonCode user, au_IPAddress = rq_ip rq,
      au_UserAgent = rq_user_agent rq, au_Bearer = i\<rparr>"

text \<open>
  The direct login of \<open>smartid\<close> and \<open>edim\<close>: an id, the session, the audit event; a failing
  session store is an invalid callback and a failing audit a server error.
\<close>

definition finish_direct ::
    "'w env \<Rightarrow> request \<Rightarrow> Correlation \<Rightarrow> UserData \<Rightarrow> ('w, callback_result \<times> Correlation) state" where
  "finish_direct E rq sess0 user = do {
     sess \<leftarrow> ensure_id E sess0;
     now \<leftarrow> TimeNow E;
     r \<leftarrow> SessionCreate E (direct_session E (cor_ID sess) user now None);
     (case r of
        Inl e \<Rightarrow> return (CallbackError e, fail_with E AuthErrInvalidCallback sess)
      | Inr _ \<Rightarrow> do {
          a \<leftarrow> PersonRequest E (provider_audit E rq user (cor_ID sess));
          return (case a of
             Some e \<Rightarrow> (CallbackError e, fail_with E AuthErrServer sess)
           | None \<Rightarrow> (CallbackNil, sess\<lparr>cor_ManagedByProvider := True\<rparr>)) }) }"

section \<open>Facts\<close>

text \<open>A direct login gives the session that the code flow stores as its template, under an id.\<close>

lemma direct_session_template:
  "direct_session E i user now metadata = (callback_session E user now metadata)\<lparr>se_ID := i\<rparr>"
  by (simp add: direct_session_def callback_session_def)

lemma fail_with_simps [simp]:
  "cor_ErrorCode (fail_with E c sess) = AuthErrText E c"
  "cor_State (fail_with E c sess) = cor_State sess" "cor_ID (fail_with E c sess) = cor_ID sess"
  "cor_ManagedByProvider (fail_with E c sess) = cor_ManagedByProvider sess"
  by (simp_all add: fail_with_def)

lemma ensure_id_simps [simp]:
  "cor_State (result_of (ensure_id E sess) w) = cor_State sess"
  "cor_ClientID (result_of (ensure_id E sess) w) = cor_ClientID sess"
  "cor_ManagedByProvider (result_of (ensure_id E sess) w) = cor_ManagedByProvider sess"
  "cor_ID sess \<noteq> [] \<Longrightarrow> ensure_id E sess = return sess"
  by (simp_all add: ensure_id_def)

text \<open>A provider claims the result exactly when it reports no error.\<close>

lemma finish_direct_managed:
  assumes "\<not> cor_ManagedByProvider sess"
  shows "cor_ManagedByProvider (snd (result_of (finish_direct E rq sess user) w)) \<longleftrightarrow>
    fst (result_of (finish_direct E rq sess user) w) = CallbackNil"
  using assms by (auto simp: finish_direct_def split: sum.splits option.splits)

lemma finish_code_flow_managed:
  assumes "\<not> cor_ManagedByProvider sess"
  shows "cor_ManagedByProvider (snd (result_of (finish_code_flow E rq sess user st raw) w)) \<longleftrightarrow>
    (\<forall>e. fst (result_of (finish_code_flow E rq sess user st raw) w) \<noteq> CallbackError e)
     \<and> fst (result_of (finish_code_flow E rq sess user st raw) w) \<noteq> CallbackPanic"
  using assms by (auto simp: finish_code_flow_def split: callback_result.splits)

lemma pending_state_Some:
  "result_of (pending_state E st) w = Some item \<Longrightarrow>
     result_of (PopState E st) w = Inr item \<and> st_ResponseType item = ''code''"
  by (auto simp: pending_state_def split: sum.splits if_splits)

lemma world_pending_state [simp]: "world_after (pending_state E st) w = world_after (PopState E st) w"
  by (simp add: pending_state_def)

end
