(* ===== verification/Smart_Id.thy ===== *)
theory Smart_Id
  imports Provider_Common
begin

text \<open>
  The Smart-ID provider, \<open>smartid/smartid.go\<close>. The Smart-ID client library is a record of
  parameters; its errors carry a text and the sentinels \<open>errors.Is\<close> finds in them. Timeouts of
  the client's HTTP calls are not modelled.
\<close>

section \<open>The client library\<close>

datatype sid_sentinel = ErrTimeout | ErrUserRefused | ErrNoSuitableAccount | ErrMaintenance

record sid_error =
  sid_text :: string
  sid_is :: "sid_sentinel set"

record Person =
  pe_IdentityNumber :: string
  pe_PersonalCode :: string
  pe_FirstName :: string
  pe_LastName :: string

record 'w sid_client =
  sid_CreateSession :: "string \<Rightarrow> string \<Rightarrow> ('w, sid_error + json) state"
    \<comment> \<open>for a country code and a person identifier; the session as the JSON it is sent as\<close>
  sid_FetchSession :: "string \<Rightarrow> ('w, sid_error + Person option) state"

record SmartIdConfiguration =
  sc_Endpoint :: string
  sc_RelyingPartyName :: string
  sc_RelyingPartyUUID :: string
  sc_CertificateLevel :: string
  sc_HashType :: string
  sc_InteractionType :: string
  sc_Text :: string
  sc_CreateSessionTimeoutInSeconds :: int
  sc_CheckSessionTimeoutInSeconds :: int
  sc_PresentRetries :: int
  sc_PresentWaitInSeconds :: int
  sc_PresentTTL :: int

record LoginRequest =
  lr_CountryCode :: string
  lr_PersonIdentifier :: string

section \<open>Binding\<close>

text \<open>What the builder of the client library is told; the library's \<open>Validate\<close> is a parameter.\<close>

record sid_settings =
  ss_RelyingPartyName :: string
  ss_RelyingPartyUUID :: string
  ss_CertificateLevel :: string
  ss_HashType :: string
  ss_InteractionType :: string
  ss_DisplayText60 :: string
  ss_URL :: string

definition sid_settings_of :: "SmartIdConfiguration \<Rightarrow> sid_settings" where
  "sid_settings_of config =
     \<lparr>ss_RelyingPartyName = sc_RelyingPartyName config, ss_RelyingPartyUUID = sc_RelyingPartyUUID config,
      ss_CertificateLevel = sc_CertificateLevel config, ss_HashType = sc_HashType config,
      ss_InteractionType = sc_InteractionType config, ss_DisplayText60 = sc_Text config,
      ss_URL = sc_Endpoint config\<rparr>"

record sid_inst =
  si_client :: sid_settings
  si_config :: SmartIdConfiguration

text \<open>\<open>log.Fatal\<close> ends the process: an error of its own kind, which every caller passes on.\<close>

definition sid_Bind ::
    "(string \<Rightarrow> int \<Rightarrow> ('w, go_error option) state) \<Rightarrow> (sid_settings \<Rightarrow> string option) \<Rightarrow> SmartIdConfiguration
     \<Rightarrow> ('w, go_error + sid_inst) state" where
  "sid_Bind create validate config = do {
     err \<leftarrow> create ''smartid-nonce'' (10 * minute);
     return (case err of
       Some e \<Rightarrow> Inl e
     | None \<Rightarrow> (case validate (sid_settings_of config) of
         Some e \<Rightarrow> Inl (FatalExit (''Invalid configuration:'' @ e))
       | None \<Rightarrow> Inr \<lparr>si_client = sid_settings_of config, si_config = config\<rparr>)) }"

section \<open>Starting\<close>

definition sid_loginPath :: string where "sid_loginPath = ''/smartid/login''"
definition sid_verifyPath :: string where "sid_verifyPath = ''/smartid/verifier''"
definition sid_callbackPath :: string where "sid_callbackPath = ''/callback/smartid''"

definition sid_Authorize ::
    "'w env \<Rightarrow> Store \<Rightarrow> SmartIdConfiguration \<Rightarrow> request \<Rightarrow> Correlation
     \<Rightarrow> ('w, authorize_result \<times> Correlation) state" where
  "sid_Authorize E store cfg rq sess =
     (let verifyURL = path_Join [rq_base_path rq, sid_verifyPath];
          loginURL = path_Join [rq_base_path rq, sid_loginPath];
          callbackURL = path_Join [rq_base_path rq, sid_callbackPath]
      in case cor_State sess of
           None \<Rightarrow> return (AuthorizePanic, sess)
         | Some st \<Rightarrow> do {
             err \<leftarrow> ValidateAndSaveState E store rq (cor_ClientID sess) st;
             return (case err of
                Some e \<Rightarrow> (AuthorizeFailed e, fail_with E AuthErrInvalidRequest sess)
              | None \<Rightarrow> (AuthorizePage (LoginPage loginURL verifyURL callbackURL
                    (sc_PresentRetries cfg) (sc_PresentWaitInSeconds cfg)), sess)) })"

section \<open>Login\<close>

definition GetErrorCodes :: "string \<Rightarrow> string" where
  "GetErrorCodes message =
     (if message = ''parse error'' then ''invalid_request''
      else if message = ''invalid person identifier'' then ''invalid_identifier''
      else if message = ''wrong length'' then ''invalid_length''
      else if message = ''authentication is still running'' then ''waiting_response''
      else if message = ''no suitable account of requested type found'' then ''no_account_found''
      else if message = ''system is under maintenance, retry again later'' then ''maintenance''
      else if message = ''user refused'' then ''user_refused''
      else if message = ''user didn'' @ [CHR 39] @ ''t respond in time'' then ''user_did_not_response_in_time''
      else ''server_error'')"

definition sid_Response :: "nat \<Rightarrow> string \<Rightarrow> string \<Rightarrow> reply" where
  "sid_Response status message code =
     respond (JSON status (JsonBody (JObj [(''message'', JStr message), (''errorCode'', JStr code)])))"

definition ascii_digit :: "char \<Rightarrow> bool" where
  "ascii_digit c \<longleftrightarrow> CHR ''0'' \<le> c \<and> c \<le> CHR ''9''"

text \<open>
  The identifier the session is created for, or the error. A byte of a multi-byte rune is
  neither a digit nor a dash, so checking bytes is checking runes. The spaces are stripped for
  the checks and for the conversion only.
\<close>

definition login_identifier :: "LoginRequest \<Rightarrow> reply + string" where
  "login_identifier req =
     (let p = DeleteAll (lr_PersonIdentifier req) '' '' in
      if \<not> list_all (\<lambda>r. ascii_digit r \<or> r = CHR ''-'') p then
        Inl (sid_Response 400 ''invalid person identifier'' (GetErrorCodes ''invalid person identifier''))
      else let ident = (if lr_CountryCode req = ''LV'' \<and> \<not> Contains p ''-'' \<and> length p = 11
                        then take 6 p @ ''-'' @ drop 6 p else lr_PersonIdentifier req)
           in if length ident \<noteq> 12 then
                Inl (sid_Response 400 ''invalid Latvian person identifier, expected 11 digits''
                  (GetErrorCodes ''wrong length''))
              else Inr ident)"

definition sid_Login ::
    "(go_error \<Rightarrow> string) \<Rightarrow> 'w sid_client \<Rightarrow> go_error + LoginRequest \<Rightarrow> ('w, reply) state" where
  "sid_Login error_text client body =
     (case body of
        Inl err \<Rightarrow> return (sid_Response 400 (''Error parsing request'' @ error_text err) (GetErrorCodes ''parse error''))
      | Inr req \<Rightarrow>
          (case login_identifier req of
             Inl rep \<Rightarrow> return rep
           | Inr ident \<Rightarrow> do {
               s \<leftarrow> sid_CreateSession client (lr_CountryCode req) ident;
               return (case s of
                  Inl err \<Rightarrow> sid_Response 400 (sid_text err) (GetErrorCodes (sid_text err))
                | Inr session \<Rightarrow> respond (JSON 200 (JsonBody session))) }))"

section \<open>Polling\<close>

definition sid_Verified :: "'w sid_client \<Rightarrow> string \<Rightarrow> ('w, reply) state" where
  "sid_Verified client sessionID = do {
     r \<leftarrow> sid_FetchSession client sessionID;
     return (case r of
        Inl err \<Rightarrow>
          (let code = GetErrorCodes (sid_text err) in
           if sid_is err \<inter> {ErrTimeout, ErrUserRefused, ErrNoSuitableAccount} \<noteq> {} then
             sid_Response 400 (sid_text err) code
           else if ErrMaintenance \<in> sid_is err then sid_Response 500 (sid_text err) code
           else sid_Response 204 (sid_text err) code)
      | Inr None \<Rightarrow> respond (StatusOnly 204)
      | Inr (Some person) \<Rightarrow> respond (StatusOnly 200)) }"

section \<open>Callback\<close>

definition sid_convertToUserData :: "Person \<Rightarrow> UserData" where
  "sid_convertToUserData person =
     \<lparr>ud_UserID = pe_IdentityNumber person, ud_PersonCode = pe_PersonalCode person,
      ud_FirstName = pe_FirstName person, ud_LastName = pe_LastName person, ud_Email = []\<rparr>"

definition sid_Callback ::
    "'w env \<Rightarrow> 'w sid_client \<Rightarrow> request \<Rightarrow> Correlation \<Rightarrow> ('w, callback_result \<times> Correlation) state" where
  "sid_Callback E client rq sess =
     (case query_String rq ''sessionID'' of
        Inl _ \<Rightarrow> return (CallbackError (ErrorsNew (AuthErrText E AuthErrInvalidCallback)),
                    fail_with E AuthErrInvalidCallback sess)
      | Inr sessionID \<Rightarrow> do {
          r \<leftarrow> sid_FetchSession client sessionID;
          (case r of
             Inl err \<Rightarrow>
               (let code = GetErrorCodes (sid_text err)
                in return (CallbackError (AuthorizeErr code), sess\<lparr>cor_ErrorCode := code\<rparr>))
           | Inr None \<Rightarrow>
               return (CallbackError (AuthorizeErr (AuthErrText E AuthErrInvalidCallback)),
                 fail_with E AuthErrInvalidCallback sess)
           | Inr (Some person) \<Rightarrow>
               (case cor_State sess of
                  None \<Rightarrow> return (CallbackPanic, sess)
                | Some st \<Rightarrow> do {
                    pending \<leftarrow> pending_state E st;
                    (case pending of
                       Some stateItem \<Rightarrow>
                         finish_code_flow E rq sess (sid_convertToUserData person) stateItem []
                     | None \<Rightarrow> finish_direct E rq sess (sid_convertToUserData person)) })) })"

section \<open>Masking identifiers in logs\<close>

text \<open>\<open>[]rune(s)\<close>, each rune as its UTF-8 text; a byte that starts no rune becomes U+FFFD.\<close>

function runes :: "string \<Rightarrow> string list" where
  "runes s =
     (case s of [] \<Rightarrow> []
      | c # cs \<Rightarrow>
          if byte c < 128 then [c] # runes cs
          else if utf8_len s = 0 then replacement # runes cs
          else take (utf8_len s) s # runes (drop (utf8_len s) s))"
  by pat_completeness auto
termination
  by (relation "measure length") auto

declare runes.simps [simp del]

definition digit_rune :: "string \<Rightarrow> bool" where
  "digit_rune r \<longleftrightarrow> (\<exists>c. r = [c] \<and> ascii_digit c)"

text \<open>The loop from the last rune to the first: \<open>rs\<close> are the runes in reverse.\<close>

fun mask_loop :: "nat \<Rightarrow> nat \<Rightarrow> string list \<Rightarrow> string list" where
  "mask_loop maskDigits cnt [] = []"
| "mask_loop maskDigits cnt (r # rs) =
     (if cnt < maskDigits then
        (if digit_rune r then ''*'' # mask_loop maskDigits (Suc cnt) rs
         else r # mask_loop maskDigits cnt rs)
      else r # rs)"

definition maskPersonIdentifier :: "string \<Rightarrow> nat \<Rightarrow> string" where
  "maskPersonIdentifier s maskDigits = concat (rev (mask_loop maskDigits 0 (rev (runes s))))"

subsection \<open>Facts\<close>

lemma login_identifier_Inr:
  assumes "login_identifier req = Inr ident"
  shows "length ident = 12"
    and "\<forall>c\<in>set ident. ascii_digit c \<or> c = CHR ''-'' \<or> c = CHR '' ''"
    and "CHR '' '' \<in> set ident \<longrightarrow> ident = lr_PersonIdentifier req"
proof -
  let ?p = "DeleteAll (lr_PersonIdentifier req) '' ''"
  have p: "?p = filter (\<lambda>x. x \<noteq> CHR '' '') (lr_PersonIdentifier req)"
    by (rule DeleteAll_char)
  have digits: "\<forall>c\<in>set ?p. ascii_digit c \<or> c = CHR ''-''"
    using assms by (auto simp: login_identifier_def Let_def list_all_iff split: if_splits)
  show "length ident = 12"
    using assms by (auto simp: login_identifier_def Let_def split: if_splits)
  have cases: "ident = take 6 ?p @ ''-'' @ drop 6 ?p \<or> ident = lr_PersonIdentifier req"
    using assms by (auto simp: login_identifier_def Let_def split: if_splits)
  have t: "\<forall>c\<in>set (take 6 ?p @ ''-'' @ drop 6 ?p). ascii_digit c \<or> c = CHR ''-''"
    using digits set_take_subset [of 6 ?p] set_drop_subset [of 6 ?p] by auto
  show "\<forall>c\<in>set ident. ascii_digit c \<or> c = CHR ''-'' \<or> c = CHR '' ''"
    using cases
  proof
    assume "ident = take 6 ?p @ ''-'' @ drop 6 ?p"
    then show ?thesis using t by blast
  next
    assume i: "ident = lr_PersonIdentifier req"
    show ?thesis
    proof
      fix c assume "c \<in> set ident"
      then show "ascii_digit c \<or> c = CHR ''-'' \<or> c = CHR '' ''"
        using digits unfolding p i by (cases "c = CHR '' ''") auto
    qed
  qed
  have "CHR '' '' \<notin> set (take 6 ?p @ ''-'' @ drop 6 ?p)"
  proof
    assume "CHR '' '' \<in> set (take 6 ?p @ ''-'' @ drop 6 ?p)"
    with t have "ascii_digit (CHR '' '')" by fastforce
    then show False by (simp add: ascii_digit_def)
  qed
  then show "CHR '' '' \<in> set ident \<longrightarrow> ident = lr_PersonIdentifier req"
    using cases by blast
qed

lemma mask_loop_length: "length (mask_loop m n rs) = length rs"
  by (induction m n rs rule: mask_loop.induct) auto

text \<open>The loop masks the first \<open>m - n\<close> digits it meets, and changes nothing else.\<close>

lemma mask_loop_nth:
  assumes "i < length rs"
  shows "mask_loop m n rs ! i =
    (if digit_rune (rs ! i) \<and> n + length (filter digit_rune (take i rs)) < m then ''*'' else rs ! i)"
  using assms
proof (induction m n rs arbitrary: i rule: mask_loop.induct)
  case (1 m n)
  then show ?case by simp
next
  case (2 m n r rs)
  show ?case
  proof (cases i)
    case 0
    then show ?thesis by auto
  next
    case (Suc j)
    with 2 show ?thesis by auto
  qed
qed

lemma ascii_digit_byte: "ascii_digit c \<Longrightarrow> byte c < 128"
  by (auto simp: ascii_digit_def byte_def less_eq_char_def)

lemma runes_ascii: "\<forall>c\<in>set s. byte c < 128 \<Longrightarrow> runes s = map (\<lambda>c. [c]) s"
  by (induction s) (auto simp: runes.simps)

lemma mask_not_more_digits:
  "length (filter digit_rune (mask_loop m n rs)) = length (filter digit_rune rs) - (m - n)"
proof (induction m n rs rule: mask_loop.induct)
  case (1 m n)
  then show ?case by simp
next
  case (2 m n r rs)
  have star: "\<not> digit_rune ''*''" by (simp add: digit_rune_def ascii_digit_def)
  show ?case
  proof (cases "n < m")
    case True
    with 2 star show ?thesis by auto
  qed simp
qed

end
