(* ===== verification/Edim.thy ===== *)
theory Edim
  imports Provider_Common Go_Url
begin

text \<open>
  The EDIM wallet provider, \<open>edim/edim.go\<close>, with its cross-device and same-device flows. The
  verifier library (\<open>github.com/digimaks/go-verifier\<close>), \<open>url.JoinPath\<close> and
  \<open>idauth.RedirectToCaller\<close> are parameters; the latter is an outcome that carries the correlation
  it is called with.
\<close>

section \<open>The verifier library\<close>

record Attribute =
  at_Namespace :: string
  at_Key :: string
  at_Value :: json

record Offer =
  of_TransactionID :: string
  of_Link :: string

text \<open>What \<open>HandleWalletReturn\<close> gives: the data stored with the offer, the attributes, an error.\<close>

record wallet_return =
  wr_data :: "Correlation option"
  wr_attrs :: "Attribute list"
  wr_err :: "go_error option"

record 'w verifier =
  vf_GenerateOffer :: "('w, go_error + Offer) state"
  vf_GenerateSameDeviceOffer :: "string \<Rightarrow> Correlation \<Rightarrow> ('w, go_error + Offer) state"
  vf_HandleWalletReturn :: "string \<Rightarrow> string \<Rightarrow> ('w, wallet_return) state"
  vf_Status :: "string \<Rightarrow> ('w, string \<times> go_error option) state"
  vf_Attributes :: "string \<Rightarrow> ('w, go_error + Attribute list) state"

record EdimInst =
  ei_providerID :: string
  ei_PresentRetries :: int
  ei_PresentWaitInSeconds :: int

definition edim_callbackPath :: string where "edim_callbackPath = ''/callback/edim''"
definition edim_verifyPath :: string where "edim_verifyPath = ''/edim/verifier''"
definition SameDeviceReturnPath :: string where
  "SameDeviceReturnPath = ''/edim/verifier/same-device/return''"
definition sameDeviceProviderID :: string where "sameDeviceProviderID = ''edim:same_device''"
definition sameDeviceMetadataKey :: string where "sameDeviceMetadataKey = ''same_device''"
definition pidNamespace :: string where "pidNamespace = ''eu.europa.ec.eudi.pid.1''"

section \<open>Starting\<close>

definition authorizeCrossDevice ::
    "'w env \<Rightarrow> 'w verifier \<Rightarrow> Store \<Rightarrow> EdimInst \<Rightarrow> request
     \<Rightarrow> Correlation \<Rightarrow> ('w, authorize_result \<times> Correlation) state" where
  "authorizeCrossDevice E V store i rq sess = do {
     o1 \<leftarrow> vf_GenerateOffer V;
     (case o1 of
        Inl e \<Rightarrow> return (AuthorizeFailed e, fail_with E AuthErrServer sess)
      | Inr offer \<Rightarrow>
          (case cor_State sess of
             None \<Rightarrow> return (AuthorizePanic, sess)
           | Some st \<Rightarrow> do {
               err \<leftarrow> ValidateAndSaveState E store rq (cor_ClientID sess) st;
               return (case err of
                  Some e \<Rightarrow> (AuthorizeFailed e, fail_with E AuthErrInvalidRequest sess)
                | None \<Rightarrow>
                    (AuthorizePage (OfferPage (of_Link offer)
                       (path_Join [rq_base_path rq, edim_verifyPath, of_TransactionID offer])
                       (path_Join [rq_base_path rq, edim_callbackPath] @ ''?''
                          @ Values_Encode [(''transaction_id'', of_TransactionID offer)])
                       (ei_PresentRetries i) (ei_PresentWaitInSeconds i)), sess)) })) }"

definition clientAllowsSameDevice :: "Client option \<Rightarrow> bool" where
  "clientAllowsSameDevice c \<longleftrightarrow>
     (case c of None \<Rightarrow> False | Some client \<Rightarrow> map_index (cl_Metadata client) sameDeviceMetadataKey = ''true'')"

definition authorizeSameDevice ::
    "'w env \<Rightarrow> 'w verifier \<Rightarrow> (string \<Rightarrow> string \<Rightarrow> go_error + string) \<Rightarrow> Store \<Rightarrow> request
     \<Rightarrow> Correlation \<Rightarrow> ('w, authorize_result \<times> Correlation) state" where
  "authorizeSameDevice E V JoinPath store rq sess =
     (if \<not> (case GetClient E (cor_ClientID sess) of Inl _ \<Rightarrow> False | Inr c \<Rightarrow> clientAllowsSameDevice c) then
        return (AuthorizeFailed (ErrorsNew ''client is not enabled for the edim:same_device flow''),
          fail_with E AuthErrInvalidRequest sess)
      else (case cor_State sess of
          None \<Rightarrow> return (AuthorizePanic, sess)
        | Some st \<Rightarrow> do {
            err \<leftarrow> ValidateAndSaveState E store rq (cor_ClientID sess) st;
            (case err of
               Some e \<Rightarrow> return (AuthorizeFailed e, fail_with E AuthErrInvalidRequest sess)
             | None \<Rightarrow>
                 (case JoinPath (rq_base_url rq) SameDeviceReturnPath of
                    Inl e \<Rightarrow> return (AuthorizeFailed e, fail_with E AuthErrServer sess)
                  | Inr returnURL \<Rightarrow> do {
                      o1 \<leftarrow> vf_GenerateSameDeviceOffer V returnURL sess;
                      return (case o1 of
                         Inl e \<Rightarrow> (AuthorizeFailed e, fail_with E AuthErrServer sess)
                       | Inr offer \<Rightarrow> (AuthorizeRedirect (of_Link offer), sess)) })) }))"

definition edim_Authorize ::
    "'w env \<Rightarrow> 'w verifier
     \<Rightarrow> (string \<Rightarrow> string \<Rightarrow> go_error + string) \<Rightarrow> Store \<Rightarrow> EdimInst \<Rightarrow> request
     \<Rightarrow> Correlation \<Rightarrow> ('w, authorize_result \<times> Correlation) state" where
  "edim_Authorize E V JoinPath store i rq sess =
     (if ei_providerID i = sameDeviceProviderID then authorizeSameDevice E V JoinPath store rq sess
      else authorizeCrossDevice E V store i rq sess)"

section \<open>Polling\<close>

definition edim_Verified :: "'w verifier \<Rightarrow> string \<Rightarrow> ('w, reply) state" where
  "edim_Verified V presentID = do {
     r \<leftarrow> vf_Status V presentID;
     return (respond (StatusOnly (case r of
        (status, Some _) \<Rightarrow> 400
      | (status, None) \<Rightarrow>
          if status = ''failed_attestation'' then 400
          else if status = ''failed_wallet'' then 400
          else if status = ''wallet_scanned'' then 202
          else if status = ''success_wallet'' then 200
          else if status = ''initialized'' then 204
          else 204))) }"

section \<open>User data from attributes\<close>

text \<open>The map filled by the loop: the last string attribute of the PID namespace for each key.\<close>

definition pid_string :: "Attribute \<Rightarrow> string option" where
  "pid_string a = (if at_Namespace a \<noteq> pidNamespace then None
     else (case at_Value a of JStr s \<Rightarrow> Some s | _ \<Rightarrow> None))"

fun pid_values :: "(string \<rightharpoonup> string) \<Rightarrow> Attribute list \<Rightarrow> (string \<rightharpoonup> string)" where
  "pid_values vals [] = vals"
| "pid_values vals (a # attrs) =
     (case pid_string a of None \<Rightarrow> pid_values vals attrs
      | Some s \<Rightarrow> pid_values (vals(at_Key a \<mapsto> s)) attrs)"

definition index_of :: "(string \<rightharpoonup> string) \<Rightarrow> string \<Rightarrow> string" where
  "index_of m k = (case m k of None \<Rightarrow> [] | Some v \<Rightarrow> v)"

definition edim_convertToUserData :: "Attribute list \<Rightarrow> go_error + UserData" where
  "edim_convertToUserData attrs =
     (let vals = pid_values Map.empty attrs;
          personalNumber = index_of vals ''personal_administrative_number'';
          givenName = index_of vals ''given_name'';
          familyName = index_of vals ''family_name''
      in if personalNumber = [] then Inl (ErrorsNew ''personal_administrative_number not found or empty'')
         else if givenName = [] then Inl (ErrorsNew ''given_name not found or empty'')
         else if familyName = [] then Inl (ErrorsNew ''family_name not found or empty'')
         else Inr \<lparr>ud_UserID = personalNumber, ud_PersonCode = personalNumber,
                ud_FirstName = givenName, ud_LastName = familyName, ud_Email = []\<rparr>)"

section \<open>Ending\<close>

definition completeCallback ::
    "'w env \<Rightarrow> request \<Rightarrow> Correlation \<Rightarrow> UserData \<Rightarrow> ('w, callback_result \<times> Correlation) state" where
  "completeCallback E rq sess user =
     (case cor_State sess of
        None \<Rightarrow> return (CallbackPanic, sess)
      | Some st \<Rightarrow> do {
          pending \<leftarrow> pending_state E st;
          (case pending of
             Some stateItem \<Rightarrow> finish_code_flow E rq sess user stateItem []
           | None \<Rightarrow> finish_direct E rq sess user) })"

definition edim_Callback ::
    "'w env \<Rightarrow> 'w verifier \<Rightarrow> request \<Rightarrow> Correlation \<Rightarrow> ('w, callback_result \<times> Correlation) state" where
  "edim_Callback E V rq sess =
     (case query_String rq ''transaction_id'' of
        Inl _ \<Rightarrow> return (CallbackError (ErrorsNew (AuthErrText E AuthErrInvalidCallback)),
                    fail_with E AuthErrInvalidCallback sess)
      | Inr presentID \<Rightarrow> do {
          r \<leftarrow> vf_Attributes V presentID;
          (case r of
             Inl e \<Rightarrow> do {
               s \<leftarrow> vf_Status V presentID;
               return (CallbackError (AuthorizeErr (fst s)), fail_with E AuthErrInvalidCallback sess) }
           | Inr attrs \<Rightarrow>
               (case edim_convertToUserData attrs of
                  Inl e \<Rightarrow> return (CallbackError e, fail_with E AuthErrInvalidCallback sess)
                | Inr user \<Rightarrow> completeCallback E rq sess user)) })"

datatype return_result =
    ReturnStatus nat
  | ReturnToCaller Correlation
  | ReturnPanic

definition SameDeviceReturn :: "'w env \<Rightarrow> 'w verifier \<Rightarrow> request \<Rightarrow> ('w, return_result) state" where
  "SameDeviceReturn E V rq = do {
     let tx = (case rq_query rq ''tx'' of None \<Rightarrow> [] | Some v \<Rightarrow> v);
     let responseCode = (case rq_query rq ''response_code'' of None \<Rightarrow> [] | Some v \<Rightarrow> v);
     r \<leftarrow> vf_HandleWalletReturn V tx responseCode;
     (case wr_data r of
        None \<Rightarrow> return (ReturnStatus 400)
      | Some sess0 \<Rightarrow> do {
          sess \<leftarrow> ensure_id E sess0;
          (case wr_err r of
             Some e \<Rightarrow> return (ReturnToCaller (fail_with E AuthErrInvalidCallback sess))
           | None \<Rightarrow>
               (case edim_convertToUserData (wr_attrs r) of
                  Inl e \<Rightarrow> return (ReturnToCaller (fail_with E AuthErrInvalidCallback sess))
                | Inr user \<Rightarrow> do {
                    c \<leftarrow> completeCallback E rq sess user;
                    return (if fst c = CallbackPanic then ReturnPanic else ReturnToCaller (snd c)) })) }) }"

section \<open>Facts\<close>

lemma pid_string_Some:
  "pid_string a = Some s \<longleftrightarrow> at_Namespace a = pidNamespace \<and> at_Value a = JStr s"
  by (auto simp: pid_string_def split: json.splits)

lemma pid_values_Some:
  "pid_values vals attrs k = Some s \<Longrightarrow>
     vals k = Some s \<or> (\<exists>a\<in>set attrs. at_Namespace a = pidNamespace \<and> at_Key a = k \<and> at_Value a = JStr s)"
proof (induction attrs arbitrary: vals)
  case (Cons a attrs)
  then show ?case
    by (cases "pid_string a") (fastforce simp: pid_string_Some fun_upd_def split: if_splits)+
qed simp

lemma pid_values_absent:
  "(\<And>a. a \<in> set attrs \<Longrightarrow> at_Namespace a = pidNamespace \<Longrightarrow> at_Key a \<noteq> k) \<Longrightarrow>
     pid_values vals attrs k = vals k"
proof (induction attrs arbitrary: vals)
  case (Cons a attrs)
  show ?case
  proof (cases "pid_string a")
    case None
    with Cons show ?thesis by simp
  next
    case (Some s)
    then have "at_Key a \<noteq> k" using Cons.prems [of a] by (simp add: pid_string_Some)
    with Some Cons show ?thesis by simp
  qed
qed simp

lemma edim_convert_Inr:
  assumes "edim_convertToUserData attrs = Inr user"
  shows "\<exists>a\<in>set attrs. at_Namespace a = pidNamespace
       \<and> at_Key a = ''personal_administrative_number'' \<and> at_Value a = JStr (ud_PersonCode user)"
    and "\<exists>a\<in>set attrs. at_Namespace a = pidNamespace
       \<and> at_Key a = ''given_name'' \<and> at_Value a = JStr (ud_FirstName user)"
    and "\<exists>a\<in>set attrs. at_Namespace a = pidNamespace
       \<and> at_Key a = ''family_name'' \<and> at_Value a = JStr (ud_LastName user)"
    and "ud_UserID user = ud_PersonCode user" "ud_PersonCode user \<noteq> []"
        "ud_FirstName user \<noteq> []" "ud_LastName user \<noteq> []"
proof -
  have src: "\<exists>a\<in>set attrs. at_Namespace a = pidNamespace \<and> at_Key a = k \<and> at_Value a = JStr s"
    if "index_of (pid_values Map.empty attrs) k = s" "s \<noteq> []" for k s
    using that pid_values_Some [of Map.empty attrs k s] by (auto simp: index_of_def split: option.splits)
  note a = assms [unfolded edim_convertToUserData_def Let_def]
  have i: "index_of (pid_values Map.empty attrs) ''personal_administrative_number'' = ud_PersonCode user"
    "index_of (pid_values Map.empty attrs) ''given_name'' = ud_FirstName user"
    "index_of (pid_values Map.empty attrs) ''family_name'' = ud_LastName user"
    using a by (auto split: if_splits)
  show n: "ud_UserID user = ud_PersonCode user" "ud_PersonCode user \<noteq> []"
      "ud_FirstName user \<noteq> []" "ud_LastName user \<noteq> []"
    using a by (auto split: if_splits)
  show "\<exists>a\<in>set attrs. at_Namespace a = pidNamespace
       \<and> at_Key a = ''personal_administrative_number'' \<and> at_Value a = JStr (ud_PersonCode user)"
    by (rule src [OF i(1) n(2)])
  show "\<exists>a\<in>set attrs. at_Namespace a = pidNamespace
       \<and> at_Key a = ''given_name'' \<and> at_Value a = JStr (ud_FirstName user)"
    by (rule src [OF i(2) n(3)])
  show "\<exists>a\<in>set attrs. at_Namespace a = pidNamespace
       \<and> at_Key a = ''family_name'' \<and> at_Value a = JStr (ud_LastName user)"
    by (rule src [OF i(3) n(4)])
qed

end
