(* ===== verification/OAuth2_Generic.thy ===== *)
theory OAuth2_Generic
  imports Provider_Common
begin

text \<open>
  The config-driven OAuth2 provider: \<open>oauth2generic/transforms.go\<close> (named transforms of claim
  values), \<open>claims.go\<close> (the mapping of userinfo claims to the user's fields), \<open>config.go\<close>,
  \<open>oauth2generic.go\<close> (the flow) and \<open>oauth2generic_config.go\<close> (loading). A Go map that the code
  iterates over is an association list with the keys in the order of the iteration, which Go leaves
  unspecified. The library \<open>golang.org/x/oauth2\<close> and the HTTP client are parameters.
\<close>

section \<open>Transforms\<close>

record TransformStep =
  ts_Name :: string
  ts_Args :: "string list"

fun strip_prefixes :: "string \<Rightarrow> string list \<Rightarrow> string" where
  "strip_prefixes v [] = v"
| "strip_prefixes v (prefix # args) =
     (if HasPrefix v prefix then TrimPrefix v prefix else strip_prefixes v args)"

fun strip_chars :: "string \<Rightarrow> string list \<Rightarrow> string" where
  "strip_chars v [] = v"
| "strip_chars v (s # args) = strip_chars (DeleteAll v s) args"

definition transformRegistry :: "string \<rightharpoonup> (string \<Rightarrow> string list \<Rightarrow> string)" where
  "transformRegistry = [''strip_prefixes'' \<mapsto> strip_prefixes, ''strip_chars'' \<mapsto> strip_chars]"

text \<open>The error texts leave out the quotation marks of \<open>%q\<close>.\<close>

fun applyTransforms :: "string \<Rightarrow> TransformStep list \<Rightarrow> go_error + string" where
  "applyTransforms v [] = Inr v"
| "applyTransforms v (step # steps) =
     (case transformRegistry (ts_Name step) of
        None \<Rightarrow> Inl (ErrorsNew (''oauth2generic: unknown claim transform '' @ ts_Name step))
      | Some fn \<Rightarrow> applyTransforms (fn v (ts_Args step)) steps)"

record ClaimMapping =
  cm_Source :: string
  cm_Transforms :: "TransformStep list"

fun validateClaimFieldMap :: "(string \<times> ClaimMapping) list \<Rightarrow> go_error option" where
  "validateClaimFieldMap [] = None"
| "validateClaimFieldMap ((target, mapping) # fieldMap) =
     (case applyTransforms [] (cm_Transforms mapping) of
        Inl e \<Rightarrow> Some (Wrapped (''oauth2generic: claim_field_map['' @ target @ '']'') e)
      | Inr _ \<Rightarrow> validateClaimFieldMap fieldMap)"

section \<open>Claims\<close>

record AuthRequest =
  aq_PersonCode :: string
  aq_FirstName :: string
  aq_LastName :: string
  aq_Email :: string
  aq_RawClaims :: "(string \<times> json) list"

definition claim_target ::
    "(string \<times> json) list \<Rightarrow> (string \<times> ClaimMapping) list \<Rightarrow> string \<Rightarrow> string" where
  "claim_target claims fieldMap target =
     (case map_of fieldMap target of
        None \<Rightarrow> []
      | Some mapping \<Rightarrow>
          value_or [] (applyTransforms (as_string (map_of claims (cm_Source mapping))) (cm_Transforms mapping)))"

definition mapClaims ::
    "(string \<times> json) list \<Rightarrow> (string \<times> ClaimMapping) list \<Rightarrow> AuthRequest" where
  "mapClaims claims fieldMap =
     (let get = claim_target claims fieldMap
      in \<lparr>aq_PersonCode = get ''person_code'', aq_FirstName = get ''first_name'',
          aq_LastName = get ''last_name'', aq_Email = get ''email'', aq_RawClaims = claims\<rparr>)"

section \<open>Configuration and instance\<close>

record Variant =
  va_ID :: string
  va_AcrValues :: string

record ClientConfig =
  cf_AuthURL :: string
  cf_TokenURL :: string
  cf_UserInfoURL :: string
  cf_ClientID :: string
  cf_ClientSecret :: string
  cf_Scope :: string
  cf_Prompt :: string
  cf_UILocales :: string
  cf_AcrValues :: string
  cf_ClaimFieldMap :: "(string \<times> ClaimMapping) list"
  cf_Variants :: "Variant list"

text \<open>The fields of \<open>oauth2.Config\<close> the code sets.\<close>

record OAuth2Config =
  o2_ClientID :: string
  o2_ClientSecret :: string
  o2_AuthURL :: string
  o2_TokenURL :: string
  o2_Scopes :: "string list"
  o2_RedirectURL :: string

record 'w oauth2_lib =
  AuthCodeURL :: "OAuth2Config \<Rightarrow> string \<Rightarrow> (string \<times> string) list \<Rightarrow> string"
  Exchange :: "OAuth2Config \<Rightarrow> string \<Rightarrow> ('w, go_error + string) state"    \<comment> \<open>the access token\<close>
  HttpGet :: "string \<Rightarrow> string \<Rightarrow> ('w, go_error + string) state"           \<comment> \<open>URL, bearer token\<close>

record inst =
  oi_config :: ClientConfig
  oi_providerID :: string
  oi_oauth2Config :: OAuth2Config
  oi_acrValues :: string

definition callbackPathPrefix :: string where "callbackPathPrefix = ''/callback/''"

definition oauth2_Bind :: "ClientConfig \<Rightarrow> string \<Rightarrow> string \<Rightarrow> go_error + inst" where
  "oauth2_Bind config providerID acrValues =
     (case validateClaimFieldMap (cf_ClaimFieldMap config) of
        Some e \<Rightarrow> Inl e
      | None \<Rightarrow> Inr \<lparr>oi_config = config, oi_providerID = providerID,
          oi_oauth2Config = \<lparr>o2_ClientID = cf_ClientID config, o2_ClientSecret = cf_ClientSecret config,
             o2_AuthURL = cf_AuthURL config, o2_TokenURL = cf_TokenURL config,
             o2_Scopes = (if cf_Scope config \<noteq> [] then [cf_Scope config] else []), o2_RedirectURL = []\<rparr>,
          oi_acrValues = acrValues\<rparr>)"

text \<open>
  \<open>loadOAuth2GenericConfig\<close>: \<open>decode\<close> reads and decodes the file, \<open>LoadRemoteSecret\<close> returns the
  empty string when there is no override. \<open>None\<close>: no file is configured, nothing is changed.
\<close>

definition with_secret :: "(string \<Rightarrow> string) \<Rightarrow> string \<Rightarrow> ClientConfig \<Rightarrow> ClientConfig" where
  "with_secret LoadRemoteSecret i client =
     (let secret = LoadRemoteSecret (''OAUTH2_GENERIC_'' @ ToUpper i @ ''_CLIENT_SECRET'')
      in if secret \<noteq> [] then client\<lparr>cf_ClientSecret := secret\<rparr> else client)"

definition loadOAuth2GenericConfig ::
    "(string \<Rightarrow> go_error + (string \<times> ClientConfig) list) \<Rightarrow> (string \<Rightarrow> string) \<Rightarrow> string
     \<Rightarrow> go_error + (string \<times> ClientConfig) list option" where
  "loadOAuth2GenericConfig decode LoadRemoteSecret file =
     (if file = [] then Inr None
      else (case decode file of
          Inl e \<Rightarrow> Inl e
        | Inr clients \<Rightarrow> Inr (Some (map (\<lambda>(i, c). (i, with_secret LoadRemoteSecret i c)) clients))))"

section \<open>Starting\<close>

definition authorize_params :: "string \<Rightarrow> string \<Rightarrow> string \<Rightarrow> (string \<times> string) list" where
  "authorize_params acrValues prompt uiLocales =
     [(''acr_values'', acrValues)]
     @ (if prompt \<noteq> [] then [(''prompt'', prompt)] else [])
     @ (if uiLocales \<noteq> [] then [(''ui_locales'', uiLocales)] else [])"

definition buildAuthorizeURL ::
    "'w oauth2_lib \<Rightarrow> OAuth2Config \<Rightarrow> string \<Rightarrow> string \<Rightarrow> string \<Rightarrow> string \<Rightarrow> string" where
  "buildAuthorizeURL L cfg state acrValues prompt uiLocales =
     AuthCodeURL L cfg state (authorize_params acrValues prompt uiLocales)"

text \<open>The instance is shared by all requests: its redirect URL is overwritten by each of them.\<close>

definition set_redirect :: "request \<Rightarrow> inst \<Rightarrow> inst" where
  "set_redirect rq i =
     i\<lparr>oi_oauth2Config := (oi_oauth2Config i)
         \<lparr>o2_RedirectURL := rq_base_url rq @ callbackPathPrefix @ oi_providerID i\<rparr>\<rparr>"

definition oauth2_Authorize ::
    "'w env \<Rightarrow> 'w oauth2_lib \<Rightarrow> Store \<Rightarrow> request \<Rightarrow> Correlation \<Rightarrow> inst
     \<Rightarrow> ('w, authorize_result \<times> inst) state" where
  "oauth2_Authorize E L store rq cor i =
     (case cor_State cor of
        None \<Rightarrow> return (AuthorizePanic, i)
      | Some st \<Rightarrow> do {
          err \<leftarrow> ValidateAndSaveState E store rq (cor_ClientID cor) st;
          return (case err of
             Some e \<Rightarrow> (AuthorizeFailed e, i)
           | None \<Rightarrow>
               (let i' = set_redirect rq i
                in (AuthorizeRedirect (buildAuthorizeURL L (oi_oauth2Config i') st (oi_acrValues i')
                      (cf_Prompt (oi_config i')) (cf_UILocales (oi_config i'))), i'))) })"

section \<open>Ending\<close>

definition callbackErrorCode :: "string \<Rightarrow> AuthErrCode" where
  "callbackErrorCode authError =
     (if authError = ''access_denied'' then AuthErrNoRights else AuthErrInvalidCallback)"

definition fetchUserInfo ::
    "'w oauth2_lib \<Rightarrow> inst \<Rightarrow> string \<Rightarrow> ('w, go_error + (string \<times> json) list) state" where
  "fetchUserInfo L i accessToken = do {
     r \<leftarrow> HttpGet L (cf_UserInfoURL (oi_config i)) accessToken;
     return (case r of
        Inl e \<Rightarrow> Inl e
      | Inr buf \<Rightarrow> (case Unmarshal_map buf of
          None \<Rightarrow> Inl (ExternalError ''json'') | Some claims \<Rightarrow> Inr claims)) }"

definition exchangeAndFetchUserInfo ::
    "'w oauth2_lib \<Rightarrow> inst \<Rightarrow> string \<Rightarrow> ('w, go_error + AuthRequest) state" where
  "exchangeAndFetchUserInfo L i code = do {
     t \<leftarrow> Exchange L (oi_oauth2Config i) code;
     (case t of
        Inl e \<Rightarrow> return (Inl e)
      | Inr accessToken \<Rightarrow> do {
          c \<leftarrow> fetchUserInfo L i accessToken;
          return (case c of
             Inl e \<Rightarrow> Inl e
           | Inr claims \<Rightarrow> Inr (mapClaims claims (cf_ClaimFieldMap (oi_config i)))) }) }"

definition session_metadata :: "(string \<times> json) list \<Rightarrow> go_error + strmap" where
  "session_metadata rawClaims =
     (if length rawClaims > 0 then
        (case json_Marshal (JObj rawClaims) of
           Inl e \<Rightarrow> Inl e
         | Inr encoded \<Rightarrow> Inr (Some [extraClaimsMetadataKey \<mapsto> encoded]))
      else Inr (Some Map.empty))"

definition createSession ::
    "'w env \<Rightarrow> request \<Rightarrow> Correlation \<Rightarrow> UserData \<Rightarrow> (string \<times> json) list
     \<Rightarrow> ('w, go_error option \<times> Correlation) state" where
  "createSession E rq cor0 userData rawClaims = do {
     cor \<leftarrow> ensure_id E cor0;
     (case session_metadata rawClaims of
        Inl e \<Rightarrow> return (Some e, cor)
      | Inr metadata \<Rightarrow> do {
          now \<leftarrow> TimeNow E;
          r \<leftarrow> SessionCreate E (direct_session E (cor_ID cor) userData now metadata);
          (case r of
             Inl e \<Rightarrow> return (Some e, cor)
           | Inr _ \<Rightarrow> do {
               a \<leftarrow> PersonRequest E (provider_audit E rq userData (cor_ID cor));
               return (a, cor) }) }) }"

definition user_of :: "AuthRequest \<Rightarrow> UserData" where
  "user_of req = \<lparr>ud_UserID = aq_PersonCode req, ud_PersonCode = aq_PersonCode req,
     ud_FirstName = aq_FirstName req, ud_LastName = aq_LastName req, ud_Email = aq_Email req\<rparr>"

definition oauth2_finish ::
    "'w env \<Rightarrow> request \<Rightarrow> Correlation \<Rightarrow> AuthRequest \<Rightarrow> ('w, callback_result \<times> Correlation) state" where
  "oauth2_finish E rq cor req =
     (case cor_State cor of
        None \<Rightarrow> return (CallbackPanic, cor)
      | Some st \<Rightarrow> do {
          pending \<leftarrow> pending_state E st;
          (case pending of
             Some stateItem \<Rightarrow> finish_code_flow E rq cor (user_of req) stateItem (aq_RawClaims req)
           | None \<Rightarrow> do {
               s \<leftarrow> createSession E rq cor (user_of req) (aq_RawClaims req);
               return (case s of
                  (Some e, cor') \<Rightarrow> (CallbackError e, fail_with E AuthErrServer cor')
                | (None, cor') \<Rightarrow> (CallbackNil, cor'\<lparr>cor_ManagedByProvider := True\<rparr>)) }) })"

definition oauth2_Callback ::
    "'w env \<Rightarrow> 'w oauth2_lib \<Rightarrow> request \<Rightarrow> Correlation \<Rightarrow> inst
     \<Rightarrow> ('w, callback_result \<times> Correlation \<times> inst) state" where
  "oauth2_Callback E L rq cor i =
     (let authError = value_or [] (query_String rq ''error'') in
      if authError \<noteq> [] then
        (let errorCode = callbackErrorCode authError; cor' = fail_with E errorCode cor
         in return (CallbackError (ErrorsNew (cor_ErrorCode cor')), cor', i))
      else (case query_String rq ''code'' of
          Inl e \<Rightarrow> return (CallbackError e, fail_with E AuthErrInvalidCallback cor, i)
        | Inr code \<Rightarrow>
            (let i' = set_redirect rq i in do {
               r \<leftarrow> exchangeAndFetchUserInfo L i' code;
               (case r of
                  Inl e \<Rightarrow> return (CallbackError e, fail_with E AuthErrInvalidCallback cor, i')
                | Inr req \<Rightarrow> do {
                    c \<leftarrow> oauth2_finish E rq cor req;
                    return (fst c, snd c, i') }) })))"

section \<open>Facts about transforms\<close>

lemma transform_total: "transformRegistry n = Some fn \<Longrightarrow> n = ''strip_prefixes'' \<or> n = ''strip_chars''"
  by (auto simp: transformRegistry_def split: if_splits)

text \<open>Whether the steps are known does not depend on the value they are applied to.\<close>

lemma applyTransforms_known:
  "(\<exists>v'. applyTransforms v steps = Inr v') \<longleftrightarrow> (\<forall>s\<in>set steps. transformRegistry (ts_Name s) \<noteq> None)"
  by (induction steps arbitrary: v) (auto split: option.splits)

lemma validate_None:
  "validateClaimFieldMap fieldMap = None \<longleftrightarrow>
     (\<forall>(target, mapping) \<in> set fieldMap. \<forall>s\<in>set (cm_Transforms mapping). transformRegistry (ts_Name s) \<noteq> None)"
proof (induction fieldMap)
  case (Cons tm fieldMap)
  obtain target mapping where tm: "tm = (target, mapping)" by (cases tm)
  show ?case
    using Cons applyTransforms_known [of "[]" "cm_Transforms mapping"]
    by (auto simp: tm split: sum.splits)
qed simp

lemma set_strip_chars: "set (strip_chars v args) \<subseteq> set v"
proof (induction args arbitrary: v)
  case (Cons s args)
  then show ?case using set_DeleteAll [of v s] by fastforce
qed simp

lemma strip_chars_gone: "[c] \<in> set args \<Longrightarrow> c \<notin> set (strip_chars v args)"
proof (induction args arbitrary: v)
  case (Cons s args)
  show ?case
  proof (cases "s = [c]")
    case True
    then have "c \<notin> set (DeleteAll v s)" by (simp add: DeleteAll_char)
    then show ?thesis using set_strip_chars [of "DeleteAll v s" args] by auto
  next
    case False
    with Cons show ?thesis by auto
  qed
qed simp

lemma strip_prefixes_suffix: "\<exists>p. v = p @ strip_prefixes v args"
  by (induction args) (auto simp: HasPrefix_iff TrimPrefix_def intro: exI [of _ "[]"])

end
