(* ===== verification/Service_Policy.thy ===== *)
theory Service_Policy
  imports Introspection Store_Logic Smart_Id Edim OAuth2_Generic
begin

text \<open>
  What every handler of the service does to the caches and the session store, once and for all:
  the locale \<open>store_policy\<close> lists the values the handlers store and the sessions they create, as
  closure conditions on the predicates of \<open>store_logic\<close>; its lemmas walk along the definitions of
  the handlers. An invariant of the service is an instance of the locale: the conditions are
  discharged for it, and it holds after every handler.
\<close>

definition replay_caches :: "string list" where
  "replay_caches = [''client-attestation-jti'', ''dpop-jti'', ''system-token-jti'']"

text \<open>The properties of stored values that leave the replay caches free.\<close>

definition replay_free :: "(string \<Rightarrow> string \<Rightarrow> cache_value \<Rightarrow> bool) \<Rightarrow> bool" where
  "replay_free P \<longleftrightarrow> (\<forall>n\<in>set replay_caches. \<forall>k b. P n k (BoolVal b))"

lemma replay_freeD: "replay_free P \<Longrightarrow> n \<in> set replay_caches \<Longrightarrow> P n k (BoolVal b)"
  by (simp add: replay_free_def)

definition intn_range :: "'w env \<Rightarrow> bool" where
  "intn_range E \<longleftrightarrow> (\<forall>n w. 0 < n \<longrightarrow> 0 \<le> result_of (RandIntn E n) w \<and> result_of (RandIntn E n) w < n)"

section \<open>The libraries\<close>

text \<open>The libraries of the providers, and \<open>url.JoinPath\<close>.\<close>

record 'w provider_libs =
  pl_smartid :: "'w sid_client"
  pl_verifier :: "'w verifier"
  pl_oauth2 :: "'w oauth2_lib"
  pl_JoinPath :: "string \<Rightarrow> string \<Rightarrow> go_error + string"

text \<open>
  \<open>within T m\<close>: whatever the library call \<open>m\<close> does to the world stays within the relation \<open>T\<close>;
  \<open>calm I m\<close>: it does not break the invariant \<open>I\<close>.
\<close>

definition within :: "('w \<Rightarrow> 'w \<Rightarrow> bool) \<Rightarrow> ('w, 'a) state \<Rightarrow> bool" where
  "within T m \<longleftrightarrow> (\<forall>w. T w (world_after m w))"

definition calm :: "('w \<Rightarrow> bool) \<Rightarrow> ('w, 'a) state \<Rightarrow> bool" where
  "calm I = within (\<lambda>w w'. I w \<longrightarrow> I w')"

definition attester_within :: "('w \<Rightarrow> 'w \<Rightarrow> bool) \<Rightarrow> 'w Attester option \<Rightarrow> bool" where
  "attester_within T attest \<longleftrightarrow> (\<forall>a x y. attest = Some a \<longrightarrow> within T (at_Verify a x y))"

text \<open>The attestation verifier records replays: it gets a relation of its own.\<close>

definition router_within ::
    "('w \<Rightarrow> 'w \<Rightarrow> bool) \<Rightarrow> ('w \<Rightarrow> 'w \<Rightarrow> bool) \<Rightarrow> 'w env \<Rightarrow> ('w, 'k) router \<Rightarrow> bool" where
  "router_within T A E R \<longleftrightarrow>
     attester_within A (ro_attest R)
     \<and> (\<forall>opts s kf. within T (ro_dpop_parse R opts s kf)) \<and> va_replay (ro_dpop R) \<in> {None, Some (dpop_replay E)}
     \<and> (\<forall>opts s kf. within T (al_parse (ro_assertions R) opts s kf))"

definition libs_within :: "('w \<Rightarrow> 'w \<Rightarrow> bool) \<Rightarrow> 'w provider_libs \<Rightarrow> bool" where
  "libs_within T Pv \<longleftrightarrow>
     (\<forall>c s. within T (sid_CreateSession (pl_smartid Pv) c s)) \<and> (\<forall>s. within T (sid_FetchSession (pl_smartid Pv) s))
     \<and> within T (vf_GenerateOffer (pl_verifier Pv)) \<and> (\<forall>u c. within T (vf_GenerateSameDeviceOffer (pl_verifier Pv) u c))
     \<and> (\<forall>t c. within T (vf_HandleWalletReturn (pl_verifier Pv) t c)) \<and> (\<forall>s. within T (vf_Status (pl_verifier Pv) s))
     \<and> (\<forall>s. within T (vf_Attributes (pl_verifier Pv) s))
     \<and> (\<forall>c s. within T (Exchange (pl_oauth2 Pv) c s)) \<and> (\<forall>u s. within T (HttpGet (pl_oauth2 Pv) u s))"

abbreviation calm_attester :: "('w \<Rightarrow> bool) \<Rightarrow> 'w Attester option \<Rightarrow> bool" where
  "calm_attester I \<equiv> attester_within (\<lambda>w w'. I w \<longrightarrow> I w')"

abbreviation calm_router :: "('w \<Rightarrow> bool) \<Rightarrow> 'w env \<Rightarrow> ('w, 'k) router \<Rightarrow> bool" where
  "calm_router I \<equiv> router_within (\<lambda>w w'. I w \<longrightarrow> I w') (\<lambda>w w'. I w \<longrightarrow> I w')"

abbreviation calm_libs :: "('w \<Rightarrow> bool) \<Rightarrow> 'w provider_libs \<Rightarrow> bool" where
  "calm_libs I \<equiv> libs_within (\<lambda>w w'. I w \<longrightarrow> I w')"

lemma within_mono: "within T m \<Longrightarrow> (\<And>w w'. T w w' \<Longrightarrow> T' w w') \<Longrightarrow> within T' m"
  by (simp add: within_def)

lemma attester_within_mono:
  "attester_within T a \<Longrightarrow> (\<And>w w'. T w w' \<Longrightarrow> T' w w') \<Longrightarrow> attester_within T' a"
  unfolding attester_within_def by (blast intro: within_mono)

lemma router_within_mono:
  assumes "router_within T A E R" "\<And>w w'. T w w' \<Longrightarrow> T' w w'" "\<And>w w'. A w w' \<Longrightarrow> A' w w'"
  shows "router_within T' A' E R"
  using assms(1) by (simp add: router_within_def attester_within_def within_def assms(2,3))

lemma libs_within_mono:
  assumes "libs_within T Pv" "\<And>w w'. T w w' \<Longrightarrow> T' w w'"
  shows "libs_within T' Pv"
  using assms(1) by (simp add: libs_within_def within_def assms(2))

lemma calm_iff: "within (\<lambda>w w'. I w \<longrightarrow> I w') m \<longleftrightarrow> calm I m"
  by (simp add: calm_def)

lemma calmD: "calm I m \<Longrightarrow> I w \<Longrightarrow> I (world_after m w)"
  by (simp add: calm_def within_def)

lemma calm_bind:
  assumes "calm I m" "\<And>r. upholds I (f r) Q"
  shows "upholds I (State_Monad.bind m f) Q"
  by (rule upholds_step_bind) (use assms in \<open>simp_all add: calm_def within_def\<close>)

lemma calm_upholds: "calm I m \<longleftrightarrow> upholds I m (\<lambda>_. True)"
  by (simp add: calm_def within_def upholds_def)

lemma ac_Code_callback_item: "ac_Code (callback_item E sess ch m user st now md) = cor_ID sess"
  by (simp add: callback_item_def)

section \<open>Whom a login is for\<close>

text \<open>The subject that a provider's library reports to a callback, in the world it starts in.\<close>

definition sid_subject :: "'w sid_client \<Rightarrow> request \<Rightarrow> 'w \<Rightarrow> string option" where
  "sid_subject C rq w =
     (case query_String rq ''sessionID'' of
        Inl _ \<Rightarrow> None
      | Inr s \<Rightarrow> (case result_of (sid_FetchSession C s) w of
          Inr (Some p) \<Rightarrow> Some (pe_IdentityNumber p) | _ \<Rightarrow> None))"

definition attributes_subject :: "Attribute list \<Rightarrow> string option" where
  "attributes_subject attrs = (case edim_convertToUserData attrs of Inl _ \<Rightarrow> None | Inr user \<Rightarrow> Some (ud_UserID user))"

definition edim_subject :: "'w verifier \<Rightarrow> request \<Rightarrow> 'w \<Rightarrow> string option" where
  "edim_subject V rq w =
     (case query_String rq ''transaction_id'' of
        Inl _ \<Rightarrow> None
      | Inr s \<Rightarrow> (case result_of (vf_Attributes V s) w of Inl _ \<Rightarrow> None | Inr as \<Rightarrow> attributes_subject as))"

definition return_subject :: "'w verifier \<Rightarrow> request \<Rightarrow> 'w \<Rightarrow> string option" where
  "return_subject V rq w =
     (let r = result_of (vf_HandleWalletReturn V (case rq_query rq ''tx'' of None \<Rightarrow> [] | Some v \<Rightarrow> v)
                (case rq_query rq ''response_code'' of None \<Rightarrow> [] | Some v \<Rightarrow> v)) w
      in if wr_err r = None then attributes_subject (wr_attrs r) else None)"

text \<open>The id of the correlation a wallet returns to.\<close>

definition return_login :: "'w verifier \<Rightarrow> request \<Rightarrow> 'w \<Rightarrow> string" where
  "return_login V rq w =
     (case wr_data (result_of (vf_HandleWalletReturn V (case rq_query rq ''tx'' of None \<Rightarrow> [] | Some v \<Rightarrow> v)
                (case rq_query rq ''response_code'' of None \<Rightarrow> [] | Some v \<Rightarrow> v)) w) of
        None \<Rightarrow> [] | Some sess \<Rightarrow> cor_ID sess)"

definition oauth2_subject :: "'w oauth2_lib \<Rightarrow> request \<Rightarrow> inst \<Rightarrow> 'w \<Rightarrow> string option" where
  "oauth2_subject O2 rq i w =
     (case query_String rq ''code'' of
        Inl _ \<Rightarrow> None
      | Inr code \<Rightarrow> (case result_of (exchangeAndFetchUserInfo O2 (set_redirect rq i) code) w of
          Inl _ \<Rightarrow> None | Inr req \<Rightarrow> Some (aq_PersonCode req)))"

section \<open>Verifying proofs and attestations\<close>

context store_logic
begin

lemma ReplayCheck_ok: "replay_free P \<Longrightarrow> n \<in> set replay_caches \<Longrightarrow> upholds I (cache_ReplayCheck E n j) (\<lambda>_. True)"
  unfolding cache_ReplayCheck_def by (intro upholds_steps TrueI) (rule replay_freeD)

lemma dpop_Validate_ok:
  assumes "\<forall>opts s kf. calm I (parse opts s kf)" "va_replay v \<in> {None, Some (dpop_replay E)}"
    and "replay_free P"
  shows "upholds I (dpop_Validate E parse v prf m t) (\<lambda>_. True)"
proof -
  have r: "upholds I (replay j) (\<lambda>_. True)" if "va_replay v = Some replay" for replay j
  proof -
    have "replay = dpop_replay E" using assms(2) that by simp
    then show ?thesis
      unfolding dpop_replay_def by (simp add: ReplayCheck_ok [OF assms(3)] replay_caches_def)
  qed
  show ?thesis
    unfolding dpop_Validate_def
    by (intro upholds_steps calm_bind [OF assms(1) [rule_format]] r [THEN upholds_bind] TrueI)
qed

lemma attest_Verify_ok:
  assumes "\<forall>opts s kf. calm I (p1 opts s kf)" "\<forall>opts s kf. calm I (p2 opts s kf)"
    and "ve_replay v \<in> {None, Some (attest_replay E)}" "replay_free P"
  shows "calm_attester I (Some (attester_of E X p1 p2 v))"
proof -
  have r: "upholds I (replay j) (\<lambda>_. True)" if "ve_replay v = Some replay" for replay j
  proof -
    have "replay = attest_replay E" using assms(3) that by simp
    then show ?thesis
      unfolding attest_replay_def by (simp add: ReplayCheck_ok [OF assms(4)] replay_caches_def)
  qed
  have "upholds I (attest_Verify E X p1 p2 v wia pop) (\<lambda>_. True)" for wia pop
    unfolding attest_Verify_def Let_def
    by (intro upholds_steps calm_bind [OF assms(1) [rule_format]] calm_bind [OF assms(2) [rule_format]]
        r [THEN upholds_bind] TrueI)
  then show ?thesis by (simp add: attester_within_def calm_iff calm_upholds attester_of_def)
qed

end

section \<open>The policy\<close>

locale store_policy = store_logic E I P S H U
  for E :: "'w env" and I and P and S and H and U +
  fixes J :: "string \<Rightarrow> bool"        \<comment> \<open>thumbprints of proved keys\<close>
    and L :: "string \<Rightarrow> bool"        \<comment> \<open>subjects a session may have\<close>
    and C :: "string \<Rightarrow> bool"        \<comment> \<open>ids of the correlations that log in\<close>
    and store :: Store
  assumes replay_val: "replay_free P"
    and code_session: "i = zero_AuthCodeItem \<or> P authCodeCache c (AuthCodeVal i) \<Longrightarrow> J jkt \<Longrightarrow>
        S (bind_session (ac_Session i) sid now jkt)"
    and code_refresh: "i = zero_AuthCodeItem \<or> P authCodeCache c (AuthCodeVal i) \<Longrightarrow> J jkt \<Longrightarrow> jkt \<noteq> [] \<Longrightarrow>
        H h \<Longrightarrow> P refreshTokenCacheName h (RefreshVal \<lparr>rt_ClientID = cl, rt_Scope = ac_Scope i, rt_JKT = jkt,
          rt_Session = bind_session (ac_Session i) sid now jkt\<rparr>)"
    and rotate_session: "P refreshTokenCacheName h (RefreshVal item) \<Longrightarrow> J (rt_JKT item) \<Longrightarrow> rt_JKT item \<noteq> [] \<Longrightarrow>
        S (refresh_session (rt_Session item) sid now (rt_JKT item))"
    and rotate_refresh: "P refreshTokenCacheName h (RefreshVal item) \<Longrightarrow> J (rt_JKT item) \<Longrightarrow> rt_JKT item \<noteq> [] \<Longrightarrow>
        H h' \<Longrightarrow> P refreshTokenCacheName h' (RefreshVal \<lparr>rt_ClientID = rt_ClientID item, rt_Scope = rt_Scope item,
          rt_JKT = rt_JKT item, rt_Session = template_after_bind (rt_Session item) (rt_JKT item)\<rparr>)"
    and ulid_subject: "U u \<Longrightarrow> L u" and ulid_login: "U u \<Longrightarrow> C u"
    and preauth_val: "L sub \<Longrightarrow> U c \<Longrightarrow> P authCodeCache c (AuthCodeVal (preauth_item E rq c sub scope))"
    and tx_val: "0 \<le> z \<Longrightarrow> z < 90000 \<Longrightarrow> P preAuthCache c (IntVal (z + 10000))"
    and system_session: "J jkt \<Longrightarrow> S (system_session E sid now scope jkt)"
    and par_val: "valid_code_request E store (rq_form rq) c \<Longrightarrow> U k \<Longrightarrow>
        P parCacheName k (PARVal \<lparr>par_ClientID = c, par_RawQuery = Values_Encode (rq_post_args (rq::request))\<rparr>)"
    and state_val: "st_ResponseType st = ''code'' \<Longrightarrow> IsScopeSupported store (st_Scope st) \<Longrightarrow>
        P stateCache (st_State st) (StateVal st)"
    and callback_val: "L (ud_UserID user) \<Longrightarrow> C (cor_ID sess) \<Longrightarrow> callback_metadata raw = Inr md \<Longrightarrow>
        P authCodeCache (cor_ID sess) (AuthCodeVal (callback_item E sess challenge m user st now md))"
    and direct_session: "L (ud_UserID user) \<Longrightarrow> md = None \<or> session_metadata raw = Inr md \<Longrightarrow>
        S (direct_session E sid user now md)"
begin

subsection \<open>The grants\<close>

lemma attestation_branch_ok:
  assumes "calm_attester I attest"
  shows "upholds I (attestation_branch code status rq jkt attest wia) (\<lambda>_. True)"
  unfolding attestation_branch_def
  by (intro upholds_steps calm_bind TrueI) (use assms in \<open>simp add: attester_within_def calm_iff\<close>)

lemma dpopJKT_ok:
  assumes "calm_router I E R"
  shows "upholds I (dpopJKT E R rq) (\<lambda>_. True)"
  using assms unfolding router_within_def calm_iff dpopJKT_def Let_def
  by (intro upholds_steps dpop_Validate_ok [THEN upholds_bind] replay_val TrueI) simp_all

lemma authenticate_ok:
  assumes "calm_attester I attest"
  shows "upholds I (authenticate E rq jkt attest) (\<lambda>_. True)"
  unfolding authenticate_def
  by (intro upholds_steps attestation_branch_ok [OF assms, THEN upholds_bind] TrueI)

lemma check_code_ok: "upholds I (check_code E rq auth)
    (\<lambda>r. \<forall>i. r = Inr i \<longrightarrow> i = zero_AuthCodeItem
       \<or> P authCodeCache (value_or [] (form_String rq ''code'')) (AuthCodeVal i))"
  unfolding check_code_def
  by (intro upholds_steps store_steps) (auto split: sum.splits if_splits)

lemma issue_refresh_ok:
  assumes "i = zero_AuthCodeItem \<or> P authCodeCache c (AuthCodeVal i)" "J jkt"
  shows "upholds I (issue_refresh E jkt cl (i\<lparr>ac_Session := bind_session (ac_Session i) sid now jkt\<rparr>)) (\<lambda>_. True)"
proof -
  have "P refreshTokenCacheName h (RefreshVal \<lparr>rt_ClientID = cl, rt_Scope = ac_Scope i, rt_JKT = jkt,
          rt_Session = bind_session (ac_Session i) sid now jkt\<rparr>)" if "token_type jkt = ''DPoP''" "H h" for h
    using code_refresh [OF assms _ that(2)] that(1) by (auto simp: token_type_def split: if_splits)
  then show ?thesis
    unfolding issue_refresh_def by (intro upholds_steps store_steps TrueI) simp
qed

lemma issue_token_ok:
  assumes "i = zero_AuthCodeItem \<or> P authCodeCache c (AuthCodeVal i)" "J jkt"
  shows "upholds I (issue_token E rq timeout jkt cl i) (\<lambda>_. True)"
  unfolding issue_token_def Let_def
  by (intro upholds_steps store_steps issue_refresh_ok [OF assms, THEN upholds_bind] TrueI)
     (simp add: code_session [OF assms])

lemma HandleAuthorization_ok:
  assumes "calm_attester I attest" "J jkt"
  shows "upholds I (HandleAuthorization E rq timeout jkt attest) (\<lambda>_. True)"
  unfolding HandleAuthorization_def
  by (intro upholds_control authenticate_ok [OF assms(1), THEN upholds_bind] check_code_ok [THEN upholds_bind]
      issue_token_ok [OF _ assms(2)] TrueI) simp

lemma rotate_token_ok:
  assumes "P refreshTokenCacheName h (RefreshVal item)" "J (rt_JKT item)" "rt_JKT item \<noteq> []"
  shows "upholds I (rotate_token E timeout (rt_JKT item) item) (\<lambda>_. True)"
  unfolding rotate_token_def
  by (intro upholds_steps store_steps TrueI)
     (simp_all add: rotate_session [OF assms] rotate_refresh [OF assms])

lemma HandleRefreshToken_ok:
  assumes "J jkt"
  shows "upholds I (HandleRefreshToken E rq timeout jkt) (\<lambda>_. True)"
proof -
  have "upholds I (rotate_token E timeout jkt item) (\<lambda>_. True)"
    if "P refreshTokenCacheName h (RefreshVal item)" "rt_JKT item = jkt" "jkt \<noteq> []" for h item
    using rotate_token_ok [OF that(1)] that(2,3) assms by simp
  then show ?thesis
    unfolding HandleRefreshToken_def
    by (intro upholds_control store_steps TrueI) blast
qed

lemma preauth_lookup_ok: "upholds I (preauth_lookup E rq)
    (\<lambda>r. \<forall>i. r = Inr i \<longrightarrow> (\<exists>c. P authCodeCache c (AuthCodeVal i)))"
  unfolding preauth_lookup_def Let_def
  by (intro upholds_control store_steps) auto

lemma preauth_issue_ok:
  assumes "P authCodeCache c (AuthCodeVal i)" "J jkt"
  shows "upholds I (preauth_issue E rq timeout jkt i) (\<lambda>_. True)"
  unfolding preauth_issue_def Let_def
  by (intro upholds_steps store_steps TrueI) (rule code_session [OF disjI2 [OF assms(1)] assms(2)])

lemma preauth_attestation_ok:
  assumes "calm_attester I attest"
  shows "upholds I (preauth_attestation rq jkt attest req) (\<lambda>_. True)"
  unfolding preauth_attestation_def Let_def
  by (intro upholds_control attestation_branch_ok [OF assms, THEN upholds_bind] TrueI)

lemma HandlePreAuthorized_ok:
  assumes "calm_attester I attest" "J jkt"
  shows "upholds I (HandlePreAuthorized E rq timeout jkt attest req) (\<lambda>_. True)"
proof -
  have "upholds I (preauth_issue E rq timeout jkt i) (\<lambda>_. True)" if "\<exists>c. P authCodeCache c (AuthCodeVal i)" for i
    using that preauth_issue_ok [OF _ assms(2)] by blast
  then show ?thesis
    unfolding HandlePreAuthorized_def
    by (intro upholds_control preauth_attestation_ok [OF assms(1), THEN upholds_bind]
        preauth_lookup_ok [THEN upholds_bind] TrueI) simp
qed

lemma handleClientCredentials_ok:
  assumes "\<forall>opts s kf. calm I (al_parse A opts s kf)" "J jkt"
  shows "upholds I (handleClientCredentials E A timeout rq jkt) (\<lambda>_. True)"
proof -
  have i: "upholds I (issue_system_token E timeout req jkt claims) (\<lambda>_. True)" for req claims
    unfolding issue_system_token_def by (intro upholds_steps TrueI system_session assms(2))
  have j: "upholds I (assertion_jti E x) (\<lambda>_. True)" for x
    unfolding assertion_jti_def
    by (intro upholds_steps TrueI replay_freeD [OF replay_val]) (simp add: replay_caches_def)
  have t: "upholds I (if b then TimeNow E else return 0) (\<lambda>_. True)" for b
    by (intro upholds_control TrueI upholds_still now_ok)
  have a: "upholds I (accept_assertion E timeout req jkt tok) (\<lambda>_. True)" for req tok
    unfolding accept_assertion_def Let_def
    by (intro upholds_control t [THEN upholds_bind] j [THEN upholds_bind] i TrueI)
  show ?thesis
    unfolding handleClientCredentials_def
    by (intro upholds_control calm_bind [OF assms(1) [rule_format]] a TrueI)
qed

text \<open>The token endpoint, in a world where the proof of this request is one that \<open>J\<close> accepts.\<close>

lemma token_ok:
  assumes "calm_router I E R" "I w" "\<And>j. result_of (dpopJKT E R rq) w = Inr j \<Longrightarrow> J j"
  shows "I (world_after (token E R rq) w)"
proof (cases "result_of (dpopJKT E R rq) w")
  case (Inl rep)
  with upholdsD(2) [OF dpopJKT_ok [OF assms(1)] assms(2)] show ?thesis by (simp add: token_def)
next
  case (Inr jkt)
  have "upholds I (dispatch_grant E R rq jkt) (\<lambda>_. True)"
    using assms(1) assms(3) [OF Inr] unfolding dispatch_grant_def Let_def router_within_def calm_iff
    by (intro upholds_control HandleAuthorization_ok HandleRefreshToken_ok HandlePreAuthorized_ok
        handleClientCredentials_ok) simp_all
  from upholdsD(2) [OF this upholdsD(2) [OF dpopJKT_ok [OF assms(1)] assms(2)]] Inr
  show ?thesis by (simp add: token_def)
qed

subsection \<open>The other endpoints\<close>

lemma par_ok:
  assumes "calm_router I E R" "ro_Store R = store"
  shows "upholds I (par E R rq) (\<lambda>_. True)"
proof -
  have v: "calm I (at_Verify a x y)" if "ro_attest R = Some a" for a x y
    using assms that by (simp add: router_within_def attester_within_def calm_iff)
  show ?thesis
    unfolding par_def
    by (intro upholds_control v [THEN calm_bind] store_steps TrueI)
       (auto simp: par_checks_Inr assms(2) intro: par_val)
qed

lemma authorizationV3_ok: "upholds I (authorizationV3 E R rq) (\<lambda>_. True)"
proof -
  have "upholds I (authorizationV3FromPAR E rq u) (\<lambda>_. True)" for u
    unfolding authorizationV3FromPAR_def Let_def by (intro upholds_control store_steps TrueI)
  then show ?thesis
    unfolding authorizationV3_def by (intro upholds_control upholds_bind [where R = "\<lambda>_. True"] TrueI)
qed

lemma introspection_ok: "upholds I (introspection E R rq) (\<lambda>_. True)"
  unfolding introspection_def Let_def by (intro upholds_steps TrueI)

lemma preauthGenerate_ok:
  assumes "intn_range E" "\<And>s. rq_form rq ''session_id'' = Some s \<Longrightarrow> s \<noteq> [] \<Longrightarrow> L s"
  shows "upholds I (preauthGenerate E rq) (\<lambda>_. True)"
proof -
  let ?sub = "case rq_form rq ''session_id'' of
      Some s \<Rightarrow> if s = [] then UlidMake E else return s | None \<Rightarrow> UlidMake E"
  have s: "upholds I ?sub L"
    by (intro upholds_control assms(2) upholds_weaken [OF upholds_ulid] ulid_subject)
  have r: "0 \<le> result_of (RandIntn E 90000) w \<and> result_of (RandIntn E 90000) w < 90000" for w
    using assms(1) by (simp add: intn_range_def)
  have "upholds I (preauthGenerate E rq) (\<lambda>_. True)"
    unfolding preauthGenerate_def Let_def
    by (intro upholds_control upholds_bind [OF s] ulid_bind quiet_steps store_steps TrueI)
       (use r in \<open>auto simp: preauth_item_def [where E = E] intro: tx_val\<close>,
        use preauth_val in \<open>auto simp: preauth_item_def\<close>)
  then show ?thesis .
qed

subsection \<open>The providers\<close>

lemma ValidateAndSaveState_ok: "upholds I (ValidateAndSaveState E store rq c s) (\<lambda>_. True)"
  unfolding ValidateAndSaveState_def
  by (intro upholds_control upholds_SetState TrueI)
     (auto simp: state_to_save_Some well_formed_code_request_def intro!: state_val)

lemma Callback_ok:
  assumes "L (ud_UserID user)" "C (cor_ID sess)"
  shows "upholds I (Callback E rq sess user st raw) (\<lambda>_. True)"
  unfolding Callback_def
  by (intro upholds_steps store_steps TrueI) (simp add: ac_Code_callback_item callback_val [OF assms])

lemma pending_state_ok: "upholds I (pending_state E st) (\<lambda>_. True)"
  unfolding pending_state_def by (intro upholds_control store_steps TrueI)

lemma finish_code_flow_ok:
  assumes "L (ud_UserID user)" "C (cor_ID sess)"
  shows "upholds I (finish_code_flow E rq sess user st raw) (\<lambda>_. True)"
  unfolding finish_code_flow_def
  by (intro upholds_control Callback_ok [OF assms, THEN upholds_bind] TrueI)

lemma ensure_id_ok: "upholds I (ensure_id E sess) (\<lambda>s. C (cor_ID sess) \<longrightarrow> C (cor_ID s))"
  unfolding ensure_id_def by (intro upholds_control ulid_bind) (simp_all add: ulid_login)

lemma finish_direct_ok:
  assumes "L (ud_UserID user)"
  shows "upholds I (finish_direct E rq sess user) (\<lambda>_. True)"
  unfolding finish_direct_def
  by (intro ensure_id_ok [THEN upholds_bind] upholds_steps TrueI direct_session [OF assms] disjI1 refl)

lemma createSession_ok:
  assumes "L (ud_UserID user)"
  shows "upholds I (createSession E rq cor user raw) (\<lambda>_. True)"
  unfolding createSession_def
  by (intro ensure_id_ok [THEN upholds_bind] upholds_steps TrueI direct_session [OF assms] disjI2)

lemma completeCallback_ok:
  assumes "L (ud_UserID user)" "C (cor_ID sess)"
  shows "upholds I (completeCallback E rq sess user) (\<lambda>_. True)"
  unfolding completeCallback_def
  by (intro upholds_control pending_state_ok [THEN upholds_bind] finish_code_flow_ok [OF assms]
      finish_direct_ok [OF assms(1)] TrueI)

lemma oauth2_finish_ok:
  assumes "L (aq_PersonCode req)" "C (cor_ID cor)"
  shows "upholds I (oauth2_finish E rq cor req) (\<lambda>_. True)"
proof -
  have u: "L (ud_UserID (user_of req))" using assms(1) by (simp add: user_of_def)
  show ?thesis
    unfolding oauth2_finish_def
    by (intro upholds_control pending_state_ok [THEN upholds_bind] finish_code_flow_ok [OF u assms(2)]
        createSession_ok [OF u, THEN upholds_bind] TrueI)
qed

lemma sid_Authorize_ok: "upholds I (sid_Authorize E store cfg rq sess) (\<lambda>_. True)"
  unfolding sid_Authorize_def Let_def
  by (intro upholds_control ValidateAndSaveState_ok [THEN upholds_bind] TrueI)

lemma edim_Authorize_ok:
  assumes "calm_libs I Pv"
  shows "upholds I (edim_Authorize E (pl_verifier Pv) jp store i rq sess) (\<lambda>_. True)"
  using assms unfolding edim_Authorize_def authorizeSameDevice_def authorizeCrossDevice_def libs_within_def calm_iff
  by (intro upholds_control ValidateAndSaveState_ok [THEN upholds_bind] calm_bind TrueI) simp_all

lemma oauth2_Authorize_ok: "upholds I (oauth2_Authorize E O2 store rq cor i) (\<lambda>_. True)"
  unfolding oauth2_Authorize_def
  by (intro upholds_control ValidateAndSaveState_ok [THEN upholds_bind] TrueI)

lemma polling_ok:
  assumes "calm_libs I Pv"
  shows "upholds I (sid_Login err (pl_smartid Pv) body) (\<lambda>_. True)"
    and "upholds I (sid_Verified (pl_smartid Pv) s) (\<lambda>_. True)"
    and "upholds I (edim_Verified (pl_verifier Pv) s) (\<lambda>_. True)"
  using assms unfolding sid_Login_def sid_Verified_def edim_Verified_def libs_within_def calm_iff
  by (intro upholds_control calm_bind TrueI; simp)+

text \<open>The callbacks, in a world where the reported subject is one that \<open>L\<close> accepts.\<close>

lemma sid_Callback_ok:
  assumes "calm_libs I Pv" "I w" "\<And>s. sid_subject (pl_smartid Pv) rq w = Some s \<Longrightarrow> L s" "C (cor_ID sess)"
  shows "I (world_after (sid_Callback E (pl_smartid Pv) rq sess) w)"
proof (cases "query_String rq ''sessionID''")
  case (Inl e)
  with assms(2) show ?thesis by (simp add: sid_Callback_def)
next
  case (Inr s)
  let ?m = "sid_FetchSession (pl_smartid Pv) s"
  have q: "I (world_after ?m w)"
    using assms(1,2) by (simp add: libs_within_def calm_iff calmD)
  have f: "I (world_after (case cor_State sess of None \<Rightarrow> return (CallbackPanic, sess)
      | Some st \<Rightarrow> do { pending \<leftarrow> pending_state E st;
          (case pending of Some item \<Rightarrow> finish_code_flow E rq sess (sid_convertToUserData p) item []
           | None \<Rightarrow> finish_direct E rq sess (sid_convertToUserData p)) }) (world_after ?m w))"
    if "result_of ?m w = Inr (Some p)" for p
  proof -
    have l: "L (ud_UserID (sid_convertToUserData p))"
      using assms(3) that Inr by (simp add: sid_subject_def sid_convertToUserData_def)
    show ?thesis
      by (rule upholdsD(2) [where Q = "\<lambda>_. True" and I = I, OF _ q])
         (intro upholds_control pending_state_ok [THEN upholds_bind] finish_code_flow_ok [OF l assms(4)]
            finish_direct_ok [OF l] TrueI)
  qed
  show ?thesis
    using Inr q f by (simp add: sid_Callback_def Let_def split: sum.split option.split)
qed

lemma edim_Callback_ok:
  assumes "calm_libs I Pv" "I w" "\<And>s. edim_subject (pl_verifier Pv) rq w = Some s \<Longrightarrow> L s" "C (cor_ID sess)"
  shows "I (world_after (edim_Callback E (pl_verifier Pv) rq sess) w)"
proof (cases "query_String rq ''transaction_id''")
  case (Inl e)
  with assms(2) show ?thesis by (simp add: edim_Callback_def)
next
  case (Inr s)
  let ?m = "vf_Attributes (pl_verifier Pv) s"
  have q: "I (world_after ?m w)" "I u \<Longrightarrow> I (world_after (vf_Status (pl_verifier Pv) s) u)" for u
    using assms(1,2) by (simp_all add: libs_within_def calm_iff calmD)
  have f: "I (world_after (completeCallback E rq sess user) (world_after ?m w))"
    if "result_of ?m w = Inr as" "edim_convertToUserData as = Inr user" for as user
  proof -
    have "L (ud_UserID user)" using assms(3) that Inr by (simp add: edim_subject_def attributes_subject_def)
    from upholdsD(2) [OF completeCallback_ok [OF this assms(4)] q(1)] show ?thesis .
  qed
  show ?thesis
    using Inr q f by (simp add: edim_Callback_def split: sum.split)
qed

lemma SameDeviceReturn_ok:
  assumes "calm_libs I Pv" "I w" "\<And>s. return_subject (pl_verifier Pv) rq w = Some s \<Longrightarrow> L s"
    and "C (return_login (pl_verifier Pv) rq w)"
  shows "I (world_after (SameDeviceReturn E (pl_verifier Pv) rq) w)"
proof -
  let ?m = "vf_HandleWalletReturn (pl_verifier Pv) (case rq_query rq ''tx'' of None \<Rightarrow> [] | Some v \<Rightarrow> v)
                (case rq_query rq ''response_code'' of None \<Rightarrow> [] | Some v \<Rightarrow> v)"
  let ?r = "result_of ?m w"
  have q: "I (world_after ?m w)" using assms(1,2) by (simp add: libs_within_def calm_iff calmD)
  have f: "upholds I (do { sess \<leftarrow> ensure_id E sess0;
      (case wr_err ?r of
         Some e \<Rightarrow> return (ReturnToCaller (fail_with E AuthErrInvalidCallback sess))
       | None \<Rightarrow> (case edim_convertToUserData (wr_attrs ?r) of
           Inl e \<Rightarrow> return (ReturnToCaller (fail_with E AuthErrInvalidCallback sess))
         | Inr user \<Rightarrow> do { c \<leftarrow> completeCallback E rq sess user;
             return (if fst c = CallbackPanic then ReturnPanic else ReturnToCaller (snd c)) })) }) (\<lambda>_. True)"
    if d: "wr_data ?r = Some sess0" for sess0
  proof -
    have c: "C (cor_ID sess0)" using assms(4) d by (simp add: return_login_def)
    have l: "L (ud_UserID user)" if "wr_err ?r = None" "edim_convertToUserData (wr_attrs ?r) = Inr user" for user
      using assms(3) that by (simp add: return_subject_def attributes_subject_def)
    show ?thesis
      by (intro ensure_id_ok [THEN upholds_bind] upholds_control completeCallback_ok [THEN upholds_bind] TrueI)
         (use c l in simp_all)
  qed
  show ?thesis
  proof (cases "wr_data ?r")
    case None
    with q show ?thesis by (simp add: SameDeviceReturn_def Let_def)
  next
    case (Some sess0)
    from upholdsD(2) [OF f, OF this q] show ?thesis
      by (simp only: SameDeviceReturn_def Let_def world_after_bind Some option.case)
  qed
qed

lemma oauth2_Callback_ok:
  assumes "calm_libs I Pv" "I w" "\<And>s. oauth2_subject (pl_oauth2 Pv) rq i w = Some s \<Longrightarrow> L s" "C (cor_ID cor)"
  shows "I (world_after (oauth2_Callback E (pl_oauth2 Pv) rq cor i) w)"
proof (cases "value_or [] (query_String rq ''error'') = [] \<and> is_Inr (query_String rq ''code'')")
  case False
  with assms(2) show ?thesis by (auto simp: oauth2_Callback_def Let_def split: sum.split)
next
  case True
  then obtain code where c: "query_String rq ''code'' = Inr code" by (auto simp: is_Inr_iff)
  let ?m = "exchangeAndFetchUserInfo (pl_oauth2 Pv) (set_redirect rq i) code"
  have "upholds I ?m (\<lambda>_. True)"
    using assms(1) unfolding exchangeAndFetchUserInfo_def fetchUserInfo_def libs_within_def calm_iff
    by (intro upholds_control calm_bind upholds_bind [where R = "\<lambda>_. True"] TrueI) simp_all
  then have q: "I (world_after ?m w)" by (rule upholdsD) (rule assms(2))
  have f: "I (world_after (oauth2_finish E rq cor req) (world_after ?m w))" if "result_of ?m w = Inr req" for req
  proof -
    have "L (aq_PersonCode req)" using assms(3) that c by (simp add: oauth2_subject_def)
    then have "upholds I (oauth2_finish E rq cor req) (\<lambda>_. True)" by (rule oauth2_finish_ok [OF _ assms(4)])
    then show ?thesis using q by (simp add: upholds_def)
  qed
  show ?thesis
    using True c q f by (cases "result_of ?m w") (simp_all add: oauth2_Callback_def Let_def)
qed

end

end
