(* ===== verification/Service.thy ===== *)
theory Service
  imports Service_Policy
begin

text \<open>
  The service as a transition system: every request to an endpoint and every call of a provider is
  a step of the world with an event that records what was asked and answered; in between time
  passes and entries may get lost. The first invariant is the one of the stored values, an instance
  of \<open>store_policy\<close>, in every world that a run can reach.
\<close>

section \<open>What the libraries store\<close>

text \<open>
  The JWT library and the providers' libraries store nothing in the service's caches, the
  attestation verifier nothing but replay records.
\<close>

definition quiet_step :: "('w \<Rightarrow> string \<times> string \<Rightarrow> cache_value option) \<Rightarrow> 'w \<Rightarrow> 'w \<Rightarrow> bool" where
  "quiet_step live w w' \<longleftrightarrow> shrinks (live w') (live w)"

definition replays_only :: "('w \<Rightarrow> string \<times> string \<Rightarrow> cache_value option) \<Rightarrow> 'w \<Rightarrow> 'w \<Rightarrow> bool" where
  "replays_only live w w' \<longleftrightarrow> (\<forall>n k v. live w' (n, k) = Some v \<longrightarrow>
     live w (n, k) = Some v \<or> (n \<in> set replay_caches \<and> (\<exists>b. v = BoolVal b)))"

definition attester_frame ::
    "('w \<Rightarrow> string \<times> string \<Rightarrow> cache_value option) \<Rightarrow> 'w Attester option \<Rightarrow> bool" where
  "attester_frame live attest \<longleftrightarrow> attester_within (replays_only live) attest"

definition router_frame ::
    "('w \<Rightarrow> string \<times> string \<Rightarrow> cache_value option) \<Rightarrow> 'w env \<Rightarrow> ('w, 'k) router \<Rightarrow> bool" where
  "router_frame live E R \<longleftrightarrow> router_within (quiet_step live) (replays_only live) E R"

lemma replays_only_ok:
  assumes "replays_only live w w'" "replay_free P" "stored_ok live P w"
  shows "stored_ok live P w'"
  using assms unfolding replays_only_def stored_ok_def replay_free_def by blast

lemma quiet_step_ok: "quiet_step live w w' \<Longrightarrow> stored_ok live P w \<Longrightarrow> stored_ok live P w'"
  unfolding quiet_step_def by (rule stored_ok_shrinks)

lemma replays_only_iff:
  "replays_only live w w' \<longleftrightarrow>
     stored_ok live (\<lambda>n k v. live w (n, k) = Some v \<or> (n \<in> set replay_caches \<and> (\<exists>b. v = BoolVal b))) w'"
  by (simp add: replays_only_def stored_ok_def)

text \<open>The verifier that \<open>Init\<close> builds satisfies the frame when its parsers store nothing.\<close>

lemma attester_of_frame:
  assumes "cache_api E live" and "\<forall>opts s kf. within (quiet_step live) (p1 opts s kf)"
    and "\<forall>opts s kf. within (quiet_step live) (p2 opts s kf)" "ve_replay v \<in> {None, Some (attest_replay E)}"
  shows "attester_frame live (Some (attester_of E X p1 p2 v))"
  unfolding attester_frame_def attester_within_def within_def
proof (intro allI impI)
  fix a x y w
  let ?P = "\<lambda>n k v. live w (n, k) = Some v \<or> (n \<in> set replay_caches \<and> (\<exists>b. v = BoolVal b))"
  have p: "\<forall>opts s kf. calm (stored_ok live ?P) (p1 opts s kf)" "\<forall>opts s kf. calm (stored_ok live ?P) (p2 opts s kf)"
    using assms(2,3) unfolding calm_def within_def by (blast intro: quiet_step_ok)+
  have "replay_free ?P" by (auto simp: replay_free_def)
  from store_logic.attest_Verify_ok [OF cache_api.cached_logic [OF assms(1)] p assms(4) this]
  have "attester_within (\<lambda>w w'. stored_ok live ?P w \<longrightarrow> stored_ok live ?P w') (Some (attester_of E X p1 p2 v))" .
  moreover assume "Some (attester_of E X p1 p2 v) = Some a"
  moreover have "stored_ok live ?P w" by (simp add: stored_ok_def)
  ultimately show "replays_only live w (world_after (at_Verify a x y) w)"
    unfolding attester_within_def within_def replays_only_iff by blast
qed

lemma attester_frame_other:
  assumes "attester_frame live (Some a)" "n \<notin> set replay_caches"
    and "live (world_after (at_Verify a x y) w) (n, k) = Some v"
  shows "live w (n, k) = Some v"
  using assms unfolding attester_frame_def attester_within_def within_def replays_only_def by blast

lemma authenticate_frame:
  assumes "attester_frame live attest" "n \<notin> set replay_caches"
    and "live (world_after (authenticate E rq jkt attest) w) (n, k) = Some v"
  shows "live w (n, k) = Some v"
proof (cases attest)
  case None
  with assms(3) show ?thesis
    by (auto simp: authenticate_def attestation_branch_def Let_def split: if_splits)
next
  case (Some a)
  from assms(3) Some consider "live w (n, k) = Some v"
    | x y where "live (world_after (at_Verify a x y) w) (n, k) = Some v"
    by (auto simp: authenticate_def attestation_branch_def Let_def split: if_splits)
  then show ?thesis
    using attester_frame_other [OF _ assms(2)] assms(1) Some by cases auto
qed

lemma authenticate_held_code:
  assumes "attester_frame live attest"
    and "held_code live (world_after (authenticate E rq jkt attest) w) c = Some item"
  shows "held_code live w c = Some item"
proof -
  have n: "authCodeCache \<notin> set replay_caches" by (simp add: replay_caches_def cache_names)
  obtain v where v: "live (world_after (authenticate E rq jkt attest) w) (authCodeCache, c) = Some v"
    and a: "as_AuthCode v = Some item"
    using assms(2) unfolding held_code_def by (meson bind_eq_Some_conv)
  from authenticate_frame [where live = live, OF assms(1) n v] a show ?thesis
    by (simp add: held_code_def)
qed

lemma preauth_attestation_frame:
  assumes "attester_frame live attest" "n \<notin> set replay_caches"
    and "live (world_after (preauth_attestation rq jkt attest req) w) (n, k) = Some v"
  shows "live w (n, k) = Some v"
proof (cases attest)
  case None
  with assms(3) show ?thesis
    by (auto simp: preauth_attestation_def attestation_branch_def Let_def split: if_splits)
next
  case (Some a)
  from assms(3) Some consider "live w (n, k) = Some v"
    | x y where "live (world_after (at_Verify a x y) w) (n, k) = Some v"
    by (auto simp: preauth_attestation_def attestation_branch_def Let_def split: if_splits)
  then show ?thesis
    using attester_frame_other [OF _ assms(2)] assms(1) Some by cases auto
qed

lemma preauth_attestation_held:
  assumes "attester_frame live attest"
  shows "held_code live (world_after (preauth_attestation rq jkt attest req) w) c = Some item \<Longrightarrow>
      held_code live w c = Some item"
    and "held_tx live (world_after (preauth_attestation rq jkt attest req) w) c = Some m \<Longrightarrow>
      held_tx live w c = Some m"
proof -
  have n: "authCodeCache \<notin> set replay_caches" "preAuthCache \<notin> set replay_caches"
    by (simp_all add: replay_caches_def cache_names)
  note frm = preauth_attestation_frame [where live = live, OF assms]
  show "held_code live (world_after (preauth_attestation rq jkt attest req) w) c = Some item \<Longrightarrow>
      held_code live w c = Some item"
    using frm [OF n(1)] unfolding held_code_def bind_eq_Some_conv by blast
  show "held_tx live (world_after (preauth_attestation rq jkt attest req) w) c = Some m \<Longrightarrow>
      held_tx live w c = Some m"
    using frm [OF n(2)] unfolding held_tx_def bind_eq_Some_conv by blast
qed

section \<open>The invariant of the store\<close>

text \<open>A refresh token is bound to a key, and so is the session it will mint.\<close>

definition refresh_bound :: "RefreshTokenItem \<Rightarrow> bool" where
  "refresh_bound i \<longleftrightarrow> rt_JKT i \<noteq> [] \<and> map_index (se_Metadata (rt_Session i)) dpop_jkt_key = rt_JKT i"

definition pushed_valid :: "'w env \<Rightarrow> Store \<Rightarrow> PARItem \<Rightarrow> bool" where
  "pushed_valid E store i \<longleftrightarrow>
     (\<exists>rq::request. valid_code_request E store (rq_form rq) (par_ClientID i)
        \<and> par_RawQuery i = Values_Encode (rq_post_args rq))"

definition entry_ok :: "'w env \<Rightarrow> Store \<Rightarrow> string \<Rightarrow> string \<Rightarrow> cache_value \<Rightarrow> bool" where
  "entry_ok E store n k v \<longleftrightarrow>
     (n = refreshTokenCacheName \<longrightarrow> (\<exists>i. v = RefreshVal i \<and> refresh_bound i))
     \<and> (n = authCodeCache \<longrightarrow> (\<exists>i. v = AuthCodeVal i \<and> ac_Code i = k))
     \<and> (n = preAuthCache \<longrightarrow> (\<exists>t. v = IntVal t \<and> 10000 \<le> t \<and> t < 100000))
     \<and> (n = parCacheName \<longrightarrow> (\<exists>i. v = PARVal i \<and> pushed_valid E store i))
     \<and> (n = stateCache \<longrightarrow> (\<exists>i. v = StateVal i \<and> st_State i = k \<and> st_ResponseType i = ''code''
            \<and> IsScopeSupported store (st_Scope i)))"

lemma entry_ok_replay_free: "replay_free (entry_ok E store)"
  by (auto simp: replay_free_def replay_caches_def entry_ok_def cache_names)

lemma entry_ok_iffs [simp]:
  "entry_ok E store refreshTokenCacheName k (RefreshVal i) \<longleftrightarrow> refresh_bound i"
  "entry_ok E store authCodeCache k (AuthCodeVal a) \<longleftrightarrow> ac_Code a = k"
  "entry_ok E store preAuthCache k (IntVal t) \<longleftrightarrow> 10000 \<le> t \<and> t < 100000"
  "entry_ok E store parCacheName k (PARVal p) \<longleftrightarrow> pushed_valid E store p"
  "entry_ok E store stateCache k (StateVal s) \<longleftrightarrow>
     st_State s = k \<and> st_ResponseType s = ''code'' \<and> IsScopeSupported store (st_Scope s)"
  "entry_ok E store ''system-token-jti'' k v"
  by (auto simp: entry_ok_def cache_names)

lemma refresh_bound_issue:
  assumes "token_type jkt = ''DPoP''"
  shows "refresh_bound \<lparr>rt_ClientID = c, rt_Scope = s, rt_JKT = jkt, rt_Session = bind_session se sid now jkt\<rparr>"
proof -
  have "jkt \<noteq> []" using assms by (auto simp: token_type_def)
  then show ?thesis by (simp add: refresh_bound_def bind_session_jkt)
qed

lemma refresh_bound_rotate:
  assumes "refresh_bound item" "rt_JKT item = jkt"
  shows "refresh_bound \<lparr>rt_ClientID = c, rt_Scope = s, rt_JKT = jkt,
     rt_Session = template_after_bind (rt_Session item) jkt\<rparr>"
  using assms template_after_bind_jkt [of "rt_Session item" jkt] by (simp add: refresh_bound_def)

text \<open>The entries satisfy the policy of the service.\<close>

sublocale cache_api \<subseteq> entries: store_policy E "stored_ok live (entry_ok E store)" "entry_ok E store"
    "\<lambda>_. True" "drawable E" "\<lambda>_. True" "\<lambda>_. True" "\<lambda>_. True" "\<lambda>_. True" store for store
proof
  show "replay_free (entry_ok E store)" by (rule entry_ok_replay_free)
next
  fix i c h cl sid now and jkt :: string
  assume "jkt \<noteq> []"
  then have "token_type jkt = ''DPoP''" by (simp add: token_type_def)
  then show "entry_ok E store refreshTokenCacheName h (RefreshVal \<lparr>rt_ClientID = cl, rt_Scope = ac_Scope i,
      rt_JKT = jkt, rt_Session = bind_session (ac_Session i) sid now jkt\<rparr>)"
    by (simp add: refresh_bound_issue)
next
  fix rq :: request and c k
  assume "valid_code_request E store (rq_form rq) c"
  then show "entry_ok E store parCacheName k (PARVal \<lparr>par_ClientID = c, par_RawQuery = Values_Encode (rq_post_args rq)\<rparr>)"
    by (auto simp: pushed_valid_def)
qed (simp_all add: refresh_bound_rotate preauth_item_def callback_item_def)

context cache_api
begin

lemmas entries_policy = entries.store_policy_axioms

end

section \<open>The service\<close>

text \<open>What a step tells the outside: the request and its answer, or whom a provider reported.\<close>

datatype event =
    TokenRequested request "reply + string" reply    \<comment> \<open>with the verdict on the request's DPoP proof\<close>
  | RequestPushed request reply
  | AuthorizeRequested request reply
  | PreauthRequested request reply
  | Introspected request reply
  | LoginReported string "string option"    \<comment> \<open>the id of the correlation, and who logged in\<close>
  | Unobserved

inductive step ::
    "'w env \<Rightarrow> ('w, 'k) router \<Rightarrow> 'w provider_libs \<Rightarrow> ('w \<Rightarrow> 'w \<Rightarrow> bool) \<Rightarrow> 'w \<Rightarrow> event \<Rightarrow> 'w \<Rightarrow> bool"
  for E R Pv decays where
  step_token: "step E R Pv decays w (TokenRequested rq (result_of (dpopJKT E R rq) w) (result_of (token E R rq) w))
      (world_after (token E R rq) w)"
| step_par: "step E R Pv decays w (RequestPushed rq (result_of (par E R rq) w)) (world_after (par E R rq) w)"
| step_authorize: "step E R Pv decays w (AuthorizeRequested rq (result_of (authorizationV3 E R rq) w))
      (world_after (authorizationV3 E R rq) w)"
| step_preauth: "step E R Pv decays w (PreauthRequested rq (result_of (preauthGenerate E rq) w))
      (world_after (preauthGenerate E rq) w)"
| step_introspection: "step E R Pv decays w (Introspected rq (result_of (introspection E R rq) w))
      (world_after (introspection E R rq) w)"
| step_sid_start: "step E R Pv decays w Unobserved (world_after (sid_Authorize E (ro_Store R) cfg rq cor) w)"
| step_sid_login: "step E R Pv decays w Unobserved (world_after (sid_Login err (pl_smartid Pv) body) w)"
| step_sid_poll: "step E R Pv decays w Unobserved (world_after (sid_Verified (pl_smartid Pv) s) w)"
| step_sid_end: "step E R Pv decays w (LoginReported (cor_ID cor) (sid_subject (pl_smartid Pv) rq w))
      (world_after (sid_Callback E (pl_smartid Pv) rq cor) w)"
| step_edim_start: "step E R Pv decays w Unobserved
      (world_after (edim_Authorize E (pl_verifier Pv) (pl_JoinPath Pv) (ro_Store R) ei rq cor) w)"
| step_edim_poll: "step E R Pv decays w Unobserved (world_after (edim_Verified (pl_verifier Pv) s) w)"
| step_edim_end: "step E R Pv decays w (LoginReported (cor_ID cor) (edim_subject (pl_verifier Pv) rq w))
      (world_after (edim_Callback E (pl_verifier Pv) rq cor) w)"
| step_edim_return: "step E R Pv decays w (LoginReported (return_login (pl_verifier Pv) rq w) (return_subject (pl_verifier Pv) rq w))
      (world_after (SameDeviceReturn E (pl_verifier Pv) rq) w)"
| step_oauth2_start: "step E R Pv decays w Unobserved
      (world_after (oauth2_Authorize E (pl_oauth2 Pv) (ro_Store R) rq cor i) w)"
| step_oauth2_end: "step E R Pv decays w (LoginReported (cor_ID cor) (oauth2_subject (pl_oauth2 Pv) rq i w))
      (world_after (oauth2_Callback E (pl_oauth2 Pv) rq cor i) w)"
| step_time: "decays w w' \<Longrightarrow> step E R Pv decays w Unobserved w'"

inductive_cases stepE: "step E R Pv decays w e w'"

inductive run :: "('w \<Rightarrow> 'e \<Rightarrow> 'w \<Rightarrow> bool) \<Rightarrow> 'w \<Rightarrow> 'e list \<Rightarrow> 'w \<Rightarrow> bool"
  for T w0 where
  run_start: "run T w0 [] w0"
| run_step: "run T w0 es w \<Longrightarrow> T w e w' \<Longrightarrow> run T w0 (es @ [e]) w'"

lemma run_split:
  assumes "run T w0 (es @ es') w"
  shows "\<exists>u. run T w0 es u \<and> run T u es' w"
  using assms
proof (induction es' arbitrary: w rule: rev_induct)
  case Nil
  have "run T w [] w" by (rule run_start)
  with Nil show ?case by auto
next
  case (snoc e es')
  from snoc.prems have "run T w0 ((es @ es') @ [e]) w" by simp
  then obtain v where "run T w0 (es @ es') v" and t: "T v e w"
    by (cases rule: run.cases) auto
  with snoc.IH obtain u where "run T w0 es u" "run T u es' v" by blast
  from run_step [OF this(2) t] this(1) show ?case by auto
qed

lemma run_single: "run T u [e] w \<longleftrightarrow> T u e w"
proof
  assume "run T u [e] w"
  then show "T u e w" by (cases rule: run.cases) (auto elim: run.cases)
next
  assume t: "T u e w"
  show "run T u [e] w" using run_step [where T = T and es = "[]", OF run_start t] by simp
qed

text \<open>
  A policy is preserved by every step whose proofs and logins it accepts, with libraries that are
  calm and a passing of time that is.
\<close>

definition event_ok :: "(string \<Rightarrow> bool) \<Rightarrow> (string \<Rightarrow> bool) \<Rightarrow> (string \<Rightarrow> bool) \<Rightarrow> event \<Rightarrow> bool" where
  "event_ok J L C e \<longleftrightarrow> (case e of
      TokenRequested rq proof rep \<Rightarrow> (\<forall>j. proof = Inr j \<longrightarrow> J j)
    | PreauthRequested rq rep \<Rightarrow> (\<forall>s. rq_form rq ''session_id'' = Some s \<longrightarrow> s \<noteq> [] \<longrightarrow> L s)
    | LoginReported i s \<Rightarrow> C i \<and> (\<forall>x. s = Some x \<longrightarrow> L x)
    | _ \<Rightarrow> True)"

lemma event_okD:
  "event_ok J L C (TokenRequested rq (Inr j) rep) \<Longrightarrow> J j"
  "event_ok J L C (PreauthRequested rq rep) \<Longrightarrow> rq_form rq ''session_id'' = Some s \<Longrightarrow> s \<noteq> [] \<Longrightarrow> L s"
  "event_ok J L C (LoginReported i (Some x)) \<Longrightarrow> L x"
  "event_ok J L C (LoginReported i x') \<Longrightarrow> C i"
  by (simp_all add: event_ok_def)

context store_policy
begin

lemma step_ok:
  assumes "step E R Pv decays w e w'" "I w" "event_ok J L C e"
    and "calm_router I E R" "calm_libs I Pv" "\<And>w w'. decays w w' \<Longrightarrow> I w \<Longrightarrow> I w'"
    and "ro_Store R = store" "intn_range E"
  shows "I w'"
proof -
  note after = upholdsD(2) [where I = I and w = w, OF _ assms(2)]
  show ?thesis
    using assms(1)
  proof cases
    case (step_token rq)
    show ?thesis
      unfolding step_token(2)
    proof (rule token_ok [OF assms(4,2)])
      fix j assume "result_of (dpopJKT E R rq) w = Inr j"
      with step_token(1) assms(3) show "J j" by (auto dest: event_okD)
    qed
  next
    case (step_par rq)
    with after [OF par_ok [OF assms(4,7)]] show ?thesis by simp
  next
    case (step_authorize rq)
    with after [OF authorizationV3_ok] show ?thesis by simp
  next
    case (step_preauth rq)
    with after [OF preauthGenerate_ok [OF assms(8)]] assms(3) show ?thesis by (auto dest: event_okD)
  next
    case (step_introspection rq)
    with after [OF introspection_ok] show ?thesis by simp
  next
    case step_sid_start
    with after [OF sid_Authorize_ok] assms(7) show ?thesis by simp
  next
    case step_sid_login
    with after [OF polling_ok(1) [OF assms(5)]] show ?thesis by simp
  next
    case step_sid_poll
    with after [OF polling_ok(2) [OF assms(5)]] show ?thesis by simp
  next
    case (step_sid_end rq cor)
    show ?thesis
      unfolding step_sid_end(2)
      by (rule sid_Callback_ok [OF assms(5,2)]) (use step_sid_end(1) assms(3) event_okD in simp_all)
  next
    case step_edim_start
    with after [OF edim_Authorize_ok [OF assms(5)]] assms(7) show ?thesis by simp
  next
    case step_edim_poll
    with after [OF polling_ok(3) [OF assms(5)]] show ?thesis by simp
  next
    case (step_edim_end rq cor)
    show ?thesis
      unfolding step_edim_end(2)
      by (rule edim_Callback_ok [OF assms(5,2)]) (use step_edim_end(1) assms(3) event_okD in simp_all)
  next
    case (step_edim_return rq)
    show ?thesis
      unfolding step_edim_return(2)
      by (rule SameDeviceReturn_ok [OF assms(5,2)]) (use step_edim_return(1) assms(3) event_okD in simp_all)
  next
    case step_oauth2_start
    with after [OF oauth2_Authorize_ok] assms(7) show ?thesis by simp
  next
    case (step_oauth2_end rq i cor)
    show ?thesis
      unfolding step_oauth2_end(2)
      by (rule oauth2_Callback_ok [OF assms(5,2)]) (use step_oauth2_end(1) assms(3) event_okD in simp_all)
  next
    case step_time
    with assms(2,6) show ?thesis by blast
  qed
qed

lemma run_ok:
  assumes "run (step E R Pv decays) w es w'" "I w" "\<forall>e\<in>set es. event_ok J L C e"
    and "calm_router I E R" "calm_libs I Pv" "\<And>w w'. decays w w' \<Longrightarrow> I w \<Longrightarrow> I w'"
    and "ro_Store R = store" "intn_range E"
  shows "I w'"
  using assms(1,3)
proof (induction rule: run.induct)
  case run_start
  show ?case by (rule assms(2))
next
  case (run_step es u e u')
  then have "I u" "event_ok J L C e" by simp_all
  from step_ok [OF run_step.hyps(2) this assms(4,5) _ assms(7,8)] assms(6) show ?case by blast
qed

end

section \<open>Reachable worlds\<close>

text \<open>
  The contract of what is not the service's code: \<open>router_frame\<close>, providers' libraries and a
  passing of time that store nothing in its caches.
\<close>

definition service_frame ::
    "('w \<Rightarrow> string \<times> string \<Rightarrow> cache_value option) \<Rightarrow> 'w env \<Rightarrow> ('w, 'k) router \<Rightarrow> 'w provider_libs
     \<Rightarrow> ('w \<Rightarrow> 'w \<Rightarrow> bool) \<Rightarrow> bool" where
  "service_frame live E R Pv decays \<longleftrightarrow>
     router_frame live E R \<and> libs_within (quiet_step live) Pv \<and> (\<forall>w w'. decays w w' \<longrightarrow> quiet_step live w w')"

text \<open>A world that a run reaches from one without entries.\<close>

definition reachable ::
    "'w env \<Rightarrow> ('w, 'k) router \<Rightarrow> 'w provider_libs \<Rightarrow> ('w \<Rightarrow> 'w \<Rightarrow> bool)
     \<Rightarrow> ('w \<Rightarrow> string \<times> string \<Rightarrow> cache_value option) \<Rightarrow> 'w \<Rightarrow> bool" where
  "reachable E R Pv decays live w \<longleftrightarrow> (\<exists>w0 es. (\<forall>k. live w0 k = None) \<and> run (step E R Pv decays) w0 es w)"

lemma reachable_one:
  "step E R Pv decays w e w' \<Longrightarrow> \<forall>k. live w k = None \<Longrightarrow> reachable E R Pv decays live w'"
  using run_single [of "step E R Pv decays" w e w'] unfolding reachable_def by blast

lemma reachable_stored_ok:
  assumes "cache_api E live" "service_frame live E R Pv decays" "intn_range E" "reachable E R Pv decays live w"
  shows "stored_ok live (entry_ok E (ro_Store R)) w"
proof -
  let ?I = "stored_ok live (entry_ok E (ro_Store R))"
  obtain w0 es where e: "\<forall>k. live w0 k = None" and r: "run (step E R Pv decays) w0 es w"
    using assms(4) unfolding reachable_def by blast
  have f: "router_within (quiet_step live) (replays_only live) E R" "libs_within (quiet_step live) Pv"
    "decays u u' \<Longrightarrow> quiet_step live u u'" for u u'
    using assms(2) unfolding service_frame_def router_frame_def by blast+
  have "calm_router ?I E R"
    by (rule router_within_mono [OF f(1)])
       (blast intro: quiet_step_ok replays_only_ok entry_ok_replay_free)+
  moreover have "calm_libs ?I Pv"
    by (rule libs_within_mono [OF f(2)]) (blast intro: quiet_step_ok)
  moreover have "?I w0" using e by (simp add: stored_ok_def)
  moreover have "\<forall>e\<in>set es. event_ok (\<lambda>_. True) (\<lambda>_. True) (\<lambda>_. True) e"
    by (simp add: event_ok_def split: event.split)
  ultimately show ?thesis
    using store_policy.run_ok [OF cache_api.entries_policy [OF assms(1)] r] f(3) assms(3)
    by (blast intro: quiet_step_ok)
qed

end
