(* ===== verification/Mem_World.thy ===== *)
theory Mem_World
  imports Token_Common
begin

text \<open>
  An in-memory world in which the handlers run: a clock, a cache with a time to live per cache
  name (\<open>cache.DefaultTTL\<close>), a session table, counters for ULIDs and random bytes, and the list
  of audit events. It satisfies the contract \<open>cache_api\<close>, so every lemma about the code store
  holds in it, and the witnesses of the properties run the handlers in it.

  \<open>mc_zero_on_miss\<close> selects how the cache answers a \<open>Get\<close> of an absent key: with an error, or
  with the zero value and no error; the contract allows both.
\<close>

record mem =
  m_now :: int
  m_ttl :: "string \<rightharpoonup> int"                             \<comment> \<open>the caches created so far\<close>
  m_entries :: "string \<times> string \<Rightarrow> (cache_value \<times> int) option"  \<comment> \<open>with the instant of expiry\<close>
  m_sessions :: "string \<rightharpoonup> Session"
  m_ulids :: nat
  m_rands :: nat
  m_audit :: "AuditRequest list"

record mem_config =
  mc_registry :: clientStore
  mc_zero_on_miss :: bool
  mc_tick :: nat       \<comment> \<open>how far the clock moves when it is read\<close>

definition mem_init :: mem where
  "mem_init = \<lparr>m_now = 0, m_ttl = Map.empty, m_entries = (\<lambda>_. None), m_sessions = Map.empty,
     m_ulids = 0, m_rands = 0, m_audit = []\<rparr>"

definition mem_live :: "mem \<Rightarrow> string \<times> string \<Rightarrow> cache_value option" where
  "mem_live w nk = (case m_entries w nk of
      None \<Rightarrow> None
    | Some (v, expiry) \<Rightarrow> if m_now w < expiry then Some v else None)"

definition mem_create :: "string \<Rightarrow> int \<Rightarrow> (mem, go_error option) state" where
  "mem_create n ttl = State (\<lambda>w. (None, w\<lparr>m_ttl := (m_ttl w)(n \<mapsto> ttl)\<rparr>))"

definition mem_get :: "mem_config \<Rightarrow> string \<Rightarrow> string \<Rightarrow> (mem, go_error + cache_value option) state" where
  "mem_get c n k = State (\<lambda>w. (case mem_live w (n, k) of
      Some v \<Rightarrow> Inr (Some v)
    | None \<Rightarrow> if mc_zero_on_miss c then Inr None else Inl (KeyNotFoundError k), w))"

definition mem_set :: "string \<Rightarrow> string \<Rightarrow> cache_value \<Rightarrow> (mem, go_error option) state" where
  "mem_set n k v = State (\<lambda>w. case m_ttl w n of
      None \<Rightarrow> (Some (ExternalError ''no such cache''), w)
    | Some ttl \<Rightarrow> (None, w\<lparr>m_entries := (m_entries w)((n, k) := Some (v, m_now w + ttl))\<rparr>))"

definition mem_delete :: "string \<Rightarrow> string \<Rightarrow> (mem, go_error option) state" where
  "mem_delete n k = State (\<lambda>w. (None, w\<lparr>m_entries := (m_entries w)((n, k) := None)\<rparr>))"

definition mem_pop :: "string \<Rightarrow> string \<Rightarrow> (mem, go_error + cache_value option) state" where
  "mem_pop n k = State (\<lambda>w. (case mem_live w (n, k) of
      Some v \<Rightarrow> (Inr (Some v), w\<lparr>m_entries := (m_entries w)((n, k) := None)\<rparr>)
    | None \<Rightarrow> (Inl (KeyNotFoundError k), w)))"

definition mem_session_create :: "Session \<Rightarrow> (mem, go_error + Session) state" where
  "mem_session_create s = State (\<lambda>w. (Inr s, w\<lparr>m_sessions := (m_sessions w)(se_ID s \<mapsto> s)\<rparr>))"

definition mem_session_delete :: "string \<Rightarrow> (mem, go_error option) state" where
  "mem_session_delete i = State (\<lambda>w.
     (if m_sessions w i = None then Some (NotFoundError ''session'') else None,
      w\<lparr>m_sessions := (m_sessions w)(i := None)\<rparr>))"

definition mem_session_get :: "string \<Rightarrow> (mem, go_error + Session option) state" where
  "mem_session_get i = State (\<lambda>w. (Inr (m_sessions w i), w))"

definition mem_audit :: "AuditRequest \<Rightarrow> (mem, go_error option) state" where
  "mem_audit a = State (\<lambda>w. (None, w\<lparr>m_audit := m_audit w @ [a]\<rparr>))"

definition mem_ulid :: "(mem, string) state" where
  "mem_ulid = State (\<lambda>w. (CHR ''U'' # nat_text (m_ulids w), w\<lparr>m_ulids := Suc (m_ulids w)\<rparr>))"

definition mem_now :: "mem_config \<Rightarrow> (mem, int) state" where
  "mem_now c = State (\<lambda>w. (m_now w, w\<lparr>m_now := m_now w + int (mc_tick c)\<rparr>))"

definition mem_rand :: "nat \<Rightarrow> (mem, go_error + string) state" where
  "mem_rand n = State (\<lambda>w. (Inr (replicate n (char_of (m_rands w))), w\<lparr>m_rands := Suc (m_rands w)\<rparr>))"

definition mem_intn :: "int \<Rightarrow> (mem, int) state" where
  "mem_intn n = State (\<lambda>w. (int (m_rands w) mod n, w\<lparr>m_rands := Suc (m_rands w)\<rparr>))"

definition mem_env :: "mem_config \<Rightarrow> mem env" where
  "mem_env c = \<lparr>CacheGet = mem_get c, CacheSet = mem_set, CacheDelete = mem_delete,
     CachePop = mem_pop, SessionCreate = mem_session_create, SessionDelete = mem_session_delete,
     GetSessionByID = mem_session_get, PersonRequest = mem_audit, UlidMake = mem_ulid,
     TimeNow = mem_now c, RandRead = mem_rand, RandIntn = mem_intn,
     GetClient = clientStore_GetClient (mc_registry c),
     GetSecondsToLive = (\<lambda>timeout la. case la of None \<Rightarrow> 0 | Some t \<Rightarrow> timeout div 1000000000),
     SessionStateAuthorized = ''authorized'',
     SessionIsActive = (\<lambda>s. se_State s = ''authorized''),
     AuthErrText = (\<lambda>c. case c of AuthErrInvalidRequest \<Rightarrow> ''invalid_request''
        | AuthErrInvalidCallback \<Rightarrow> ''invalid_callback'' | AuthErrServer \<Rightarrow> ''server_error''
        | AuthErrNoRights \<Rightarrow> ''no_rights''),
     ActionLoginSuccess = ''login''\<rparr>"

lemma mem_env_simps [simp]:
  "CacheGet (mem_env c) = mem_get c" "CacheSet (mem_env c) = mem_set"
  "CacheDelete (mem_env c) = mem_delete" "CachePop (mem_env c) = mem_pop"
  "SessionCreate (mem_env c) = mem_session_create" "SessionDelete (mem_env c) = mem_session_delete"
  "GetSessionByID (mem_env c) = mem_session_get" "PersonRequest (mem_env c) = mem_audit"
  "UlidMake (mem_env c) = mem_ulid" "TimeNow (mem_env c) = mem_now c"
  "RandRead (mem_env c) = mem_rand" "RandIntn (mem_env c) = mem_intn"
  "GetClient (mem_env c) = clientStore_GetClient (mc_registry c)"
  "GetSecondsToLive (mem_env c) = (\<lambda>timeout la. case la of None \<Rightarrow> 0 | Some t \<Rightarrow> timeout div 1000000000)"
  "SessionStateAuthorized (mem_env c) = ''authorized''"
  "SessionIsActive (mem_env c) = (\<lambda>s. se_State s = ''authorized'')"
  "AuthErrText (mem_env c) AuthErrInvalidRequest = ''invalid_request''"
  "AuthErrText (mem_env c) AuthErrInvalidCallback = ''invalid_callback''"
  "AuthErrText (mem_env c) AuthErrServer = ''server_error''"
  "AuthErrText (mem_env c) AuthErrNoRights = ''no_rights''"
  "ActionLoginSuccess (mem_env c) = ''login''"
  by (simp_all add: mem_env_def)

text \<open>The operations by result and world, for evaluation by the simplifier.\<close>

lemma result_mem [simp]:
  "result_of (mem_create n t) w = None"
  "result_of (mem_get c n k) w = (case mem_live w (n, k) of
      Some v \<Rightarrow> Inr (Some v)
    | None \<Rightarrow> if mc_zero_on_miss c then Inr None else Inl (KeyNotFoundError k))"
  "result_of (mem_set n k v) w =
     (case m_ttl w n of None \<Rightarrow> Some (ExternalError ''no such cache'') | Some _ \<Rightarrow> None)"
  "result_of (mem_delete n k) w = None"
  "result_of (mem_pop n k) w =
     (case mem_live w (n, k) of Some v \<Rightarrow> Inr (Some v) | None \<Rightarrow> Inl (KeyNotFoundError k))"
  "result_of (mem_session_create s) w = Inr s"
  "result_of (mem_session_delete i) w =
     (if m_sessions w i = None then Some (NotFoundError ''session'') else None)"
  "result_of (mem_session_get i) w = Inr (m_sessions w i)"
  "result_of (mem_audit a) w = None"
  "result_of mem_ulid w = CHR ''U'' # nat_text (m_ulids w)"
  "result_of (mem_now c) w = m_now w"
  "result_of (mem_rand m) w = Inr (replicate m (char_of (m_rands w)))"
  "result_of (mem_intn z) w = int (m_rands w) mod z"
  by (simp_all add: result_of_def mem_create_def mem_get_def mem_set_def mem_delete_def mem_pop_def
      mem_session_create_def mem_session_delete_def mem_session_get_def mem_audit_def mem_ulid_def
      mem_now_def mem_rand_def mem_intn_def split: option.splits)

lemma world_mem [simp]:
  "world_after (mem_create n t) w = w\<lparr>m_ttl := (m_ttl w)(n \<mapsto> t)\<rparr>"
  "world_after (mem_get c n k) w = w"
  "world_after (mem_set n k v) w = (case m_ttl w n of
      None \<Rightarrow> w | Some ttl \<Rightarrow> w\<lparr>m_entries := (m_entries w)((n, k) := Some (v, m_now w + ttl))\<rparr>)"
  "world_after (mem_delete n k) w = w\<lparr>m_entries := (m_entries w)((n, k) := None)\<rparr>"
  "world_after (mem_pop n k) w = (case mem_live w (n, k) of
      None \<Rightarrow> w | Some v \<Rightarrow> w\<lparr>m_entries := (m_entries w)((n, k) := None)\<rparr>)"
  "world_after (mem_session_create s) w = w\<lparr>m_sessions := (m_sessions w)(se_ID s \<mapsto> s)\<rparr>"
  "world_after (mem_session_delete i) w = w\<lparr>m_sessions := (m_sessions w)(i := None)\<rparr>"
  "world_after (mem_session_get i) w = w"
  "world_after (mem_audit a) w = w\<lparr>m_audit := m_audit w @ [a]\<rparr>"
  "world_after mem_ulid w = w\<lparr>m_ulids := Suc (m_ulids w)\<rparr>"
  "world_after (mem_now c) w = w\<lparr>m_now := m_now w + int (mc_tick c)\<rparr>"
  "world_after (mem_rand m) w = w\<lparr>m_rands := Suc (m_rands w)\<rparr>"
  "world_after (mem_intn z) w = w\<lparr>m_rands := Suc (m_rands w)\<rparr>"
  by (simp_all add: world_after_def mem_create_def mem_get_def mem_set_def mem_delete_def mem_pop_def
      mem_session_create_def mem_session_delete_def mem_session_get_def mem_audit_def mem_ulid_def
      mem_now_def mem_rand_def mem_intn_def split: option.splits)

section \<open>The contract holds\<close>

lemma shrinks_mem_later:
  assumes "m_now w \<le> m_now w'" "m_entries w' = m_entries w"
  shows "shrinks (mem_live w') (mem_live w)"
  using assms by (auto simp: shrinks_def mem_live_def split: option.splits)

lemma shrinks_mem_drop: "shrinks (mem_live (w\<lparr>m_entries := (m_entries w)(nk := None)\<rparr>)) (mem_live w)"
  by (auto simp: shrinks_def mem_live_def split: option.splits)

lemma shrinks_mem_put:
  "shrinks (mem_live (w\<lparr>m_entries := (m_entries w)(nk := Some (v, t))\<rparr>)) ((mem_live w)(nk \<mapsto> v))"
  by (auto simp: shrinks_def mem_live_def split: option.splits)

interpretation mem: cache_api "mem_env c" mem_live for c
proof
  fix n k w v w'
  assume "run_state (CacheGet (mem_env c) n k) w = (Inr (Some v), w')"
  from result_of_eqI [OF this] show "mem_live w (n, k) = Some v"
    by (auto split: option.splits if_splits)
next
  fix n k v w
  show "shrinks (mem_live (world_after (CacheSet (mem_env c) n k v) w)) ((mem_live w)((n, k) \<mapsto> v))
    \<or> shrinks (mem_live (world_after (CacheSet (mem_env c) n k v) w)) (mem_live w)"
    by (simp add: shrinks_mem_put split: option.splits)
next
  fix n k w w'
  assume "run_state (CacheDelete (mem_env c) n k) w = (None, w')"
  from world_after_eqI [OF this] show "mem_live w' (n, k) = None"
    by (auto simp: mem_live_def)
next
  fix n k w r w'
  assume a: "run_state (CachePop (mem_env c) n k) w = (Inr r, w')"
  from result_of_eqI [OF a] world_after_eqI [OF a]
  show "(\<exists>v. r = Some v \<and> mem_live w (n, k) = Some v) \<and> mem_live w' (n, k) = None"
    by (auto simp: mem_live_def split: option.splits if_splits)
next
  fix n k w
  show "shrinks (mem_live (world_after (CachePop (mem_env c) n k) w)) (mem_live w)"
    by (auto simp: shrinks_mem_drop split: option.splits)
qed (simp_all add: shrinks_mem_drop shrinks_mem_later)

end
