(* ===== verification/Sample_World.thy ===== *)
theory Sample_World
  imports Service Mem_World
begin

text \<open>
  Concrete inputs for the witnesses: a registry of two clients, requests, and worlds of
  \<open>Mem_World\<close> in which the handlers run.
\<close>

definition bff_client :: Client where
  "bff_client = \<lparr>cl_ID = ''bff'', cl_RedirectURI = [''https://bff/cb''], cl_Secrets = [''s3cret''],
     cl_Certificates = [''PEM''], cl_Scopes = [''api''], cl_Metadata = None\<rparr>"

definition wallet_client :: Client where
  "wallet_client = \<lparr>cl_ID = ''wallet'', cl_RedirectURI = [''https://wallet/cb''], cl_Secrets = [],
     cl_Certificates = [], cl_Scopes = [], cl_Metadata = Some [''token_binding'' \<mapsto> ''dpop'']\<rparr>"

definition sample_registry :: clientStore where
  "sample_registry = [''bff'' \<mapsto> bff_client, ''wallet'' \<mapsto> wallet_client]"

definition sample_config :: mem_config where
  "sample_config = \<lparr>mc_registry = sample_registry, mc_zero_on_miss = False, mc_tick = 0\<rparr>"

definition lenient_config :: mem_config where
  "lenient_config = sample_config\<lparr>mc_zero_on_miss := True\<rparr>"

abbreviation sample_env :: "mem env" where "sample_env \<equiv> mem_env sample_config"
abbreviation lenient_env :: "mem env" where "lenient_env \<equiv> mem_env lenient_config"

lemma sample_lookup [simp]:
  "clientStore_GetClient (mc_registry sample_config) ''bff'' = Inr (Some bff_client)"
  "clientStore_GetClient (mc_registry sample_config) ''wallet'' = Inr (Some wallet_client)"
  "mc_registry lenient_config = mc_registry sample_config"
  "\<not> mc_zero_on_miss sample_config" "mc_zero_on_miss lenient_config"
  "mc_tick sample_config = 0" "mc_tick lenient_config = 0"
  by (simp_all add: sample_config_def lenient_config_def clientStore_GetClient_def sample_registry_def)

definition base_request :: request where
  "base_request = \<lparr>rq_form = Map.empty, rq_query = Map.empty, rq_header = (\<lambda>_. []),
     rq_body = Inl (ExternalError ''no body''), rq_post_args = [], rq_query_string = [],
     rq_base_url = ''https://idauth'', rq_base_path = [], rq_router_path = ''/api/1.0/token'',
     rq_ip = ''127.0.0.1'', rq_user_agent = ''test''\<rparr>"

definition bff_header :: string where
  "bff_header = ''Basic '' @ StdEncodeToString (''bff'' @ CHR '':'' # ''s3cret'')"

lemma bff_header_credentials [simp]:
  "basic_credentials bff_header = BasicCredentials ''bff'' ''s3cret''"
  "parseBasicAuth bff_header = Some (''bff'', ''s3cret'')"
  unfolding bff_header_def by (rule basic_credentials_encode parseBasicAuth_encode, simp)+

lemma bff_header_not_Nil [simp]: "bff_header \<noteq> []"
  by (simp add: bff_header_def)

lemma bff_header_scheme [simp]: "isBasicAuthScheme bff_header"
  by (simp add: bff_header_def isBasicAuthScheme_def basicAuthPrefix_def)

definition bff_request :: "(string \<rightharpoonup> string) \<Rightarrow> request" where
  "bff_request form = base_request\<lparr>rq_form := form,
     rq_header := (\<lambda>k. if k = ''Authorization'' then bff_header else [])\<rparr>"

definition wallet_request :: "(string \<rightharpoonup> string) \<Rightarrow> request" where
  "wallet_request form = base_request\<lparr>rq_form := form,
     rq_header := (\<lambda>k. if k = ''OAuth-Client-Attestation'' then ''wia''
                       else if k = ''OAuth-Client-Attestation-PoP'' then ''pop'' else [])\<rparr>"

lemma request_simps [simp]:
  "rq_form (bff_request f) = f" "rq_header (bff_request f) ''Authorization'' = bff_header"
  "rq_header (bff_request f) ''OAuth-Client-Attestation'' = []"
  "rq_header (bff_request f) ''DPoP'' = []"
  "rq_form (wallet_request f) = f"
  "rq_header (wallet_request f) ''OAuth-Client-Attestation'' = ''wia''"
  "rq_header (wallet_request f) ''OAuth-Client-Attestation-PoP'' = ''pop''"
  "rq_header (wallet_request f) ''DPoP'' = []"
  by (simp_all add: bff_request_def wallet_request_def base_request_def)

definition sample_session :: Session where
  "sample_session = zero_Session\<lparr>se_Subject := ''alice'', se_State := ''authorized''\<rparr>"

definition sample_item :: AuthCodeItem where
  "sample_item = \<lparr>ac_Code = ''C1'', ac_ClientID = ''wallet'', ac_UserID = ''alice'',
     ac_RedirectURI = ''https://wallet/cb'', ac_CodeChallenge = GenerateCodeChallenge ''verifier'',
     ac_CodeChallengeMethod = ''S256'', ac_Scope = ''openid'', ac_IssuerState = [],
     ac_NoTXCode = False, ac_Session = sample_session\<rparr>"

definition code_form :: "string \<rightharpoonup> string" where
  "code_form = [''grant_type'' \<mapsto> ''authorization_code'', ''code'' \<mapsto> ''C1'',
     ''code_verifier'' \<mapsto> ''verifier'', ''redirect_uri'' \<mapsto> ''https://wallet/cb'']"

definition all_ttls :: "string \<rightharpoonup> int" where
  "all_ttls = [authCodeCache \<mapsto> 60000000000, stateCache \<mapsto> 300000000000, preAuthCache \<mapsto> 300000000000,
     parCacheName \<mapsto> 90000000000, refreshTokenCacheName \<mapsto> 1000000000000,
     ''system-token-jti'' \<mapsto> 300000000000, ''dpop-jti'' \<mapsto> 300000000000,
     ''client-attestation-jti'' \<mapsto> 300000000000]"

text \<open>A world with the given entries, none of them about to expire.\<close>

definition world_with :: "((string \<times> string) \<times> cache_value) list \<Rightarrow> mem" where
  "world_with es = mem_init\<lparr>m_ttl := all_ttls, m_entries := (\<lambda>k. map_option (\<lambda>v. (v, 60000000000)) (map_of es k))\<rparr>"

lemma world_with_simps [simp]:
  "m_ttl (world_with es) = all_ttls" "m_now (world_with es) = 0"
  "mem_live (world_with es) k = map_of es k"
  "m_entries (world_with es) k = map_option (\<lambda>v. (v, 60000000000)) (map_of es k)"
  "m_sessions (world_with es) = Map.empty" "m_ulids (world_with es) = 0" "m_rands (world_with es) = 0"
  by (cases k) (auto simp: world_with_def mem_init_def mem_live_def split: option.splits)

lemma world_with_now [simp]: "world_with es\<lparr>m_now := 0\<rparr> = world_with es"
  by (simp add: world_with_def mem_init_def)

definition wallet_attester :: "mem Attester" where
  "wallet_attester = \<lparr>at_Verify = (\<lambda>wia pop. return (if wia = ''wia'' \<and> pop = ''pop''
       then Inr \<lparr>ar_ClientID = ''wallet'', ar_CnfJKT = ''JKT''\<rparr> else Inl ''WIA signature'')),
     at_RequireKeyBinding = True\<rparr>"

lemma wallet_attester_simps [simp]:
  "at_Verify wallet_attester ''wia'' ''pop'' = return (Inr \<lparr>ar_ClientID = ''wallet'', ar_CnfJKT = ''JKT''\<rparr>)"
  "at_RequireKeyBinding wallet_attester"
  by (simp_all add: wallet_attester_def)

text \<open>A confidential client redeems a code; a wallet redeems a code with DPoP.\<close>

lemma sample_code_grant:
  "grants_token (result_of (HandleAuthorization sample_env (bff_request code_form) 3600000000000 [] None)
     (world_with [((authCodeCache, ''C1''), AuthCodeVal sample_item)]))"
  by (simp add: HandleAuthorization_def authenticate_def authenticate_confidential_def
      requires_dpop_def bff_client_def check_code_def GetItem_def cache_Get_def cache_read_def form_String_def
      code_form_def check_challenge_def sample_item_def issue_token_def Let_def DeleteItem_def
      issue_refresh_def token_type_def)

lemma sample_wallet_grant:
  "grants_token (result_of (HandleAuthorization sample_env (wallet_request code_form) 3600000000000 ''JKT''
       (Some wallet_attester))
     (world_with [((authCodeCache, ''C1''), AuthCodeVal sample_item)]))"
  by (simp add: HandleAuthorization_def authenticate_def attestation_branch_def check_code_def GetItem_def
      cache_Get_def cache_read_def form_String_def code_form_def check_challenge_def sample_item_def
      issue_token_def Let_def DeleteItem_def issue_refresh_def token_type_def IssueRefreshToken_def)

section \<open>A router\<close>

text \<open>The generator of the curve P-256, as a JWK.\<close>

definition generator_x_bytes :: "nat list" where
  "generator_x_bytes = [107,23,209,242,225,44,66,71,248,188,230,229,99,164,64,242,
     119,3,125,129,45,235,51,160,244,161,57,69,216,152,194,150]"

definition generator_y_bytes :: "nat list" where
  "generator_y_bytes = [79,227,66,226,254,26,127,155,142,231,235,74,124,15,158,22,
     43,206,51,87,107,49,94,206,203,182,64,104,55,191,81,245]"

definition generator_x :: string where
  "generator_x = RawEncodeToString URLAlphabet (string_of generator_x_bytes)"

definition generator_y :: string where
  "generator_y = RawEncodeToString URLAlphabet (string_of generator_y_bytes)"

definition generator_jwk :: "(string \<times> json) list" where
  "generator_jwk = [(''kty'', JStr ''EC''), (''crv'', JStr ''P-256''), (''x'', JStr generator_x), (''y'', JStr generator_y)]"

definition generator_point :: ec_point where
  "generator_point =
     (48439561293906451759052585252797914202762949526041747995844080717082404635286,
      36134250956749795798585127919587881956611106672985015071877198253568414405109)"

lemma bytes_string: "\<forall>x\<in>set ns. x < 256 \<Longrightarrow> bytes_of (string_of ns) = ns"
  by (induction ns) (simp_all add: bytes_of_def string_of_def of_char_small)

lemma generator_not_Nil: "generator_x \<noteq> []" "generator_y \<noteq> []"
proof -
  have "length generator_x = 43" "length generator_y = 43"
    by (simp_all add: generator_x_def generator_y_def length_RawEncode generator_x_bytes_def
        generator_y_bytes_def string_of_def)
  then show "generator_x \<noteq> []" "generator_y \<noteq> []" by auto
qed

lemma generator_square: "(36134250956749795798585127919587881956611106672985015071877198253568414405109::int) * 36134250956749795798585127919587881956611106672985015071877198253568414405109 = 11276107902616505813297874115423378275166393229135779582683496500509631641880 * 115792089210356248762697446949407573530086143415290314195533631308867097853951 + 38841243268434338802906935583467503580982897597684987572860931569745790234001" by simp
lemma generator_cubic: "(48439561293906451759052585252797914202762949526041747995844080717082404635286::int) * 48439561293906451759052585252797914202762949526041747995844080717082404635286 * 48439561293906451759052585252797914202762949526041747995844080717082404635286 - 3 * 48439561293906451759052585252797914202762949526041747995844080717082404635286 + 41058363725152142129326129780047268409114441015993725554835256314039467401291 = 981570988164258562257936101525215858910690391106138407341175333813841188485213047851311466389824052101081056224185355633114391872640022613030589137157488 * 115792089210356248762697446949407573530086143415290314195533631308867097853951 + 38841243268434338802906935583467503580982897597684987572860931569745790234001" by simp
lemma generator_on_curve: "on_p256 48439561293906451759052585252797914202762949526041747995844080717082404635286 36134250956749795798585127919587881956611106672985015071877198253568414405109"
proof -
  have "(11276107902616505813297874115423378275166393229135779582683496500509631641880 * 115792089210356248762697446949407573530086143415290314195533631308867097853951 + 38841243268434338802906935583467503580982897597684987572860931569745790234001) mod 115792089210356248762697446949407573530086143415290314195533631308867097853951 = (38841243268434338802906935583467503580982897597684987572860931569745790234001::int)"
    by (subst mod_mult_self3) simp
  moreover have "(981570988164258562257936101525215858910690391106138407341175333813841188485213047851311466389824052101081056224185355633114391872640022613030589137157488 * 115792089210356248762697446949407573530086143415290314195533631308867097853951 + 38841243268434338802906935583467503580982897597684987572860931569745790234001) mod 115792089210356248762697446949407573530086143415290314195533631308867097853951 = (38841243268434338802906935583467503580982897597684987572860931569745790234001::int)"
    by (subst mod_mult_self3) simp
  ultimately show ?thesis unfolding on_p256_def p256_p_def p256_b_def generator_square generator_cubic by (rule trans [OF _ sym])
qed

lemma generator_parse:
  "ParseUncompressedPublicKey (uncompressed_point generator_x_bytes generator_y_bytes) = Some generator_point"
proof -
  have "uncompressed_point generator_x_bytes generator_y_bytes = 4 # generator_x_bytes @ generator_y_bytes"
    by (subst uncompressed_point_long) (simp_all add: generator_x_bytes_def generator_y_bytes_def)
  moreover have "be_int generator_x_bytes = fst generator_point" "be_int generator_y_bytes = snd generator_point"
    by (simp_all add: be_int_def generator_x_bytes_def generator_y_bytes_def generator_point_def)
  moreover have "length generator_x_bytes = 32" "length generator_y_bytes = 32"
    by (simp_all add: generator_x_bytes_def generator_y_bytes_def)
  ultimately show ?thesis
    using generator_on_curve
    by (simp add: ParseUncompressedPublicKey_def generator_point_def p256_p_def)
qed

lemma generator_key:
  "ParseECJWK (map_of generator_jwk) = Inr (generator_point, thumbprint generator_x generator_y)"
proof -
  have "bytes_of (string_of generator_x_bytes) = generator_x_bytes"
    "bytes_of (string_of generator_y_bytes) = generator_y_bytes"
    by (rule bytes_string, simp add: generator_x_bytes_def generator_y_bytes_def)+
  moreover have "RawDecodeString URLAlphabet generator_x = Some (string_of generator_x_bytes)"
    "RawDecodeString URLAlphabet generator_y = Some (string_of generator_y_bytes)"
    unfolding generator_x_def generator_y_def by (rule RawDecode_Encode)+
  ultimately show ?thesis
    using generator_not_Nil
    by (simp add: ParseECJWK_def generator_jwk_def as_string_def generator_parse)
qed

section \<open>Proofs and a router\<close>

definition sample_proof :: "proofClaims JwtToken" where
  "sample_proof = \<lparr>jt_Header = [''typ'' \<mapsto> JStr ''dpop+jwt'', ''jwk'' \<mapsto> JObj generator_jwk], jt_Alg = ''ES256'',
     jt_Claims = \<lparr>pc_HTM = ''POST'', pc_HTU = ''https://idauth/api/1.0/token'', pc_ATH = [],
        pc_Registered = \<lparr>rc_Issuer = [], rc_Subject = [], rc_Audience = [], rc_ExpiresAt = None,
           rc_NotBefore = None, rc_IssuedAt = Some 0, rc_ID = ''D1''\<rparr>\<rparr>, jt_Valid = True\<rparr>"

text \<open>A JWT library that knows one text, signed by one key.\<close>

definition one_token_parser :: "'c JwtToken \<Rightarrow> 'k \<Rightarrow> (mem, 'c, 'k, 'e) jwt_parser" where
  "one_token_parser t key = (\<lambda>opts s kf. return
     (if s = ''jwt'' \<and> jt_Alg t \<in> set (opt_ValidMethods opts) \<and> jt_Valid t then
        (case kf t of Inl e \<Rightarrow> Inl (ExternalError ''keyfunc'')
         | Inr k \<Rightarrow> if k = key then Inr t else Inl (ExternalError ''signature''))
      else Inl (ExternalError ''malformed'')))"

definition sample_validator :: "mem Validator" where
  "sample_validator = NewValidator \<lparr>dc_AcceptedHTUs = [''https://idauth/api/1.0/token''], dc_IATWindow = 0,
     dc_ReplayCheck = Some (dpop_replay sample_env)\<rparr>"

lemma one_token_sound: "jwt_sound (one_token_parser t key) (\<lambda>k s. k = key \<and> s = ''jwt'')"
  by (auto simp: jwt_sound_def one_token_parser_def split: if_splits sum.splits)

lemma sample_proof_key: "proof_key sample_proof = Inr (generator_point, thumbprint generator_x generator_y)"
  by (simp add: proof_key_def sample_proof_def as_string_def generator_key)

lemma sample_check_claims: "check_claims sample_validator 0 ''POST'' [] (jt_Claims sample_proof) = None"
  by (simp add: check_claims_def sample_proof_def sample_validator_def NewValidator_def outside_window_def
      time_Since_def max_Duration_def min_Duration_def)

lemma sample_validator_replay: "va_replay sample_validator = Some (dpop_replay sample_env)"
  by (simp add: sample_validator_def NewValidator_def)

lemma sample_proof_valid:
  "result_of (dpop_Validate sample_env (one_token_parser sample_proof generator_point) sample_validator
     ''jwt'' ''POST'' []) (world_with []) = Inr (thumbprint generator_x generator_y)"
proof -
  have "result_of (one_token_parser sample_proof generator_point proof_options ''jwt''
      (\<lambda>t. map_sum id fst (proof_key t))) w = (Inr sample_proof :: go_error + _)
    \<and> world_after (one_token_parser sample_proof generator_point proof_options ''jwt''
      (\<lambda>t. map_sum id fst (proof_key t))) w = w" for w
    using sample_proof_key by (simp add: one_token_parser_def proof_options_def) (simp add: sample_proof_def)
  then show ?thesis
    using sample_proof_key sample_check_claims sample_validator_replay
    by (simp add: dpop_Validate_def dpop_replay_def cache_ReplayCheck_def cache_Get_def cache_read_def all_ttls_def)
qed

definition no_assertions :: "(mem, nat) assertion_lib" where
  "no_assertions = \<lparr>al_parse = (\<lambda>opts s kf. return (Inl (ExternalError ''malformed''))),
     al_class = (\<lambda>e. IsJwtError),
     al_pem = \<lparr>ParseECPublicKeyFromPEM = (\<lambda>s. Inl (ExternalError ''pem'')),
        ParseEdPublicKeyFromPEM = (\<lambda>s. Inl (ExternalError ''pem'')),
        ParseRSAPublicKeyFromPEM = (\<lambda>s. Inl (ExternalError ''pem''))\<rparr>,
     al_JoinPath = (\<lambda>b p. Inr (b @ p))\<rparr>"

definition sample_store :: Store where
  "sample_store = \<lparr>scopes = {''openid'', ''profile''}\<rparr>"

definition sample_router :: "(mem, nat) router" where
  "sample_router = \<lparr>ro_SessionTimeout = 3600000000000, ro_RequireClientAttestationPreauth = False,
     ro_RequireIntrospectionAuth = True, ro_RequirePAR = False, ro_PARTTL = 90000000000,
     ro_PublicURL = ''https://idauth'', ro_Store = sample_store, ro_dpop = sample_validator,
     ro_dpop_parse = one_token_parser sample_proof generator_point,
     ro_attest = Some wallet_attester, ro_assertions = no_assertions\<rparr>"

lemma sample_router_simps [simp]:
  "ro_SessionTimeout sample_router = 3600000000000" "ro_Store sample_router = sample_store"
  "\<not> ro_RequirePAR sample_router" "ro_RequireIntrospectionAuth sample_router"
  "ro_dpop sample_router = sample_validator"
  "ro_dpop_parse sample_router = one_token_parser sample_proof generator_point"
  "ro_attest sample_router = Some wallet_attester" "ro_assertions sample_router = no_assertions"
  by (simp_all add: sample_router_def)

lemma attester_frame_None [simp]: "attester_frame live None"
  by (simp add: attester_frame_def attester_within_def)

lemma attester_frame_wallet: "attester_frame mem_live (Some wallet_attester)"
  by (simp add: attester_frame_def attester_within_def within_def wallet_attester_def replays_only_def)

lemma sample_intn_range: "intn_range sample_env"
  by (simp add: intn_range_def)

section \<open>A login\<close>

definition sample_login :: Correlation where
  "sample_login = \<lparr>cor_ID = ''C1'', cor_ClientID = ''bff'', cor_RedirectURI = ''https://wallet/cb'',
     cor_CodeChallenge = Some (GenerateCodeChallenge ''verifier''), cor_CodeChallengeMethod = Some ''S256'',
     cor_State = Some ''st'', cor_ErrorCode = [], cor_ManagedByProvider = False\<rparr>"

definition sample_user :: UserData where
  "sample_user = \<lparr>ud_UserID = ''alice'', ud_PersonCode = [], ud_FirstName = [], ud_LastName = [], ud_Email = []\<rparr>"

definition sample_pending :: StateItem where
  "sample_pending = \<lparr>st_State = ''st'', st_ResponseType = ''code'', st_Scope = ''openid'', st_IssuerState = []\<rparr>"

definition provider_request :: "(string \<rightharpoonup> string) \<Rightarrow> request" where
  "provider_request q = base_request\<lparr>rq_query := q\<rparr>"

lemma provider_request_query [simp]: "query_String (provider_request q) k = (case q k of None \<Rightarrow> Inl (ParamRequired k) | Some v \<Rightarrow> Inr v)"
  by (simp add: provider_request_def query_String_def)

abbreviation login_world :: mem where
  "login_world \<equiv> world_with [((stateCache, ''st''), StateVal sample_pending)]"

section \<open>The libraries of the providers\<close>

definition sample_person :: Person where
  "sample_person = \<lparr>pe_IdentityNumber = ''alice'', pe_PersonalCode = ''123456-12345'',
     pe_FirstName = ''Alice'', pe_LastName = ''Smith''\<rparr>"

definition sample_sid :: "mem sid_client" where
  "sample_sid = \<lparr>sid_CreateSession = (\<lambda>c i. return (Inr JNull)),
     sid_FetchSession = (\<lambda>s. return (Inr (Some sample_person)))\<rparr>"

definition sample_attributes :: "Attribute list" where
  "sample_attributes =
     [\<lparr>at_Namespace = pidNamespace, at_Key = ''personal_administrative_number'', at_Value = JStr ''123456-12345''\<rparr>,
      \<lparr>at_Namespace = pidNamespace, at_Key = ''given_name'', at_Value = JStr ''Alice''\<rparr>,
      \<lparr>at_Namespace = pidNamespace, at_Key = ''family_name'', at_Value = JStr ''Smith''\<rparr>]"

definition sample_wallet :: "mem verifier" where
  "sample_wallet = \<lparr>vf_GenerateOffer = return (Inr \<lparr>of_TransactionID = ''T1'', of_Link = ''openid4vp://''\<rparr>),
     vf_GenerateSameDeviceOffer = (\<lambda>u c. return (Inr \<lparr>of_TransactionID = ''T1'', of_Link = ''openid4vp://''\<rparr>)),
     vf_HandleWalletReturn = (\<lambda>t c. return \<lparr>wr_data = Some sample_login, wr_attrs = sample_attributes, wr_err = None\<rparr>),
     vf_Status = (\<lambda>p. return (''success_wallet'', None)), vf_Attributes = (\<lambda>p. return (Inr sample_attributes))\<rparr>"

definition sample_oauth2 :: "mem oauth2_lib" where
  "sample_oauth2 = \<lparr>AuthCodeURL = (\<lambda>c s ps. o2_AuthURL c @ s), Exchange = (\<lambda>c s. return (Inr ''AT'')),
     HttpGet = (\<lambda>u t. return (Inr ''{}''))\<rparr>"

definition sample_libs :: "mem provider_libs" where
  "sample_libs = \<lparr>pl_smartid = sample_sid, pl_verifier = sample_wallet, pl_oauth2 = sample_oauth2,
     pl_JoinPath = (\<lambda>b p. Inr (b @ p))\<rparr>"

text \<open>Calls that leave the world alone stay within every reflexive relation.\<close>

lemma within_return: "(\<And>w. T w w) \<Longrightarrow> within T (return x)"
  by (simp add: within_def)

lemma sample_libs_within: "(\<And>w. T w w) \<Longrightarrow> libs_within T sample_libs"
  by (simp add: libs_within_def sample_libs_def sample_sid_def sample_wallet_def sample_oauth2_def within_return)

lemma one_token_within: "(\<And>w. T w w) \<Longrightarrow> within T (one_token_parser t key opts s kf)"
  by (simp add: one_token_parser_def within_return)

lemma sample_router_within:
  assumes "\<And>w. T w w" "\<And>w. A w w"
  shows "router_within T A sample_env sample_router"
  using assms
  by (simp add: router_within_def attester_within_def wallet_attester_def one_token_within within_return
      no_assertions_def sample_validator_def NewValidator_def)

text \<open>Time passes: the clock moves forward and nothing else changes.\<close>

definition mem_later :: "mem \<Rightarrow> mem \<Rightarrow> bool" where
  "mem_later w w' \<longleftrightarrow> (\<exists>d\<ge>0. w' = w\<lparr>m_now := m_now w + d\<rparr>)"

lemma mem_later_quiet: "mem_later w w' \<Longrightarrow> quiet_step mem_live w w'"
  by (auto simp: mem_later_def quiet_step_def intro: shrinks_mem_later)

lemma sample_service_frame: "service_frame mem_live sample_env sample_router sample_libs mem_later"
  unfolding service_frame_def router_frame_def
  by (intro conjI sample_router_within sample_libs_within)
     (simp_all add: quiet_step_def replays_only_def mem_later_quiet [unfolded quiet_step_def])

end
