(* ===== verification/Service_Runs.thy ===== *)
theory Service_Runs
  imports Service
begin

text \<open>
  What holds along whole runs of the service, whatever requests it serves, in whatever order, with
  all its providers: a credential that is taken once stays taken, and everything a session says has
  a step of the run that vouches for it.
\<close>

section \<open>The session store and the random sources\<close>

text \<open>
  \<open>sess\<close> is what the session store holds of a session (its subject and its metadata), \<open>drawn\<close> the
  hashes of the refresh tokens and \<open>made\<close> the ULIDs that the random sources have produced so far.
\<close>

definition token_hash :: "string \<Rightarrow> string" where
  "token_hash buf = hashRefreshToken (RawEncodeToString URLAlphabet buf)"

definition evolves ::
    "('w \<Rightarrow> string \<Rightarrow> (string \<times> strmap) option) \<Rightarrow> ('w \<Rightarrow> string set) \<Rightarrow> ('w \<Rightarrow> string set) \<Rightarrow> 'w \<Rightarrow> 'w \<Rightarrow> bool" where
  "evolves sess drawn made w w' \<longleftrightarrow>
     shrinks (sess w') (sess w) \<and> drawn w \<subseteq> drawn w' \<and> made w \<subseteq> made w'"

text \<open>
  What the code outside the service may do to this world: forget entries and sessions, and draw;
  the attestation verifier may record replays. \<open>quiet_service\<close> asks this of the libraries, of the
  attestation verifier and of the passing of time.
\<close>

definition quiet_world ::
    "('w \<Rightarrow> string \<times> string \<Rightarrow> cache_value option) \<Rightarrow> ('w \<Rightarrow> string \<Rightarrow> (string \<times> strmap) option)
     \<Rightarrow> ('w \<Rightarrow> string set) \<Rightarrow> ('w \<Rightarrow> string set) \<Rightarrow> 'w \<Rightarrow> 'w \<Rightarrow> bool" where
  "quiet_world live sess drawn made w w' \<longleftrightarrow> quiet_step live w w' \<and> evolves sess drawn made w w'"

definition replay_world ::
    "('w \<Rightarrow> string \<times> string \<Rightarrow> cache_value option) \<Rightarrow> ('w \<Rightarrow> string \<Rightarrow> (string \<times> strmap) option)
     \<Rightarrow> ('w \<Rightarrow> string set) \<Rightarrow> ('w \<Rightarrow> string set) \<Rightarrow> 'w \<Rightarrow> 'w \<Rightarrow> bool" where
  "replay_world live sess drawn made w w' \<longleftrightarrow> replays_only live w w' \<and> evolves sess drawn made w w'"

definition quiet_service ::
    "('w \<Rightarrow> string \<times> string \<Rightarrow> cache_value option) \<Rightarrow> ('w \<Rightarrow> string \<Rightarrow> (string \<times> strmap) option)
     \<Rightarrow> ('w \<Rightarrow> string set) \<Rightarrow> ('w \<Rightarrow> string set) \<Rightarrow> 'w env \<Rightarrow> ('w, 'k) router \<Rightarrow> 'w provider_libs
     \<Rightarrow> ('w \<Rightarrow> 'w \<Rightarrow> bool) \<Rightarrow> bool" where
  "quiet_service live sess drawn made E R Pv decays \<longleftrightarrow>
     router_within (quiet_world live sess drawn made) (replay_world live sess drawn made) E R
     \<and> libs_within (quiet_world live sess drawn made) Pv
     \<and> (\<forall>w w'. decays w w' \<longrightarrow> quiet_world live sess drawn made w w')"

text \<open>An invariant that this leaves alone.\<close>

definition steady ::
    "('w \<Rightarrow> string \<times> string \<Rightarrow> cache_value option) \<Rightarrow> ('w \<Rightarrow> string \<Rightarrow> (string \<times> strmap) option)
     \<Rightarrow> ('w \<Rightarrow> string set) \<Rightarrow> ('w \<Rightarrow> string set) \<Rightarrow> ('w \<Rightarrow> bool) \<Rightarrow> bool" where
  "steady live sess drawn made I \<longleftrightarrow>
     (\<forall>w w'. quiet_world live sess drawn made w w' \<or> replay_world live sess drawn made w w' \<longrightarrow> I w \<longrightarrow> I w')"

lemma quiet_service_calm:
  assumes "quiet_service live sess drawn made E R Pv decays" "steady live sess drawn made I"
  shows "calm_router I E R" "calm_libs I Pv" "decays w w' \<Longrightarrow> I w \<Longrightarrow> I w'"
proof -
  have q: "router_within (quiet_world live sess drawn made) (replay_world live sess drawn made) E R"
    "libs_within (quiet_world live sess drawn made) Pv"
    "\<And>w w'. decays w w' \<Longrightarrow> quiet_world live sess drawn made w w'"
    using assms(1) unfolding quiet_service_def by blast+
  note st = assms(2) [unfolded steady_def]
  show "calm_router I E R" by (rule router_within_mono [OF q(1)]) (use st in blast)+
  show "calm_libs I Pv" by (rule libs_within_mono [OF q(2)]) (use st in blast)
  show "decays w w' \<Longrightarrow> I w \<Longrightarrow> I w'" using q(3) st by blast
qed

lemma evolvesD:
  assumes "evolves sess drawn made w w'"
  shows "h \<in> drawn w \<Longrightarrow> h \<in> drawn w'" "u \<in> made w \<Longrightarrow> u \<in> made w'" "sess w' i = Some x \<Longrightarrow> sess w i = Some x"
  using assms by (auto simp: evolves_def dest: shrinks_Some)

locale service_world = cache_api E live for E :: "'w env" and live +
  fixes sess :: "'w \<Rightarrow> string \<Rightarrow> (string \<times> strmap) option"
    and drawn :: "'w \<Rightarrow> string set" and made :: "'w \<Rightarrow> string set"
  assumes create_sess: "sess (world_after (SessionCreate E s) w) i = Some x \<Longrightarrow>
        sess w i = Some x \<or> x = (se_Subject s, se_Metadata s)"
    and create_spent: "drawn w \<subseteq> drawn (world_after (SessionCreate E s) w)"
        "made w \<subseteq> made (world_after (SessionCreate E s) w)"
    and lookup_sess: "result_of (GetSessionByID E i) w = Inr (Some s) \<Longrightarrow> sess w i = Some (se_Subject s, se_Metadata s)"
    and fresh_draw: "result_of (RandRead E 32) w = Inr buf \<Longrightarrow>
        token_hash buf \<notin> drawn w \<and> token_hash buf \<in> drawn (world_after (RandRead E 32) w)"
    and fresh_ulid: "result_of (UlidMake E) w \<notin> made w" "result_of (UlidMake E) w \<in> made (world_after (UlidMake E) w)"
    and get_evolves: "evolves sess drawn made w (world_after (CacheGet E n k) w)"
    and set_evolves: "evolves sess drawn made w (world_after (CacheSet E n k v) w)"
    and delete_evolves: "evolves sess drawn made w (world_after (CacheDelete E n k) w)"
    and pop_evolves: "evolves sess drawn made w (world_after (CachePop E n k) w)"
    and session_delete_evolves: "evolves sess drawn made w (world_after (SessionDelete E c) w)"
    and session_get_evolves: "evolves sess drawn made w (world_after (GetSessionByID E c) w)"
    and audit_evolves: "evolves sess drawn made w (world_after (PersonRequest E a) w)"
    and ulid_evolves: "evolves sess drawn made w (world_after (UlidMake E) w)"
    and now_evolves: "evolves sess drawn made w (world_after (TimeNow E) w)"
    and rand_evolves: "evolves sess drawn made w (world_after (RandRead E m) w)"
    and intn_evolves: "evolves sess drawn made w (world_after (RandIntn E z) w)"
begin

lemmas op_evolves = get_evolves set_evolves delete_evolves pop_evolves session_delete_evolves
  session_get_evolves audit_evolves ulid_evolves now_evolves rand_evolves intn_evolves

end

lemma run_split_last: "run T w0 (es @ [e]) v \<longleftrightarrow> (\<exists>u. run T w0 es u \<and> T u e v)"
proof
  assume "run T w0 (es @ [e]) v"
  from run_split [OF this] show "\<exists>u. run T w0 es u \<and> T u e v" by (auto simp: run_single)
next
  assume "\<exists>u. run T w0 es u \<and> T u e v"
  then show "run T w0 (es @ [e]) v" by (blast intro: run_step)
qed

section \<open>Credentials that are taken once\<close>

text \<open>
  The interface: a credential is \<open>known\<close> once it was produced, and it is \<open>gone\<close> when it is not
  stored; a use takes it out of the store, without it there is no use, and only a step that \<open>fills\<close>
  stores it again. There are then no more uses than fillings, one that was there at the start
  counted.
\<close>

locale refillable =
  fixes T :: "'w \<Rightarrow> 'e \<Rightarrow> 'w \<Rightarrow> bool" and known :: "'w \<Rightarrow> bool" and gone :: "'w \<Rightarrow> bool"
    and uses :: "'e \<Rightarrow> bool" and fills :: "'e \<Rightarrow> bool"
  assumes known_stays: "T w e w' \<Longrightarrow> known w \<Longrightarrow> known w'"
    and gone_stays: "T w e w' \<Longrightarrow> known w \<Longrightarrow> gone w \<Longrightarrow> \<not> fills e \<Longrightarrow> gone w'"
    and gone_unusable: "T w e w' \<Longrightarrow> known w \<Longrightarrow> gone w \<Longrightarrow> \<not> uses e"
    and use_takes: "T w e w' \<Longrightarrow> known w \<Longrightarrow> uses e \<Longrightarrow> gone w'"
    and no_fill: "uses e \<Longrightarrow> \<not> fills e"
begin

lemma known_along: "run T w0 es w \<Longrightarrow> known w0 \<Longrightarrow> known w"
  by (induction rule: run.induct) (blast intro: known_stays)+

lemma uses_counted:
  assumes "run T w0 es w" "known w0"
  shows "length (filter uses es) + (if gone w then 0 else 1) \<le> length (filter fills es) + (if gone w0 then 0 else 1)"
  using assms
proof (induction rule: run.induct)
  case run_start
  then show ?case by simp
next
  case (run_step es w e w')
  note t = run_step.hyps(2)
  have k: "known w" by (rule known_along [OF run_step.hyps(1) run_step.prems])
  show ?case
  proof (cases "uses e")
    case True
    moreover have "\<not> gone w" using gone_unusable [OF t k] True by blast
    ultimately show ?thesis using run_step.IH [OF run_step.prems] use_takes [OF t k] no_fill by simp
  next
    case False
    with run_step.IH [OF run_step.prems] gone_stays [OF t k] show ?thesis by (simp split: if_splits)
  qed
qed

end

text \<open>A credential that nobody stores again.\<close>

locale one_time = refillable T known gone uses "\<lambda>_. False"
  for T :: "'w \<Rightarrow> 'e \<Rightarrow> 'w \<Rightarrow> bool" and known gone uses
begin

theorem used_once:
  assumes "run T w0 es w" "known w0"
  shows "length (filter uses es) \<le> 1"
  using uses_counted [OF assms] by (simp split: if_splits)

lemma gone_forever: "run T w0 es w \<Longrightarrow> known w0 \<Longrightarrow> gone w0 \<Longrightarrow> gone w \<and> filter uses es = []"
proof (induction rule: run.induct)
  case run_start
  then show ?case by simp
next
  case (run_step es w e w')
  then have "gone w" "filter uses es = []" by blast+
  moreover have "known w" by (rule known_along [OF run_step.hyps(1) run_step.prems(1)])
  ultimately show ?case
    using gone_stays [OF run_step.hyps(2)] gone_unusable [OF run_step.hyps(2)] by simp
qed

end

text \<open>The uses: a granted refresh request with this token, a redirect for this request_uri.\<close>

definition refreshes_with :: "string \<Rightarrow> event \<Rightarrow> bool" where
  "refreshes_with t e \<longleftrightarrow> (case e of
      TokenRequested rq proof rep \<Rightarrow>
        rq_form rq ''grant_type'' = Some GrantTypeRefreshToken \<and> rq_form rq ''refresh_token'' = Some t
        \<and> grants_token rep
    | _ \<Rightarrow> False)"

definition redirects_for :: "string \<Rightarrow> event \<Rightarrow> bool" where
  "redirects_for u e \<longleftrightarrow> (case e of
      AuthorizeRequested rq rep \<Rightarrow>
        rq_query rq ''request_uri'' = Some (parURNPrefix @ u) \<and> (\<exists>l. content rep = Redirect l)
    | _ \<Rightarrow> False)"

context service_world
begin

lemmas ops_drawn = op_evolves [THEN evolvesD(1)] and ops_made = op_evolves [THEN evolvesD(2)]

lemma drawn_create: "h \<in> drawn w \<Longrightarrow> h \<in> drawn (world_after (SessionCreate E s) w)"
  and made_create: "h \<in> made w \<Longrightarrow> h \<in> made (world_after (SessionCreate E s) w)"
  using create_spent by blast+

lemma drawn_fresh: "h \<in> drawn w \<and> b \<Longrightarrow> result_of (RandRead E 32) w = Inr buf \<Longrightarrow>
    hashRefreshToken (RawEncodeToString URLAlphabet buf) \<noteq> h"
  using fresh_draw unfolding token_hash_def by blast

lemma made_fresh: "u \<in> made w \<Longrightarrow> result_of (UlidMake E) w \<noteq> u"
  using fresh_ulid(1) by blast

lemmas absent_stays = frames [THEN shrinks_None]

lemma get_present: "result_of (CacheGet E n k) w = Inr (Some v) \<Longrightarrow> live w (n, k) = Some v"
  using get_some [of n k w v] run_state_eq [of "CacheGet E n k" w] by simp

lemma pop_present: "result_of (CachePop E n k) w = Inr r \<Longrightarrow> \<exists>v. r = Some v \<and> live w (n, k) = Some v"
  using pop_some [of n k w r] run_state_eq [of "CachePop E n k" w] by simp

lemma set_elsewhere:
  "live w (n', k') = None \<Longrightarrow> (n = n' \<longrightarrow> k \<noteq> k') \<Longrightarrow> live (world_after (CacheSet E n k v) w) (n', k') = None"
  by (rule set_other) auto

lemma pop_absent_after: "result_of (CachePop E n k) w = Inr r \<Longrightarrow> live (world_after (CachePop E n k) w) (n, k) = None"
  using pop_some [of n k w r] run_state_eq [of "CachePop E n k" w] by simp

lemmas spent_facts = ops_drawn ops_made drawn_create made_create absent_stays set_elsewhere

end

text \<open>
  The steps that hand out a credential: a reply with this refresh token, a reply to a pushed
  request with this request_uri.
\<close>

definition issues_refresh :: "string \<Rightarrow> event \<Rightarrow> bool" where
  "issues_refresh t e \<longleftrightarrow> (case e of
      TokenRequested rq proof rep \<Rightarrow>
        (\<exists>r. content rep = JSON 200 (TokenResponseBody r) \<and> resp_RefreshToken r = t \<and> t \<noteq> [])
    | _ \<Rightarrow> False)"

definition issues_uri :: "string \<Rightarrow> event \<Rightarrow> bool" where
  "issues_uri u e \<longleftrightarrow> (case e of
      RequestPushed rq rep \<Rightarrow>
        (\<exists>fs. content rep = JSON 201 (JsonBody (JObj fs)) \<and> map_of fs ''request_uri'' = Some (JStr (parURNPrefix @ u)))
    | _ \<Rightarrow> False)"

context service_world
begin

lemma issued_drawn:
  assumes "result_of (IssueRefreshToken E item) w = Inr t"
  shows "hashRefreshToken t \<in> drawn (world_after (IssueRefreshToken E item) w)"
proof -
  obtain buf where b: "result_of (RandRead E 32) w = Inr buf" and t: "t = RawEncodeToString URLAlphabet buf"
    using assms by (auto simp: IssueRefreshToken_def Let_def split: sum.splits option.splits)
  have "hashRefreshToken t \<in> drawn (world_after (RandRead E 32) w)"
    using fresh_draw [OF b] by (simp add: token_hash_def t)
  then show ?thesis by (simp add: IssueRefreshToken_def Let_def b t ops_drawn)
qed

lemma issue_refresh_drawn:
  assumes "result_of (issue_refresh E jkt c item) w = t" "t \<noteq> []"
  shows "hashRefreshToken t \<in> drawn (world_after (issue_refresh E jkt c item) w)"
proof -
  let ?m = "IssueRefreshToken E \<lparr>rt_ClientID = c, rt_Scope = ac_Scope item, rt_JKT = jkt, rt_Session = ac_Session item\<rparr>"
  have d: "token_type jkt = ''DPoP''" using assms by (auto simp: issue_refresh_def split: if_splits)
  obtain t' where "result_of ?m w = Inr t'"
    using assms d by (cases "result_of ?m w") (auto simp: issue_refresh_def)
  with assms d issued_drawn [OF this] show ?thesis by (simp add: issue_refresh_def)
qed

lemma issue_token_drawn:
  assumes "content (result_of (issue_token E rq timeout jkt c item) w) = JSON 200 (TokenResponseBody r)"
    and "resp_RefreshToken r \<noteq> []"
  shows "hashRefreshToken (resp_RefreshToken r) \<in> drawn (world_after (issue_token E rq timeout jkt c item) w)"
  using assms
  by (auto simp: issue_token_def Let_def intro: issue_refresh_drawn split: sum.splits option.splits)

lemma rotate_token_drawn:
  assumes "content (result_of (rotate_token E timeout jkt item) w) = JSON 200 (TokenResponseBody r)"
    and "resp_RefreshToken r \<noteq> []"
  shows "hashRefreshToken (resp_RefreshToken r) \<in> drawn (world_after (rotate_token E timeout jkt item) w)"
proof -
  have i: "hashRefreshToken t \<in> drawn (world_after (IssueRefreshToken E x) v)"
    if "value_or [] (result_of (IssueRefreshToken E x) v) = t" "t \<noteq> []" for t x v
    using that issued_drawn by (cases "result_of (IssueRefreshToken E x) v") auto
  show ?thesis
    using assms by (auto simp: rotate_token_def intro: i split: sum.splits)
qed

text \<open>A refresh token in a reply of the token endpoint has just been drawn.\<close>

lemma token_issues:
  assumes "content (result_of (token E R rq) w) = JSON 200 (TokenResponseBody r)" "resp_RefreshToken r \<noteq> []"
  shows "hashRefreshToken (resp_RefreshToken r) \<in> drawn (world_after (token E R rq) w)"
proof -
  have "grants_token (result_of (token E R rq) w)" using assms(1) by (simp add: grants_token.simps)
  then obtain jkt w1 where g: "grants_token (result_of (dispatch_grant E R rq jkt) w1)"
    and e: "result_of (token E R rq) w = no_store (result_of (dispatch_grant E R rq jkt) w1)"
      "world_after (token E R rq) w = world_after (dispatch_grant E R rq jkt) w1"
    by (rule token_grants) (rule that; assumption)
  let ?T = "ro_SessionTimeout R" and ?A = "ro_attest R" and ?gt = "rq_form rq ''grant_type''"
  consider "?gt = Some GrantTypeAuthorizationCode" | "?gt = Some GrantTypeRefreshToken"
    | "?gt = Some GrantTypePreAuthorizedCode"
    | "?gt \<notin> {Some GrantTypeAuthorizationCode, Some GrantTypeRefreshToken, Some GrantTypePreAuthorizedCode}"
    by blast
  then show ?thesis
  proof cases
    case 1
    then have d: "dispatch_grant E R rq jkt = HandleAuthorization E rq ?T jkt ?A" by (simp add: dispatch_grant_def)
    obtain c item w2 where
      "result_of (HandleAuthorization E rq ?T jkt ?A) w1 = result_of (issue_token E rq ?T jkt c item) w2"
      "world_after (HandleAuthorization E rq ?T jkt ?A) w1 = world_after (issue_token E rq ?T jkt c item) w2"
      by (rule HandleAuthorization_grants [OF g [unfolded d]]) (rule that; assumption)
    with issue_token_drawn [OF _ assms(2)] assms(1) e d show ?thesis by simp
  next
    case 2
    then have d: "dispatch_grant E R rq jkt = HandleRefreshToken E rq ?T jkt"
      using grant_types_distinct by (simp add: dispatch_grant_def)
    obtain item w2 where
      "result_of (HandleRefreshToken E rq ?T jkt) w1 = result_of (rotate_token E ?T jkt item) w2"
      "world_after (HandleRefreshToken E rq ?T jkt) w1 = world_after (rotate_token E ?T jkt item) w2"
      by (rule HandleRefreshToken_grants [OF g [unfolded d]]) (rule that; assumption)
    with rotate_token_drawn [OF _ assms(2)] assms(1) e d show ?thesis by simp
  next
    case 3
    then have d: "dispatch_grant E R rq jkt = HandlePreAuthorized E rq ?T jkt ?A (ro_RequireClientAttestationPreauth R)"
      using grant_types_distinct by (simp add: dispatch_grant_def)
    obtain item w2 where
      "result_of (HandlePreAuthorized E rq ?T jkt ?A (ro_RequireClientAttestationPreauth R)) w1 =
       result_of (preauth_issue E rq ?T jkt item) w2"
      by (rule HandlePreAuthorized_grants [OF g [unfolded d]]) (rule that; assumption)
    with assms e(1) d have False by (auto simp: preauth_issue_def Let_def split: sum.splits option.splits)
    then show ?thesis ..
  next
    case 4
    then have d: "dispatch_grant E R rq jkt = handleClientCredentials E (ro_assertions R) ?T rq jkt"
      by (auto simp: dispatch_grant_def)
    obtain req tok w2 where a: "grants_token (result_of (accept_assertion E ?T req jkt tok) w2)"
      and r: "result_of (handleClientCredentials E (ro_assertions R) ?T rq jkt) w1 = result_of (accept_assertion E ?T req jkt tok) w2"
      by (rule handleClientCredentials_grants [OF g [unfolded d]]) (rule that; assumption)
    note s = accept_assertion_grants(4) [OF a]
    from issue_system_token_grants(2) [OF a [unfolded s]] assms e(1) d r s have False by auto
    then show ?thesis ..
  qed
qed

text \<open>A request_uri in a reply of the PAR endpoint has just been made.\<close>

lemma par_issues:
  assumes "issues_uri u (RequestPushed rq (result_of (par E R rq) w))"
  shows "u \<in> made (world_after (par E R rq) w)"
proof -
  have s: "u \<in> made (world_after (SetPAR E i) v)" if "result_of (SetPAR E i) v = Inr u" for i v
    using that fresh_ulid(2) [of v] by (auto simp: SetPAR_def ops_made split: option.splits)
  have n: "content rep \<noteq> JSON 201 b" if "par_checks E (ro_Store R) rq c = Inl rep" for rep c b
    using that by (auto simp: par_checks_def split: option.splits sum.splits if_splits)
  show ?thesis
    using assms by (auto simp: issues_uri_def par_def intro: s dest: n split: option.splits sum.splits)
qed

end

sublocale service_world \<subseteq> known_token: store_policy E "\<lambda>w. h \<in> drawn w" "\<lambda>_ _ _. True"
    "\<lambda>_. True" "\<lambda>_. True" "\<lambda>_. True" "\<lambda>_. True" "\<lambda>_. True" "\<lambda>_. True" store for h store
  by unfold_locales (simp_all add: spent_facts replay_free_def, blast dest: pop_present)

sublocale service_world \<subseteq> known_uri: store_policy E "\<lambda>w. u \<in> made w" "\<lambda>_ _ _. True"
    "\<lambda>_. True" "\<lambda>_. True" "\<lambda>_. True" "\<lambda>_. True" "\<lambda>_. True" "\<lambda>_. True" store for u store
  by unfold_locales (simp_all add: spent_facts replay_free_def, blast dest: pop_present)

sublocale service_world \<subseteq> spent_token: store_policy E
    "\<lambda>w. h \<in> drawn w \<and> live w (refreshTokenCacheName, h) = None"
    "\<lambda>n k v. (n, k) \<noteq> (refreshTokenCacheName, h)"
    "\<lambda>_. True" "\<lambda>h'. h' \<noteq> h" "\<lambda>_. True" "\<lambda>_. True" "\<lambda>_. True" "\<lambda>_. True" store for h store
proof
  fix w n k r
  assume "h \<in> drawn w \<and> live w (refreshTokenCacheName, h) = None" "result_of (CachePop E n k) w = Inr r"
  then show "\<exists>v. r = Some v \<and> (n, k) \<noteq> (refreshTokenCacheName, h)" using pop_present by force
qed (simp_all add: spent_facts drawn_fresh replay_free_def replay_caches_def cache_names, force dest: get_present)

sublocale service_world \<subseteq> spent_uri: store_policy E
    "\<lambda>w. u \<in> made w \<and> live w (parCacheName, u) = None"
    "\<lambda>n k v. (n, k) \<noteq> (parCacheName, u)"
    "\<lambda>_. True" "\<lambda>_. True" "\<lambda>u'. u' \<noteq> u" "\<lambda>_. True" "\<lambda>_. True" "\<lambda>_. True" store for u store
proof
  fix w n k r
  assume "u \<in> made w \<and> live w (parCacheName, u) = None" "result_of (CachePop E n k) w = Inr r"
  then show "\<exists>v. r = Some v \<and> (n, k) \<noteq> (parCacheName, u)" using pop_present by force
qed (simp_all add: spent_facts made_fresh replay_free_def replay_caches_def cache_names, force dest: get_present)


section \<open>The service as a whole\<close>

locale live_service = service_world E live sess drawn made
  for E :: "'w env" and live sess drawn made +
  fixes R :: "('w, 'k) router" and Pv :: "'w provider_libs" and decays :: "'w \<Rightarrow> 'w \<Rightarrow> bool"
  assumes quiet: "quiet_service live sess drawn made E R Pv decays"
    and intn: "intn_range E"
begin

text \<open>An invariant that is an instance of the policy, along a step and along a run.\<close>

lemma policy_step:
  assumes "store_policy E I P S H U J L C (ro_Store R)" "steady live sess drawn made I"
    and "step E R Pv decays w e w'" "event_ok J L C e" "I w"
  shows "I w'"
  by (rule store_policy.step_ok [OF assms(1,3,5,4)])
     (use quiet_service_calm [OF quiet assms(2)] intn in auto)

lemma policy_run:
  assumes "store_policy E I P S H U J L C (ro_Store R)" "steady live sess drawn made I"
    and "run (step E R Pv decays) w es w'" "\<forall>e\<in>set es. event_ok J L C e" "I w"
  shows "I w'"
  by (rule store_policy.run_ok [OF assms(1,3,5,4)])
     (use quiet_service_calm [OF quiet assms(2)] intn in auto)

lemma world_drawn:
  "quiet_world live sess drawn made w w' \<Longrightarrow> h \<in> drawn w \<Longrightarrow> h \<in> drawn w'"
  "replay_world live sess drawn made w w' \<Longrightarrow> h \<in> drawn w \<Longrightarrow> h \<in> drawn w'"
  "quiet_world live sess drawn made w w' \<Longrightarrow> u \<in> made w \<Longrightarrow> u \<in> made w'"
  "replay_world live sess drawn made w w' \<Longrightarrow> u \<in> made w \<Longrightarrow> u \<in> made w'"
  by (auto simp: quiet_world_def replay_world_def dest: evolvesD)

lemma world_absent:
  "quiet_world live sess drawn made w w' \<Longrightarrow> live w (n, k) = None \<Longrightarrow> live w' (n, k) = None"
  "replay_world live sess drawn made w w' \<Longrightarrow> n \<notin> set replay_caches \<Longrightarrow> live w (n, k) = None \<Longrightarrow> live w' (n, k) = None"
proof -
  show "quiet_world live sess drawn made w w' \<Longrightarrow> live w (n, k) = None \<Longrightarrow> live w' (n, k) = None"
    by (auto simp: quiet_world_def quiet_step_def dest: shrinks_None)
next
  assume a: "replay_world live sess drawn made w w'" "n \<notin> set replay_caches" "live w (n, k) = None"
  show "live w' (n, k) = None"
  proof (cases "live w' (n, k)")
    case (Some v)
    with a show ?thesis unfolding replay_world_def replays_only_def by fastforce
  qed
qed

lemma not_replay: "refreshTokenCacheName \<notin> set replay_caches" "parCacheName \<notin> set replay_caches"
  by (simp_all add: replay_caches_def cache_names)

text \<open>A step keeps a credential known, and a known credential that is not stored stays so.\<close>

lemma any_event: "event_ok (\<lambda>_. True) (\<lambda>_. True) (\<lambda>_. True) e"
  by (simp add: event_ok_def split: event.split)

lemma step_drawn: "step E R Pv decays w e w' \<Longrightarrow> h \<in> drawn w \<Longrightarrow> h \<in> drawn w'"
  by (rule policy_step [OF known_token.store_policy_axioms [of h] _ _ any_event])
     (auto simp: steady_def dest: world_drawn)

lemma step_made: "step E R Pv decays w e w' \<Longrightarrow> u \<in> made w \<Longrightarrow> u \<in> made w'"
  by (rule policy_step [OF known_uri.store_policy_axioms [of u] _ _ any_event])
     (auto simp: steady_def dest: world_drawn)

lemma step_spent_token:
  assumes "step E R Pv decays w e w'" "h \<in> drawn w \<and> live w (refreshTokenCacheName, h) = None"
  shows "h \<in> drawn w' \<and> live w' (refreshTokenCacheName, h) = None"
  by (rule policy_step [OF spent_token.store_policy_axioms [of h] _ assms(1) any_event assms(2)])
     (use not_replay in \<open>auto simp: steady_def dest: world_drawn world_absent\<close>)

lemma step_spent_uri:
  assumes "step E R Pv decays w e w'" "u \<in> made w \<and> live w (parCacheName, u) = None"
  shows "u \<in> made w' \<and> live w' (parCacheName, u) = None"
  by (rule policy_step [OF spent_uri.store_policy_axioms [of u] _ assms(1) any_event assms(2)])
     (use not_replay in \<open>auto simp: steady_def dest: world_drawn world_absent\<close>)

text \<open>A granted refresh finds the token in the cache and leaves the cache without it.\<close>

lemma redeemed:
  assumes "result_of (RedeemRefreshToken E t) w = Inr item"
  shows "live w (refreshTokenCacheName, hashRefreshToken t) \<noteq> None"
    and "live (world_after (RedeemRefreshToken E t) w) (refreshTokenCacheName, hashRefreshToken t) = None"
proof -
  obtain r where r: "result_of (CachePop E refreshTokenCacheName (hashRefreshToken t)) w = Inr r"
    using assms unfolding RedeemRefreshToken_def result_cache_Pop by (blast dest: cache_read_Inr)
  from pop_present [OF r] pop_absent_after [OF r]
  show "live w (refreshTokenCacheName, hashRefreshToken t) \<noteq> None"
    "live (world_after (RedeemRefreshToken E t) w) (refreshTokenCacheName, hashRefreshToken t) = None"
    by (auto simp: RedeemRefreshToken_def world_cache_Pop)
qed

lemma refresh_use:
  assumes "step E R Pv decays w e w'" "refreshes_with t e" "hashRefreshToken t \<in> drawn w"
  shows "live w (refreshTokenCacheName, hashRefreshToken t) \<noteq> None"
    and "live w' (refreshTokenCacheName, hashRefreshToken t) = None"
proof -
  let ?h = "hashRefreshToken t"
  let ?I = "\<lambda>w. ?h \<in> drawn w \<and> live w (refreshTokenCacheName, ?h) = None"
  obtain rq where g: "grants_token (result_of (token E R rq) w)" and w': "w' = world_after (token E R rq) w"
    and f: "rq_form rq ''grant_type'' = Some GrantTypeRefreshToken" "rq_form rq ''refresh_token'' = Some t"
    using assms(1) by cases (use assms(2) in \<open>auto simp: refreshes_with_def\<close>)
  obtain jkt w1 where w1: "w1 = world_after (dpopJKT E R rq) w"
    and d: "grants_token (result_of (dispatch_grant E R rq jkt) w1)"
    and e: "world_after (token E R rq) w = world_after (dispatch_grant E R rq jkt) w1"
    by (rule token_grants [OF g])
  have disp: "dispatch_grant E R rq jkt = HandleRefreshToken E rq (ro_SessionTimeout R) jkt"
    using f(1) grant_types_distinct by (simp add: dispatch_grant_def)
  obtain t' item where t': "form_String rq ''refresh_token'' = Inr t'" and j: "jkt \<noteq> []" "rt_JKT item = jkt"
    and r: "result_of (RedeemRefreshToken E t') w1 = Inr item"
    and a: "world_after (HandleRefreshToken E rq (ro_SessionTimeout R) jkt) w1 =
       world_after (rotate_token E (ro_SessionTimeout R) jkt item) (world_after (RedeemRefreshToken E t') w1)"
    by (rule HandleRefreshToken_grants [OF d [unfolded disp]]) (rule that; assumption)
  have t: "t' = t" using t' f(2) by (simp add: form_String_def)
  note q = quiet_service_calm(1) [OF quiet]
  have st: "steady live sess drawn made ?I" "steady live sess drawn made (\<lambda>w. ?h \<in> drawn w)"
    using not_replay by (auto simp: steady_def dest: world_drawn world_absent)
  have k: "?h \<in> drawn w1" unfolding w1
    by (rule upholdsD(2) [OF known_token.dpopJKT_ok [OF q [OF st(2)]] assms(3)])
  show "live w (refreshTokenCacheName, ?h) \<noteq> None"
  proof
    assume "live w (refreshTokenCacheName, ?h) = None"
    with assms(3) have "?I w" by blast
    from upholdsD(2) [OF spent_token.dpopJKT_ok [OF q [OF st(1)]] this] have "?I w1" unfolding w1 .
    with redeemed(1) [OF r] t show False by simp
  qed
  have "?h \<in> drawn (world_after (RedeemRefreshToken E t') w1)"
    by (rule upholdsD(2) [OF known_token.upholds_RedeemRefreshToken k])
  with redeemed(2) [OF r] t have i: "?I (world_after (RedeemRefreshToken E t') w1)" by blast
  have "upholds ?I (rotate_token E (ro_SessionTimeout R) (rt_JKT item) item) (\<lambda>_. True)"
    by (rule spent_token.rotate_token_ok [where h = "CHR ''x'' # ?h"]) (use j in auto)
  from upholdsD(2) [OF this i] show "live w' (refreshTokenCacheName, ?h) = None"
    unfolding w' e disp a using j(2) by simp
qed

text \<open>So does a redirect for a pushed request.\<close>

lemma redirect_use:
  assumes "step E R Pv decays w e w'" "redirects_for u e"
  shows "live w (parCacheName, u) \<noteq> None" and "live w' (parCacheName, u) = None"
proof -
  let ?m = "CachePop E parCacheName u"
  obtain rq l where c: "content (result_of (authorizationV3 E R rq) w) = Redirect l"
    and q: "rq_query rq ''request_uri'' = Some (parURNPrefix @ u)"
    and w': "w' = world_after (authorizationV3 E R rq) w"
    using assms(1) by cases (use assms(2) in \<open>auto simp: redirects_for_def\<close>)
  have g: "given (rq_query rq ''request_uri'')" using q by (simp add: given_def parURNPrefix_def)
  have p: "HasPrefix (parURNPrefix @ u) parURNPrefix" "TrimPrefix (parURNPrefix @ u) parURNPrefix = u"
    by (simp_all add: HasPrefix_def TrimPrefix_def)
  obtain item where i: "result_of (PopPAR E u) w = Inr item" and w'': "w' = world_after (PopPAR E u) w"
    using c w' q g p
    by (auto simp: authorizationV3_def authorizationV3FromPAR_def Let_def split: if_splits sum.splits)
  obtain r where r: "result_of ?m w = Inr r"
    using i unfolding PopPAR_def result_cache_Pop by (blast dest: cache_read_Inr)
  from pop_present [OF r] pop_absent_after [OF r] w''
  show "live w (parCacheName, u) \<noteq> None" "live w' (parCacheName, u) = None"
    by (auto simp: PopPAR_def world_cache_Pop)
qed

end

sublocale live_service \<subseteq> refreshes: one_time "step E R Pv decays" "\<lambda>w. hashRefreshToken t \<in> drawn w"
    "\<lambda>w. live w (refreshTokenCacheName, hashRefreshToken t) = None" "refreshes_with t" for t
  by unfold_locales (use step_drawn step_spent_token refresh_use in blast)+

sublocale live_service \<subseteq> pushes: one_time "step E R Pv decays" "\<lambda>w. u \<in> made w"
    "\<lambda>w. live w (parCacheName, u) = None" "redirects_for u" for u
  by unfold_locales (use step_made step_spent_uri redirect_use in blast)+

context live_service
begin

lemma issued_refresh_known:
  assumes "step E R Pv decays w e w'" "issues_refresh t e"
  shows "hashRefreshToken t \<in> drawn w'"
  using assms(1) by cases (use assms(2) token_issues in \<open>auto simp: issues_refresh_def\<close>)

lemma issued_uri_known:
  assumes "step E R Pv decays w e w'" "issues_uri u e"
  shows "u \<in> made w'"
  using assms(1)
proof cases
  case (step_par rq)
  show ?thesis unfolding step_par(2) by (rule par_issues) (use step_par(1) assms(2) in simp)
qed (use assms(2) in \<open>simp_all add: issues_uri_def\<close>)

text \<open>A credential that a run has handed out is used at most once in the rest of the run.\<close>

lemma refresh_once:
  assumes "run (step E R Pv decays) w0 (es @ e # es') w" "issues_refresh t e"
  shows "length (filter (refreshes_with t) es') \<le> 1"
proof -
  obtain u v where t: "step E R Pv decays u e v" and r: "run (step E R Pv decays) v es' w"
    using run_split [of "step E R Pv decays" w0 "es @ [e]" es' w] assms(1)
    by (auto simp: run_split_last)
  from refreshes.used_once [OF r issued_refresh_known [OF t assms(2)]] show ?thesis .
qed

lemma redirect_once:
  assumes "run (step E R Pv decays) w0 (es @ e # es') w" "issues_uri u e"
  shows "length (filter (redirects_for u) es') \<le> 1"
proof -
  obtain u' v where t: "step E R Pv decays u' e v" and r: "run (step E R Pv decays) v es' w"
    using run_split [of "step E R Pv decays" w0 "es @ [e]" es' w] assms(1)
    by (auto simp: run_split_last)
  from pushes.used_once [OF r issued_uri_known [OF t assms(2)]] show ?thesis .
qed

end

end
