(* ===== verification/Code_Redemption.thy ===== *)
theory Code_Redemption
  imports Service_Runs
begin

text \<open>
  The single use of authorization codes: what a grant of a code needs and does, and the instance of
  \<open>one_time\<close> for the runs of a service whose cache reports absent keys as errors.
\<close>

section \<open>One grant\<close>

abbreviation the_code :: "request \<Rightarrow> string" where
  "the_code rq \<equiv> value_or [] (form_String rq ''code'')"

abbreviation the_verifier :: "request \<Rightarrow> string" where
  "the_verifier rq \<equiv> value_or [] (form_String rq ''code_verifier'')"

text \<open>The cache never answers a \<open>Get\<close> with the zero value and no error.\<close>

definition no_zero_answers :: "'w env \<Rightarrow> bool" where
  "no_zero_answers E \<longleftrightarrow> (\<forall>n k w. result_of (CacheGet E n k) w \<noteq> Inr None)"

lemma issue_refresh_held_code:
  assumes "cache_api E live"
  shows "held_code live w c = None \<Longrightarrow> held_code live (world_after (issue_refresh E jkt i item) w) c = None"
proof -
  assume h: "held_code live w c = None"
  let ?P = "\<lambda>n k v. (n, k) = (authCodeCache, c) \<longrightarrow> as_AuthCode v = None"
  have k: "upholds (stored_ok live ?P) (issue_refresh E jkt i item) (\<lambda>_. True)"
    unfolding issue_refresh_def
    by (intro upholds_control cache_api.cached_store_steps [OF assms] TrueI) (simp add: cache_names)
  have "stored_ok live ?P w"
    using h by (auto simp: stored_ok_def held_code_def)
  from upholdsD(2) [OF k this] show ?thesis
    by (cases "live (world_after (issue_refresh E jkt i item) w) (authCodeCache, c)")
       (auto simp: held_code_def dest: stored_okD)
qed

lemma code_grant_deletes:
  assumes "cache_api E live"
    and "grants_token (result_of (HandleAuthorization E rq timeout jkt attest) w)"
  shows "held_code live (world_after (HandleAuthorization E rq timeout jkt attest) w) (the_code rq) = None"
proof -
  obtain auth :: "bool \<times> string" and item w2 where
    g: "grants_token (result_of (issue_token E rq timeout jkt (snd auth) item) w2)"
    and w: "world_after (HandleAuthorization E rq timeout jkt attest) w =
       world_after (issue_token E rq timeout jkt (snd auth) item) w2"
    by (rule HandleAuthorization_grants [OF assms(2)]) (rule that; assumption)
  obtain w3 now sid where
    d: "result_of (DeleteItem E (the_code rq)) w3 = None"
    and e: "world_after (issue_token E rq timeout jkt (snd auth) item) w2 =
       world_after (issue_refresh E jkt (snd auth) (item\<lparr>ac_Session := bind_session (ac_Session item) sid now jkt\<rparr>))
         (world_after (DeleteItem E (the_code rq)) w3)"
    by (rule issue_token_grants [OF g]) (rule that; assumption)
  from issue_refresh_held_code [OF assms(1) cache_api.DeleteItem_gone [OF assms(1) d]] w e
  show ?thesis by simp
qed

lemma no_code_no_grant:
  assumes "cache_api E live" "attester_frame live attest" "no_zero_answers E"
    and "held_code live w (the_code rq) = None"
  shows "\<not> grants_token (result_of (HandleAuthorization E rq timeout jkt attest) w)"
proof
  assume g: "grants_token (result_of (HandleAuthorization E rq timeout jkt attest) w)"
  obtain auth item w1 where w1: "w1 = world_after (authenticate E rq jkt attest) w" and
    c: "result_of (check_code E rq auth) w1 = Inr item"
    by (rule HandleAuthorization_grants [OF g]) (rule that; assumption)
  have "\<exists>x. held_code live w1 (the_code rq) = Some x"
  proof -
    obtain x where x: "result_of (cache_Get as_AuthCode zero_AuthCodeItem E authCodeCache (the_code rq)) w1 = Inr x"
      using check_code_Inr(1) [OF c] by (auto simp: GetItem_def split: sum.splits)
    with cache_api.cache_Get_Inr [OF assms(1) x] assms(3) show ?thesis
      by (auto simp: no_zero_answers_def held_code_def)
  qed
  then obtain x where "held_code live w1 (the_code rq) = Some x" ..
  from authenticate_held_code [where live = live, OF assms(2) this [unfolded w1]] assms(4) show False by simp
qed

section \<open>Runs\<close>

text \<open>
  The uses of a code are the granted requests of the authorization_code grant that name it. A code
  that was consumed can only come back when a login completes under the same correlation id, or
  when the service makes it up again as a ULID.
\<close>

definition redeems :: "string \<Rightarrow> event \<Rightarrow> bool" where
  "redeems c e \<longleftrightarrow> (case e of
      TokenRequested rq proof rep \<Rightarrow>
        rq_form rq ''grant_type'' = Some GrantTypeAuthorizationCode \<and> the_code rq = c \<and> grants_token rep
    | _ \<Rightarrow> False)"

definition logs_in :: "string \<Rightarrow> event \<Rightarrow> bool" where
  "logs_in c e \<longleftrightarrow> (\<exists>s. e = LoginReported c s)"

definition not_remade :: "'w env \<Rightarrow> ('w \<Rightarrow> string set) \<Rightarrow> string \<Rightarrow> 'w \<Rightarrow> bool" where
  "not_remade E made c w \<longleftrightarrow> c \<in> made w \<or> c \<notin> range (result_of (UlidMake E))"

definition other_entry :: "string \<Rightarrow> string \<Rightarrow> string \<Rightarrow> cache_value \<Rightarrow> bool" where
  "other_entry c n k v \<longleftrightarrow> ((n, k) = (authCodeCache, c) \<longrightarrow> as_AuthCode v = None)"

lemma held_code_None_iff: "held_code live w c = None \<longleftrightarrow> stored_ok live (other_entry c) w"
  by (cases "live w (authCodeCache, c)") (auto simp: held_code_def stored_ok_def other_entry_def)

lemma other_entry_iffs [simp]:
  "k \<noteq> c \<Longrightarrow> other_entry c n k v" "other_entry c refreshTokenCacheName k v" "other_entry c parCacheName k v"
  "other_entry c preAuthCache k v" "other_entry c stateCache k v"
  by (simp_all add: other_entry_def cache_names)

lemma other_entry_replay_free: "replay_free (other_entry c)"
  by (simp add: replay_free_def replay_caches_def other_entry_def)

context service_world
begin

lemma not_remade_ulid: "not_remade E made c w \<Longrightarrow> result_of (UlidMake E) w \<noteq> c"
  using fresh_ulid(1) [of w] by (auto simp: not_remade_def)

lemma not_remade_stays:
  "not_remade E made c w \<Longrightarrow> evolves sess drawn made w w' \<Longrightarrow> not_remade E made c w'"
  by (auto simp: not_remade_def dest: evolvesD)

lemma not_remade_create: "not_remade E made c w \<Longrightarrow> not_remade E made c (world_after (SessionCreate E s) w)"
  using made_create by (auto simp: not_remade_def)

end

sublocale service_world \<subseteq> spent_code: store_policy E
    "\<lambda>w. not_remade E made x w \<and> stored_ok live (other_entry x) w" "other_entry x"
    "\<lambda>_. True" "\<lambda>_. True" "\<lambda>u. u \<noteq> x" "\<lambda>_. True" "\<lambda>_. True" "\<lambda>i. i \<noteq> x" store for x store
proof
  fix w n k v
  assume "not_remade E made x w \<and> stored_ok live (other_entry x) w" "result_of (CacheGet E n k) w = Inr (Some v)"
  then show "other_entry x n k v" using cached.get_val by blast
next
  fix w n k r
  assume "not_remade E made x w \<and> stored_ok live (other_entry x) w" "result_of (CachePop E n k) w = Inr r"
  then show "\<exists>v. r = Some v \<and> other_entry x n k v" using cached.pop_val by blast
qed (simp_all add: other_entry_replay_free not_remade_ulid not_remade_create
      op_evolves [THEN not_remade_stays [rotated]]
      cached.get_ok cached.pop_ok cached.set_ok cached.delete_ok cached.create_ok cached.session_delete_ok
      cached.session_get_ok cached.audit_ok cached.ulid_ok cached.now_ok cached.rand_ok cached.intn_ok)

context live_service
begin

abbreviation code_gone :: "string \<Rightarrow> 'w \<Rightarrow> bool" where
  "code_gone c w \<equiv> not_remade E made c w \<and> stored_ok live (other_entry c) w"

lemma steady_not_remade: "steady live sess drawn made (not_remade E made c)"
  by (auto simp: steady_def quiet_world_def replay_world_def intro: not_remade_stays)

lemma steady_code_gone: "steady live sess drawn made (code_gone c)"
  unfolding steady_def quiet_world_def replay_world_def
  by (blast intro: not_remade_stays quiet_step_ok replays_only_ok other_entry_replay_free)

lemma attester_framed: "attester_frame live (ro_attest R)"
  using quiet unfolding attester_frame_def quiet_service_def router_within_def replay_world_def
  by (blast intro: attester_within_mono)

text \<open>A step that is not a login under this id leaves a consumed code consumed.\<close>

lemma step_not_remade: "step E R Pv decays w e w' \<Longrightarrow> not_remade E made c w \<Longrightarrow> not_remade E made c w'"
  unfolding not_remade_def using step_made by blast

lemma step_code_gone:
  assumes "step E R Pv decays w e w'" "\<not> logs_in c e" "code_gone c w"
  shows "code_gone c w'"
  by (rule policy_step [OF spent_code.store_policy_axioms [of c] steady_code_gone assms(1) _ assms(3)])
     (use assms(2) in \<open>auto simp: event_ok_def logs_in_def split: event.split\<close>)

text \<open>A granted redemption, and the two stages it goes through.\<close>

lemma redemption:
  assumes "step E R Pv decays w e w'" "redeems c e"
  obtains rq jkt w1 where "w1 = world_after (dpopJKT E R rq) w" "the_code rq = c"
    "grants_token (result_of (HandleAuthorization E rq (ro_SessionTimeout R) jkt (ro_attest R)) w1)"
    "w' = world_after (HandleAuthorization E rq (ro_SessionTimeout R) jkt (ro_attest R)) w1"
proof -
  obtain rq where g: "grants_token (result_of (token E R rq) w)" and w': "w' = world_after (token E R rq) w"
    and f: "rq_form rq ''grant_type'' = Some GrantTypeAuthorizationCode" "the_code rq = c"
    using assms(1) by cases (use assms(2) in \<open>auto simp: redeems_def\<close>)
  obtain jkt w1 where w1: "w1 = world_after (dpopJKT E R rq) w"
    and d: "grants_token (result_of (dispatch_grant E R rq jkt) w1)"
    and e: "world_after (token E R rq) w = world_after (dispatch_grant E R rq jkt) w1"
    by (rule token_grants [OF g])
  have "dispatch_grant E R rq jkt = HandleAuthorization E rq (ro_SessionTimeout R) jkt (ro_attest R)"
    using f(1) by (simp add: dispatch_grant_def)
  with that [OF w1 f(2)] d e w' show ?thesis by simp
qed

lemma redeem_takes:
  assumes "step E R Pv decays w e w'" "redeems c e"
  shows "stored_ok live (other_entry c) w'"
proof -
  obtain rq jkt w1 where c: "the_code rq = c"
    and g: "grants_token (result_of (HandleAuthorization E rq (ro_SessionTimeout R) jkt (ro_attest R)) w1)"
    and w': "w' = world_after (HandleAuthorization E rq (ro_SessionTimeout R) jkt (ro_attest R)) w1"
    by (rule redemption [OF assms]) (rule that; assumption)
  from code_grant_deletes [OF cache_api_axioms g] c w' show ?thesis by (simp add: held_code_None_iff)
qed

lemma gone_unredeemable:
  assumes "no_zero_answers E" "step E R Pv decays w e w'" "code_gone c w"
  shows "\<not> redeems c e"
proof
  assume "redeems c e"
  then obtain rq jkt w1 where w1: "w1 = world_after (dpopJKT E R rq) w" and c: "the_code rq = c"
    and g: "grants_token (result_of (HandleAuthorization E rq (ro_SessionTimeout R) jkt (ro_attest R)) w1)"
    by (rule redemption [OF assms(2)]) (rule that; assumption)
  have "code_gone c w1" unfolding w1
    by (rule upholdsD(2) [OF spent_code.dpopJKT_ok [OF quiet_service_calm(1) [OF quiet steady_code_gone]] assms(3)])
  then have "held_code live w1 (the_code rq) = None" using c by (simp add: held_code_None_iff)
  from no_code_no_grant [OF cache_api_axioms attester_framed assms(1) this] g show False by blast
qed

end

lemma redeem_is_no_login: "redeems c e \<Longrightarrow> \<not> logs_in c e"
  by (auto simp: redeems_def logs_in_def)

text \<open>A service whose cache answers an absent key with an error: every redemption has a login of its own.\<close>

locale strict_service = live_service E live sess drawn made R Pv decays
  for E :: "'w env" and live sess drawn made and R :: "('w, 'k) router" and Pv decays +
  assumes strict: "no_zero_answers E"

sublocale strict_service \<subseteq> codes: refillable "step E R Pv decays"
    "not_remade E made x" "\<lambda>w. stored_ok live (other_entry x) w" "redeems x" "logs_in x" for x
  by unfold_locales
     (use step_not_remade step_code_gone gone_unredeemable [OF strict] redeem_takes redeem_is_no_login in blast)+

context strict_service
begin

lemma redemptions:
  assumes "run (step E R Pv decays) w0 es w" "not_remade E made c w0"
  shows "length (filter (redeems c) es) \<le>
    length (filter (logs_in c) es) + (if held_code live w0 c = None then 0 else 1)"
  using codes.uses_counted [OF assms] by (simp add: held_code_None_iff split: if_splits)

end

end
