(* ===== verification/Properties_Token.thy ===== *)
theory Properties_Token
  imports Sample_World Code_Redemption
begin

text \<open>
  The properties of the token endpoint's grants: what a granted token establishes, what each
  grant consumes, and where the code falls short of what it means to do.
\<close>

section \<open>Vocabulary\<close>

lemma no_zero_answers_mem: "\<not> mc_zero_on_miss c \<Longrightarrow> no_zero_answers (mem_env c)"
  by (simp add: no_zero_answers_def split: option.splits)


section \<open>The authorization_code grant\<close>




text \<open>
  A code is redeemed once. After a grant the code is gone from the cache, and as long as
  nothing stores it again no later request with that code is granted, whoever sends it, if the
  cache reports an absent key as an error.
\<close>

theorem code_single_use:
  assumes "cache_api E live" and "no_zero_answers E" and "attester_frame live attest2"
    and "grants_token (result_of (HandleAuthorization E rq timeout jkt attest) w)"
    and "shrinks (held_code live w2) (held_code live (world_after (HandleAuthorization E rq timeout jkt attest) w))"
    and "the_code rq2 = the_code rq"
  shows "\<not> grants_token (result_of (HandleAuthorization E rq2 timeout jkt2 attest2) w2)"
proof -
  have "held_code live w2 (the_code rq2) = None"
    using shrinks_None [OF assms(5) code_grant_deletes [OF assms(1,4)]] assms(6) by simp
  then show ?thesis by (rule no_code_no_grant [OF assms(1,3,2)])
qed

abbreviation after_sample_grant :: mem where
  "after_sample_grant \<equiv> world_after (HandleAuthorization sample_env (bff_request code_form) 3600000000000 [] None)
     (world_with [((authCodeCache, ''C1''), AuthCodeVal sample_item)])"

theorem code_single_use_witness:
  "\<not> grants_token (result_of (HandleAuthorization sample_env (wallet_request code_form) 3600000000000 ''JKT''
      (Some wallet_attester)) after_sample_grant)"
  by (rule code_single_use [OF mem.cache_api_axioms _ attester_frame_wallet sample_code_grant])
     (simp_all add: no_zero_answers_mem form_String_def)

text \<open>
  With a cache that answers an absent key with the zero value and no error (the pre-authorized
  path checks for exactly that answer), a confidential client gets an access token for a code that
  never existed, by leaving verifier and redirect_uri out.
\<close>

theorem code_grant_for_missing_code:
  "held_code mem_live (world_with []) ''nope'' = None
   \<and> grants_token (result_of (HandleAuthorization lenient_env (bff_request [''code'' \<mapsto> ''nope'']) 3600000000000 [] None)
       (world_with []))"
  by (simp add: HandleAuthorization_def authenticate_def authenticate_confidential_def
      requires_dpop_def bff_client_def check_code_def GetItem_def cache_Get_def cache_read_def form_String_def
      check_challenge_def zero_AuthCodeItem_def issue_token_def Let_def DeleteItem_def held_code_def
      issue_refresh_def token_type_def)

text \<open>
  What the reply of the grant says is what was created: the access token is the id of a session
  made from the code's template, the token type is DPoP exactly with a DPoP key, the session then
  carries the thumbprint of that key, and without a key no refresh token is issued.
\<close>

theorem code_grant_response:
  assumes "grants_token (result_of (HandleAuthorization E rq timeout jkt attest) w)"
  shows "\<exists>item sid now w1 w2 sess t.
     result_of (GetItem E (the_code rq) (the_verifier rq)) w1 = Inr item
     \<and> result_of (SessionCreate E (bind_session (ac_Session item) sid now jkt)) w2 = Inr sess
     \<and> (jkt \<noteq> [] \<longrightarrow> map_index (se_Metadata (bind_session (ac_Session item) sid now jkt)) dpop_jkt_key = jkt)
     \<and> content (result_of (HandleAuthorization E rq timeout jkt attest) w) = JSON 200 (TokenResponseBody t)
     \<and> resp_AccessToken t = se_ID sess \<and> resp_Scope t = ac_Scope item
     \<and> resp_TokenType t = (if jkt = [] then ''Bearer'' else ''DPoP'')
     \<and> (jkt = [] \<longrightarrow> resp_RefreshToken t = [])"
proof -
  obtain auth item w1 w2 where
    c: "result_of (check_code E rq auth) w1 = Inr item"
    and g: "grants_token (result_of (issue_token E rq timeout jkt (snd auth) item) w2)"
    and r: "result_of (HandleAuthorization E rq timeout jkt attest) w =
       result_of (issue_token E rq timeout jkt (snd auth) item) w2"
    by (rule HandleAuthorization_grants [OF assms]) (rule that; assumption)
  obtain now sid sess w3 rt where
    s: "result_of (SessionCreate E (bind_session (ac_Session item) sid now jkt)) w3 = Inr sess"
    and b: "content (result_of (issue_token E rq timeout jkt (snd auth) item) w2) =
       JSON 200 (TokenResponseBody
         \<lparr>resp_AccessToken = se_ID sess, resp_TokenType = token_type jkt,
          resp_ExpiresIn = GetSecondsToLive E timeout (se_LastAccessed sess),
          resp_Scope = ac_Scope item, resp_RefreshToken = rt\<rparr>)" "jkt = [] \<longrightarrow> rt = []"
    by (rule issue_token_grants [OF g]) (rule that; assumption)
  show ?thesis
    by (rule exI [of _ item], rule exI [of _ sid], rule exI [of _ now], rule exI [of _ w1],
        rule exI [of _ w3], rule exI [of _ sess])
       (use check_code_Inr(1) [OF c] s b r bind_session_jkt in \<open>auto simp: token_type_def\<close>)
qed

theorem code_grant_response_witness:
  "\<exists>t. content (result_of (HandleAuthorization sample_env (wallet_request code_form) 3600000000000 ''JKT''
        (Some wallet_attester)) (world_with [((authCodeCache, ''C1''), AuthCodeVal sample_item)]))
      = JSON 200 (TokenResponseBody t) \<and> resp_TokenType t = ''DPoP''"
  using code_grant_response [OF sample_wallet_grant] by auto

section \<open>The refresh_token grant\<close>

definition refresh_form :: "string \<rightharpoonup> string" where
  "refresh_form = [''grant_type'' \<mapsto> ''refresh_token'', ''refresh_token'' \<mapsto> ''RT'']"

definition sample_refresh :: RefreshTokenItem where
  "sample_refresh = \<lparr>rt_ClientID = ''wallet'', rt_Scope = ''openid'', rt_JKT = ''JKT'',
     rt_Session = sample_session\<lparr>se_Metadata := Some [dpop_jkt_key \<mapsto> ''JKT'']\<rparr>\<rparr>"

abbreviation refresh_world :: mem where
  "refresh_world \<equiv> world_with [((refreshTokenCacheName, hashRefreshToken ''RT''), RefreshVal sample_refresh)]"

lemma sample_redeem:
  "result_of (RedeemRefreshToken sample_env ''RT'') refresh_world = Inr sample_refresh"
  by (simp add: RedeemRefreshToken_def cache_Pop_def cache_read_def)

lemma sample_refresh_grant:
  "grants_token (result_of (HandleRefreshToken sample_env (bff_request refresh_form) 3600000000000 ''JKT'') refresh_world)"
  by (simp add: HandleRefreshToken_def form_String_def refresh_form_def sample_redeem rotate_token_def)
     (simp add: sample_refresh_def)

text \<open>
  C3: an access token of the refresh_token grant is issued only for a refresh token that is in the
  cache and bound to the key of the request's DPoP proof; the new session carries that key, keeps
  the subject of the old one, and the reply is a DPoP token with the old scope.
\<close>

theorem refresh_grant_sound:
  assumes "cache_api E live"
    and "grants_token (result_of (HandleRefreshToken E rq timeout jkt) w)"
  shows "\<exists>t item sid now w1 sess resp.
     form_String rq ''refresh_token'' = Inr t \<and> t \<noteq> [] \<and> jkt \<noteq> []
     \<and> held_refresh live w t = Some item \<and> rt_JKT item = jkt
     \<and> result_of (SessionCreate E (refresh_session (rt_Session item) sid now jkt)) w1 = Inr sess
     \<and> map_index (se_Metadata (refresh_session (rt_Session item) sid now jkt)) dpop_jkt_key = jkt
     \<and> content (result_of (HandleRefreshToken E rq timeout jkt) w) = JSON 200 (TokenResponseBody resp)
     \<and> resp_AccessToken resp = se_ID sess \<and> resp_TokenType resp = ''DPoP'' \<and> resp_Scope resp = rt_Scope item"
proof -
  obtain t item where
    f: "form_String rq ''refresh_token'' = Inr t" "t \<noteq> []" "jkt \<noteq> []"
    and r: "result_of (RedeemRefreshToken E t) w = Inr item" and k: "rt_JKT item = jkt"
    and e: "result_of (HandleRefreshToken E rq timeout jkt) w =
       result_of (rotate_token E timeout jkt item) (world_after (RedeemRefreshToken E t) w)"
    by (rule HandleRefreshToken_grants [OF assms(2)]) (rule that; assumption)
  let ?w1 = "world_after (RedeemRefreshToken E t) w"
  let ?wt = "world_after (TimeNow E) ?w1"
  let ?w2 = "world_after (UlidMake E) ?wt"
  let ?s = "refresh_session (rt_Session item) (result_of (UlidMake E) ?wt) (result_of (TimeNow E) ?w1) jkt"
  obtain sess where s: "result_of (SessionCreate E ?s) ?w2 = Inr sess"
    using assms(2) e by (cases "result_of (SessionCreate E ?s) ?w2") (auto simp: rotate_token_def)
  have h: "held_refresh live w t = Some item"
    using cache_api.refresh_taken [OF assms(1) r] by simp
  obtain rt where c: "content (result_of (HandleRefreshToken E rq timeout jkt) w) = JSON 200 (TokenResponseBody
      \<lparr>resp_AccessToken = se_ID sess, resp_TokenType = ''DPoP'',
       resp_ExpiresIn = GetSecondsToLive E timeout (se_LastAccessed sess),
       resp_Scope = rt_Scope item, resp_RefreshToken = rt\<rparr>)"
    using e s by (simp add: rotate_token_def)
  show ?thesis
    by (intro exI conjI, rule f, rule f, rule f, rule h, rule k, rule s, rule refresh_session_jkt, rule c)
       simp_all
qed

theorem refresh_grant_sound_witness:
  "\<exists>item. held_refresh mem_live refresh_world ''RT'' = Some item \<and> rt_JKT item = ''JKT''"
  using refresh_grant_sound [OF mem.cache_api_axioms sample_refresh_grant]
  by (auto simp: form_String_def refresh_form_def)

text \<open>
  C23: a refresh token presented with a proof by another key is refused with
  \<open>invalid_dpop_proof\<close>, and it is consumed by the attempt: the legitimate holder cannot use it
  any more.
\<close>

theorem refresh_wrong_key_burns:
  assumes "cache_api E live" and "jkt \<noteq> []"
    and "form_String rq ''refresh_token'' = Inr t" and "t \<noteq> []"
    and "result_of (RedeemRefreshToken E t) w = Inr item" and "rt_JKT item \<noteq> jkt"
  shows "content (result_of (HandleRefreshToken E rq timeout jkt) w) = JSON 400 (TokenResponseError
       ''invalid_dpop_proof'' ''DPoP key does not match the key this refresh_token was bound to'')
     \<and> held_refresh live (world_after (HandleRefreshToken E rq timeout jkt) w) t = None
     \<and> (\<forall>rq2 jkt2. form_String rq2 ''refresh_token'' = Inr t \<longrightarrow>
          \<not> grants_token (result_of (HandleRefreshToken E rq2 timeout jkt2)
              (world_after (HandleRefreshToken E rq timeout jkt) w)))"
proof -
  let ?w' = "world_after (HandleRefreshToken E rq timeout jkt) w"
  have w: "?w' = world_after (RedeemRefreshToken E t) w"
    using assms by (simp add: HandleRefreshToken_def)
  have gone: "held_refresh live ?w' t = None"
    using cache_api.refresh_taken [OF assms(1,5)] w by simp
  have "\<not> grants_token (result_of (HandleRefreshToken E rq2 timeout jkt2) ?w')"
    if "form_String rq2 ''refresh_token'' = Inr t" for rq2 jkt2
    using cache_api.HandleRefreshToken_absent [OF assms(1) that gone] .
  moreover have "content (result_of (HandleRefreshToken E rq timeout jkt) w) = JSON 400 (TokenResponseError
       ''invalid_dpop_proof'' ''DPoP key does not match the key this refresh_token was bound to'')"
    using assms by (simp add: HandleRefreshToken_def status_BadRequest_def)
  ultimately show ?thesis using gone by blast
qed

theorem refresh_wrong_key_burns_witness:
  "held_refresh mem_live (world_after (HandleRefreshToken sample_env (bff_request refresh_form) 3600000000000 ''OTHER'')
      refresh_world) ''RT'' = None"
  using refresh_wrong_key_burns [OF mem.cache_api_axioms _ _ _ sample_redeem,
      of "''OTHER''" "bff_request refresh_form" 3600000000000]
  by (simp add: form_String_def refresh_form_def sample_refresh_def)

section \<open>The pre-authorized code grant\<close>

definition preauth_form :: "string \<rightharpoonup> string" where
  "preauth_form = [''grant_type'' \<mapsto> GrantTypePreAuthorizedCode, ''pre-authorized_code'' \<mapsto> ''P1'', ''tx_code'' \<mapsto> ''12345'']"

definition sample_preauth :: AuthCodeItem where
  "sample_preauth = sample_item\<lparr>ac_Code := ''P1'', ac_ClientID := ''issuer-backend'', ac_RedirectURI := [],
     ac_CodeChallenge := [], ac_CodeChallengeMethod := []\<rparr>"

abbreviation preauth_world :: mem where
  "preauth_world \<equiv> world_with [((authCodeCache, ''P1''), AuthCodeVal sample_preauth),
     ((preAuthCache, ''P1''), IntVal 12345)]"

lemma Itoa_12345: "Itoa 12345 = ''12345''"
  by (simp add: Itoa_def nat_text.simps digit_char_def)

lemmas preauth_run = HandlePreAuthorized_def preauth_attestation_def preauth_lookup_def GetPreAuthItem_def
  ValidateTXCode_def DeleteTXCode_def preauth_needs_dpop_def preauth_issue_def DeleteItem_def
  cache_Get_def cache_read_def form_String_def authorization_details_def Let_def




definition retry_form :: "string \<rightharpoonup> string" where
  "retry_form = [''pre-authorized_code'' \<mapsto> ''P1'', ''tx_code'' \<mapsto> ''12345'', ''client_id'' \<mapsto> ''wallet'']"

abbreviation after_failed_attempt :: mem where
  "after_failed_attempt \<equiv>
     world_after (HandlePreAuthorized lenient_env (bff_request retry_form) 3600000000000 [] None False) preauth_world"

text \<open>
  C35: with a cache that answers an absent key with the zero value, the transaction code \<open>0\<close> is
  accepted for a code whose transaction code is gone, for instance after a first attempt that
  deleted it and then failed the DPoP check.
\<close>

theorem tx_code_zero_accepted:
  "\<not> grants_token (result_of (HandlePreAuthorized lenient_env (bff_request retry_form) 3600000000000 [] None False)
       preauth_world)
   \<and> grants_token (result_of (HandlePreAuthorized lenient_env
       (bff_request [''pre-authorized_code'' \<mapsto> ''P1'', ''tx_code'' \<mapsto> ''0'']) 3600000000000 [] None False)
       after_failed_attempt)"
proof -
  have z: "Itoa 0 = ''0''" by (simp add: Itoa_def nat_text.simps digit_char_def)
  have w: "after_failed_attempt = preauth_world\<lparr>m_entries := (m_entries preauth_world)((preAuthCache, ''P1'') := None)\<rparr>"
    by (simp add: preauth_run retry_form_def cache_names Itoa_12345 requires_dpop_def wallet_client_def map_index_def)
       (simp add: sample_preauth_def sample_item_def)
  show ?thesis
    unfolding w
    by (simp add: preauth_run retry_form_def cache_names Itoa_12345 z requires_dpop_def wallet_client_def map_index_def
        mem_live_def)
       (simp add: sample_preauth_def sample_item_def grants_token.simps)
qed

abbreviation generated_world :: mem where
  "generated_world \<equiv> world_after (preauthGenerate sample_env
     (bff_request [''scope'' \<mapsto> ''openid'', ''session_id'' \<mapsto> ''alice''])) (world_with [])"

text \<open>
  C34: the transaction code can be avoided. A pre-authorized code is an entry of the cache of
  authorization codes with an empty challenge and an empty redirect_uri, so a confidential client
  redeems it with the authorization_code grant, without any transaction code, while the
  pre-authorized code grant refuses it.
\<close>

theorem preauth_code_avoids_tx_code:
  "\<not> grants_token (result_of (HandlePreAuthorized sample_env
       (bff_request [''pre-authorized_code'' \<mapsto> ''U0'']) 3600000000000 [] None False) generated_world)
   \<and> grants_token (result_of (HandleAuthorization sample_env (bff_request [''code'' \<mapsto> ''U0'']) 3600000000000 [] None)
       generated_world)"
proof -
  have u: "CHR ''U'' # nat_text 0 = ''U0''" by (simp add: nat_text.simps digit_char_def)
  let ?item = "preauth_item sample_env (bff_request [''scope'' \<mapsto> ''openid'', ''session_id'' \<mapsto> ''alice'']) ''U0'' ''alice'' ''openid''"
  have item: "ac_Code ?item = ''U0''" "ac_CodeChallenge ?item = []" "ac_CodeChallengeMethod ?item = []"
    "ac_RedirectURI ?item = []" "\<not> ac_NoTXCode ?item"
    by (simp_all add: preauth_item_def truthy_def)
  have live: "mem_live generated_world (authCodeCache, ''U0'') = Some (AuthCodeVal ?item)"
    "mem_live generated_world (preAuthCache, ''U0'') = Some (IntVal 10000)"
    by (simp_all add: preauthGenerate_def form_String_def SetItem_def SetTXCode_def u item Let_def all_ttls_def
        cache_names mem_live_def)
  have t: "Itoa 10000 = ''10000''" by (simp add: Itoa_def nat_text.simps digit_char_def)
  have "\<not> grants_token (result_of (HandlePreAuthorized sample_env
       (bff_request [''pre-authorized_code'' \<mapsto> ''U0'']) 3600000000000 [] None False) w)"
    if "mem_live w (authCodeCache, ''U0'') = Some (AuthCodeVal ?item)"
      "mem_live w (preAuthCache, ''U0'') = Some (IntVal 10000)" for w
    using that by (simp add: preauth_run item t)
  moreover have "grants_token (result_of (HandleAuthorization sample_env (bff_request [''code'' \<mapsto> ''U0'']) 3600000000000 [] None) w)"
    if "mem_live w (authCodeCache, ''U0'') = Some (AuthCodeVal ?item)" for w
    using that
    by (simp add: HandleAuthorization_def authenticate_def authenticate_confidential_def
      requires_dpop_def bff_client_def check_code_def GetItem_def cache_Get_def cache_read_def form_String_def
      check_challenge_def issue_token_def Let_def DeleteItem_def item
      issue_refresh_def token_type_def)
  ultimately show ?thesis using live by blast
qed

text \<open>A cache that fails to delete, and a pre-authorized code that was made without a transaction code.\<close>

definition stuck_env :: "mem env" where
  "stuck_env = sample_env\<lparr>CacheDelete := (\<lambda>n k. return (Some (ExternalError ''cache'')))\<rparr>"

abbreviation stuck_world :: mem where
  "stuck_world \<equiv> world_with [((authCodeCache, ''P1''), AuthCodeVal (sample_preauth\<lparr>ac_NoTXCode := True\<rparr>))]"

abbreviation stuck_request :: request where
  "stuck_request \<equiv> bff_request [''pre-authorized_code'' \<mapsto> ''P1'']"

lemma stuck_grant:
  assumes "mem_live w (authCodeCache, ''P1'') = Some (AuthCodeVal (sample_preauth\<lparr>ac_NoTXCode := True\<rparr>))"
  shows "grants_token (result_of (HandlePreAuthorized stuck_env stuck_request 3600000000000 [] None False) w)"
    and "mem_live (world_after (HandlePreAuthorized stuck_env stuck_request 3600000000000 [] None False) w) (authCodeCache, ''P1'')
       = Some (AuthCodeVal (sample_preauth\<lparr>ac_NoTXCode := True\<rparr>))"
proof -
  obtain e where e: "m_entries w (authCodeCache, ''P1'') = Some (AuthCodeVal (sample_preauth\<lparr>ac_NoTXCode := True\<rparr>), e)"
    "m_now w < e"
    using assms by (auto simp: mem_live_def split: option.splits if_splits)
  show "grants_token (result_of (HandlePreAuthorized stuck_env stuck_request 3600000000000 [] None False) w)"
    "mem_live (world_after (HandlePreAuthorized stuck_env stuck_request 3600000000000 [] None False) w) (authCodeCache, ''P1'')
       = Some (AuthCodeVal (sample_preauth\<lparr>ac_NoTXCode := True\<rparr>))"
    using e by (simp_all add: preauth_run stuck_env_def sample_preauth_def sample_item_def grants_token.simps mem_live_def)
qed

text \<open>
  C30: the pre-authorized grant does not look at the error of the deletion. While the cache fails to
  delete, one pre-authorized code is answered with a token again and again, whereas the
  authorization_code grant answers no request with a token.
\<close>

theorem preauth_code_survives_failed_delete:
  "grants_token (result_of (HandlePreAuthorized stuck_env stuck_request 3600000000000 [] None False) stuck_world)
   \<and> grants_token (result_of (HandlePreAuthorized stuck_env stuck_request 3600000000000 [] None False)
       (world_after (HandlePreAuthorized stuck_env stuck_request 3600000000000 [] None False) stuck_world))
   \<and> \<not> grants_token (result_of (HandleAuthorization stuck_env rq timeout jkt attest) w)"
proof (intro conjI notI)
  assume "grants_token (result_of (HandleAuthorization stuck_env rq timeout jkt attest) w)"
  then obtain auth :: "bool \<times> string" and item w2 where "grants_token (result_of (issue_token stuck_env rq timeout jkt (snd auth) item) w2)"
    by (rule HandleAuthorization_grants) (rule that; assumption)
  then obtain w3 where "result_of (DeleteItem stuck_env (the_code rq)) w3 = None"
    by (rule issue_token_grants) (rule that; assumption)
  then show False by (simp add: DeleteItem_def stuck_env_def)
qed (simp_all add: stuck_grant)

text \<open>
  A configuration that requires attestation for this grant holds: without an attestation
  header no token is issued and nothing is touched.
\<close>

theorem preauth_attestation_enforced:
  "rq_header rq ''OAuth-Client-Attestation'' = [] \<Longrightarrow>
   content (result_of (HandlePreAuthorized E rq timeout jkt attest True) w) =
     JSON 400 (TokenResponseError ''invalid_client'' ''client attestation is required'')
   \<and> world_after (HandlePreAuthorized E rq timeout jkt attest True) w = w"
  by (simp add: HandlePreAuthorized_def preauth_attestation_def status_BadRequest_def)

theorem preauth_attestation_enforced_witness:
  "content (result_of (HandlePreAuthorized sample_env (bff_request preauth_form) 3600000000000 [] None True) preauth_world)
     = JSON 400 (TokenResponseError ''invalid_client'' ''client attestation is required'')"
  using preauth_attestation_enforced [of "bff_request preauth_form" sample_env 3600000000000 "[]" None preauth_world]
  by simp

section \<open>The client_credentials grant\<close>

definition sample_request_body :: TokenRequest where
  "sample_request_body = \<lparr>tr_GrantType = ''client_credentials'', tr_Scope = ''api'', tr_ClientID = ''bff'',
     tr_ClientAssertionType = ClientAssertationTypeJWTBearer, tr_ClientAssertion = ''jwt'', tr_Code = [],
     tr_RedirectURI = [], tr_ClientSecret = [], tr_CodeVerifier = []\<rparr>"

definition sample_claims :: RegisteredClaims where
  "sample_claims = \<lparr>rc_Issuer = ''bff'', rc_Subject = ''bff'', rc_Audience = [''https://idauth/api/1.0/token''],
     rc_ExpiresAt = Some 1000, rc_NotBefore = None, rc_IssuedAt = Some 0, rc_ID = ''J1''\<rparr>"

definition sample_assertion :: "RegisteredClaims JwtToken" where
  "sample_assertion = \<lparr>jt_Header = Map.empty, jt_Alg = ''ES256'', jt_Claims = sample_claims, jt_Valid = True\<rparr>"










text \<open>
  An assertion whose id the cache reports as seen is refused as an invalid client, without a
  session.
\<close>

theorem assertion_replay_refused:
  assumes "result_of (CacheGet E ''system-token-jti'' (rc_ID (jt_Claims tok))) w = Inr (Some (BoolVal True))"
  shows "content (result_of (accept_assertion E timeout req jkt tok) w) = JSON 400 invalidClient
     \<and> (jt_Valid tok \<and> rc_ID (jt_Claims tok) \<noteq> [] \<longrightarrow>
          world_after (accept_assertion E timeout req jkt tok) w
            = world_after (CacheGet E ''system-token-jti'' (rc_ID (jt_Claims tok))) w)"
  using assms
  by (auto simp: accept_assertion_def Let_def GetExpirationTime_def exp_too_far_never reject_assertion_def
      status_BadRequest_def assertion_jti_def cache_Get_def cache_read_def)

theorem assertion_replay_refused_witness:
  "content (result_of (accept_assertion sample_env 3600000000000 sample_request_body [] sample_assertion)
     (world_with [((''system-token-jti'', ''J1''), BoolVal True)])) = JSON 400 invalidClient"
  using assertion_replay_refused [of sample_env sample_assertion
      "world_with [((''system-token-jti'', ''J1''), BoolVal True)]"]
  by (simp add: sample_assertion_def sample_claims_def)

section \<open>The token endpoint\<close>

text \<open>The token type a reply carries.\<close>

fun reply_token_type :: "reply \<Rightarrow> string option" where
  "reply_token_type r = (case content r of
      JSON st (TokenResponseBody t) \<Rightarrow> Some (resp_TokenType t)
    | JSON st (JsonBody (JObj fs)) \<Rightarrow> (case map_of fs ''token_type'' of Some (JStr t) \<Rightarrow> Some t | _ \<Rightarrow> None)
    | _ \<Rightarrow> None)"

lemma rotate_token_type:
  "grants_token (result_of (rotate_token E timeout jkt item) w) \<Longrightarrow>
   reply_token_type (result_of (rotate_token E timeout jkt item) w) = Some ''DPoP''"
  by (auto simp: rotate_token_def split: sum.splits)

lemma preauth_issue_type:
  "grants_token (result_of (preauth_issue E rq timeout jkt item) w) \<Longrightarrow>
   reply_token_type (result_of (preauth_issue E rq timeout jkt item) w) = Some (token_type jkt)"
  by (auto simp: preauth_issue_def split: sum.splits)

lemma issue_token_type:
  assumes "grants_token (result_of (issue_token E rq timeout jkt i item) w)"
  shows "reply_token_type (result_of (issue_token E rq timeout jkt i item) w) = Some (token_type jkt)"
proof -
  obtain sess :: Session and rt where "content (result_of (issue_token E rq timeout jkt i item) w) =
      JSON 200 (TokenResponseBody
         \<lparr>resp_AccessToken = se_ID sess, resp_TokenType = token_type jkt,
          resp_ExpiresIn = GetSecondsToLive E timeout (se_LastAccessed sess),
          resp_Scope = ac_Scope item, resp_RefreshToken = rt\<rparr>)"
    by (rule issue_token_grants [OF assms]) (rule that; assumption)
  then show ?thesis by simp
qed

lemma accept_assertion_type:
  assumes "grants_token (result_of (accept_assertion E timeout req jkt tok) w)"
  shows "reply_token_type (result_of (accept_assertion E timeout req jkt tok) w) = Some (token_type jkt)"
  using issue_system_token_grants(2) accept_assertion_grants(4) [OF assms] assms
  by fastforce

lemma dispatch_grant_type:
  assumes "grants_token (result_of (dispatch_grant E R rq jkt) w)"
  shows "reply_token_type (result_of (dispatch_grant E R rq jkt) w) = Some (token_type jkt)"
proof -
  let ?g = "rq_form rq ''grant_type''"
  consider (code) "?g = Some GrantTypeAuthorizationCode" | (refresh) "?g = Some GrantTypeRefreshToken"
    | (pre) "?g = Some GrantTypePreAuthorizedCode"
    | (cc) "?g \<notin> {Some GrantTypeAuthorizationCode, Some GrantTypeRefreshToken, Some GrantTypePreAuthorizedCode}"
    by blast
  then show ?thesis
  proof cases
    case code
    with assms have h: "grants_token (result_of (HandleAuthorization E rq (ro_SessionTimeout R) jkt (ro_attest R)) w)"
      by (simp add: dispatch_grant_def)
    obtain auth item w2 where
      g: "grants_token (result_of (issue_token E rq (ro_SessionTimeout R) jkt (snd (auth :: bool \<times> string)) item) w2)"
      and r: "result_of (HandleAuthorization E rq (ro_SessionTimeout R) jkt (ro_attest R)) w =
         result_of (issue_token E rq (ro_SessionTimeout R) jkt (snd auth) item) w2"
      by (rule HandleAuthorization_grants [OF h]) (rule that; assumption)
    from issue_token_type [OF g] r code show ?thesis by (simp add: dispatch_grant_def)
  next
    case refresh
    with assms have h: "grants_token (result_of (HandleRefreshToken E rq (ro_SessionTimeout R) jkt) w)"
      by (simp add: dispatch_grant_def grant_types_distinct grant_types_distinct [symmetric])
    obtain item w1 where j: "jkt \<noteq> []" and r: "result_of (HandleRefreshToken E rq (ro_SessionTimeout R) jkt) w =
       result_of (rotate_token E (ro_SessionTimeout R) jkt item) w1"
      by (rule HandleRefreshToken_grants [OF h]) (rule that; assumption)
    from rotate_token_type [of E "ro_SessionTimeout R" jkt item w1] h r j refresh show ?thesis
      by (simp add: dispatch_grant_def grant_types_distinct grant_types_distinct [symmetric] token_type_def)
  next
    case pre
    with assms have h: "grants_token (result_of (HandlePreAuthorized E rq (ro_SessionTimeout R) jkt (ro_attest R)
        (ro_RequireClientAttestationPreauth R)) w)"
      by (simp add: dispatch_grant_def grant_types_distinct grant_types_distinct [symmetric])
    obtain item w2 where r: "result_of (HandlePreAuthorized E rq (ro_SessionTimeout R) jkt (ro_attest R)
        (ro_RequireClientAttestationPreauth R)) w = result_of (preauth_issue E rq (ro_SessionTimeout R) jkt item) w2"
      by (rule HandlePreAuthorized_grants [OF h]) (rule that; assumption)
    from preauth_issue_type [of E rq "ro_SessionTimeout R" jkt item w2] h r pre show ?thesis
      by (simp add: dispatch_grant_def grant_types_distinct grant_types_distinct [symmetric])
  next
    case cc
    with assms have h: "grants_token (result_of (handleClientCredentials E (ro_assertions R) (ro_SessionTimeout R) rq jkt) w)"
      by (simp add: dispatch_grant_def)
    obtain req tok w1 where g: "grants_token (result_of (accept_assertion E (ro_SessionTimeout R) req jkt tok) w1)"
      and r: "result_of (handleClientCredentials E (ro_assertions R) (ro_SessionTimeout R) rq jkt) w =
         result_of (accept_assertion E (ro_SessionTimeout R) req jkt tok) w1"
      by (rule handleClientCredentials_grants [OF h]) (rule that; assumption)
    from accept_assertion_type [OF g] r cc show ?thesis by (simp add: dispatch_grant_def)
  qed
qed

lemma dpopJKT_empty:
  assumes "jwt_sound (ro_dpop_parse R) sig_ok" "result_of (dpopJKT E R rq) w = Inr jkt"
  shows "jkt = [] \<longleftrightarrow> rq_header rq ''DPoP'' = []"
proof (cases "rq_header rq ''DPoP'' = []")
  case True
  with assms(2) show ?thesis by (simp add: dpopJKT_def HeaderName_def)
next
  case False
  let ?p = "rq_header rq ''DPoP''"
  have v: "result_of (dpop_Validate E (ro_dpop_parse R) (ro_dpop R) ?p ''POST'' []) w = Inr jkt"
    using assms(2) False by (auto simp: dpopJKT_def HeaderName_def Let_def split: sum.splits)
  obtain t where t: "result_of (ro_dpop_parse R proof_options ?p (\<lambda>t. map_sum id fst (proof_key t))) w = Inr t"
    and j: "jkt = (case proof_key t of Inr (k, tp) \<Rightarrow> tp | Inl _ \<Rightarrow> [])"
    by (rule dpop_Validate_Inr [OF v]) (rule that; assumption)
  obtain k where "map_sum id fst (proof_key t) = Inr k"
    by (rule jwt_soundD [OF assms(1) t]) (rule that; assumption)
  then obtain pt tp where pk: "proof_key t = Inr (pt, tp)" by (cases "proof_key t") auto
  then have "\<exists>x y. tp = thumbprint x y"
    by (auto simp: proof_key_def split: if_splits option.splits json.splits sum.splits
        dest: ParseECJWK_Inr(7))
  with j pk False show ?thesis using thumbprint_not_Nil by auto
qed

text \<open>
  C22: for every grant type, the token endpoint issues a DPoP token exactly when the request
  carried a DPoP proof, and a bearer token otherwise; the reply is never to be stored.
\<close>

theorem token_type_follows_proof:
  assumes "jwt_sound (ro_dpop_parse R) sig_ok"
    and "grants_token (result_of (token E R rq) w)"
  shows "reply_token_type (result_of (token E R rq) w) =
       Some (if rq_header rq ''DPoP'' = [] then ''Bearer'' else ''DPoP'')
     \<and> (''Cache-Control'', ''no-store'') \<in> set (headers (result_of (token E R rq) w))"
proof -
  obtain jkt w1 where j: "result_of (dpopJKT E R rq) w = Inr jkt"
    and g: "grants_token (result_of (dispatch_grant E R rq jkt) w1)"
    and r: "result_of (token E R rq) w = no_store (result_of (dispatch_grant E R rq jkt) w1)"
    by (rule token_grants [OF assms(2)]) (rule that; assumption)
  from dispatch_grant_type [OF g] dpopJKT_empty [OF assms(1) j] r show ?thesis
    by (auto simp: token_type_def no_store_def)
qed

theorem token_type_follows_proof_witness:
  "reply_token_type (result_of (token sample_env sample_router (bff_request code_form))
      (world_with [((authCodeCache, ''C1''), AuthCodeVal sample_item)])) = Some ''Bearer''"
proof -
  have "HandleAuthorization sample_env (bff_request code_form) 3600000000000 [] (Some wallet_attester)
      = HandleAuthorization sample_env (bff_request code_form) 3600000000000 [] None"
    by (simp add: HandleAuthorization_def authenticate_def)
  with sample_code_grant have "grants_token (result_of (token sample_env sample_router (bff_request code_form))
      (world_with [((authCodeCache, ''C1''), AuthCodeVal sample_item)]))"
    by (simp add: token_def dpopJKT_def HeaderName_def dispatch_grant_def GrantTypeAuthorizationCode_def)
       (simp add: code_form_def)
  moreover have "jwt_sound (ro_dpop_parse sample_router) (\<lambda>k s. k = generator_point \<and> s = ''jwt'')"
    using one_token_sound by simp
  ultimately show ?thesis
    using token_type_follows_proof by fastforce
qed

end
