(* ===== verification/Json_Roundtrip.thy ===== *)
theory Json_Roundtrip
  imports Go_Json
begin

text \<open>
  \<open>json.Unmarshal\<close> reads back what \<open>json.Marshal\<close> wrote: the values of the well-formed dynamic
  values, with the members of every object in key order.
\<close>

section \<open>Characters\<close>

lemma byte_lt: "byte c < 256"
  by (simp add: byte_def)

lemma char_byte [simp]: "char_of (byte c) = c"
  by (simp add: byte_def)

lemma byte_char: "n < 256 \<Longrightarrow> byte (char_of n) = n"
  by (simp add: byte_def of_char_small)

lemma byte_eq_iff: "byte c = byte d \<longleftrightarrow> c = d"
  by (metis char_byte)

lemma hex_val_digit: "d < 16 \<Longrightarrow> hex_val (hex_digit d) = Some d"
proof -
  have "\<forall>d\<in>{..<16}. hex_val (hex_digit d) = Some d"
    by (simp add: lessThan_nat_numeral lessThan_Suc hex_val_def hex_digit_def byte_def Let_def)
  then show "d < 16 \<Longrightarrow> hex_val (hex_digit d) = Some d" by simp
qed

lemma hex_digits_value:
  "((n div 4096 * 16 + n div 256 mod 16) * 16 + n div 16 mod 16) * 16 + n mod 16 = (n::nat)"
proof -
  have a: "n div 4096 = n div 256 div 16" "n div 256 = n div 16 div 16"
    by (simp_all add: div_mult2_eq [symmetric])
  show ?thesis unfolding a(1) div_mult_mod_eq a(2) div_mult_mod_eq ..
qed

lemma hex4_u_escape:
  assumes "n < 65536"
  shows "hex4 (drop 2 (u_escape n) @ s) = Some (n, s)"
proof -
  have b: "n div 4096 < 16" "n div 256 mod 16 < 16" "n div 16 mod 16 < 16" "n mod 16 < 16"
    using assms by auto
  then have "hex4 (drop 2 (u_escape n) @ s)
      = Some (((n div 4096 * 16 + n div 256 mod 16) * 16 + n div 16 mod 16) * 16 + n mod 16, s)"
    by (simp add: u_escape_def hex_val_digit)
  then show ?thesis by (simp only: hex_digits_value)
qed

lemma lex_backslash:
  "u_unescape x = Some (o', t) \<Longrightarrow> lex_string (CHR 92 # CHR ''u'' # x) = add_out o' (lex_string t)"
  by (simp add: unescape_def byte_def)

lemma lex_u_escape:
  assumes "n < 65536" "\<not> (55296 \<le> n \<and> n < 57344)"
  shows "lex_string (u_escape n @ s) = add_out (encode_rune n) (lex_string s)"
proof -
  have "u_escape n @ s = CHR 92 # CHR ''u'' # (drop 2 (u_escape n) @ s)"
    by (simp add: u_escape_def)
  moreover have "u_unescape (drop 2 (u_escape n) @ s) = Some (encode_rune n, s)"
    using assms by (simp only: u_unescape_def hex4_u_escape option.case prod.case if_False)
  ultimately show ?thesis
    by (metis (no_types, lifting) lex_backslash)
qed

lemma add_out_comp: "add_out a (add_out b r) = add_out (a @ b) r"
  by (auto simp: add_out_def split: option.splits)

lemma lex_escape_ascii:
  assumes "byte c < 128"
  shows "lex_string (escape_ascii c @ s) = add_out [c] (lex_string s)"
proof -
  have b: "byte CHR 92 = 92" by (simp add: byte_def)
  have short: "byte c = n \<Longrightarrow> n < 128 \<Longrightarrow> c = char_of n" for n by auto
  consider "byte c \<in> {34, 92, 8, 12, 10, 13, 9}"
    | (u) "byte c \<notin> {34, 92, 8, 12, 10, 13, 9}" "byte c < 32 \<or> byte c = 60 \<or> byte c = 62 \<or> byte c = 38"
    | (p) "byte c \<notin> {34, 92, 8, 12, 10, 13, 9}" "\<not> (byte c < 32 \<or> byte c = 60 \<or> byte c = 62 \<or> byte c = 38)"
    by blast
  then show ?thesis
  proof cases
    case 1
    then have "c \<in> char_of ` {34, 92, 8, 12, 10, 13, 9 :: nat}"
      by (metis char_byte imageI)
    then have "c \<in> {CHR 34, CHR 92, CHR 8, CHR 12, CHR 10, CHR 13, CHR 9}"
      by (simp add: char_of_def bit_Suc_0_iff)
    with b show ?thesis
      by (auto simp: escape_ascii_def byte_def unescape_def Let_def)
  next
    case u
    then have e: "escape_ascii c = u_escape (byte c)"
      by (simp add: escape_ascii_def Let_def)
    have "encode_rune (byte c) = [c]"
      using assms by (simp add: encode_rune_def)
    with e lex_u_escape [of "byte c" s] assms show ?thesis by simp
  next
    case p
    then have "escape_ascii c = [c]"
      by (simp add: escape_ascii_def Let_def)
    with p assms show ?thesis by simp
  qed
qed

section \<open>Multi-byte runes\<close>

lemma utf8_len_le: "utf8_len s \<le> length s"
  by (induction s rule: utf8_len.induct) (auto split: list.splits)

lemma utf8_len_take: "utf8_len s = k \<Longrightarrow> k \<noteq> 0 \<Longrightarrow> utf8_len (take k s @ r) = k"
  by (induction s rule: utf8_len.induct) (auto split: list.splits if_splits)

lemma utf8_len_first: "utf8_len (c # s) \<noteq> 0 \<Longrightarrow> 128 \<le> byte c"
  by (cases s) (auto simp: in_range_def split: list.splits if_splits)

lemma line_separator_len:
  assumes "line_separator s = Some r"
  shows "utf8_len s = 3 \<and> take 3 s = encode_rune r \<and> (r = 8232 \<or> r = 8233)"
proof -
  from assms obtain c t where s: "s = CHR 226 # CHR 128 # c # t"
    unfolding line_separator_def
    by (cases s rule: utf8_len.cases; cases "drop 2 s") (auto split: if_splits)
  with assms have c: "(byte c = 168 \<and> r = 8232) \<or> (byte c = 169 \<and> r = 8233)"
    by (auto simp: line_separator_def split: if_splits)
  then have "c = char_of (168::nat) \<and> r = 8232 \<or> c = char_of (169::nat) \<and> r = 8233"
    by (metis char_byte)
  moreover have "char_of (226::nat) = CHR 226" "char_of (128::nat) = CHR 128"
    by (simp_all add: char_of_def bit_Suc_0_iff)
  ultimately show ?thesis
    using s by (auto simp: in_range_def byte_def encode_rune_def)
qed

lemma lex_rune:
  assumes "utf8_len (c # s) = k" "k \<noteq> 0"
  shows "lex_string (take k (c # s) @ r) = add_out (take k (c # s)) (lex_string r)"
proof -
  obtain k' where k: "k = Suc k'" using assms(2) by (cases k) auto
  have b: "128 \<le> byte c" using utf8_len_first assms by blast
  have u: "utf8_len (c # (take k' s @ r)) = k"
    using utf8_len_take [OF assms] k by simp
  have len: "k' \<le> length s"
    using utf8_len_le [of "c # s"] assms(1) k by simp
  have "lex_string (c # (take k' s @ r)) = add_out (take k (c # (take k' s @ r))) (lex_string (drop k' (take k' s @ r)))"
    by (subst lex_string.simps) (use u b k in \<open>simp del: lex_string.simps\<close>)
  moreover have "take k (c # (take k' s @ r)) = take k (c # s)" "drop k' (take k' s @ r) = r"
    using len k by simp_all
  ultimately show ?thesis using k len by (simp del: lex_string.simps)
qed

function valid_utf8 :: "string \<Rightarrow> bool" where
  "valid_utf8 [] = True"
| "valid_utf8 (c # s) =
     (if byte c < 128 then valid_utf8 s
      else utf8_len (c # s) \<noteq> 0 \<and> valid_utf8 (drop (utf8_len (c # s) - 1) s))"
  by pat_completeness auto
termination
  by (relation "measure length") auto

lemma lex_escape_string:
  "valid_utf8 s \<Longrightarrow> lex_string (escape_string s @ CHR 34 # r) = Some (s, r)"
proof (induction s rule: escape_string.induct)
  case 1
  show ?case by (simp add: byte_def)
next
  case (2 c s)
  let ?k = "utf8_len (c # s)" and ?d = "drop (utf8_len (c # s) - 1) s"
  show ?case
  proof (cases "byte c < 128")
    case True
    with 2 show ?thesis by (simp add: lex_escape_ascii add_out_def)
  next
    case False
    with 2(5) have k: "?k \<noteq> 0" and v: "valid_utf8 ?d" by simp_all
    have split: "take ?k (c # s) @ ?d = c # s"
      using k by (cases ?k) auto
    show ?thesis
    proof (cases "line_separator (c # s)")
      case None
      have "lex_string (escape_string ?d @ CHR 34 # r) = Some (?d, r)"
        using "2.IH"(3) [OF False k None v] .
      then have "lex_string (take ?k (c # s) @ escape_string ?d @ CHR 34 # r)
          = Some (take ?k (c # s) @ ?d, r)"
        by (subst lex_rune [OF refl k]) (simp add: add_out_def)
      with False k None split show ?thesis by simp
    next
      case (Some n)
      note ls = line_separator_len [OF Some]
      have "lex_string (escape_string ?d @ CHR 34 # r) = Some (?d, r)"
        using "2.IH"(4) [OF False k Some v] .
      moreover have "lex_string (u_escape n @ x) = add_out (take ?k (c # s)) (lex_string x)" for x
        using lex_u_escape [of n x] ls by auto
      ultimately have "lex_string (u_escape n @ escape_string ?d @ CHR 34 # r)
          = Some (take ?k (c # s) @ ?d, r)"
        by (simp add: add_out_def)
      with False k Some split show ?thesis by simp
    qed
  qed
qed

section \<open>Numbers\<close>

text \<open>What may follow a value in an encoding.\<close>

definition ends_value :: "string \<Rightarrow> bool" where
  "ends_value r \<longleftrightarrow> (case r of [] \<Rightarrow> True | c # _ \<Rightarrow> byte c = 44 \<or> byte c = 93 \<or> byte c = 125)"

definition not_number :: "string \<Rightarrow> bool" where
  "not_number r \<longleftrightarrow> (case r of [] \<Rightarrow> True
     | c # _ \<Rightarrow> \<not> is_digit c \<and> c \<notin> {CHR ''.'', CHR ''e'', CHR ''E'', CHR ''+'', CHR ''-''})"

lemma ends_not_number: "ends_value r \<Longrightarrow> not_number r"
  by (auto simp: ends_value_def not_number_def is_digit_def byte_def split: list.splits)

lemma digits_append: "not_number r \<Longrightarrow> digits (s @ r) = digits s"
  by (induction s) (auto simp: digits_def not_number_def split: list.splits)

lemma zero_is_digit: "is_digit CHR ''0''"
  by (simp add: is_digit_def byte_def)

lemma int_part_append:
  assumes "not_number r"
  shows "int_part (s @ r) = int_part s"
proof (cases s)
  case Nil
  have "int_part r = []"
  proof (cases r)
    case (Cons c t)
    with assms have d: "\<not> is_digit c" by (simp add: not_number_def)
    then have "c \<noteq> CHR ''0''" using zero_is_digit by blast
    with Cons d show ?thesis by (simp add: int_part_def digits_def)
  qed (simp add: int_part_def)
  with Nil show ?thesis by (simp add: int_part_def)
next
  case (Cons c t)
  with digits_append [OF assms, of s] show ?thesis by (simp add: int_part_def)
qed

lemma frac_part_append: "not_number r \<Longrightarrow> frac_part (s @ r) = frac_part s"
  using digits_append [of r "tl s"]
  by (cases s) (auto simp: frac_part_def not_number_def split: list.splits)

lemma exp_part_append:
  assumes "not_number r"
  shows "exp_part (s @ r) = exp_part s"
proof (cases s)
  case Nil
  then show ?thesis using assms by (auto simp: exp_part_def not_number_def split: list.splits)
next
  case (Cons c t)
  show ?thesis
  proof (cases t)
    case Nil
    with Cons assms digits_append [OF assms, of "[]"] show ?thesis
      by (cases r) (auto simp: exp_part_def not_number_def digits_def)
  next
    case (Cons sg u)
    with \<open>s = c # t\<close> digits_append [OF assms, of u] digits_append [OF assms, of t] show ?thesis
      by (simp add: exp_part_def)
  qed
qed

lemma part_lengths:
  "length (int_part s) \<le> length s" "length (frac_part s) \<le> length s"
  by (auto simp: int_part_def frac_part_def digits_def length_takeWhile_le Suc_le_eq le_SucI
      less_Suc_eq_le split: list.splits)

lemma sign_append:
  assumes "not_number r"
  shows "(case s @ r of c # _ \<Rightarrow> if c = CHR ''-'' then [c] else [] | [] \<Rightarrow> [])
       = (case s of c # _ \<Rightarrow> if c = CHR ''-'' then [c] else [] | [] \<Rightarrow> [])"
  using assms by (cases s) (auto simp: not_number_def split: list.splits)

lemma number_prefix_append:
  assumes "not_number r"
  shows "number_prefix (s @ r) = number_prefix s"
proof -
  define sg where "sg = (case s of c # _ \<Rightarrow> if c = CHR ''-'' then [c] else [] | [] \<Rightarrow> [])"
  define s1 where "s1 = drop (length sg) s"
  define s2 where "s2 = drop (length (int_part s1)) s1"
  define s3 where "s3 = drop (length (frac_part s2)) s2"
  have "length sg \<le> length s"
    by (auto simp: sg_def split: list.splits)
  then have 1: "drop (length sg) (s @ r) = s1 @ r" by (simp add: s1_def)
  have 2: "drop (length (int_part s1)) (s1 @ r) = s2 @ r"
    using part_lengths(1) [of s1] by (simp add: s2_def)
  have 3: "drop (length (frac_part s2)) (s2 @ r) = s3 @ r"
    using part_lengths(2) [of s2] by (simp add: s3_def)
  show ?thesis
    unfolding number_prefix_def Let_def sign_append [OF assms] sg_def [symmetric] 1 s1_def [symmetric]
      int_part_append [OF assms] 2 s2_def [symmetric] frac_part_append [OF assms] 3 s3_def [symmetric]
      exp_part_append [OF assms] ..
qed

definition is_number :: "string \<Rightarrow> bool" where
  "is_number s \<longleftrightarrow> s \<noteq> [] \<and> number_prefix s = s \<and> float_in_range s"

lemma number_first:
  assumes "number_prefix (c # s) \<noteq> []"
  shows "c = CHR ''-'' \<or> is_digit c"
proof (rule ccontr)
  assume "\<not> (c = CHR ''-'' \<or> is_digit c)"
  moreover from this have "c \<noteq> CHR ''0''" by (auto simp: is_digit_def byte_def)
  ultimately show False
    using assms by (auto simp: number_prefix_def int_part_def digits_def)
qed

section \<open>The lexer on an encoding\<close>

lemma lex_punct [simp]:
  "lex (CHR '','' # r) = add_tok Comma (lex r)"
  "lex (CHR '':'' # r) = add_tok Colon (lex r)"
  "lex (CHR ''['' # r) = add_tok LBrack (lex r)"
  "lex (CHR '']'' # r) = add_tok RBrack (lex r)"
  "lex (CHR 123 # r) = add_tok LBrace (lex r)"
  "lex (CHR 125 # r) = add_tok RBrace (lex r)"
  by (simp_all add: is_space_def punctuation.simps byte_def)

lemma lex_quote:
  assumes "valid_utf8 s"
  shows "lex (quote_string s @ r) = add_tok (StrTok s) (lex r)"
proof -
  have "lex (CHR 34 # (escape_string s @ CHR 34 # r)) = add_tok (StrTok s) (lex r)"
    by (subst lex.simps) (simp add: is_space_def punctuation.simps byte_def lex_escape_string [OF assms]
        del: lex.simps)
  then show ?thesis by (simp add: quote_string_def)
qed

lemma lex_words [simp]:
  "lex (CHR ''t'' # CHR ''r'' # CHR ''u'' # CHR ''e'' # r) = add_tok TrueTok (lex r)"
  "lex (CHR ''f'' # CHR ''a'' # CHR ''l'' # CHR ''s'' # CHR ''e'' # r) = add_tok FalseTok (lex r)"
  "lex (CHR ''n'' # CHR ''u'' # CHR ''l'' # CHR ''l'' # r) = add_tok NullTok (lex r)"
  by (simp_all add: is_space_def punctuation.simps byte_def HasPrefix_def)

declare lex.simps(2) [simp del]

lemma lex_number:
  assumes "is_number s" "ends_value r"
  shows "lex (s @ r) = add_tok (NumTok s) (lex r)"
proof -
  obtain c t where s: "s = c # t" using assms(1) by (cases s) (auto simp: is_number_def)
  have p: "number_prefix (c # t @ r) = c # t"
    using number_prefix_append [OF ends_not_number [OF assms(2)], of s] assms(1) s
    by (simp add: is_number_def)
  then have c: "c = CHR ''-'' \<or> is_digit c" using number_first [of c "t @ r"] by simp
  then have "\<not> is_space c" "punctuation c = None" "byte c \<noteq> 34"
    "\<not> HasPrefix (c # t @ r) ''true''" "\<not> HasPrefix (c # t @ r) ''false''"
    "\<not> HasPrefix (c # t @ r) ''null''"
    by (auto simp: is_space_def punctuation.simps byte_def is_digit_def HasPrefix_def)
  moreover have "float_in_range (c # t)" using assms(1) s by (simp add: is_number_def)
  ultimately have "lex (c # t @ r) = add_tok (NumTok (c # t)) (lex r)"
    using p by (subst lex.simps) (simp)
  then show ?thesis using s by simp
qed

section \<open>Well-formed values and their tokens\<close>

fun json_ok :: "json \<Rightarrow> bool" where
  "json_ok JNull = True"
| "json_ok (JBool b) = True"
| "json_ok (JInt i) = is_number (Itoa i)"
| "json_ok (JFloat s) = is_number s"
| "json_ok (JStr s) = valid_utf8 s"
| "json_ok (JArr xs) = (\<forall>x\<in>set xs. json_ok x)"
| "json_ok (JObj fs) = (distinct (map fst fs) \<and> (\<forall>f\<in>set fs. valid_utf8 (fst f) \<and> json_ok (snd f)))"

fun json_depth :: "json \<Rightarrow> nat" where
  "json_depth (JArr xs) = Suc (Max (insert 0 (set (map json_depth xs))))"
| "json_depth (JObj fs) = Suc (Max (insert 0 (set (map (\<lambda>f. json_depth (snd f)) fs))))"
| "json_depth _ = 0"

text \<open>What decoding makes of an encoding: numbers become floats, members are in key order.\<close>

fun json_norm :: "json \<Rightarrow> json" where
  "json_norm (JInt i) = JFloat (Itoa i)"
| "json_norm (JArr xs) = JArr (map json_norm xs)"
| "json_norm (JObj fs) = JObj (sort_key fst (map (\<lambda>f. (fst f, json_norm (snd f))) fs))"
| "json_norm v = v"

fun sep_tokens :: "token list list \<Rightarrow> token list" where
  "sep_tokens [] = []"
| "sep_tokens [x] = x"
| "sep_tokens (x # y # xs) = x @ Comma # sep_tokens (y # xs)"

fun json_tokens :: "json \<Rightarrow> token list" where
  "json_tokens JNull = [NullTok]"
| "json_tokens (JBool b) = [if b then TrueTok else FalseTok]"
| "json_tokens (JInt i) = [NumTok (Itoa i)]"
| "json_tokens (JFloat s) = [NumTok s]"
| "json_tokens (JStr s) = [StrTok s]"
| "json_tokens (JArr xs) = LBrack # sep_tokens (map json_tokens xs) @ [RBrack]"
| "json_tokens (JObj fs) = LBrace # sep_tokens
     (map snd (sort_key fst (map (\<lambda>(k, v). (k, StrTok k # Colon # json_tokens v)) fs))) @ [RBrace]"

lemma insort_key_map:
  "insort_key fst (k, g k v) (map (\<lambda>(k, v). (k, g k v)) fs)
     = map (\<lambda>(k, v). (k, g k v)) (insort_key fst (k, v) fs)"
  by (induction fs) auto

lemma sort_key_map:
  "sort_key fst (map (\<lambda>(k, v). (k, g k v)) fs) = map (\<lambda>(k, v). (k, g k v)) (sort_key fst fs)"
  by (induction fs) (auto simp: insort_key_map)

lemma sorted_snd:
  "map snd (sort_key fst (map (\<lambda>(k, v). (k, g k v)) fs)) = map (\<lambda>f. g (fst f) (snd f)) (sort_key fst fs)"
  by (simp add: sort_key_map split_beta)

lemma insort_key_map_snd:
  "insort_key fst (k, g v) (map (\<lambda>f. (fst f, g (snd f))) fs)
     = map (\<lambda>f. (fst f, g (snd f))) (insort_key fst (k, v) fs)"
  by (induction fs) auto

lemma sort_key_map_snd:
  "sort_key fst (map (\<lambda>f. (fst f, g (snd f))) fs) = map (\<lambda>f. (fst f, g (snd f))) (sort_key fst fs)"
  by (induction fs) (auto simp: insort_key_map_snd)

section \<open>The lexer yields the tokens\<close>

lemma add_tok_map: "add_tok t (map_option (append ts) r) = map_option (append (t # ts)) r"
  by (cases r) (auto simp: add_tok_def)

lemma add_tok_alt: "add_tok t r = map_option (append [t]) r"
  by (cases r) (auto simp: add_tok_def)

lemma map_append_append: "map_option (append a) (map_option (append b) r) = map_option (append (a @ b)) r"
  by (cases r) auto

lemma ends_value_simps [simp]:
  "ends_value []" "ends_value (CHR '','' # r)" "ends_value (CHR '']'' # r)" "ends_value (CHR 125 # r)"
  by (simp_all add: ends_value_def byte_def)

lemma lex_join:
  assumes "\<And>x r. x \<in> set xs \<Longrightarrow> ends_value r \<Longrightarrow> lex (f x @ r) = map_option (append (g x)) (lex r)"
    and "ends_value r"
  shows "lex (join_with '','' (map f xs) @ r) = map_option (append (sep_tokens (map g xs))) (lex r)"
  using assms
proof (induction xs rule: induct_list012)
  case 1
  then show ?case by (simp add: option.map_id0 option.map_ident)
next
  case (2 x)
  then show ?case by simp
next
  case (3 a b cs)
  have ih: "lex (join_with '','' (map f (b # cs)) @ r) = map_option (append (sep_tokens (map g (b # cs)))) (lex r)"
    by (rule "3.IH"(2)) (use 3(3,4) in auto)
  have "lex (f a @ (CHR '','' # join_with '','' (map f (b # cs)) @ r))
      = map_option (append (g a)) (add_tok Comma (lex (join_with '','' (map f (b # cs)) @ r)))"
    using 3(3) [of a] by simp
  with ih show ?case
    by (cases "lex r") (simp_all add: add_tok_def)
qed

lemma lex_json_text:
  "json_ok v \<Longrightarrow> ends_value r \<Longrightarrow> lex (json_text v @ r) = map_option (append (json_tokens v)) (lex r)"
proof (induction v arbitrary: r)
  case (JArr xs)
  have "lex (join_with '','' (map json_text xs) @ (CHR '']'' # r))
      = map_option (append (sep_tokens (map json_tokens xs))) (lex (CHR '']'' # r))"
    using JArr by (intro lex_join) auto
  then show ?case
    by (cases "lex r") (simp_all add: add_tok_def)
next
  case (JObj fs)
  let ?tx = "\<lambda>f. quote_string (fst f) @ '':'' @ json_text (snd f)"
  let ?tk = "\<lambda>f. StrTok (fst f) # Colon # json_tokens (snd f)"
  let ?sf = "sort_key fst fs"
  have m: "lex (?tx f @ r') = map_option (append (?tk f)) (lex r')" if "f \<in> set ?sf" "ends_value r'" for f r'
  proof -
    from that have f: "f \<in> set fs" by simp
    with JObj.IH [of f "snd f" r'] JObj.prems(1) that(2)
    have "lex (json_text (snd f) @ r') = map_option (append (json_tokens (snd f))) (lex r')"
      by (cases f) auto
    moreover have "valid_utf8 (fst f)" using JObj.prems(1) f by auto
    ultimately show ?thesis by (simp add: lex_quote add_tok_map)
  qed
  have "lex (join_with '','' (map ?tx ?sf) @ (CHR 125 # r))
      = map_option (append (sep_tokens (map ?tk ?sf))) (lex (CHR 125 # r))"
    by (rule lex_join) (use m in auto)
  then show ?case
    by (cases "lex r") (simp_all add: sorted_snd add_tok_def)
qed (simp_all add: add_tok_alt lex_quote lex_number)

section \<open>The automaton on the tokens\<close>

lemma obj_put_new: "k \<notin> set (map fst fs) \<Longrightarrow> obj_put fs k v = fs @ [(k, v)]"
  by (induction fs k v rule: obj_put.induct) auto

lemma tokens_first: "\<exists>t ts. json_tokens v = t # ts \<and> t \<noteq> RBrack"
  by (cases v) auto

lemma run_or_empty:
  "json_run (BeginValueOrEmpty, st) (json_tokens v @ ts) = json_run (BeginValue, st) (json_tokens v @ ts)"
  using tokens_first [of v] by auto

text \<open>The elements of an array, each read by \<open>run\<close>, up to the closing bracket.\<close>

lemma run_elements:
  assumes "\<And>x ts xs'. x \<in> set xs \<Longrightarrow>
      json_run (BeginValue, ArrFrame xs' # st) (json_tokens x @ ts)
        = json_run (EndValue (json_norm x), ArrFrame xs' # st) ts"
    and "xs \<noteq> []"
  shows "json_run (BeginValue, ArrFrame ys # st) (sep_tokens (map json_tokens xs) @ RBrack # ts)
       = json_run (EndValue (JArr (ys @ map json_norm xs)), st) ts"
  using assms
proof (induction xs arbitrary: ys rule: induct_list012)
  case (2 x)
  then show ?case by simp
next
  case (3 a b cs)
  have "json_run (BeginValue, ArrFrame (ys @ [json_norm a]) # st)
      (sep_tokens (map json_tokens (b # cs)) @ RBrack # ts)
      = json_run (EndValue (JArr ((ys @ [json_norm a]) @ map json_norm (b # cs))), st) ts"
    by (rule "3.IH"(2)) (use 3(3) in auto)
  then show ?case
    using 3(3) [of a] by simp
qed simp

abbreviation member_tokens :: "string \<times> json \<Rightarrow> token list" where
  "member_tokens f \<equiv> StrTok (fst f) # Colon # json_tokens (snd f)"

abbreviation norm_member :: "string \<times> json \<Rightarrow> string \<times> json" where
  "norm_member f \<equiv> (fst f, json_norm (snd f))"

lemma run_members:
  assumes "\<And>f ts k fs'. f \<in> set fs \<Longrightarrow>
      json_run (BeginValue, ObjFrame fs' k # st) (json_tokens (snd f) @ ts)
        = json_run (EndValue (json_norm (snd f)), ObjFrame fs' k # st) ts"
    and "fs \<noteq> []" "distinct (map fst gs @ map fst fs)" "m \<in> {BeginString, BeginStringOrEmpty}"
  shows "json_run (m, ObjFrame gs k # st) (sep_tokens (map member_tokens fs) @ RBrace # ts)
       = json_run (EndValue (JObj (gs @ map norm_member fs)), st) ts"
  using assms
proof (induction fs arbitrary: gs k m rule: induct_list012)
  case (2 f)
  have "json_run (BeginValue, ObjFrame gs (fst f) # st) (json_tokens (snd f) @ RBrace # ts)
      = json_run (EndValue (json_norm (snd f)), ObjFrame gs (fst f) # st) (RBrace # ts)"
    by (rule 2(1)) simp
  with 2(3,4) show ?case by (auto simp: obj_put_new)
next
  case (3 a b cs)
  have "json_run (BeginString, ObjFrame (gs @ [norm_member a]) [] # st)
      (sep_tokens (map member_tokens (b # cs)) @ RBrace # ts)
      = json_run (EndValue (JObj ((gs @ [norm_member a]) @ map norm_member (b # cs))), st) ts"
    by (rule "3.IH"(2)) (use 3(3,5) in auto)
  moreover have "json_run (BeginValue, ObjFrame gs (fst a) # st)
        (json_tokens (snd a) @ Comma # sep_tokens (map member_tokens (b # cs)) @ RBrace # ts)
      = json_run (EndValue (json_norm (snd a)), ObjFrame gs (fst a) # st)
        (Comma # sep_tokens (map member_tokens (b # cs)) @ RBrace # ts)"
    by (rule 3(3)) simp
  ultimately show ?case
    using 3(5,6) by (auto simp: obj_put_new)
qed simp

lemma depth_element: "x \<in> set xs \<Longrightarrow> json_depth x < json_depth (JArr xs)"
  by (auto simp: less_Suc_eq_le)

lemma depth_member: "f \<in> set fs \<Longrightarrow> json_depth (snd f) < json_depth (JObj fs)"
  by (auto simp: less_Suc_eq_le)

lemma run_json:
  "json_ok v \<Longrightarrow> json_depth v + length st \<le> maxNestingDepth \<Longrightarrow>
   json_run (BeginValue, st) (json_tokens v @ ts) = json_run (EndValue (json_norm v), st) ts"
proof (induction v arbitrary: st ts)
  case (JArr xs)
  have p: "length st < maxNestingDepth" using JArr.prems(2) by simp
  show ?case
  proof (cases "xs = []")
    case True
    with p show ?thesis by (simp add: push_def)
  next
    case False
    have "json_run (BeginValue, ArrFrame [] # st) (sep_tokens (map json_tokens xs) @ RBrack # ts)
        = json_run (EndValue (JArr ([] @ map json_norm xs)), st) ts"
    proof (rule run_elements [OF _ False])
      fix x ts xs' assume x: "x \<in> set xs"
      have "json_depth x + length (ArrFrame xs' # st) \<le> maxNestingDepth"
        using depth_element [OF x] JArr.prems(2) by simp
      then show "json_run (BeginValue, ArrFrame xs' # st) (json_tokens x @ ts)
          = json_run (EndValue (json_norm x), ArrFrame xs' # st) ts"
        using JArr.IH [OF x] JArr.prems(1) x by simp
    qed
    moreover obtain y ys where "xs = y # ys" using False by (cases xs) auto
    ultimately show ?thesis
      using p run_or_empty [of "ArrFrame [] # st" y] by (cases ys) (simp_all add: push_def)
  qed
next
  case (JObj fs)
  let ?sf = "sort_key fst fs"
  have p: "length st < maxNestingDepth" using JObj.prems(2) by simp
  show ?case
  proof (cases "fs = []")
    case True
    with p show ?thesis by (simp add: push_def)
  next
    case False
    then have ne: "?sf \<noteq> []" by (metis length_0_conv length_sort)
    have d: "distinct (map fst [] @ map fst ?sf)"
      using JObj.prems(1) by (simp add: distinct_map)
    have "json_run (BeginStringOrEmpty, ObjFrame [] [] # st) (sep_tokens (map member_tokens ?sf) @ RBrace # ts)
        = json_run (EndValue (JObj ([] @ map norm_member ?sf)), st) ts"
    proof (rule run_members [OF _ ne d])
      fix f ts k fs' assume "f \<in> set ?sf"
      then have f: "f \<in> set fs" by simp
      have "json_depth (snd f) + length (ObjFrame fs' k # st) \<le> maxNestingDepth"
        using depth_member [OF f] JObj.prems(2) by simp
      then show "json_run (BeginValue, ObjFrame fs' k # st) (json_tokens (snd f) @ ts)
          = json_run (EndValue (json_norm (snd f)), ObjFrame fs' k # st) ts"
        using JObj.IH [OF f] JObj.prems(1) f by (cases f) auto
    qed simp
    then show ?thesis
      using p by (simp add: push_def sorted_snd sort_key_map_snd)
  qed
qed simp_all

section \<open>The round trip\<close>

lemma json_parse_text:
  assumes "json_ok v" "json_depth v \<le> maxNestingDepth"
  shows "json_parse (json_text v) = Some (json_norm v)"
proof -
  have "lex (json_text v @ []) = map_option (append (json_tokens v)) (lex [])"
    by (rule lex_json_text [OF assms(1)]) simp
  then have "lex (json_text v) = Some (json_tokens v)" by simp
  with run_json [OF assms(1), of "[]" "[]"] assms(2) show ?thesis
    by (simp add: json_parse_def)
qed

end
