(* ===== verification/Properties_Proofs.thy ===== *)
theory Properties_Proofs
  imports Sample_World Json_Roundtrip
begin

text \<open>
  The properties of the proofs of possession: DPoP proofs, client attestations and their keys,
  and of the encodings the service relies on.
\<close>

section \<open>DPoP\<close>



text \<open>
  A DPoP proof is not accepted twice as long as the cache keeps what the first validation
  recorded: when the id of the proof is recorded and the cache answers, validation fails with
  \<open>ErrReplay\<close>.
\<close>

theorem dpop_replay_refused:
  assumes "cache_api E live" and "va_replay v = Some (dpop_replay E)"
    and "result_of (parse proof_options jwt (\<lambda>t. map_sum id fst (proof_key t))) w = Inr t"
    and "check_claims v (result_of (TimeNow E)
        (world_after (parse proof_options jwt (\<lambda>t. map_sum id fst (proof_key t))) w)) meth accessToken (jt_Claims t) = None"
    and "u = world_after (TimeNow E) (world_after (parse proof_options jwt (\<lambda>t. map_sum id fst (proof_key t))) w)"
    and "held_bool live ''dpop-jti'' u (rc_ID (pc_Registered (jt_Claims t)))"
    and "answers E live ''dpop-jti'' u (rc_ID (pc_Registered (jt_Claims t)))"
  shows "result_of (dpop_Validate E parse v jwt meth accessToken) w = Inl ErrReplay"
  using assms(2-5) cache_api.dpop_recorded_seen [OF assms(1,6,7)]
  by (simp add: dpop_Validate_def)

theorem dpop_replay_refused_witness:
  "result_of (dpop_Validate sample_env (one_token_parser sample_proof generator_point) sample_validator
     ''jwt'' ''POST'' []) (world_with [((''dpop-jti'', ''D1''), BoolVal True)]) = Inl ErrReplay"
proof -
  let ?p = "one_token_parser sample_proof generator_point proof_options ''jwt'' (\<lambda>t. map_sum id fst (proof_key t))"
  let ?w = "world_with [((''dpop-jti'', ''D1''), BoolVal True)]"
  have p: "result_of ?p ?w = Inr sample_proof" "world_after ?p ?w = ?w"
    using sample_proof_key by (simp_all add: one_token_parser_def proof_options_def) (simp add: sample_proof_def)
  have "rc_ID (pc_Registered (jt_Claims sample_proof)) = ''D1''"
    by (simp add: sample_proof_def)
  then show ?thesis
    by (intro dpop_replay_refused [where live = mem_live and E = sample_env and v = sample_validator
          and parse = "one_token_parser sample_proof generator_point" and jwt = "''jwt''" and w = ?w
          and u = ?w and t = sample_proof and meth = "''POST''" and accessToken = "[]"])
       (simp_all add: p mem.cache_api_axioms sample_check_claims sample_validator_replay held_bool_def
         answers_def)
qed

context cache_api
begin

lemma get_keeps_absent: "live w nk = None \<Longrightarrow> live (world_after (CacheGet E n k) w) nk = None"
  using get_frame [of n k w] by (rule shrinks_None)

lemma replay_keeps_absent:
  assumes "j' \<noteq> j" "live w (''dpop-jti'', j) = None"
  shows "live (world_after (dpop_replay E j') w) (''dpop-jti'', j) = None"
proof -
  have s: "live (world_after (CacheSet E ''dpop-jti'' j' v) u) (''dpop-jti'', j) = None"
    if "live u (''dpop-jti'', j) = None" for v u
    by (rule set_other [OF _ that]) (use assms(1) in simp)
  show ?thesis
    using get_keeps_absent [OF assms(2)]
    by (auto simp: dpop_replay_def cache_ReplayCheck_def world_cache_Get s split: sum.split)
qed

end



text \<open>
  The saturating difference of instants does not weaken the time checks: for every positive
  window that is itself a duration, a proof is outside the window exactly when the distance
  between the two instants is larger than the window, however far apart they are.
\<close>

theorem outside_window_exact:
  assumes "0 < window" and "window < max_Duration"
  shows "outside_window now t window \<longleftrightarrow> window < \<bar>now - t\<bar>"
  using assms by (rule outside_window_iff)

theorem outside_window_exact_witness:
  "outside_window (10 ^ 30) 0 60000000000"
  using outside_window_exact [of 60000000000 "10 ^ 30" 0] by (simp add: max_Duration_def)

section \<open>Keys\<close>

text \<open>
  A parsed JWK is a public EC key on P-256 with coordinates in range, it carries no private
  key, and its thumbprint is 43 characters long.
\<close>

theorem jwk_sound:
  assumes "ParseECJWK raw = Inr ((px, py), tp)"
  shows "on_p256 px py \<and> 0 \<le> px \<and> px < p256_p \<and> 0 \<le> py \<and> py < p256_p \<and> raw ''d'' = None
     \<and> raw ''kty'' = Some (JStr ''EC'') \<and> raw ''crv'' = Some (JStr ''P-256'') \<and> length tp = 43"
  using ParseECJWK_Inr [OF assms] ParseECJWK_nonneg [OF assms] by (simp add: length_thumbprint)

theorem jwk_sound_witness:
  "on_p256 (fst generator_point) (snd generator_point)"
  using jwk_sound [of "map_of generator_jwk" "fst generator_point" "snd generator_point"] generator_key by simp

text \<open>
  Coordinates of more than 32 bytes are cut, not refused. Appending bytes to the encoded
  x and y of a key leaves the parsed point unchanged, while the thumbprint is taken over the longer
  text: one key has many accepted JWKs, with texts that differ.
\<close>

theorem overlong_coordinates_same_point:
  assumes "length xb = 32" and "length yb = 32" and "raw ''d'' = None"
    and "raw ''kty'' = Some (JStr ''EC'')" and "raw ''crv'' = Some (JStr ''P-256'')"
    and "raw ''x'' = Some (JStr (RawEncodeToString URLAlphabet xb))"
    and "raw ''y'' = Some (JStr (RawEncodeToString URLAlphabet yb))"
    and "ParseECJWK raw = Inr (k, tp)"
  shows "ParseECJWK (raw(''x'' \<mapsto> JStr (RawEncodeToString URLAlphabet (xb @ junk)),
                         ''y'' \<mapsto> JStr (RawEncodeToString URLAlphabet (yb @ junk'))))
       = Inr (k, thumbprint (RawEncodeToString URLAlphabet (xb @ junk)) (RawEncodeToString URLAlphabet (yb @ junk')))
     \<and> (junk \<noteq> [] \<longrightarrow> RawEncodeToString URLAlphabet (xb @ junk) \<noteq> RawEncodeToString URLAlphabet xb)"
proof -
  let ?e = "RawEncodeToString URLAlphabet"
  have ne: "?e xs \<noteq> []" if "xs \<noteq> []" for xs
    using that length_RawEncode [of URLAlphabet xs] by (cases xs) auto
  have n: "xb \<noteq> []" "yb \<noteq> []" using assms(1,2) by auto
  have pt: "uncompressed_point (bytes_of (xb @ junk)) (bytes_of (yb @ junk'))
      = uncompressed_point (bytes_of xb) (bytes_of yb)"
    using assms(1,2) by (simp add: uncompressed_point_long bytes_of_def)
  have p: "ParseUncompressedPublicKey (uncompressed_point (bytes_of xb) (bytes_of yb)) = Some k"
    using assms(3-8) ne n
    by (auto simp: ParseECJWK_def as_string_def Let_def RawDecode_Encode split: if_splits option.splits)
  show ?thesis
    using assms(3-5) ne n pt p
    by (auto simp: ParseECJWK_def as_string_def Let_def RawDecode_Encode dest: RawEncode_inj)
qed

theorem overlong_coordinates_same_point_witness:
  "\<exists>jwk x. ParseECJWK jwk = Inr (generator_point, thumbprint x (RawEncodeToString URLAlphabet (string_of generator_y_bytes)))
     \<and> x \<noteq> generator_x"
proof -
  let ?x = "string_of generator_x_bytes" and ?y = "string_of generator_y_bytes"
  have l: "length ?x = 32" "length ?y = 32"
    by (simp_all add: string_of_def generator_x_bytes_def generator_y_bytes_def)
  have h: "map_of generator_jwk ''x'' = Some (JStr (RawEncodeToString URLAlphabet ?x))"
    "map_of generator_jwk ''y'' = Some (JStr (RawEncodeToString URLAlphabet ?y))"
    "map_of generator_jwk ''d'' = None" "map_of generator_jwk ''kty'' = Some (JStr ''EC'')"
    "map_of generator_jwk ''crv'' = Some (JStr ''P-256'')"
    by (simp_all add: generator_jwk_def generator_x_def generator_y_def)
  show ?thesis
    using overlong_coordinates_same_point [OF l h(3-5,1,2) generator_key, of "''!''" "[]"]
    unfolding generator_x_def by (metis append_Nil2 list.distinct(1))
qed

section \<open>Client attestation\<close>


definition sample_x509 :: "(unit, ec_point) x509_lib" where
  "sample_x509 = \<lparr>ParseCertificate = (\<lambda>der. Inr ()), ECPublicKey = (\<lambda>c. Some generator_point),
     VerifyChain = (\<lambda>roots ims leaf. if leaf \<in> set roots then None else Some (ExternalError ''chain''))\<rparr>"






section \<open>Trust anchors\<close>


definition one_block :: pem_decoder where
  "one_block s = (if s = ''PEM'' then Some ((''CERTIFICATE'', ''der''), []) else None)"


text \<open>
  C27: loading the trust anchors returns. The loop is written without a bound of its own; when every
  block \<open>pem.Decode\<close> finds leaves a shorter text, it ends, with the result of going over the
  blocks of the text once.
\<close>

theorem trust_anchor_loop_ends:
  assumes "\<And>s b r. pem_Decode s = Some (b, r) \<Longrightarrow> length r < length s"
  shows "anchor_for X pem_Decode buf pool found =
     Some (anchor_loop X (pem_blocks pem_Decode (length buf) buf) pool found)"
  by (rule anchor_for_ends [OF assms]) simp_all

theorem trust_anchor_loop_ends_witness:
  "anchor_for sample_x509 one_block ''PEM'' [] False = Some (Inr [()])"
proof -
  have "anchor_for sample_x509 one_block ''PEM'' [] False =
      Some (anchor_loop sample_x509 (pem_blocks one_block (length ''PEM'') ''PEM'') [] False)"
    by (rule trust_anchor_loop_ends) (auto simp: one_block_def split: if_splits)
  then show ?thesis by (simp add: one_block_def sample_x509_def numeral_eq_Suc)
qed

end
