(* ===== verification/Properties_Endpoints.thy ===== *)
theory Properties_Endpoints
  imports Sample_World Json_Roundtrip
begin

text \<open>
  Properties of the stored data, the authorization endpoint, pushed requests and introspection.
  Each property stands after a text block with its claim id.
\<close>

section \<open>Invariant of the store\<close>

text \<open>
  C7: in every world the service can reach, by any sequence of requests and of losses of entries,
  a refresh token is bound to a DPoP key that its session carries, a code is filed under its own
  name, a transaction code has five digits, a pushed request passed all checks and is what its
  client posted, and a pending state is a code request for supported scopes.
\<close>

theorem reachable_store_invariant:
  assumes "cache_api E live" and "service_frame live E R Pv decays" and "intn_range E"
    and "reachable E R Pv decays live w"
  shows "(\<forall>t i. held_refresh live w t = Some i \<longrightarrow>
        rt_JKT i \<noteq> [] \<and> map_index (se_Metadata (rt_Session i)) dpop_jkt_key = rt_JKT i)
     \<and> (\<forall>c i. held_code live w c = Some i \<longrightarrow> ac_Code i = c)
     \<and> (\<forall>c n. held_tx live w c = Some n \<longrightarrow> 10000 \<le> n \<and> n \<le> 99999)
     \<and> (\<forall>u i. held_par live w u = Some i \<longrightarrow> (\<exists>rq. valid_code_request E (ro_Store R) (rq_form rq) (par_ClientID i)
            \<and> par_RawQuery i = Values_Encode (rq_post_args (rq::request))))
     \<and> (\<forall>s i. held_state live w s = Some i \<longrightarrow> st_State i = s \<and> st_ResponseType i = ''code''
            \<and> IsScopeSupported (ro_Store R) (st_Scope i))"
proof -
  note ok = reachable_stored_ok [OF assms]
  have e: "entry_ok E (ro_Store R) n k v" if "live w (n, k) = Some v" for n k v
    by (rule stored_okD [OF ok that])
  have get: "\<exists>v. live w (n, k) = Some v \<and> proj v = Some x \<and> entry_ok E (ro_Store R) n k v"
    if "Option.bind (live w (n, k)) proj = Some x" for n k x and proj :: "cache_value \<Rightarrow> 'x option"
    using that e unfolding bind_eq_Some_conv by blast
  have r: "\<forall>t i. held_refresh live w t = Some i \<longrightarrow> refresh_bound i"
    using get [of refreshTokenCacheName _ as_Refresh] unfolding held_refresh_def
    by (fastforce elim: as_Refresh.elims)
  have c: "\<forall>c i. held_code live w c = Some i \<longrightarrow> ac_Code i = c"
    using get [of authCodeCache _ as_AuthCode] unfolding held_code_def
    by (fastforce elim: as_AuthCode.elims)
  have t: "\<forall>c n. held_tx live w c = Some n \<longrightarrow> 10000 \<le> n \<and> n \<le> 99999"
    using get [of preAuthCache _ as_Int] unfolding held_tx_def
    by (fastforce elim: as_Int.elims)
  have p: "\<forall>u i. held_par live w u = Some i \<longrightarrow> pushed_valid E (ro_Store R) i"
    using get [of parCacheName _ as_PAR] unfolding held_par_def
    by (fastforce elim: as_PAR.elims)
  have s: "\<forall>s i. held_state live w s = Some i \<longrightarrow> st_State i = s \<and> st_ResponseType i = ''code''
            \<and> IsScopeSupported (ro_Store R) (st_Scope i)"
    using get [of stateCache _ as_State] unfolding held_state_def
    by (fastforce elim: as_State.elims)
  show ?thesis
    using r c t p s unfolding refresh_bound_def pushed_valid_def by blast
qed

abbreviation served_world :: mem where
  "served_world \<equiv> world_after (preauthGenerate sample_env
     (bff_request [''scope'' \<mapsto> ''openid'', ''session_id'' \<mapsto> ''alice''])) (world_with [])"

theorem reachable_store_invariant_witness:
  "{n. \<exists>c. held_tx mem_live served_world c = Some n} \<subseteq> {10000..99999}"
proof -
  have "reachable sample_env sample_router sample_libs mem_later mem_live served_world"
    by (rule reachable_one [OF step_preauth]) simp
  from reachable_store_invariant [OF mem.cache_api_axioms sample_service_frame sample_intn_range this]
  show ?thesis by auto
qed

section \<open>Authorization requests\<close>

text \<open>
  C20: the state a provider saves at the start of an authentication is exactly the request's: it is
  saved if and only if the request is a well-formed code request of a known client (registered
  redirect URI, S256 challenge of 43 to 128 characters, supported scopes); any other request
  stores nothing.
\<close>

theorem saved_state_exact:
  "\<exists>e. ValidateAndSaveState E store rq clientID state =
     (if well_formed_code_request E store rq clientID then
        SetState E \<lparr>st_State = state, st_ResponseType = ''code'', st_Scope = the (rq_query rq ''scope''),
           st_IssuerState = (case rq_query rq ''issuer_state'' of None \<Rightarrow> [] | Some i \<Rightarrow> i)\<rparr>
      else return e)"
proof (cases "well_formed_code_request E store rq clientID")
  case True
  let ?item = "\<lparr>st_State = state, st_ResponseType = ''code'', st_Scope = the (rq_query rq ''scope''),
           st_IssuerState = (case rq_query rq ''issuer_state'' of None \<Rightarrow> [] | Some i \<Rightarrow> i)\<rparr>"
  have "state_to_save E store rq clientID state = Inr (Some ?item)"
    using True by (auto simp: state_to_save_Some well_formed_code_request_def)
  with True show ?thesis by (simp add: ValidateAndSaveState_def)
next
  case False
  have "state_to_save E store rq clientID state \<noteq> Inr (Some item)" for item
    using False by (simp add: state_to_save_Some)
  with False show ?thesis
    by (cases "state_to_save E store rq clientID state") (auto simp: ValidateAndSaveState_def split: option.splits)
qed

text \<open>
  A scope parameter is supported exactly when it holds at least one scope and only scopes of
  the configured set, whatever the spaces around them.
\<close>

theorem scope_supported_iff:
  "Supported s scope \<longleftrightarrow>
     (let ts = filter (\<lambda>t. t \<noteq> []) (Split (CHR '' '') scope) in ts \<noteq> [] \<and> set ts \<subseteq> s)"
  by (rule Supported_iff)

text \<open>
  C16: the authorization endpoint, asked with parameters of its own, sends the browser on only for a
  valid code request; an invalid request is answered in place, or reported to a redirect URI that
  is registered for the client, with error, description and state that decode to what was sent.
\<close>

theorem authorize_redirects:
  assumes "\<not> given (rq_query rq ''request_uri'')"
    and "content (result_of (authorizationV3 E R rq) w) = Redirect u"
  shows "\<not> ro_RequirePAR R
     \<and> ((\<exists>c. valid_code_request E (ro_Store R) (rq_query rq) c \<and> u = ''/authorize?'' @ rq_query_string rq)
      \<or> (\<exists>c client uri q e d. rq_query rq ''client_id'' = Some c \<and> GetClient E c = Inr (Some client)
           \<and> uri \<in> set (cl_RedirectURI client) \<and> rq_query rq ''redirect_uri'' = Some uri
           \<and> u = uri @ (if Contains uri ''?'' then ''&'' else ''?'') @ q
           \<and> ParseQuery q = Some ([(''error'', e), (''error_description'', d)]
                @ (if given (rq_query rq ''state'') then [(''state'', the (rq_query rq ''state''))] else []))))"
proof -
  have np: "\<not> ro_RequirePAR R" and r: "content (authorize_checks E (ro_Store R) rq) = Redirect u"
    using assms by (auto simp: authorizationV3_def split: if_splits)
  show ?thesis
  proof (cases "\<exists>c. valid_code_request E (ro_Store R) (rq_query rq) c")
    case True
    then obtain c where "valid_code_request E (ro_Store R) (rq_query rq) c" ..
    with authorize_checks_valid [OF this] r np show ?thesis
      by (auto simp: authorizeDelegatePath_def)
  next
    case False
    with authorize_checks_invalid [of E "ro_Store R" rq] r obtain c client uri e d where
      c: "rq_query rq ''client_id'' = Some c" "GetClient E c = Inr (Some client)"
        "rq_query rq ''redirect_uri'' = Some uri" "uri \<in> set (cl_RedirectURI client)"
      and a: "authorize_checks E (ro_Store R) rq = redirectAuthError uri (rq_query rq ''state'') e d"
      by auto
    let ?ps = "[(''error'', e), (''error_description'', d)]
        @ (if given (rq_query rq ''state'') then [(''state'', the (rq_query rq ''state''))] else [])"
    have "u = uri @ (if Contains uri ''?'' then ''&'' else ''?'') @ Values_Encode ?ps"
      using r unfolding a by (simp add: redirectAuthError_def)
    moreover have "sort_key fst ?ps = ?ps"
      by (simp add: less_eq_list_code less_char_def)
    then have "ParseQuery (Values_Encode ?ps) = Some ?ps"
      by (simp only: ParseQuery_Encode)
    ultimately show ?thesis using np c by blast
  qed
qed

definition code_query :: "string \<rightharpoonup> string" where
  "code_query = [''client_id'' \<mapsto> ''wallet'', ''redirect_uri'' \<mapsto> ''https://wallet/cb'',
     ''response_type'' \<mapsto> ''code'', ''code_challenge'' \<mapsto> replicate 43 (CHR ''a''),
     ''code_challenge_method'' \<mapsto> ''S256'', ''scope'' \<mapsto> ''openid'']"

definition query_request :: "(string \<rightharpoonup> string) \<Rightarrow> string \<Rightarrow> request" where
  "query_request q qs = base_request\<lparr>rq_query := q, rq_query_string := qs\<rparr>"

lemma query_request_simps [simp]:
  "rq_query (query_request q qs) = q" "rq_query_string (query_request q qs) = qs"
  by (simp_all add: query_request_def)

lemma code_query_simps [simp]:
  "code_query ''client_id'' = Some ''wallet''" "code_query ''redirect_uri'' = Some ''https://wallet/cb''"
  "code_query ''response_type'' = Some ''code''" "code_query ''code_challenge'' = Some (replicate 43 (CHR ''a''))"
  "code_query ''code_challenge_method'' = Some ''S256''" "code_query ''scope'' = Some ''openid''"
  "code_query ''request_uri'' = None" "code_query ''state'' = None"
  by (simp_all add: code_query_def)

lemma wallet_redirect [simp]: "''https://wallet/cb'' \<in> set (cl_RedirectURI wallet_client)"
  by (simp add: wallet_client_def)

lemma openid_supported [simp]: "IsScopeSupported sample_store ''openid''"
  by (simp add: IsScopeSupported_def sample_store_def Supported_def)

lemma code_query_valid: "valid_code_request sample_env sample_store code_query ''wallet''"
  by (simp add: valid_code_request_def)

theorem authorize_redirects_witness:
  "\<exists>c. valid_code_request sample_env sample_store (rq_query (query_request code_query ''a=b'')) c"
proof -
  have g: "\<not> given (rq_query (query_request code_query ''a=b'') ''request_uri'')"
    by (simp add: given_def)
  have r: "content (result_of (authorizationV3 sample_env sample_router (query_request code_query ''a=b'')) (world_with []))
      = Redirect ''/authorize?a=b''"
    using g authorize_checks_valid [of sample_env sample_store "query_request code_query ''a=b''" "''wallet''"] code_query_valid
    by (simp add: authorizationV3_def authorizeDelegatePath_def)
  from authorize_redirects [OF g r] show ?thesis
    by (auto simp: HasPrefix_iff)
qed

section \<open>Pushed authorization requests\<close>

text \<open>
  C15: a request_uri is handed out only to an attested wallet that pushes a valid code request in
  its own name; what is stored decodes to exactly the parameters it posted, in key order.
\<close>

theorem pushed_request_sound:
  assumes "content (result_of (par E R rq) w) = JSON 201 b"
  shows "\<exists>a res i w1. ro_attest R = Some a
     \<and> result_of (at_Verify a (rq_header rq ''OAuth-Client-Attestation'') (rq_header rq ''OAuth-Client-Attestation-PoP'')) w = Inr res
     \<and> valid_code_request E (ro_Store R) (rq_form rq) (ar_ClientID res)
     \<and> b = JsonBody (JObj [(''request_uri'', JStr (''urn:ietf:params:oauth:request_uri:'' @ i)),
                           (''expires_in'', JInt (whole_seconds (ro_PARTTL R)))])
     \<and> result_of (SetPAR E \<lparr>par_ClientID = ar_ClientID res, par_RawQuery = Values_Encode (rq_post_args rq)\<rparr>) w1 = Inr i
     \<and> ParseQuery (Values_Encode (rq_post_args rq)) = Some (sort_key fst (rq_post_args rq))"
proof -
  obtain a where a: "ro_attest R = Some a"
    using assms by (cases "ro_attest R") (simp_all add: par_def)
  let ?v = "at_Verify a (rq_header rq ''OAuth-Client-Attestation'') (rq_header rq ''OAuth-Client-Attestation-PoP'')"
  obtain res where v: "result_of ?v w = Inr res"
    using assms a by (cases "result_of ?v w") (simp_all add: par_def)
  have nocheck: "content r \<noteq> JSON 201 b" if "par_checks E (ro_Store R) rq (ar_ClientID res) = Inl r" for r
    using that by (auto simp: par_checks_def split: option.splits sum.splits if_splits)
  obtain c where c: "par_checks E (ro_Store R) rq (ar_ClientID res) = Inr c"
    using assms a v nocheck by (cases "par_checks E (ro_Store R) rq (ar_ClientID res)") (auto simp: par_def)
  have cv: "c = ar_ClientID res" "valid_code_request E (ro_Store R) (rq_form rq) c"
    using c unfolding par_checks_Inr by auto
  let ?w1 = "world_after ?v w"
  let ?s = "SetPAR E \<lparr>par_ClientID = c, par_RawQuery = Values_Encode (rq_post_args rq)\<rparr>"
  obtain i where i: "result_of ?s ?w1 = Inr i"
    using assms a v c by (cases "result_of ?s ?w1") (simp_all add: par_def)
  have "b = JsonBody (JObj [(''request_uri'', JStr (parURNPrefix @ i)), (''expires_in'', JInt (whole_seconds (ro_PARTTL R)))])"
    using assms a v c i by (simp add: par_def)
  with a v cv i show ?thesis
    unfolding parURNPrefix_def using ParseQuery_Encode by blast
qed

definition pushing_request :: request where
  "pushing_request = base_request\<lparr>rq_form := code_query,
     rq_post_args := [(''scope'', ''openid''), (''client_id'', ''wallet'')],
     rq_header := (\<lambda>k. if k = ''OAuth-Client-Attestation'' then ''wia''
                       else if k = ''OAuth-Client-Attestation-PoP'' then ''pop'' else [])\<rparr>"

lemma pushing_request_simps [simp]:
  "rq_form pushing_request = code_query"
  "rq_post_args pushing_request = [(''scope'', ''openid''), (''client_id'', ''wallet'')]"
  "rq_header pushing_request ''OAuth-Client-Attestation'' = ''wia''"
  "rq_header pushing_request ''OAuth-Client-Attestation-PoP'' = ''pop''"
  by (simp_all add: pushing_request_def)

lemma sample_push:
  "\<exists>b. content (result_of (par sample_env sample_router pushing_request) (world_with [])) = JSON 201 b"
proof -
  have "par_checks sample_env sample_store pushing_request ''wallet'' = Inr ''wallet''"
    using code_query_valid by (simp add: par_checks_Inr)
  then show ?thesis by (simp add: par_def SetPAR_def all_ttls_def cache_names)
qed

theorem pushed_request_sound_witness:
  "valid_code_request sample_env sample_store (rq_form pushing_request) ''wallet''"
proof -
  obtain b where "content (result_of (par sample_env sample_router pushing_request) (world_with [])) = JSON 201 b"
    using sample_push by blast
  from pushed_request_sound [OF this] show ?thesis by auto
qed




text \<open>
  A request_uri is good for one redirect. Once it was presented it is refused as invalid or
  expired, whoever presents it, even when the first attempt failed because it named another
  client; the attempt of a stranger therefore burns the request.
\<close>

theorem pushed_request_single_use:
  assumes "cache_api E live"
    and "given (rq_query rq ''client_id'')" and "result_of (PopPAR E i) w = Inr item"
    and "shrinks (held_par live w2)
       (held_par live (world_after (authorizationV3FromPAR E rq (parURNPrefix @ i)) w))"
    and "given (rq_query rq2 ''client_id'')"
  shows "content (result_of (authorizationV3FromPAR E rq2 (parURNPrefix @ i)) w2)
     = content (badAuthRequest ''invalid or expired request_uri'')"
proof -
  have w: "world_after (authorizationV3FromPAR E rq (parURNPrefix @ i)) w = world_after (PopPAR E i) w"
    using assms(2) by (simp add: authorizationV3FromPAR_def)
  obtain e where "result_of (PopPAR E i) w2 = Inl e"
    using cache_api.par_gone [OF assms(1,3)] assms(4) w by auto
  with assms(5) show ?thesis by (simp add: authorizationV3FromPAR_def)
qed

theorem pushed_request_single_use_witness:
  "content (result_of (authorizationV3FromPAR sample_env (query_request [''client_id'' \<mapsto> ''wallet''] []) (parURNPrefix @ ''P''))
     (world_after (authorizationV3FromPAR sample_env (query_request [''client_id'' \<mapsto> ''stranger''] []) (parURNPrefix @ ''P''))
        (world_with [((parCacheName, ''P''), PARVal \<lparr>par_ClientID = ''wallet'', par_RawQuery = []\<rparr>)])))
     = JSON 400 (JsonBody (JObj [(''error'', JStr ''invalid_request''),
         (''error_description'', JStr ''invalid or expired request_uri'')]))"
proof -
  let ?w = "world_with [((parCacheName, ''P''), PARVal \<lparr>par_ClientID = ''wallet'', par_RawQuery = []\<rparr>)]"
  have "result_of (PopPAR sample_env ''P'') ?w = Inr \<lparr>par_ClientID = ''wallet'', par_RawQuery = []\<rparr>"
    by (simp add: PopPAR_def cache_Pop_def cache_read_def)
  from pushed_request_single_use [OF mem.cache_api_axioms _ this, of "query_request [''client_id'' \<mapsto> ''stranger''] []"
      _ "query_request [''client_id'' \<mapsto> ''wallet''] []"]
  show ?thesis by (simp add: given_def)
qed

end
