(* ===== verification/Properties_Sessions.thy ===== *)
theory Properties_Sessions
  imports Properties_Token Provider_Common Json_Roundtrip
begin

text \<open>
  Properties that follow a login through the components: the refinement of the one-time refresh
  tokens, completeness of the code grant, what introspection tells about a session, and the way of
  the provider's claims from the callback to introspection.
\<close>

section \<open>Refresh tokens as a one-time machine\<close>

text \<open>
  The abstract machine: a finite map from token hashes to what they stand for, from which entries
  may get lost. A refusal at most loses entries; a grant takes one entry away and may put one
  back, for the same client, scope and key.
\<close>

definition stored_refresh ::
    "('w \<Rightarrow> string \<times> string \<Rightarrow> cache_value option) \<Rightarrow> 'w \<Rightarrow> string \<Rightarrow> RefreshTokenItem option" where
  "stored_refresh live w h = Option.bind (live w (refreshTokenCacheName, h)) as_Refresh"

definition same_grant :: "RefreshTokenItem \<Rightarrow> RefreshTokenItem \<Rightarrow> bool" where
  "same_grant i j \<longleftrightarrow> rt_ClientID j = rt_ClientID i \<and> rt_Scope j = rt_Scope i \<and> rt_JKT j = rt_JKT i
     \<and> se_Subject (rt_Session j) = se_Subject (rt_Session i)"

inductive rt_step ::
    "(string \<rightharpoonup> RefreshTokenItem) \<Rightarrow> string option \<Rightarrow> (string \<rightharpoonup> RefreshTokenItem) \<Rightarrow> bool" where
  rt_refuse: "shrinks m' m \<Longrightarrow> rt_step m None m'"
| rt_last: "m h = Some i \<Longrightarrow> shrinks m' (m(h := None)) \<Longrightarrow> rt_step m (Some (rt_JKT i)) m'"
| rt_rotate: "m h = Some i \<Longrightarrow> same_grant i j \<Longrightarrow> shrinks m' ((m(h := None))(h' \<mapsto> j)) \<Longrightarrow>
    rt_step m (Some (rt_JKT i)) m'"

lemma shrinks_stored: "shrinks (live w) (live w') \<Longrightarrow> shrinks (stored_refresh live w) (stored_refresh live w')"
  unfolding stored_refresh_def by (rule shrinks_bind [where live = live])

lemma shrinks_upd: "shrinks a b \<Longrightarrow> shrinks (a(k \<mapsto> v)) (b(k \<mapsto> v))"
  by (auto simp: shrinks_def)

lemma shrinks_drop: "shrinks a b \<Longrightarrow> a k = None \<Longrightarrow> shrinks a (b(k := None))"
  by (auto simp: shrinks_def)

lemma shrinks_stored_upd:
  assumes "shrinks (live w') ((live w)((refreshTokenCacheName, h) \<mapsto> RefreshVal j))"
  shows "shrinks (stored_refresh live w') ((stored_refresh live w)(h \<mapsto> j))"
proof (rule shrinksI)
  fix k
  from shrinksD [OF assms, of "(refreshTokenCacheName, k)"]
  show "stored_refresh live w' k = None
      \<or> stored_refresh live w' k = ((stored_refresh live w)(h \<mapsto> j)) k"
    by (cases "k = h") (auto simp: stored_refresh_def)
qed

lemma template_subject [simp]: "se_Subject (template_after_bind s jkt) = se_Subject s"
  by (simp add: template_after_bind_def split: option.splits)

context cache_api
begin

lemma redeem_stored:
  assumes "result_of (RedeemRefreshToken E t) w = Inr i"
  shows "stored_refresh live w (hashRefreshToken t) = Some i
     \<and> shrinks (stored_refresh live (world_after (RedeemRefreshToken E t) w))
         ((stored_refresh live w)(hashRefreshToken t := None))"
proof -
  note tk = refresh_taken [OF assms]
  have "shrinks (live (world_after (RedeemRefreshToken E t) w)) (live w)"
    unfolding RedeemRefreshToken_def by (rule pop_shrinks)
  from shrinks_drop [OF shrinks_stored [where live = live, OF this], of "hashRefreshToken t"] tk
  show ?thesis by (simp add: stored_refresh_def held_refresh_def)
qed

lemma issue_stored:
  "shrinks (stored_refresh live (world_after (IssueRefreshToken E j) w)) (stored_refresh live w)
   \<or> (\<exists>h. shrinks (stored_refresh live (world_after (IssueRefreshToken E j) w)) ((stored_refresh live w)(h \<mapsto> j)))"
proof (cases "result_of (RandRead E 32) w")
  case (Inl e)
  then have "world_after (IssueRefreshToken E j) w = world_after (RandRead E 32) w"
    by (simp add: IssueRefreshToken_def)
  then show ?thesis using shrinks_stored [where live = live, OF rand_frame] by simp
next
  case (Inr buf)
  let ?h = "hashRefreshToken (RawEncodeToString URLAlphabet buf)"
  let ?w1 = "world_after (RandRead E 32) w"
  let ?w2 = "world_after (CacheSet E refreshTokenCacheName ?h (RefreshVal j)) ?w1"
  have w: "world_after (IssueRefreshToken E j) w = ?w2"
    using Inr by (simp add: IssueRefreshToken_def Let_def)
  have s1: "shrinks (stored_refresh live ?w1) (stored_refresh live w)"
    by (rule shrinks_stored [where live = live, OF rand_frame])
  from set_frame [of refreshTokenCacheName ?h "RefreshVal j" ?w1] show ?thesis
  proof
    assume "shrinks (live ?w2) ((live ?w1)((refreshTokenCacheName, ?h) \<mapsto> RefreshVal j))"
    then have "shrinks (stored_refresh live ?w2) ((stored_refresh live ?w1)(?h \<mapsto> j))"
      by (rule shrinks_stored_upd)
    from shrinks_trans [OF this shrinks_upd [OF s1]] w show ?thesis by auto
  next
    assume "shrinks (live ?w2) (live ?w1)"
    from shrinks_trans [OF shrinks_stored [where live = live, OF this] s1] w show ?thesis by auto
  qed
qed

lemma rotate_stored:
  fixes timeout jkt item w
  defines "m \<equiv> rotate_token E timeout jkt item"
  shows "\<not> grants_token (result_of m w) \<Longrightarrow> shrinks (stored_refresh live (world_after m w)) (stored_refresh live w)"
    and "shrinks (stored_refresh live (world_after m w)) (stored_refresh live w)
      \<or> (\<exists>h j. (rt_JKT item = jkt \<longrightarrow> same_grant item j)
            \<and> shrinks (stored_refresh live (world_after m w)) ((stored_refresh live w)(h \<mapsto> j)))"
proof -
  let ?now = "result_of (TimeNow E) w" and ?w1 = "world_after (TimeNow E) w"
  let ?sid = "result_of (UlidMake E) ?w1" and ?w2 = "world_after (UlidMake E) ?w1"
  let ?c = "SessionCreate E (refresh_session (rt_Session item) ?sid ?now jkt)"
  let ?w3 = "world_after ?c ?w2"
  have "shrinks (live ?w3) (live w)"
    using shrinks_trans [OF shrinks_trans [OF create_frame ulid_frame] now_frame] .
  then have s: "shrinks (stored_refresh live ?w3) (stored_refresh live w)"
    by (rule shrinks_stored [where live = live])
  let ?j = "\<lparr>rt_ClientID = rt_ClientID item, rt_Scope = rt_Scope item, rt_JKT = jkt,
       rt_Session = template_after_bind (rt_Session item) jkt\<rparr>"
  show "\<not> grants_token (result_of m w) \<Longrightarrow> shrinks (stored_refresh live (world_after m w)) (stored_refresh live w)"
    using s unfolding m_def by (cases "result_of ?c ?w2") (simp_all add: rotate_token_def)
  show "shrinks (stored_refresh live (world_after m w)) (stored_refresh live w)
      \<or> (\<exists>h j. (rt_JKT item = jkt \<longrightarrow> same_grant item j)
            \<and> shrinks (stored_refresh live (world_after m w)) ((stored_refresh live w)(h \<mapsto> j)))"
  proof (cases "result_of ?c ?w2")
    case (Inl e)
    with s show ?thesis unfolding m_def by (simp add: rotate_token_def)
  next
    case (Inr s')
    then have w: "world_after m w = world_after (IssueRefreshToken E ?j) ?w3"
      unfolding m_def by (simp add: rotate_token_def)
    have g: "rt_JKT item = jkt \<longrightarrow> same_grant item ?j" by (simp add: same_grant_def)
    from issue_stored [of ?j ?w3] show ?thesis
    proof
      assume "shrinks (stored_refresh live (world_after (IssueRefreshToken E ?j) ?w3)) (stored_refresh live ?w3)"
      from shrinks_trans [OF this s] w show ?thesis by simp
    next
      assume "\<exists>h. shrinks (stored_refresh live (world_after (IssueRefreshToken E ?j) ?w3)) ((stored_refresh live ?w3)(h \<mapsto> ?j))"
      then obtain h where "shrinks (stored_refresh live (world_after (IssueRefreshToken E ?j) ?w3)) ((stored_refresh live ?w3)(h \<mapsto> ?j))" ..
      from shrinks_trans [OF this shrinks_upd [OF s]] have "shrinks (stored_refresh live (world_after m w)) ((stored_refresh live w)(h \<mapsto> ?j))"
        unfolding w .
      with g show ?thesis by blast
    qed
  qed
qed

end

lemma refused_refresh_stored:
  assumes "cache_api E live" and "\<not> grants_token (result_of (HandleRefreshToken E rq timeout jkt) w)"
  shows "shrinks (stored_refresh live (world_after (HandleRefreshToken E rq timeout jkt) w)) (stored_refresh live w)"
proof -
  let ?t = "value_or [] (form_String rq ''refresh_token'')"
  let ?w1 = "world_after (RedeemRefreshToken E ?t) w"
  have "shrinks (live ?w1) (live w)"
    unfolding RedeemRefreshToken_def by (rule cache_api.pop_shrinks [OF assms(1)])
  then have s: "shrinks (stored_refresh live ?w1) (stored_refresh live w)"
    by (rule shrinks_stored [where live = live])
  show ?thesis
  proof (cases "jkt = [] \<or> ?t = []")
    case True
    then show ?thesis by (auto simp: HandleRefreshToken_def)
  next
    case ne: False
    show ?thesis
    proof (cases "result_of (RedeemRefreshToken E ?t) w")
      case (Inl e)
      with ne s show ?thesis by (simp add: HandleRefreshToken_def)
    next
      case (Inr item)
      show ?thesis
      proof (cases "rt_JKT item = jkt")
        case True
        have "\<not> grants_token (result_of (rotate_token E timeout jkt item) ?w1)"
          and w: "world_after (HandleRefreshToken E rq timeout jkt) w = world_after (rotate_token E timeout jkt item) ?w1"
          using assms(2) ne Inr True by (simp_all add: HandleRefreshToken_def)
        from shrinks_trans [OF cache_api.rotate_stored(1) [OF assms(1) this(1)] s] w show ?thesis by simp
      next
        case k: False
        with ne Inr s show ?thesis by (simp add: HandleRefreshToken_def)
      qed
    qed
  qed
qed

text \<open>
  C6: the refresh_token grant implements one-time tokens. Seen through the stored hashes, every run
  of the handler is a step of the abstract machine: a refused request at most loses entries, a
  granted one takes away the token it was given, of the key of its proof, and puts at most one
  token back, for the same client, scope, key and subject.
\<close>

theorem refresh_refines_one_time_tokens:
  assumes "cache_api E live"
  shows "rt_step (stored_refresh live w)
     (if grants_token (result_of (HandleRefreshToken E rq timeout jkt) w) then Some jkt else None)
     (stored_refresh live (world_after (HandleRefreshToken E rq timeout jkt) w))"
proof (cases "grants_token (result_of (HandleRefreshToken E rq timeout jkt) w)")
  case True
  obtain t item where r: "result_of (RedeemRefreshToken E t) w = Inr item" and k: "rt_JKT item = jkt"
    and w: "world_after (HandleRefreshToken E rq timeout jkt) w =
       world_after (rotate_token E timeout jkt item) (world_after (RedeemRefreshToken E t) w)"
    by (rule HandleRefreshToken_grants [OF True]) (rule that; assumption)
  let ?h = "hashRefreshToken t" and ?m = "stored_refresh live w"
  from cache_api.redeem_stored [OF assms r]
  have held: "?m ?h = Some item"
    and s: "shrinks (stored_refresh live (world_after (RedeemRefreshToken E t) w)) (?m(?h := None))" by blast+
  from cache_api.rotate_stored(2) [OF assms, of timeout jkt item "world_after (RedeemRefreshToken E t) w"]
  have "rt_step ?m (Some (rt_JKT item)) (stored_refresh live (world_after (HandleRefreshToken E rq timeout jkt) w))"
    unfolding w using k
    by (auto intro: rt_last [where m = ?m and h = ?h, OF held] shrinks_trans [OF _ s]
        rt_rotate [where m = ?m and h = ?h, OF held _ shrinks_trans [OF _ shrinks_upd [OF s]]])
  with True k show ?thesis by simp
next
  case False
  with refused_refresh_stored [OF assms False] show ?thesis by (simp add: rt_refuse)
qed

theorem refresh_refines_one_time_tokens_witness:
  "rt_step (stored_refresh mem_live refresh_world) (Some ''JKT'')
     (stored_refresh mem_live (world_after (HandleRefreshToken sample_env (bff_request refresh_form)
        3600000000000 ''JKT'') refresh_world))"
  using refresh_refines_one_time_tokens [OF mem.cache_api_axioms, of refresh_world sample_config
      "bff_request refresh_form" 3600000000000 "''JKT''"] sample_refresh_grant by simp

section \<open>The code grant\<close>

text \<open>
  C14: completeness of the authorization_code grant. An authenticated client that presents a stored
  code with its verifier and redirect URI does get a token, provided that the session store and the
  cache accept the request's writes; a failing audit or a failing refresh token is no obstacle.
\<close>

theorem code_grant_complete:
  assumes "result_of (authenticate E rq jkt attest) w = Inr auth"
    and "result_of (cache_Get as_AuthCode zero_AuthCodeItem E authCodeCache (value_or [] (form_String rq ''code'')))
        (world_after (authenticate E rq jkt attest) w) = Inr item"
    and "ac_CodeChallengeMethod item = ''S256''"
    and "ac_CodeChallenge item = GenerateCodeChallenge (value_or [] (form_String rq ''code_verifier''))"
    and "ac_RedirectURI item = value_or [] (form_String rq ''redirect_uri'')"
    and "fst auth \<longrightarrow> ac_ClientID item = snd auth"
    and "\<And>s w. \<exists>s'. result_of (SessionCreate E s) w = Inr s'"
    and "\<And>c w. result_of (DeleteItem E c) w = None"
  shows "grants_token (result_of (HandleAuthorization E rq timeout jkt attest) w)"
proof -
  have c: "result_of (check_code E rq auth) (world_after (authenticate E rq jkt attest) w) = Inr item"
    using assms(2-6) by (simp add: check_code_def GetItem_def check_challenge_def Let_def)
  have i: "grants_token (result_of (issue_token E rq timeout jkt (snd auth) item) w2)" for w2
  proof -
    let ?w = "world_after (UlidMake E) (world_after (TimeNow E) w2)"
    let ?s = "bind_session (ac_Session item) (result_of (UlidMake E) (world_after (TimeNow E) w2))
        (result_of (TimeNow E) w2) jkt"
    obtain s' where "result_of (SessionCreate E ?s) ?w = Inr s'" using assms(7) by blast
    then show ?thesis using assms(8) by (simp add: issue_token_def Let_def)
  qed
  show ?thesis using assms(1) c i by (simp add: HandleAuthorization_def)
qed

abbreviation code_world :: mem where
  "code_world \<equiv> world_with [((authCodeCache, ''C1''), AuthCodeVal sample_item)]"

theorem code_grant_complete_witness:
  "grants_token (result_of (HandleAuthorization sample_env (bff_request code_form) 3600000000000 [] None) code_world)"
proof (rule code_grant_complete [where auth = "(False, ''bff'')" and item = sample_item])
  show "result_of (authenticate sample_env (bff_request code_form) [] None) code_world = Inr (False, ''bff'')"
    by (simp add: authenticate_def authenticate_confidential_def requires_dpop_def bff_client_def)
  then show "result_of (cache_Get as_AuthCode zero_AuthCodeItem sample_env authCodeCache
      (value_or [] (form_String (bff_request code_form) ''code'')))
      (world_after (authenticate sample_env (bff_request code_form) [] None) code_world) = Inr sample_item"
    by (simp add: form_String_def code_form_def cache_Get_def cache_read_def authenticate_def)
qed (simp_all add: sample_item_def form_String_def code_form_def DeleteItem_def)


section \<open>Introspection\<close>

text \<open>
  C12: introspection tells that a token is active only to a caller that authenticated as a
  registered client (or to anybody, when the configuration says so), and only for the session the
  token names, which is active; subject, scope, expiry, token type and confirmation key are that
  session's.
\<close>

theorem introspection_active_sound:
  assumes "content (result_of (introspection E R rq) w) = JSON st (JsonBody (JObj fs))"
    and "map_of fs ''active'' = Some (JBool True)"
  shows "\<exists>tok sess. form_String rq ''token'' = Inr tok \<and> tok \<noteq> []
     \<and> result_of (GetSessionByID E tok) w = Inr (Some sess) \<and> SessionIsActive E sess
     \<and> ((\<exists>i s client. basic_credentials (rq_header rq ''Authorization'') = BasicCredentials i s
            \<and> GetClient E i = Inr (Some client) \<and> s \<in> set (cl_Secrets client))
        \<or> (\<not> isBasicAuthScheme (rq_header rq ''Authorization'') \<and> \<not> ro_RequireIntrospectionAuth R))
     \<and> map_of fs ''sub'' = Some (JStr (se_Subject sess)) \<and> map_of fs ''scope'' = Some (JStr (se_Scope sess))
     \<and> map_of fs ''exp'' = Some (JInt (introspection_exp sess (ro_SessionTimeout R)))
     \<and> map_of fs ''token_type'' = Some (JStr (token_type (map_index (se_Metadata sess) dpop_jkt_key)))
     \<and> map_of fs ''cnf'' = (if map_index (se_Metadata sess) dpop_jkt_key = [] then None
          else Some (JObj [(''jkt'', JStr (map_index (se_Metadata sess) dpop_jkt_key))]))"
proof -
  let ?tok = "value_or [] (form_String rq ''token'')"
  have bad: "r = SetHeader c (error_json n es) \<Longrightarrow> content r = JSON st (JsonBody (JObj fs)) \<Longrightarrow>
      ''active'' \<in> fst ` set es" for r c n es
    using assms(2) by (auto simp: error_json_def dest!: map_of_SomeD)
  have a: "introspection_auth E R rq = None"
  proof (cases "introspection_auth E R rq")
    case (Some r)
    then have "r = SetHeader IntrospectionInvalidClient (error_json 401 [(''error'', ''invalid_client'')])
        \<or> r = SetHeader IntrospectionAuthRequired (error_json 401
             [(''error'', ''invalid_client''), (''error_description'', ''client authentication required'')])"
      by (auto simp: introspection_auth_def Let_def split: if_splits option.splits sum.splits)
    moreover have "content r = JSON st (JsonBody (JObj fs))"
      using Some assms(1) by (simp add: introspection_def)
    ultimately show ?thesis using bad by fastforce
  qed
  have t: "?tok \<noteq> []"
    using a assms by (auto simp: introspection_def error_json_def dest!: map_of_SomeD)
  then obtain tok where tok: "form_String rq ''token'' = Inr tok" "tok \<noteq> []"
    by (cases "form_String rq ''token''") simp_all
  obtain sess where s: "result_of (GetSessionByID E tok) w = Inr (Some sess)" "SessionIsActive E sess"
    and fs: "fs = buildIntrospectionResponse sess (ro_PublicURL R) (ro_SessionTimeout R)"
    using a tok assms
    by (auto simp: introspection_def inactive_def split: sum.splits option.splits if_splits)
  have "(\<exists>i s client. basic_credentials (rq_header rq ''Authorization'') = BasicCredentials i s
            \<and> GetClient E i = Inr (Some client) \<and> s \<in> set (cl_Secrets client))
        \<or> (\<not> isBasicAuthScheme (rq_header rq ''Authorization'') \<and> \<not> ro_RequireIntrospectionAuth R)"
    using introspection_auth_None [OF a] by (blast dest: parseBasicAuth_basic)
  with tok s show ?thesis
    by (intro exI [of _ tok] exI [of _ sess])
       (simp add: fs buildIntrospectionResponse_def Let_def token_type_def)
qed

definition introspection_request :: "string \<Rightarrow> request" where
  "introspection_request tok = bff_request [''token'' \<mapsto> tok]"

abbreviation session_world :: mem where
  "session_world \<equiv> mem_init\<lparr>m_sessions := [''S1'' \<mapsto> sample_session]\<rparr>"

theorem introspection_active_sound_witness:
  "\<exists>fs. content (result_of (introspection sample_env sample_router (introspection_request ''S1'')) session_world)
       = JSON 200 (JsonBody (JObj fs))
     \<and> map_of fs ''sub'' = Some (JStr ''alice'') \<and> map_of fs ''cnf'' = None"
proof -
  have r: "\<exists>fs. content (result_of (introspection sample_env sample_router (introspection_request ''S1'')) session_world)
       = JSON 200 (JsonBody (JObj fs)) \<and> map_of fs ''active'' = Some (JBool True)"
    by (simp add: introspection_def introspection_auth_def introspection_request_def form_String_def
        bff_client_def sample_session_def buildIntrospectionResponse_def Let_def)
  then obtain fs where fs: "content (result_of (introspection sample_env sample_router (introspection_request ''S1''))
      session_world) = JSON 200 (JsonBody (JObj fs))" "map_of fs ''active'' = Some (JBool True)" by blast
  from introspection_active_sound [OF this] show ?thesis
    using fs(1) by (auto simp: introspection_request_def form_String_def sample_session_def zero_Session_def
        map_index_def)
qed

section \<open>The provider's claims\<close>

lemma map_of_sort_key:
  assumes "distinct (map fst fs)"
  shows "map_of (sort_key fst fs) = map_of fs"
proof -
  have "distinct (map fst (sort_key fst fs))"
    using assms by (simp add: distinct_map)
  with assms show ?thesis by (simp add: map_of_inject_set)
qed

lemma map_of_norm: "map_of (map (\<lambda>f. (fst f, json_norm (snd f))) fs) k = map_option json_norm (map_of fs k)"
  by (induction fs) auto

text \<open>
  C21: round trip of the provider's claims. What a callback writes into the session's metadata, and
  what the redemption of the code adds to it, come back from introspection claim by claim: a
  claim is the named one of the session when there is one, and otherwise the provider's, up to the
  normal form of its JSON (numbers as \<open>float64\<close> texts, members sorted).
\<close>

theorem extra_claims_roundtrip:
  assumes "json_ok (JObj raw)" and "json_depth (JObj raw) \<le> maxNestingDepth"
  shows "\<exists>md. callback_metadata raw = Inr md
     \<and> (let s = bind_session (callback_session E user t md) sid now jkt in
         map_of (session_claims s) k =
           (case map_of (named_claims s) k of Some v \<Rightarrow> Some v | None \<Rightarrow> map_option json_norm (map_of raw k)))"
proof (cases "raw = []")
  case True
  then show ?thesis
    by (auto simp: callback_metadata_def session_claims_def bind_session_def Let_def callback_session_def
        map_index_def map_alloc_put_def dpop_jkt_key_def split: option.splits)
next
  case False
  let ?txt = "json_text (JObj raw)"
  let ?md = "Some [extraClaimsMetadataKey \<mapsto> ?txt] :: strmap"
  let ?s = "bind_session (callback_session E user t ?md) sid now jkt"
  have m: "map_index (se_Metadata ?s) ''extra_claims'' = ?txt"
    by (simp add: bind_session_def Let_def callback_session_def map_index_def map_alloc_put_def
        dpop_jkt_key_def extraClaimsMetadataKey_def)
  have n: "?txt \<noteq> []" by simp
  have u: "Unmarshal_map ?txt = Some (sort_key fst (map (\<lambda>f. (fst f, json_norm (snd f))) raw))"
    using json_parse_text [OF assms] by (simp add: Unmarshal_map_def)
  have d: "distinct (map fst (map (\<lambda>f. (fst f, json_norm (snd f))) raw))"
    using assms(1) by (simp add: comp_def)
  have "session_claims ?s = add_extra (named_claims ?s) (sort_key fst (map (\<lambda>f. (fst f, json_norm (snd f))) raw))"
    unfolding session_claims_def Let_def m using n u by simp
  then show ?thesis
    using False
    by (intro exI [of _ ?md])
       (simp add: callback_metadata_def json_Marshal_def Let_def map_of_add_extra map_of_sort_key [OF d] map_of_norm
         split: option.split)
qed

theorem extra_claims_roundtrip_witness:
  "\<exists>md. callback_metadata [(''email'', JStr ''a@b'')] = Inr md
     \<and> map_of (session_claims (bind_session (callback_session sample_env
          \<lparr>ud_UserID = ''alice'', ud_PersonCode = [], ud_FirstName = [], ud_LastName = [], ud_Email = []\<rparr> 0 md)
          ''S1'' 0 ''JKT'')) ''email'' = Some (JStr ''a@b'')"
proof -
  have ok: "json_ok (JObj [(''email'', JStr ''a@b'')])"
    "json_depth (JObj [(''email'', JStr ''a@b'')]) \<le> maxNestingDepth"
    by (simp_all add: valid_utf8.simps maxNestingDepth_def byte_def)
  from extra_claims_roundtrip [OF this, of sample_env "\<lparr>ud_UserID = ''alice'', ud_PersonCode = [],
      ud_FirstName = [], ud_LastName = [], ud_Email = []\<rparr>" 0 "''S1''" 0 "''JKT''" "''email''"]
  show ?thesis
    by (simp add: Let_def named_claims_def bind_session_def callback_session_def)
qed

section \<open>From the login to introspection\<close>





end
