(* ===== verification/Metadata_Endpoints.thy ===== *)
theory Metadata_Endpoints
  imports Introspection
begin

text \<open>
  The endpoints without state: \<open>routes/wellknown.go\<close> (authorization server metadata, Android and
  Apple app links) and \<open>routes/healthz.go\<close>.
\<close>

definition json_reply :: "json \<Rightarrow> reply" where
  "json_reply j = respond (JSON 200 (JsonBody j))"

definition strings :: "string list \<Rightarrow> json" where
  "strings ss = JArr (map JStr ss)"

section \<open>\<open>wellknown.go\<close>\<close>

definition server_metadata :: "string \<Rightarrow> bool \<Rightarrow> (string \<times> json) list" where
  "server_metadata publicURL requirePAR =
     [(''issuer'', JStr publicURL),
      (''authorization_endpoint'', JStr (publicURL @ ''/authorizationV3'')),
      (''token_endpoint'', JStr (publicURL @ ''/api/1.0/token'')),
      (''grant_types_supported'', strings [''authorization_code'', ''refresh_token'',
         ''urn:ietf:params:oauth:grant-type:pre-authorized_code'']),
      (''pre-authorized_grant_anonymous_access_supported'', JBool True),
      (''response_types_supported'', strings [''code'']),
      (''code_challenge_methods_supported'', strings [''S256'']),
      (''token_endpoint_auth_methods_supported'', strings [''none'', ''private_key_jwt'', ''attest_jwt_client_auth'']),
      (''client_attestation_signing_alg_values_supported'', strings [''ES256'']),
      (''client_attestation_pop_signing_alg_values_supported'', strings [''ES256'']),
      (''pushed_authorization_request_endpoint'', JStr (publicURL @ ''/par'')),
      (''require_pushed_authorization_requests'', JBool requirePAR),
      (''dpop_signing_alg_values_supported'', strings [''ES256'']),
      (''introspection_endpoint'', JStr (publicURL @ ''/introspection'')),
      (''introspection_endpoint_auth_methods_supported'', strings [''client_secret_basic''])]"

definition oauthAuthorizationServerMeta :: "('w, 'k) router \<Rightarrow> reply" where
  "oauthAuthorizationServerMeta R =
     json_reply (JObj (server_metadata (ro_PublicURL R) (ro_RequirePAR R)))"

definition assetLinks :: "string \<Rightarrow> string list \<Rightarrow> reply" where
  "assetLinks pkg fingerprints =
     (if pkg = [] \<or> length fingerprints = 0 then respond (StatusOnly 404)
      else json_reply (JArr [JObj
        [(''relation'', strings [''delegate_permission/common.handle_all_urls'']),
         (''target'', JObj [(''namespace'', JStr ''android_app''), (''package_name'', JStr pkg),
            (''sha256_cert_fingerprints'', strings fingerprints)])]]))"

definition appleAppSiteAssociation :: "string list \<Rightarrow> reply" where
  "appleAppSiteAssociation appIDs =
     (if length appIDs = 0 then respond (StatusOnly 404)
      else json_reply (JObj [(''applinks'', JObj [(''details'', JArr [JObj
        [(''appIDs'', strings appIDs),
         (''components'', JArr [JObj [(''/'', JStr ''/*'')]])]])])]))"

section \<open>\<open>healthz.go\<close>\<close>

datatype HealthzStatus = HealthzPass | HealthzFail | HealthzWarn

fun status_text :: "HealthzStatus \<Rightarrow> string" where
  "status_text HealthzPass = ''pass''"
| "status_text HealthzFail = ''fail''"
| "status_text HealthzWarn = ''warn''"

definition healthz :: "string \<Rightarrow> reply" where
  "healthz appName = json_reply (JObj
     [(''status'', JStr (status_text HealthzPass)), (''description'', JStr appName)])"

end
