(* ===== verification/Providers.thy ===== *)
theory Providers
  imports OAuth2_Generic
begin

text \<open>
  The adapters between the application and \<open>lx-idauth\<close>: the table of identity providers
  (\<open>auth.go\<close>), the correlation store (\<open>correlation.go\<close>) and the audit provider (\<open>audit.go\<close>).
\<close>

section \<open>\<open>auth.go\<close>\<close>

record AuthProviderConfig =
  ap_ID :: string
  ap_Type :: string
  ap_Realm :: string

type_synonym authProvider = "string \<rightharpoonup> AuthProviderConfig"

definition builtin_providers :: authProvider where
  "builtin_providers =
     [''edim'' \<mapsto> \<lparr>ap_ID = ''edim'', ap_Type = ''edim'', ap_Realm = []\<rparr>,
      ''edim:same_device'' \<mapsto> \<lparr>ap_ID = ''edim:same_device'', ap_Type = ''edim'', ap_Realm = []\<rparr>,
      ''smartid'' \<mapsto> \<lparr>ap_ID = ''smartid'', ap_Type = ''smartid'', ap_Realm = []\<rparr>]"

definition generic_provider :: "string \<Rightarrow> AuthProviderConfig" where
  "generic_provider i = \<lparr>ap_ID = i, ap_Type = ''oauth2generic'', ap_Realm = []\<rparr>"

definition variant_id :: "string \<Rightarrow> Variant \<Rightarrow> string" where
  "variant_id i v = i @ '':'' @ ToLower (va_ID v)"

fun add_variants :: "string \<Rightarrow> Variant list \<Rightarrow> authProvider \<Rightarrow> authProvider" where
  "add_variants i [] m = m"
| "add_variants i (v # vs) m =
     add_variants i vs (m(variant_id i v \<mapsto> generic_provider (variant_id i v)))"

fun add_clients :: "(string \<times> ClientConfig) list \<Rightarrow> authProvider \<Rightarrow> authProvider" where
  "add_clients [] m = m"
| "add_clients ((i, c) # cs) m =
     add_clients cs (add_variants (ToLower i) (cf_Variants c)
       (m(ToLower i \<mapsto> generic_provider (ToLower i))))"

definition newAuthProvider :: "(string \<times> ClientConfig) list \<Rightarrow> authProvider" where
  "newAuthProvider clients = add_clients clients builtin_providers"

text \<open>\<open>slices.Collect(maps.Values(...))\<close> has no order: the model keeps the set.\<close>

definition GetAllProviders :: "authProvider \<Rightarrow> AuthProviderConfig set" where
  "GetAllProviders a = ran a"

definition GetAvailableProviders :: "authProvider \<Rightarrow> string \<Rightarrow> AuthProviderConfig set" where
  "GetAvailableProviders a clientID = ran a"

definition GetProvider :: "authProvider \<Rightarrow> string \<Rightarrow> go_error + AuthProviderConfig" where
  "GetProvider a i = (case a i of Some p \<Rightarrow> Inr p | None \<Rightarrow> Inl (ErrorsNew ''provider not found''))"

record GetUserDataRequest =
  gu_Code :: string
  gu_FirstName :: string
  gu_LastName :: string

definition GetUserData :: "authProvider \<Rightarrow> GetUserDataRequest \<Rightarrow> UserData" where
  "GetUserData a data = \<lparr>ud_UserID = gu_Code data, ud_PersonCode = gu_Code data,
     ud_FirstName = gu_FirstName data, ud_LastName = gu_LastName data, ud_Email = []\<rparr>"

section \<open>\<open>correlation.go\<close>\<close>

datatype correlation_error =
    CorrelationStoreError go_error
  | CorrelationProblem string string     \<comment> \<open>the problem's code and detail\<close>

text \<open>\<open>Get\<close> wraps the store's \<open>Get\<close>, whose result is the argument; no correlation is an error.\<close>

definition correlationStore_Get :: "go_error + Correlation option \<Rightarrow> correlation_error + Correlation" where
  "correlationStore_Get r =
     (case r of
        Inl e \<Rightarrow> Inl (CorrelationStoreError e)
      | Inr None \<Rightarrow> Inl (CorrelationProblem ''err:callback:correlationNotFound''
          ''correlation cookie missing or its session expired'')
      | Inr (Some cor) \<Rightarrow> Inr cor)"

section \<open>\<open>audit.go\<close>\<close>

definition event_audit :: "request \<Rightarrow> Session \<Rightarrow> string \<Rightarrow> AuditRequest" where
  "event_audit rq sess code =
     \<lparr>au_ClientID = ''idauth'', au_Endpoint = rq_router_path rq, au_Action = code,
      au_GivenName = se_FirstName sess, au_FamilyName = se_LastName sess,
      au_Identifier = se_Subject sess, au_IPAddress = rq_ip rq, au_UserAgent = rq_user_agent rq,
      au_Bearer = se_ID sess\<rparr>"

text \<open>The loop over the event codes; the result is the HTTP status of the response it builds.\<close>

fun SaveEvent :: "'w env \<Rightarrow> request \<Rightarrow> Session \<Rightarrow> string list \<Rightarrow> ('w, nat) state" where
  "SaveEvent E rq sess [] = return 200"
| "SaveEvent E rq sess (code # codes) = do {
     err \<leftarrow> PersonRequest E (event_audit rq sess code);
     (case err of Some e \<Rightarrow> return 500 | None \<Rightarrow> SaveEvent E rq sess codes) }"

section \<open>Facts\<close>

lemma dom_add_variants: "dom (add_variants i vs m) = dom m \<union> variant_id i ` set vs"
  by (induction vs arbitrary: m) auto

definition client_ids :: "string \<times> ClientConfig \<Rightarrow> string set" where
  "client_ids ic = insert (ToLower (fst ic)) (variant_id (ToLower (fst ic)) ` set (cf_Variants (snd ic)))"

lemma dom_add_clients: "dom (add_clients cs m) = dom m \<union> (\<Union>ic\<in>set cs. client_ids ic)"
proof (induction cs arbitrary: m)
  case (Cons ic cs)
  obtain i c where ic: "ic = (i, c)" by (cases ic)
  show ?case by (simp add: ic Cons dom_add_variants client_ids_def Un_assoc)
qed simp

lemma newAuthProvider_has:
  "ic \<in> set cs \<Longrightarrow> i \<in> client_ids ic \<Longrightarrow> i \<in> dom (newAuthProvider cs)"
  unfolding newAuthProvider_def dom_add_clients by blast

lemma newAuthProvider_builtin: "dom builtin_providers \<subseteq> dom (newAuthProvider cs)"
  unfolding newAuthProvider_def dom_add_clients by blast

text \<open>Every provider is filed under its own id.\<close>

definition ids_match :: "authProvider \<Rightarrow> bool" where
  "ids_match a \<longleftrightarrow> (\<forall>i p. a i = Some p \<longrightarrow> ap_ID p = i)"

lemma ids_match_put: "ids_match m \<Longrightarrow> ids_match (m(i \<mapsto> generic_provider i))"
  by (auto simp: ids_match_def generic_provider_def)

lemma ids_match_variants: "ids_match m \<Longrightarrow> ids_match (add_variants i vs m)"
  by (induction vs arbitrary: m) (simp_all add: ids_match_put)

lemma ids_match_clients: "ids_match m \<Longrightarrow> ids_match (add_clients cs m)"
proof (induction cs arbitrary: m)
  case (Cons ic cs)
  obtain i c where ic: "ic = (i, c)" by (cases ic)
  show ?case
    unfolding ic add_clients.simps by (rule Cons.IH) (rule ids_match_variants, rule ids_match_put, rule Cons.prems)
qed simp

lemma newAuthProvider_ids: "ids_match (newAuthProvider cs)"
  unfolding newAuthProvider_def
  by (rule ids_match_clients) (simp add: ids_match_def builtin_providers_def)

end
