(* ===== verification/Service_Router.thy ===== *)
theory Service_Router
  imports Metadata_Endpoints Providers Smart_Id Edim Attestation
begin

text \<open>
  \<open>routes/router.go\<close>: \<open>Init\<close> builds the router's components, registers the routes and binds the
  identity providers; the components' constructors are those of their own theories. Creating a
  cache, building the verifier client and the routes \<open>lx-idauth\<close> adds itself are parameters.
\<close>

section \<open>Steps that may fail\<close>

definition attempt :: "('w, go_error option) state \<Rightarrow> ('w, go_error + 'a) state \<Rightarrow> ('w, go_error + 'a) state" where
  "attempt m k = do { r \<leftarrow> m; (case r of Some e \<Rightarrow> return (Inl e) | None \<Rightarrow> k) }"

definition attempt_value :: "go_error + 'b \<Rightarrow> ('b \<Rightarrow> ('w, go_error + 'a) state) \<Rightarrow> ('w, go_error + 'a) state" where
  "attempt_value r k = (case r of Inl e \<Rightarrow> return (Inl e) | Inr x \<Rightarrow> k x)"

section \<open>Routes\<close>

datatype http_method = GET | POST

datatype endpoint =
    EpToken | EpAuthorizationV3 | EpPar | EpVerified | EpEdimSameDeviceReturn | EpSmartIDLogin
  | EpSmartIDVerifier | EpHealthz | EpPreauthGenerate | EpIntrospection | EpServerMeta | EpAssetLinks
  | EpAppleAppSiteAssociation
  | EpLibrary string          \<comment> \<open>a handler of \<open>lx-idauth\<close>\<close>

definition own_routes :: "(http_method \<times> string \<times> endpoint) list" where
  "own_routes =
     [(POST, ''/api/1.0/token'', EpToken), (GET, ''/authorizationV3'', EpAuthorizationV3),
      (POST, ''/par'', EpPar), (GET, ''/edim/verifier/{presentID}'', EpVerified),
      (GET, SameDeviceReturnPath, EpEdimSameDeviceReturn), (POST, ''/smartid/login'', EpSmartIDLogin),
      (GET, ''/smartid/verifier/{sessionID}'', EpSmartIDVerifier), (GET, ''/healthz'', EpHealthz),
      (POST, ''/preauth_generate'', EpPreauthGenerate), (POST, ''/introspection'', EpIntrospection),
      (GET, ''/.well-known/oauth-authorization-server/idauth'', EpServerMeta),
      (GET, ''/.well-known/assetlinks.json'', EpAssetLinks),
      (GET, ''/.well-known/apple-app-site-association'', EpAppleAppSiteAssociation)]"

text \<open>The wrapper replaces the handler of one path as the library registers it.\<close>

record metadataOverrideRouter =
  mo_path :: string
  mo_handler :: endpoint

definition override_Get :: "metadataOverrideRouter \<Rightarrow> string \<Rightarrow> endpoint \<Rightarrow> http_method \<times> string \<times> endpoint" where
  "override_Get m path handler = (GET, path, if path = mo_path m then mo_handler m else handler)"

definition metadata_override :: metadataOverrideRouter where
  "metadata_override = \<lparr>mo_path = ''/.well-known/oauth-authorization-server'', mo_handler = EpServerMeta\<rparr>"

section \<open>Providers\<close>

datatype bound_provider =
    BoundEdim EdimInst
  | BoundOAuth2 inst
  | BoundSmartId sid_inst

fun bind_variants ::
    "authProvider \<Rightarrow> string \<Rightarrow> ClientConfig \<Rightarrow> Variant list \<Rightarrow> go_error + (string \<times> bound_provider) list" where
  "bind_variants a i cfg [] = Inr []"
| "bind_variants a i cfg (v # vs) =
     (case GetProvider a (variant_id i v) of
        Inl e \<Rightarrow> Inl e
      | Inr p \<Rightarrow> (case oauth2_Bind cfg (ap_ID p) (va_AcrValues v) of
          Inl e \<Rightarrow> Inl e
        | Inr b \<Rightarrow> map_sum id (Cons (ap_ID p, BoundOAuth2 b)) (bind_variants a i cfg vs)))"

fun bind_clients ::
    "authProvider \<Rightarrow> (string \<times> ClientConfig) list \<Rightarrow> go_error + (string \<times> bound_provider) list" where
  "bind_clients a [] = Inr []"
| "bind_clients a ((i, cfg) # cs) =
     (case GetProvider a (ToLower i) of
        Inl e \<Rightarrow> Inl e
      | Inr p \<Rightarrow> (case oauth2_Bind cfg (ap_ID p) (cf_AcrValues cfg) of
          Inl e \<Rightarrow> Inl e
        | Inr b \<Rightarrow> (case bind_variants a (ToLower i) cfg (cf_Variants cfg) of
            Inl e \<Rightarrow> Inl e
          | Inr vs \<Rightarrow> map_sum id (\<lambda>rest. (ap_ID p, BoundOAuth2 b) # vs @ rest) (bind_clients a cs))))"

section \<open>\<open>Init\<close>\<close>

record AppConfig =
  app_PublicURL :: string
  app_AcceptedHTU :: "string list"
  app_DPoPIATWindow :: int
  app_TrustAnchorsFile :: string
  app_AcceptedAudiences :: "string list"
  app_AttestIATWindow :: int
  app_RequireKeyBinding :: bool
  app_OAuth2Generic :: "(string \<times> ClientConfig) list"
  app_SessionTimeout :: int
  app_RequireClientAttestationPreauth :: bool
  app_RequireIntrospectionAuth :: bool
  app_AuthorizationCode :: CodeConfiguration
  app_PresentRetries :: int
  app_PresentWaitInSeconds :: int
  app_SmartID :: SmartIdConfiguration

text \<open>What \<open>Init\<close> calls outside the repository.\<close>

record ('w, 'cert, 'k) init_lib =
  il_create :: "string \<Rightarrow> int \<Rightarrow> ('w, go_error option) state"
  il_x509 :: "('cert, ec_point) x509_lib"
  il_ReadFile :: "string \<Rightarrow> string + string"
  il_pem_Decode :: pem_decoder
  il_parse_dpop :: "('w, proofClaims, ec_point, string) jwt_parser"
  il_parse_wia :: "('w, wiaClaims, ec_point, string) jwt_parser"
  il_parse_pop :: "('w, RegisteredClaims, ec_point, string) jwt_parser"
  il_assertions :: "('w, 'k) assertion_lib"
  il_library_routes :: "(string \<times> string) list"      \<comment> \<open>path and handler of the library's \<open>Get\<close> routes\<close>
  il_verifier_New :: "('w, go_error option) state"
  il_sid_validate :: "sid_settings \<Rightarrow> string option"

definition dpop_config :: "'w env \<Rightarrow> AppConfig \<Rightarrow> 'w DpopConfig" where
  "dpop_config E cfg =
     \<lparr>dc_AcceptedHTUs = [app_PublicURL cfg @ ''/api/1.0/token''] @ app_AcceptedHTU cfg,
      dc_IATWindow = app_DPoPIATWindow cfg, dc_ReplayCheck = Some (dpop_replay E)\<rparr>"

definition attest_config :: "'w env \<Rightarrow> AppConfig \<Rightarrow> 'cert list \<Rightarrow> ('w, 'cert) AttestConfig" where
  "attest_config E cfg anchors =
     \<lparr>acf_TrustAnchors = Some anchors,
      acf_Audiences = [app_PublicURL cfg @ ''/api/1.0/token'', app_PublicURL cfg @ ''/par''] @ app_AcceptedAudiences cfg,
      acf_IATWindow = app_AttestIATWindow cfg, acf_ReplayCheck = Some (attest_replay E),
      acf_RequireKeyBinding = app_RequireKeyBinding cfg\<rparr>"

text \<open>The attestation verifier: none without trust anchors.\<close>

definition init_attest ::
    "'w env \<Rightarrow> ('w, 'cert, 'k) init_lib \<Rightarrow> AppConfig \<Rightarrow> go_error + 'w Attester option" where
  "init_attest E L cfg =
     (case LoadTrustAnchors (il_x509 L) (il_ReadFile L) (il_pem_Decode L) (app_TrustAnchorsFile cfg) of
        Inl e \<Rightarrow> Inl (ErrorsNew e)
      | Inr None \<Rightarrow> Inr None
      | Inr (Some anchors) \<Rightarrow> (case NewVerifier (attest_config E cfg anchors) of
          Inl e \<Rightarrow> Inl (ErrorsNew e)
        | Inr v \<Rightarrow> Inr (Some (attester_of E (il_x509 L) (il_parse_wia L) (il_parse_pop L) v))))"

definition init_router ::
    "'w env \<Rightarrow> ('w, 'cert, 'k) init_lib \<Rightarrow> AppConfig \<Rightarrow> Store \<Rightarrow> 'w Attester option \<Rightarrow> ('w, 'k) router" where
  "init_router E L cfg store attest =
     \<lparr>ro_SessionTimeout = app_SessionTimeout cfg,
      ro_RequireClientAttestationPreauth = app_RequireClientAttestationPreauth cfg,
      ro_RequireIntrospectionAuth = app_RequireIntrospectionAuth cfg,
      ro_RequirePAR = cc_RequirePAR (app_AuthorizationCode cfg),
      ro_PARTTL = cc_PARTTL (app_AuthorizationCode cfg),
      ro_PublicURL = app_PublicURL cfg, ro_Store = store, ro_dpop = NewValidator (dpop_config E cfg),
      ro_dpop_parse = il_parse_dpop L, ro_attest = attest, ro_assertions = il_assertions L\<rparr>"

definition edim_inst :: "AppConfig \<Rightarrow> AuthProviderConfig \<Rightarrow> EdimInst" where
  "edim_inst cfg p = \<lparr>ei_providerID = ap_ID p, ei_PresentRetries = app_PresentRetries cfg,
     ei_PresentWaitInSeconds = app_PresentWaitInSeconds cfg\<rparr>"

record ('w, 'k) initialised =
  in_router :: "('w, 'k) router"
  in_routes :: "(http_method \<times> string \<times> endpoint) list"
  in_providers :: "(string \<times> bound_provider) list"     \<comment> \<open>in the order of \<open>Register\<close>\<close>

text \<open>The duration of the three replay caches: \<open>cache.DefaultTTL(5*time.Minute)\<close>.\<close>

definition replay_ttl :: int where "replay_ttl = 5 * minute"

definition Init ::
    "'w env \<Rightarrow> ('w, 'cert, 'k) init_lib \<Rightarrow> AppConfig \<Rightarrow> Store \<Rightarrow> authProvider
     \<Rightarrow> ('w, go_error + ('w, 'k) initialised) state" where
  "Init E L cfg store a =
     attempt (il_create L ''system-token-jti'' replay_ttl) (
     attempt (il_create L ''dpop-jti'' replay_ttl) (
     attempt (il_create L ''client-attestation-jti'' replay_ttl) (
     attempt_value (init_attest E L cfg) (\<lambda>attest.
     (let routes = own_routes @ map (\<lambda>(path, h). override_Get metadata_override path (EpLibrary h))
                                  (il_library_routes L) in
     attempt (il_create L ''edim-nonce'' (10 * minute)) (
     attempt (il_verifier_New L) (
     attempt_value (GetProvider a ''edim'') (\<lambda>p.
     attempt_value (GetProvider a ''edim:same_device'') (\<lambda>q.
     attempt_value (bind_clients a (app_OAuth2Generic cfg)) (\<lambda>generic. do {
       s \<leftarrow> sid_Bind (il_create L) (il_sid_validate L) (app_SmartID cfg);
       attempt_value s (\<lambda>sid.
         return (Inr \<lparr>in_router = init_router E L cfg store attest, in_routes = routes,
           in_providers = [(ap_ID p, BoundEdim (edim_inst cfg p)), (ap_ID q, BoundEdim (edim_inst cfg q))]
             @ generic @ [(''smartid'', BoundSmartId sid)]\<rparr>)) }))))))))))"

section \<open>Facts\<close>

lemma oauth2_Bind_Inl: "oauth2_Bind cfg i acr = Inl e \<Longrightarrow> validateClaimFieldMap (cf_ClaimFieldMap cfg) = Some e"
  by (auto simp: oauth2_Bind_def split: option.splits)

lemma oauth2_Bind_Inr: "oauth2_Bind cfg i acr = Inr b \<Longrightarrow>
    validateClaimFieldMap (cf_ClaimFieldMap cfg) = None \<and> oi_config b = cfg \<and> oi_providerID b = i
     \<and> oi_acrValues b = acr"
  by (auto simp: oauth2_Bind_def split: option.splits)

text \<open>With the table built from the same configuration, binding fails only for a claim map.\<close>

lemma bind_variants_Inl:
  assumes "bind_variants a i cfg vs = Inl e" "variant_id i ` set vs \<subseteq> dom a"
  shows "validateClaimFieldMap (cf_ClaimFieldMap cfg) = Some e"
  using assms
proof (induction vs)
  case (Cons v vs)
  from Cons.prems(2) obtain p where p: "a (variant_id i v) = Some p" by auto
  show ?case
  proof (cases "oauth2_Bind cfg (ap_ID p) (va_AcrValues v)")
    case (Inl e')
    with Cons.prems(1) p oauth2_Bind_Inl [OF Inl] show ?thesis by (simp add: GetProvider_def)
  next
    case (Inr b)
    with Cons p show ?thesis
      by (cases "bind_variants a i cfg vs") (simp_all add: GetProvider_def)
  qed
qed simp

lemma bind_clients_Inl:
  assumes "bind_clients a cs = Inl e" "\<And>ic. ic \<in> set cs \<Longrightarrow> client_ids ic \<subseteq> dom a"
  shows "\<exists>(i, c)\<in>set cs. validateClaimFieldMap (cf_ClaimFieldMap c) = Some e"
  using assms
proof (induction cs)
  case (Cons ic cs)
  obtain i c where ic: "ic = (i, c)" by (cases ic)
  have d: "insert (ToLower i) (variant_id (ToLower i) ` set (cf_Variants c)) \<subseteq> dom a"
    using Cons.prems(2) [of ic] by (simp add: ic client_ids_def)
  then obtain p where p: "a (ToLower i) = Some p" by auto
  show ?case
  proof (cases "oauth2_Bind c (ap_ID p) (cf_AcrValues c)")
    case (Inl e')
    with Cons.prems(1) p oauth2_Bind_Inl [OF Inl] show ?thesis by (auto simp: ic GetProvider_def)
  next
    case (Inr b)
    note b = Inr
    show ?thesis
    proof (cases "bind_variants a (ToLower i) c (cf_Variants c)")
      case (Inl e')
      with Cons.prems(1) p b bind_variants_Inl [OF Inl] d show ?thesis by (auto simp: ic GetProvider_def)
    next
      case (Inr vs)
      with Cons p b have "bind_clients a cs = Inl e"
        by (cases "bind_clients a cs") (simp_all add: ic GetProvider_def)
      with Cons.IH Cons.prems(2) show ?thesis by (auto simp: ic)
    qed
  qed
qed simp

text \<open>Every bound client has a checked claim map and is registered under the id of its entry.\<close>

definition checked_provider :: "string \<times> bound_provider \<Rightarrow> bool" where
  "checked_provider ib = (case snd ib of
      BoundOAuth2 b \<Rightarrow> oi_providerID b = fst ib \<and> validateClaimFieldMap (cf_ClaimFieldMap (oi_config b)) = None
    | _ \<Rightarrow> True)"

lemma bind_variants_checked:
  "bind_variants a i cfg vs = Inr bs \<Longrightarrow> \<forall>b\<in>set bs. checked_provider b"
proof (induction vs arbitrary: bs)
  case (Cons v vs)
  then obtain p b rest where "GetProvider a (variant_id i v) = Inr p"
    "oauth2_Bind cfg (ap_ID p) (va_AcrValues v) = Inr b" "bind_variants a i cfg vs = Inr rest"
    "bs = (ap_ID p, BoundOAuth2 b) # rest"
    by (auto split: sum.splits simp: map_sum_def)
  with Cons.IH oauth2_Bind_Inr show ?case by (fastforce simp: checked_provider_def)
qed simp

lemma bind_clients_checked:
  "bind_clients a cs = Inr bs \<Longrightarrow> \<forall>b\<in>set bs. checked_provider b"
proof (induction cs arbitrary: bs)
  case (Cons ic cs)
  obtain i c where ic: "ic = (i, c)" by (cases ic)
  obtain p where p: "GetProvider a (ToLower i) = Inr p"
    using Cons.prems by (cases "GetProvider a (ToLower i)") (simp_all add: ic)
  obtain b where b: "oauth2_Bind c (ap_ID p) (cf_AcrValues c) = Inr b"
    using Cons.prems p by (cases "oauth2_Bind c (ap_ID p) (cf_AcrValues c)") (simp_all add: ic)
  obtain vs where v: "bind_variants a (ToLower i) c (cf_Variants c) = Inr vs"
    using Cons.prems p b by (cases "bind_variants a (ToLower i) c (cf_Variants c)") (simp_all add: ic)
  obtain rest where r: "bind_clients a cs = Inr rest"
    using Cons.prems p b v by (cases "bind_clients a cs") (simp_all add: ic)
  have bs: "bs = (ap_ID p, BoundOAuth2 b) # vs @ rest"
    using Cons.prems p b v r by (simp add: ic)
  have "checked_provider (ap_ID p, BoundOAuth2 b)"
    using oauth2_Bind_Inr [OF b] by (simp add: checked_provider_def)
  with bind_variants_checked [OF v] Cons.IH [OF r] show ?case unfolding bs by auto
qed simp

text \<open>What a successful \<open>Init\<close> returns.\<close>

lemma init_Inr:
  assumes "result_of (Init E L cfg store a) w = Inr r"
  obtains at p q generic sid where
    "init_attest E L cfg = Inr at" "bind_clients a (app_OAuth2Generic cfg) = Inr generic"
    "in_router r = init_router E L cfg store at"
    "in_routes r = own_routes @ map (\<lambda>(path, h). override_Get metadata_override path (EpLibrary h)) (il_library_routes L)"
    "in_providers r = [(ap_ID p, BoundEdim (edim_inst cfg p)), (ap_ID q, BoundEdim (edim_inst cfg q))]
       @ generic @ [(''smartid'', BoundSmartId sid)]"
  using assms that
  by (auto simp: Init_def attempt_def attempt_value_def Let_def sid_Bind_def split: option.splits sum.splits)

end
