(* ===== verification/App_Start.thy ===== *)
theory App_Start
  imports Service_Router
begin

text \<open>
  Start-up: \<open>app.go\<close> (\<open>New\<close>, which builds the stores and the provider table) and the order of the
  checks of \<open>Configuration.Validate\<close> in \<open>config.go\<close>. The server, the platform set-up and the
  library's own stores are parameters that succeed or fail; the validators of the configuration's
  sections are parameters as well.
\<close>

section \<open>\<open>config.go\<close>\<close>

record config_checks =
  ck_Telemetry :: "go_error option"
  ck_Core :: "go_error option"
  ck_SessionStoreType :: string
  ck_Postgres :: "go_error option option"     \<comment> \<open>\<open>None\<close>: no Postgres section\<close>
  ck_Store :: "go_error option"
  ck_Audit :: "go_error option"
  ck_Verifier :: "go_error option"
  ck_SmartID :: "go_error option"
  ck_AuthorizationCode :: "go_error option"
  ck_DPoP :: "go_error option"
  ck_ClientAttestation :: "go_error option"
  ck_Self :: "go_error option"                \<comment> \<open>\<open>StructExcept(c, "Configuration")\<close>\<close>

fun first_error :: "go_error option list \<Rightarrow> go_error option" where
  "first_error [] = None"
| "first_error (c # cs) = (case c of Some e \<Rightarrow> Some e | None \<Rightarrow> first_error cs)"

definition config_Validate :: "config_checks \<Rightarrow> go_error option" where
  "config_Validate c = first_error
     [ck_Telemetry c, ck_Core c,
      (if ck_SessionStoreType c = ''postgres''
       then (case ck_Postgres c of None \<Rightarrow> None | Some r \<Rightarrow> r) else None),
      ck_Store c, ck_Audit c, ck_Verifier c, ck_SmartID c, ck_AuthorizationCode c, ck_DPoP c,
      ck_ClientAttestation c, ck_Self c]"

lemma first_error_None: "first_error cs = None \<longleftrightarrow> (\<forall>c\<in>set cs. c = None)"
  by (induction cs) (auto split: option.splits)

section \<open>\<open>app.go\<close>\<close>

record 'w start_lib =
  sl_server_New :: "('w, go_error option) state"
  sl_platform_Setup :: "('w, go_error option) state"
  sl_OOTStore :: "('w, go_error option) state"
  sl_CorrelationStore :: "('w, go_error option) state"
  sl_SessionStore :: "int \<Rightarrow> ('w, go_error option) state"
  sl_create :: "string \<Rightarrow> int \<Rightarrow> ('w, go_error option) state"
  sl_ReadFile :: "string \<Rightarrow> go_error + string"
  sl_yaml_Unmarshal :: "string \<Rightarrow> go_error + Client list"
  sl_validate :: "Client \<Rightarrow> go_error option"
  sl_decode_generic :: "string \<Rightarrow> go_error + (string \<times> ClientConfig) list"
  sl_LoadRemoteSecret :: "string \<Rightarrow> string"

record App =
  ap_clientStore :: clientStore
  ap_authCodeStore :: Store
  ap_config :: AppConfig
  ap_authProvider :: authProvider

text \<open>The configuration is shared by pointer: loading the generic clients changes it.\<close>

definition with_generic :: "AppConfig \<Rightarrow> (string \<times> ClientConfig) list option \<Rightarrow> AppConfig" where
  "with_generic cfg r = (case r of None \<Rightarrow> cfg | Some clients \<Rightarrow> cfg\<lparr>app_OAuth2Generic := clients\<rparr>)"

definition app_New :: "'w start_lib \<Rightarrow> AppConfig \<Rightarrow> string \<Rightarrow> string \<Rightarrow> ('w, go_error + App) state" where
  "app_New L cfg ClientPath OAuth2GenericConfigFile =
     attempt (sl_server_New L) (
     attempt (sl_platform_Setup L) (
     attempt (sl_OOTStore L) (
     attempt (sl_CorrelationStore L) (
     attempt (sl_SessionStore L (app_SessionTimeout cfg)) (
     attempt_value (NewClientStore (sl_ReadFile L) (sl_yaml_Unmarshal L) (sl_validate L) ClientPath) (\<lambda>clients. do {
       r \<leftarrow> NewAuthCodeStore (sl_create L) (app_AuthorizationCode cfg);
       attempt_value r (\<lambda>codeStore.
       attempt_value (loadOAuth2GenericConfig (sl_decode_generic L) (sl_LoadRemoteSecret L) OAuth2GenericConfigFile) (\<lambda>g.
         let cfg' = with_generic cfg g in
         return (Inr \<lparr>ap_clientStore = clients, ap_authCodeStore = codeStore, ap_config = cfg',
           ap_authProvider = newAuthProvider (app_OAuth2Generic cfg')\<rparr>))) }))))))"

text \<open>\<open>GetAuthProvider\<close> asks the provider table.\<close>

definition GetAuthProvider :: "App \<Rightarrow> string \<Rightarrow> go_error + AuthProviderConfig" where
  "GetAuthProvider a name = GetProvider (ap_authProvider a) name"

section \<open>Facts\<close>

lemma NewAuthCodeStore_Inr:
  "result_of (NewAuthCodeStore create cc) w = Inr st \<Longrightarrow> scopes st = newScopeSet (cc_Scopes cc)"
  by (auto simp: NewAuthCodeStore_def split: option.splits)

lemma attempt_Inr: "result_of (attempt m k) w = Inr x \<Longrightarrow> result_of k (world_after m w) = Inr x"
  by (simp add: attempt_def split: option.splits)

lemma attempt_value_Inr:
  "result_of (attempt_value r k) w = Inr x \<Longrightarrow> \<exists>y. r = Inr y \<and> result_of (k y) w = Inr x"
  by (cases r) (simp_all add: attempt_value_def)

lemma app_New_Inr:
  assumes "result_of (app_New L cfg path file) w = Inr a"
  shows "keyed_by_id (ap_clientStore a)"
    and "scopes (ap_authCodeStore a) = newScopeSet (cc_Scopes (app_AuthorizationCode cfg))"
    and "ap_authProvider a = newAuthProvider (app_OAuth2Generic (ap_config a))"
    and "file = [] \<Longrightarrow> ap_config a = cfg"
proof -
  note steps = attempt_Inr [OF attempt_Inr [OF attempt_Inr [OF attempt_Inr [OF attempt_Inr
    [OF assms [unfolded app_New_def]]]]]]
  obtain clients w5 where c0: "NewClientStore (sl_ReadFile L) (sl_yaml_Unmarshal L) (sl_validate L) path = Inr clients"
    and r: "result_of (do {
       r \<leftarrow> NewAuthCodeStore (sl_create L) (app_AuthorizationCode cfg);
       attempt_value r (\<lambda>codeStore.
       attempt_value (loadOAuth2GenericConfig (sl_decode_generic L) (sl_LoadRemoteSecret L) file) (\<lambda>g.
         let cfg' = with_generic cfg g in
         return (Inr \<lparr>ap_clientStore = clients, ap_authCodeStore = codeStore, ap_config = cfg',
           ap_authProvider = newAuthProvider (app_OAuth2Generic cfg')\<rparr>))) }) w5 = Inr a"
    using attempt_value_Inr [OF steps] by blast
  obtain st where s0: "result_of (NewAuthCodeStore (sl_create L) (app_AuthorizationCode cfg)) w5 = Inr st"
    using r by (cases "result_of (NewAuthCodeStore (sl_create L) (app_AuthorizationCode cfg)) w5")
      (simp_all add: attempt_value_def)
  obtain g where g: "loadOAuth2GenericConfig (sl_decode_generic L) (sl_LoadRemoteSecret L) file = Inr g"
    using r s0 by (cases "loadOAuth2GenericConfig (sl_decode_generic L) (sl_LoadRemoteSecret L) file")
      (simp_all add: attempt_value_def)
  have "a = \<lparr>ap_clientStore = clients, ap_authCodeStore = st, ap_config = with_generic cfg g,
      ap_authProvider = newAuthProvider (app_OAuth2Generic (with_generic cfg g))\<rparr>"
    using r s0 g by (simp add: attempt_value_def Let_def)
  with c0 s0 have c: "NewClientStore (sl_ReadFile L) (sl_yaml_Unmarshal L) (sl_validate L) path = Inr (ap_clientStore a)"
    and s: "result_of (NewAuthCodeStore (sl_create L) (app_AuthorizationCode cfg)) w5 = Inr (ap_authCodeStore a)"
    and a: "ap_config a = with_generic cfg g" "ap_authProvider a = newAuthProvider (app_OAuth2Generic (with_generic cfg g))"
    by simp_all
  show "keyed_by_id (ap_clientStore a)" by (rule NewClientStore_keyed [OF c])
  show "scopes (ap_authCodeStore a) = newScopeSet (cc_Scopes (app_AuthorizationCode cfg))"
    by (rule NewAuthCodeStore_Inr [OF s])
  show "ap_authProvider a = newAuthProvider (app_OAuth2Generic (ap_config a))" by (simp add: a)
  show "ap_config a = cfg" if "file = []"
    using g that by (simp add: a loadOAuth2GenericConfig_def with_generic_def)
qed

end
