(* ===== verification/Provider_Contract.thy ===== *)
theory Provider_Contract
  imports Smart_Id Edim OAuth2_Generic
begin

text \<open>
  What the three providers promise to the code flow: a callback stores an authorization code only
  for a pending code request, and takes that request out of the store. The interface is the locale
  \<open>login_provider\<close>; each provider satisfies it when its library leaves the caches alone.
\<close>

section \<open>The end of a callback\<close>

context cache_api
begin

lemma code_stored_frame:
  "shrinks (held_state live (world_after (SetItem E item) w)) (held_state live w)"
  using set_frame [of authCodeCache "ac_Code item" "AuthCodeVal item" w]
proof
  let ?w = "world_after (SetItem E item) w"
  assume s: "shrinks (live (world_after (CacheSet E authCodeCache (ac_Code item) (AuthCodeVal item)) w))
      ((live w)((authCodeCache, ac_Code item) \<mapsto> AuthCodeVal item))"
  show ?thesis
  proof (rule shrinksI)
    fix k
    from shrinksD [OF s, of "(stateCache, k)"]
    show "held_state live ?w k = None \<or> held_state live ?w k = held_state live w k"
      by (auto simp: held_state_def SetItem_def cache_names)
  qed
next
  assume "shrinks (live (world_after (CacheSet E authCodeCache (ac_Code item) (AuthCodeVal item)) w)) (live w)"
  then show ?thesis unfolding SetItem_def by (rule shrinks_held)
qed

lemma callback_frame:
  "shrinks (held_state live (world_after (Callback E rq sess user item raw) w)) (held_state live w)"
proof -
  note now = shrinks_held(1) [where live = live, OF now_frame]
  show ?thesis
    by (auto simp: Callback_def now shrinks_trans [OF code_stored_frame now] split: sum.splits option.splits)
qed

text \<open>
  The end of every callback: the pending request is taken out of the store, and only when there is
  one a code is stored.
\<close>

lemma code_flow_consumes:
  fixes direct :: "('w, callback_result \<times> Correlation) state" and st rq sess user raw
  defines "m \<equiv> do { pending \<leftarrow> pending_state E st;
       (case pending of Some item \<Rightarrow> finish_code_flow E rq sess user item raw | None \<Rightarrow> direct) }"
  assumes "fst (result_of m w) = CallbackRequest ip"
    and "\<And>w. fst (result_of direct w) \<noteq> CallbackRequest ip"
  shows "\<exists>item. held_state live w st = Some item \<and> st_ResponseType item = ''code''"
    and "held_state live (world_after m w) st = None"
proof -
  obtain item where p: "result_of (pending_state E st) w = Some item"
    using assms(2,3) by (cases "result_of (pending_state E st) w") (auto simp: m_def)
  note s = pending_state_Some [OF p]
  then have h: "held_state live w st = Some item" "held_state live (world_after (PopState E st) w) st = None"
    using state_taken by blast+
  with s show "\<exists>item. held_state live w st = Some item \<and> st_ResponseType item = ''code''" by blast
  have "shrinks (held_state live (world_after m w)) (held_state live (world_after (PopState E st) w))"
    using p callback_frame by (simp add: m_def finish_code_flow_def)
  from shrinks_None [OF this h(2)] show "held_state live (world_after m w) st = None" .
qed

end

lemma finish_direct_no_request: "fst (result_of (finish_direct E rq sess user) w) \<noteq> CallbackRequest ip"
  by (auto simp: finish_direct_def split: sum.splits option.splits)

lemma createSession_no_request:
  "fst (result_of (do {
     s \<leftarrow> createSession E rq cor user raw;
     return (case s of (Some e, cor') \<Rightarrow> (CallbackError e, f cor')
       | (None, cor') \<Rightarrow> (CallbackNil, g cor')) }) w) \<noteq> CallbackRequest ip"
  by (auto split: prod.splits option.splits)

lemma held_state_before:
  "shrinks (live u) (live w) \<Longrightarrow> held_state live u st = Some item \<Longrightarrow> held_state live w st = Some item"
  using shrinks_Some shrinks_held(1) by metis

lemma sid_code_flow:
  assumes "cache_api E live" and "fst (result_of (sid_Callback E C rq cor) w) = CallbackRequest ip"
    and "\<And>s w. shrinks (live (world_after (sid_FetchSession C s) w)) (live w)"
  shows "\<exists>st item. cor_State cor = Some st \<and> held_state live w st = Some item
     \<and> st_ResponseType item = ''code'' \<and> held_state live (world_after (sid_Callback E C rq cor) w) st = None"
proof -
  obtain s where s: "query_String rq ''sessionID'' = Inr s"
    using assms(2) by (cases "query_String rq ''sessionID''") (simp_all add: sid_Callback_def)
  obtain p where p: "result_of (sid_FetchSession C s) w = Inr (Some p)"
    using assms(2) s by (auto simp: sid_Callback_def Let_def split: sum.splits option.splits)
  obtain st where st: "cor_State cor = Some st"
    using assms(2) s p by (cases "cor_State cor") (simp_all add: sid_Callback_def)
  let ?u = "world_after (sid_FetchSession C s) w"
  let ?m = "do { pending \<leftarrow> pending_state E st;
     (case pending of Some item \<Rightarrow> finish_code_flow E rq cor (sid_convertToUserData p) item []
      | None \<Rightarrow> finish_direct E rq cor (sid_convertToUserData p)) }"
  have "fst (result_of ?m ?u) = CallbackRequest ip" and w': "world_after (sid_Callback E C rq cor) w = world_after ?m ?u"
    using assms(2) s p st by (simp_all add: sid_Callback_def)
  note c = cache_api.code_flow_consumes [OF assms(1) this(1) finish_direct_no_request]
  from c(1) obtain item where b: "held_state live ?u st = Some item" and t: "st_ResponseType item = ''code''" by blast
  have h: "held_state live w st = Some item" by (rule held_state_before [where live = live, OF assms(3) b])
  have "held_state live (world_after (sid_Callback E C rq cor) w) st = None" unfolding w' by (rule c(2))
  with st h t show ?thesis by blast
qed

lemma edim_code_flow:
  assumes "cache_api E live" and "fst (result_of (edim_Callback E V rq cor) w) = CallbackRequest ip"
    and "\<And>s w. shrinks (live (world_after (vf_Attributes V s) w)) (live w)"
  shows "\<exists>st item. cor_State cor = Some st \<and> held_state live w st = Some item
     \<and> st_ResponseType item = ''code'' \<and> held_state live (world_after (edim_Callback E V rq cor) w) st = None"
proof -
  obtain s where s: "query_String rq ''transaction_id'' = Inr s"
    using assms(2) by (cases "query_String rq ''transaction_id''") (simp_all add: edim_Callback_def)
  obtain as where a: "result_of (vf_Attributes V s) w = Inr as"
    using assms(2) s by (cases "result_of (vf_Attributes V s) w") (simp_all add: edim_Callback_def)
  obtain user where u: "edim_convertToUserData as = Inr user"
    using assms(2) s a by (cases "edim_convertToUserData as") (simp_all add: edim_Callback_def)
  obtain st where st: "cor_State cor = Some st"
    using assms(2) s a u by (cases "cor_State cor") (simp_all add: edim_Callback_def completeCallback_def)
  let ?u = "world_after (vf_Attributes V s) w"
  let ?m = "do { pending \<leftarrow> pending_state E st;
     (case pending of Some item \<Rightarrow> finish_code_flow E rq cor user item []
      | None \<Rightarrow> finish_direct E rq cor user) }"
  have "fst (result_of ?m ?u) = CallbackRequest ip" and w': "world_after (edim_Callback E V rq cor) w = world_after ?m ?u"
    using assms(2) s a u st by (simp_all add: edim_Callback_def completeCallback_def)
  note c = cache_api.code_flow_consumes [OF assms(1) this(1) finish_direct_no_request]
  from c(1) obtain item where b: "held_state live ?u st = Some item" and t: "st_ResponseType item = ''code''" by blast
  have h: "held_state live w st = Some item" by (rule held_state_before [where live = live, OF assms(3) b])
  have "held_state live (world_after (edim_Callback E V rq cor) w) st = None" unfolding w' by (rule c(2))
  with st h t show ?thesis by blast
qed

lemma oauth2_code_flow:
  assumes "cache_api E live" and "fst (result_of (oauth2_Callback E L rq cor i) w) = CallbackRequest ip"
    and "\<And>c s w. shrinks (live (world_after (Exchange L c s) w)) (live w)"
    and "\<And>u s w. shrinks (live (world_after (HttpGet L u s) w)) (live w)"
  shows "\<exists>st item. cor_State cor = Some st \<and> held_state live w st = Some item
     \<and> st_ResponseType item = ''code'' \<and> held_state live (world_after (oauth2_Callback E L rq cor i) w) st = None"
proof -
  have ne: "value_or [] (query_String rq ''error'') = []"
    using assms(2) by (auto simp: oauth2_Callback_def Let_def split: if_splits)
  obtain code where code: "query_String rq ''code'' = Inr code"
    using assms(2) ne by (cases "query_String rq ''code''") (simp_all add: oauth2_Callback_def)
  let ?i = "set_redirect rq i"
  let ?x = "exchangeAndFetchUserInfo L ?i code"
  obtain req where r: "result_of ?x w = Inr req"
    using assms(2) ne code by (cases "result_of ?x w") (simp_all add: oauth2_Callback_def)
  obtain st where st: "cor_State cor = Some st"
    using assms(2) ne code r by (cases "cor_State cor") (simp_all add: oauth2_Callback_def oauth2_finish_def)
  let ?u = "world_after ?x w"
  let ?d = "do { s \<leftarrow> createSession E rq cor (user_of req) (aq_RawClaims req);
             return (case s of
                (Some e, cor') \<Rightarrow> (CallbackError e, fail_with E AuthErrServer cor')
              | (None, cor') \<Rightarrow> (CallbackNil, cor'\<lparr>cor_ManagedByProvider := True\<rparr>)) }"
  let ?m = "do { pending \<leftarrow> pending_state E st;
     (case pending of Some item \<Rightarrow> finish_code_flow E rq cor (user_of req) item (aq_RawClaims req)
      | None \<Rightarrow> ?d) }"
  have "fst (result_of ?m ?u) = CallbackRequest ip" and w': "world_after (oauth2_Callback E L rq cor i) w = world_after ?m ?u"
    using assms(2) ne code r st by (simp_all add: oauth2_Callback_def oauth2_finish_def Let_def)
  note c = cache_api.code_flow_consumes [OF assms(1) this(1) createSession_no_request]
  have quiet: "shrinks (live ?u) (live w)"
    by (auto simp: exchangeAndFetchUserInfo_def fetchUserInfo_def assms(3) shrinks_trans [OF assms(4) assms(3)]
        split: sum.splits)
  from c(1) obtain item where b: "held_state live ?u st = Some item" and t: "st_ResponseType item = ''code''" by blast
  have h: "held_state live w st = Some item" by (rule held_state_before [where live = live, OF quiet b])
  have "held_state live (world_after (oauth2_Callback E L rq cor i) w) st = None" unfolding w' by (rule c(2))
  with st h t show ?thesis by blast
qed

section \<open>The interface\<close>

locale login_provider =
  fixes callback :: "request \<Rightarrow> Correlation \<Rightarrow> ('w, callback_result \<times> 'c) state"
    and pending :: "'w \<Rightarrow> string \<Rightarrow> StateItem option"
  assumes code_consumes: "fst (result_of (callback rq cor) w) = CallbackRequest ip \<Longrightarrow>
      \<exists>st item. cor_State cor = Some st \<and> pending w st = Some item \<and> st_ResponseType item = ''code''
        \<and> pending (world_after (callback rq cor) w) st = None"
begin

lemma no_request_no_code:
  "cor_State cor = Some st \<Longrightarrow> pending w st = None \<Longrightarrow> fst (result_of (callback rq cor) w) \<noteq> CallbackRequest ip"
  using code_consumes by fastforce

text \<open>A state is good for one code: as long as nobody saves it again, no callback stores another.\<close>

lemma one_code_per_state:
  assumes "fst (result_of (callback rq cor) w) = CallbackRequest ip"
    and "shrinks (pending w2) (pending (world_after (callback rq cor) w))" "cor_State cor2 = cor_State cor"
  shows "fst (result_of (callback rq2 cor2) w2) \<noteq> CallbackRequest ip2"
proof -
  obtain st where "cor_State cor = Some st" "pending (world_after (callback rq cor) w) st = None"
    using code_consumes [OF assms(1)] by blast
  with assms(2,3) shrinks_None [OF assms(2)] show ?thesis by (intro no_request_no_code) simp_all
qed

end

section \<open>The providers\<close>

locale smartid_login = cache_api E live for E :: "'w env" and live +
  fixes C :: "'w sid_client"
  assumes fetch_quiet: "shrinks (live (world_after (sid_FetchSession C s) w)) (live w)"

locale edim_login = cache_api E live for E :: "'w env" and live +
  fixes V :: "'w verifier"
  assumes attributes_quiet: "shrinks (live (world_after (vf_Attributes V s) w)) (live w)"

locale oauth2_login = cache_api E live for E :: "'w env" and live +
  fixes L :: "'w oauth2_lib"
  assumes exchange_quiet: "shrinks (live (world_after (Exchange L c s) w)) (live w)"
    and userinfo_quiet: "shrinks (live (world_after (HttpGet L u s) w)) (live w)"

sublocale smartid_login \<subseteq> provider: login_provider "sid_Callback E C" "held_state live"
  by unfold_locales (rule sid_code_flow [OF cache_api_axioms _ fetch_quiet])

sublocale edim_login \<subseteq> provider: login_provider "edim_Callback E V" "held_state live"
  by unfold_locales (rule edim_code_flow [OF cache_api_axioms _ attributes_quiet])

sublocale oauth2_login \<subseteq> provider: login_provider "\<lambda>rq cor. oauth2_Callback E L rq cor i" "held_state live" for i
  by unfold_locales (rule oauth2_code_flow [OF cache_api_axioms _ exchange_quiet userinfo_quiet])

text \<open>The contract's facts for each provider, by name.\<close>

context smartid_login
begin

lemmas sid_code = provider.code_consumes
lemmas sid_no_code = provider.no_request_no_code

end

context edim_login
begin

lemmas edim_code = provider.code_consumes
lemmas edim_no_code = provider.no_request_no_code

end

context oauth2_login
begin

lemmas oauth2_code = provider.code_consumes
lemmas oauth2_no_code = provider.no_request_no_code

end

end
