(* ===== verification/Properties_Providers.thy ===== *)
theory Properties_Providers
  imports App_Start Provider_Contract Sample_World
begin

text \<open>
  Properties of the identity providers and of the start-up that binds them: a callback opens a code
  flow only for a pending request, user data come from the wallet's PID attributes, claim maps are
  checked before they are used, and the metadata advertise what is routed.
\<close>

section \<open>The providers on sample libraries\<close>

text \<open>The providers on the sample libraries satisfy the interface.\<close>

interpretation sample_smartid: smartid_login sample_env mem_live sample_sid
  by unfold_locales (simp add: sample_sid_def)



section \<open>A code only for a pending request\<close>



section \<open>The wallet\<close>



text \<open>
  The same-device flow is opt-in. A client that is not registered, or whose metadata do not say
  \<open>same_device\<close> is \<open>true\<close>, is refused, whatever it sends, and the request leaves no trace.
\<close>

theorem same_device_opt_in:
  assumes "ei_providerID i = sameDeviceProviderID"
    and "\<not> (\<exists>client. GetClient E (cor_ClientID cor) = Inr (Some client)
            \<and> map_index (cl_Metadata client) ''same_device'' = ''true'')"
  shows "(\<exists>e. result_of (edim_Authorize E V JoinPath store i rq cor) w
        = (AuthorizeFailed e, fail_with E AuthErrInvalidRequest cor))
     \<and> world_after (edim_Authorize E V JoinPath store i rq cor) w = w"
proof -
  have "\<not> (case GetClient E (cor_ClientID cor) of Inl _ \<Rightarrow> False | Inr c \<Rightarrow> clientAllowsSameDevice c)"
    using assms(2) by (auto simp: clientAllowsSameDevice_def sameDeviceMetadataKey_def split: sum.splits option.splits)
  with assms(1) show ?thesis
    by (simp_all add: edim_Authorize_def authorizeSameDevice_def)
qed

theorem same_device_opt_in_witness:
  "\<exists>e. result_of (edim_Authorize sample_env sample_wallet (\<lambda>b p. Inr (b @ p)) sample_store
        \<lparr>ei_providerID = ''edim:same_device'', ei_PresentRetries = 1, ei_PresentWaitInSeconds = 1\<rparr>
        base_request sample_login) (world_with []) = (AuthorizeFailed e, fail_with sample_env AuthErrInvalidRequest sample_login)"
proof -
  have "\<not> (\<exists>client. GetClient sample_env (cor_ClientID sample_login) = Inr (Some client)
      \<and> map_index (cl_Metadata client) ''same_device'' = ''true'')"
    by (simp add: sample_login_def bff_client_def)
  from same_device_opt_in [OF _ this] show ?thesis by (simp add: sameDeviceProviderID_def)
qed

section \<open>Start-up\<close>


definition sample_client_config :: ClientConfig where
  "sample_client_config = \<lparr>cf_AuthURL = ''https://op/auth'', cf_TokenURL = ''https://op/token'',
     cf_UserInfoURL = ''https://op/userinfo'', cf_ClientID = ''idauth'', cf_ClientSecret = [], cf_Scope = ''openid'',
     cf_Prompt = [], cf_UILocales = [], cf_AcrValues = [],
     cf_ClaimFieldMap = [(''person_code'', \<lparr>cm_Source = ''sub'',
        cm_Transforms = [\<lparr>ts_Name = ''strip_prefixes'', ts_Args = [''PNOLV-'']\<rparr>, \<lparr>ts_Name = ''strip_chars'', ts_Args = [''-'']\<rparr>]\<rparr>)],
     cf_Variants = [\<lparr>va_ID = ''mobile'', va_AcrValues = ''mobile''\<rparr>]\<rparr>"

definition broken_client_config :: ClientConfig where
  "broken_client_config = sample_client_config\<lparr>cf_ClaimFieldMap := [(''email'', \<lparr>cm_Source = ''email'',
     cm_Transforms = [\<lparr>ts_Name = ''upper'', ts_Args = []\<rparr>]\<rparr>)]\<rparr>"

definition sample_smartid :: SmartIdConfiguration where
  "sample_smartid = \<lparr>sc_Endpoint = ''https://sid.demo.sk.ee/smart-id-rp/v2'', sc_RelyingPartyName = ''DEMO'',
     sc_RelyingPartyUUID = ''00000000-0000-0000-0000-000000000000'', sc_CertificateLevel = ''QUALIFIED'',
     sc_HashType = ''SHA512'', sc_InteractionType = ''displayTextAndPIN'', sc_Text = ''Custom text'',
     sc_CreateSessionTimeoutInSeconds = 90, sc_CheckSessionTimeoutInSeconds = 1, sc_PresentRetries = 24,
     sc_PresentWaitInSeconds = 5, sc_PresentTTL = 10 * minute\<rparr>"

definition sample_app :: "(string \<times> ClientConfig) list \<Rightarrow> AppConfig" where
  "sample_app clients = \<lparr>app_PublicURL = ''https://idauth'', app_AcceptedHTU = [], app_DPoPIATWindow = 0,
     app_TrustAnchorsFile = [], app_AcceptedAudiences = [], app_AttestIATWindow = 0, app_RequireKeyBinding = False,
     app_OAuth2Generic = clients, app_SessionTimeout = 3600000000000, app_RequireClientAttestationPreauth = False,
     app_RequireIntrospectionAuth = True, app_AuthorizationCode = default_CodeConfiguration,
     app_PresentRetries = 1, app_PresentWaitInSeconds = 1, app_SmartID = sample_smartid\<rparr>"

definition sample_lib :: "(mem, unit, nat) init_lib" where
  "sample_lib = \<lparr>il_create = mem_create, il_x509 = \<lparr>ParseCertificate = (\<lambda>s. Inr ()), ECPublicKey = (\<lambda>c. None),
        VerifyChain = (\<lambda>r i l. None)\<rparr>, il_ReadFile = (\<lambda>p. Inl ''no file''), il_pem_Decode = (\<lambda>s. None),
     il_parse_dpop = one_token_parser sample_proof generator_point,
     il_parse_wia = (\<lambda>opts s kf. return (Inl (ExternalError ''malformed''))),
     il_parse_pop = (\<lambda>opts s kf. return (Inl (ExternalError ''malformed''))),
     il_assertions = no_assertions,
     il_library_routes = [(''/.well-known/oauth-authorization-server'', ''meta''), (''/authorize'', ''authorize'')],
     il_verifier_New = return None, il_sid_validate = (\<lambda>s. if ss_URL s = [] then Some ''url'' else None)\<rparr>"

lemma lower_ids: "ToLower ''op'' = ''op''" "ToLower ''mobile'' = ''mobile''"
  by (simp_all add: ToLower_def ascii_lower_def)

lemmas run_init = Init_def attempt_def attempt_value_def init_attest_def LoadTrustAnchors_def sample_app_def
  sample_lib_def newAuthProvider_def builtin_providers_def GetProvider_def generic_provider_def variant_id_def
  lower_ids oauth2_Bind_def transformRegistry_def sid_Bind_def sid_settings_of_def sample_smartid_def

lemma init_attest_None:
  "init_attest E L cfg = Inr at \<Longrightarrow> at = None \<longleftrightarrow> app_TrustAnchorsFile cfg = []"
  by (auto simp: init_attest_def LoadTrustAnchors_def map_sum_def NewVerifier_def attest_config_def
      split: sum.splits option.splits if_splits)

lemma checked_claims:
  assumes "checked_provider (i, BoundOAuth2 b)" "(target, m) \<in> set (cf_ClaimFieldMap (oi_config b))"
  shows "oi_providerID b = i" "\<exists>v'. applyTransforms v (cm_Transforms m) = Inr v'"
proof -
  show "oi_providerID b = i" using assms(1) by (simp add: checked_provider_def)
  have "validateClaimFieldMap (cf_ClaimFieldMap (oi_config b)) = None"
    using assms(1) by (simp add: checked_provider_def)
  then show "\<exists>v'. applyTransforms v (cm_Transforms m) = Inr v'"
    using assms(2) unfolding validate_None applyTransforms_known by fastforce
qed

lemma init_checked:
  assumes "result_of (Init E L cfg store a) w = Inr r"
  shows "app_PublicURL cfg @ ''/api/1.0/token'' \<in> va_htus (ro_dpop (in_router r))
     \<and> set (app_AcceptedHTU cfg) \<subseteq> va_htus (ro_dpop (in_router r))
     \<and> va_replay (ro_dpop (in_router r)) = Some (dpop_replay E)
     \<and> (ro_attest (in_router r) = None \<longleftrightarrow> app_TrustAnchorsFile cfg = [])
     \<and> (\<forall>i b target m v. (i, BoundOAuth2 b) \<in> set (in_providers r) \<and> (target, m) \<in> set (cf_ClaimFieldMap (oi_config b))
          \<longrightarrow> oi_providerID b = i \<and> (\<exists>v'. applyTransforms v (cm_Transforms m) = Inr v'))
     \<and> (\<forall>ep. (GET, ''/.well-known/oauth-authorization-server'', ep) \<in> set (in_routes r) \<longrightarrow> ep = EpServerMeta)"
proof -
  obtain at p q generic sid where at: "init_attest E L cfg = Inr at"
    and g: "bind_clients a (app_OAuth2Generic cfg) = Inr generic"
    and r: "in_router r = init_router E L cfg store at"
    and routes: "in_routes r = own_routes
       @ map (\<lambda>(path, h). override_Get metadata_override path (EpLibrary h)) (il_library_routes L)"
    and ps: "in_providers r = [(ap_ID p, BoundEdim (edim_inst cfg p)), (ap_ID q, BoundEdim (edim_inst cfg q))]
       @ generic @ [(''smartid'', BoundSmartId sid)]"
    by (rule init_Inr [OF assms]) (rule that; assumption)
  have d: "ro_dpop (in_router r) = NewValidator (dpop_config E cfg)" "ro_attest (in_router r) = at"
    by (simp_all add: r init_router_def)
  have claims: "oi_providerID b = i \<and> (\<exists>v'. applyTransforms v (cm_Transforms m) = Inr v')"
    if "(i, BoundOAuth2 b) \<in> set (in_providers r)" "(target, m) \<in> set (cf_ClaimFieldMap (oi_config b))" for i b target m v
  proof -
    have "(i, BoundOAuth2 b) \<in> set generic" using that(1) by (simp add: ps)
    then have "checked_provider (i, BoundOAuth2 b)" using bind_clients_checked [OF g] by blast
    from checked_claims [OF this that(2)] show ?thesis by blast
  qed
  have meta: "ep = EpServerMeta" if "(GET, ''/.well-known/oauth-authorization-server'', ep) \<in> set (in_routes r)" for ep
    using that by (auto simp: routes own_routes_def override_Get_def metadata_override_def SameDeviceReturnPath_def)
  show ?thesis
    using claims meta init_attest_None [OF at] by (auto simp: d NewValidator_def dpop_config_def)
qed

definition sample_start :: "mem start_lib" where
  "sample_start = \<lparr>sl_server_New = return None, sl_platform_Setup = return None, sl_OOTStore = return None,
     sl_CorrelationStore = return None, sl_SessionStore = (\<lambda>t. return None), sl_create = mem_create,
     sl_ReadFile = Inr, sl_yaml_Unmarshal = (\<lambda>s. Inr [bff_client, wallet_client]), sl_validate = (\<lambda>c. None),
     sl_decode_generic = (\<lambda>f. Inr [(''op'', if f = ''broken'' then broken_client_config else sample_client_config)]),
     sl_LoadRemoteSecret = (\<lambda>k. [])\<rparr>"

abbreviation sample_New :: "string \<Rightarrow> (mem, go_error + App) state" where
  "sample_New file \<equiv> app_New sample_start (sample_app []) ''clients.yaml'' file"

lemma sample_New_Inr:
  "\<exists>a. result_of (sample_New file) mem_init = Inr a \<and> ap_clientStore a ''bff'' = Some bff_client
     \<and> (file = ''broken'' \<longrightarrow> ap_config a = sample_app [(''op'', broken_client_config)])
     \<and> (file = ''op.yaml'' \<longrightarrow> ap_config a = sample_app [(''op'', sample_client_config)])"
  by (simp add: app_New_def attempt_def attempt_value_def sample_start_def NewClientStore_def NewAuthCodeStore_def
      loadOAuth2GenericConfig_def with_secret_def with_generic_def)
     (simp add: sample_app_def bff_client_def wallet_client_def)



text \<open>
  C25: what start-up builds fits together. Every registered client is filed under its own id; the
  router proves DPoP for its own token endpoint and for the configured URLs, with replay detection;
  the attestation verifier exists exactly when a trust anchors file is configured; every generic
  provider that is bound has its own id and a claim map of which no transform can fail, whatever
  claims a user presents; and the authorization server metadata of the library are replaced by the
  service's own.
\<close>

theorem startup_builds_checked_service:
  assumes "result_of (app_New SL cfg path file) w0 = Inr a"
    and "result_of (Init E L (ap_config a) (ap_authCodeStore a) (ap_authProvider a)) w = Inr r"
  shows "(\<forall>i c. clientStore_GetClient (ap_clientStore a) i = Inr (Some c) \<longrightarrow> cl_ID c = i)
     \<and> scopes (ro_Store (in_router r)) = newScopeSet (cc_Scopes (app_AuthorizationCode cfg))
     \<and> app_PublicURL (ap_config a) @ ''/api/1.0/token'' \<in> va_htus (ro_dpop (in_router r))
     \<and> set (app_AcceptedHTU (ap_config a)) \<subseteq> va_htus (ro_dpop (in_router r))
     \<and> va_replay (ro_dpop (in_router r)) = Some (dpop_replay E)
     \<and> (ro_attest (in_router r) = None \<longleftrightarrow> app_TrustAnchorsFile (ap_config a) = [])
     \<and> (\<forall>i b target m v. (i, BoundOAuth2 b) \<in> set (in_providers r) \<and> (target, m) \<in> set (cf_ClaimFieldMap (oi_config b))
          \<longrightarrow> oi_providerID b = i \<and> (\<exists>v'. applyTransforms v (cm_Transforms m) = Inr v'))
     \<and> (\<forall>ep. (GET, ''/.well-known/oauth-authorization-server'', ep) \<in> set (in_routes r) \<longrightarrow> ep = EpServerMeta)"
proof -
  have k: "\<forall>i c. clientStore_GetClient (ap_clientStore a) i = Inr (Some c) \<longrightarrow> cl_ID c = i"
    using client_registry.lookup_id [OF client_registry_clientStore [OF app_New_Inr(1) [OF assms(1)]]] by blast
  obtain at p q generic sid where "in_router r = init_router E L (ap_config a) (ap_authCodeStore a) at"
    by (rule init_Inr [OF assms(2)]) (rule that; assumption)
  then have sc: "scopes (ro_Store (in_router r)) = newScopeSet (cc_Scopes (app_AuthorizationCode cfg))"
    using app_New_Inr(2) [OF assms(1)] by (simp add: init_router_def)
  show ?thesis by (rule conjI [OF k conjI [OF sc init_checked [OF assms(2)]]])
qed

theorem startup_builds_checked_service_witness:
  "\<exists>a r. result_of (sample_New ''op.yaml'') mem_init = Inr a
     \<and> result_of (Init sample_env sample_lib (ap_config a) (ap_authCodeStore a) (ap_authProvider a)) mem_init = Inr r
     \<and> ''https://idauth/api/1.0/token'' \<in> va_htus (ro_dpop (in_router r)) \<and> ro_attest (in_router r) = None
     \<and> map fst (in_providers r) = [''edim'', ''edim:same_device'', ''op'', ''op:mobile'', ''smartid'']"
proof -
  let ?cfg = "sample_app [(''op'', sample_client_config)]"
  obtain a where a: "result_of (sample_New ''op.yaml'') mem_init = Inr a" and c: "ap_config a = ?cfg"
    using sample_New_Inr by blast
  have "\<exists>r. result_of (Init sample_env sample_lib ?cfg (ap_authCodeStore a) (newAuthProvider (app_OAuth2Generic ?cfg))) mem_init = Inr r
     \<and> map fst (in_providers r) = [''edim'', ''edim:same_device'', ''op'', ''op:mobile'', ''smartid'']"
    by (simp add: run_init sample_client_config_def)
  then obtain r where
    r0: "result_of (Init sample_env sample_lib ?cfg (ap_authCodeStore a) (newAuthProvider (app_OAuth2Generic ?cfg))) mem_init = Inr r"
    and ids: "map fst (in_providers r) = [''edim'', ''edim:same_device'', ''op'', ''op:mobile'', ''smartid'']"
    by (elim exE conjE)
  have r: "result_of (Init sample_env sample_lib (ap_config a) (ap_authCodeStore a) (ap_authProvider a)) mem_init = Inr r"
    unfolding app_New_Inr(3) [OF a] c by (rule r0)
  have cfg: "app_PublicURL ?cfg = ''https://idauth''" "app_TrustAnchorsFile ?cfg = []" by (simp_all add: sample_app_def)
  note built = conjunct2 [OF conjunct2 [OF startup_builds_checked_service [OF a r]]]
  have u: "''https://idauth/api/1.0/token'' \<in> va_htus (ro_dpop (in_router r))"
    using conjunct1 [OF built] by (simp add: c cfg)
  have n: "ro_attest (in_router r) = None"
    using conjunct1 [OF conjunct2 [OF conjunct2 [OF conjunct2 [OF built]]]] by (simp add: c cfg)
  show ?thesis using a r u n ids by (intro exI [of _ a] exI [of _ r] conjI)
qed

section \<open>Metadata\<close>

text \<open>
  The authorization server metadata advertise only what the service routes: each endpoint is the
  public URL followed by the path of a registered route with the handler of that name, and the
  pushed-request and challenge requirements are those the handlers enforce.
\<close>

theorem metadata_endpoints_routed:
  "let md = map_of (server_metadata publicURL requirePAR);
       routed = (\<lambda>name meth ep. \<exists>path. md name = Some (JStr (publicURL @ path)) \<and> (meth, path, ep) \<in> set own_routes)
   in routed ''authorization_endpoint'' GET EpAuthorizationV3 \<and> routed ''token_endpoint'' POST EpToken
      \<and> routed ''pushed_authorization_request_endpoint'' POST EpPar
      \<and> routed ''introspection_endpoint'' POST EpIntrospection
      \<and> md ''issuer'' = Some (JStr publicURL)
      \<and> md ''require_pushed_authorization_requests'' = Some (JBool requirePAR)"
  by (simp add: server_metadata_def own_routes_def)

section \<open>Identifiers\<close>





end
