(* ===== verification/Properties_Errors.thy ===== *)
theory Properties_Errors
  imports Service
begin

text \<open>
  The error replies of the token endpoint: every problem it answers with is of the service's
  taxonomy.
\<close>

lemma token_reasons [simp]:
  "problem_spec ''err:token:authHeaderInvalid'' \<noteq> None"
  "problem_spec ''err:token:clientLookupFailed'' \<noteq> None"
  "problem_spec ''err:token:sessionCreateFailed'' \<noteq> None"
  "problem_spec ''err:token:cleanupFailed'' \<noteq> None"
  "problem_spec ''err:token:invalidRequestBody'' \<noteq> None"
  "problem_spec ''err:token:audienceBuildFailed'' \<noteq> None"
  "problem_spec ''err:token:assertionParseFailed'' \<noteq> None"
  by (simp_all add: problem_spec_def reason_of_def registered_reasons_def)

lemma session_reasons [simp]:
  "problem_spec ''err:session:preAuthCodeMissing'' \<noteq> None"
  "problem_spec ''err:session:preAuthCodeInvalidOrExpired'' \<noteq> None"
  "problem_spec ''err:session:preAuthTXCodeInvalid'' \<noteq> None"
  "problem_spec ''err:session:preAuthSessionCreateFailed'' \<noteq> None"
  by (simp_all add: problem_spec_def reason_of_def registered_reasons_def)

lemmas reasons_split = sum.splits option.splits if_splits basic_result.splits

lemma authenticate_registered:
  "result_of (authenticate E rq jkt attest) w = Inl r \<Longrightarrow> problem_registered r"
  by (auto simp: authenticate_def authenticate_confidential_def Let_def split: reasons_split
      dest: attestation_branch_Inl(2))

lemma check_code_registered: "result_of (check_code E rq auth) w = Inl r \<Longrightarrow> problem_registered r"
  by (auto simp: check_code_def Let_def split: reasons_split)

lemma issue_token_registered: "problem_registered (result_of (issue_token E rq timeout jkt i item) w)"
  by (simp add: issue_token_def Let_def split: sum.split option.split)

lemma code_grant_registered: "problem_registered (result_of (HandleAuthorization E rq timeout jkt attest) w)"
  using authenticate_registered check_code_registered issue_token_registered
  by (auto simp: HandleAuthorization_def split: sum.split)

lemma refresh_registered: "problem_registered (result_of (HandleRefreshToken E rq timeout jkt) w)"
  by (simp add: HandleRefreshToken_def rotate_token_def split: sum.split)

lemma preauth_attestation_registered:
  "result_of (preauth_attestation rq jkt attest required) w = Some r \<Longrightarrow> problem_registered r"
  by (auto simp: preauth_attestation_def Let_def split: reasons_split dest: attestation_branch_Inl(2))

lemma preauth_lookup_registered: "result_of (preauth_lookup E rq) w = Inl r \<Longrightarrow> problem_registered r"
  by (auto simp: preauth_lookup_def Let_def split: reasons_split)

lemma preauth_issue_registered: "problem_registered (result_of (preauth_issue E rq timeout jkt item) w)"
  by (simp add: preauth_issue_def Let_def split: sum.split)

lemma preauth_registered:
  "problem_registered (result_of (HandlePreAuthorized E rq timeout jkt attest required) w)"
  using preauth_attestation_registered preauth_lookup_registered preauth_issue_registered
  by (auto simp: HandlePreAuthorized_def split: sum.split option.split)

lemma accept_assertion_registered:
  "problem_registered (result_of (accept_assertion E timeout req jkt tok) w)"
  by (simp add: accept_assertion_def Let_def issue_system_token_def reject_assertion_def split: sum.split)

lemma client_credentials_registered:
  "problem_registered (result_of (handleClientCredentials E L timeout rq jkt) w)"
  using accept_assertion_registered
  by (auto simp: handleClientCredentials_def reject_assertion_def split: reasons_split jwt_error_class.split)

text \<open>
  C29: every error the token endpoint answers as a problem is of the service's own taxonomy: whatever
  the request, the configuration and the answers of the libraries, the problem's reason was
  registered at start-up with a status and a title.
\<close>

theorem token_problems_registered: "problem_registered (result_of (token E R rq) w)"
proof -
  have j: "problem_registered rep" if "result_of (dpopJKT E R rq) w = Inl rep" for rep
    using that by (auto simp: dpopJKT_def Let_def split: if_splits sum.splits)
  have d: "problem_registered (result_of (dispatch_grant E R rq jkt) w)" for jkt w
    by (simp add: dispatch_grant_def Let_def code_grant_registered refresh_registered preauth_registered
        client_credentials_registered)
  show ?thesis using j d by (simp add: token_def split: sum.split)
qed

end
