(* ===== verification/Service_Provenance.thy ===== *)
theory Service_Provenance
  imports Service_Runs
begin

text \<open>
  Where the contents of a session come from. In a run from an empty world every session, and every
  template of a session in the caches, is for a subject that some step of the run vouches for, and
  is bound to no key but one that a token request of the run has proved to hold.
\<close>

section \<open>What vouches for a subject\<close>

text \<open>
  The subjects that need no login: the system's own, a ULID the service has made up, and the empty
  one, of a cache that answers an absent code with the zero item.
\<close>

definition subjects :: "'w env \<Rightarrow> string set \<Rightarrow> string set" where
  "subjects E N = {[], ''SYSTEM''} \<union> range (result_of (UlidMake E)) \<union> N"

definition reported :: "event list \<Rightarrow> string set" where
  "reported es = {s. (\<exists>i. LoginReported i (Some s) \<in> set es)
     \<or> (\<exists>rq rep. PreauthRequested rq rep \<in> set es \<and> rq_form rq ''session_id'' = Some s)}"

definition proved_keys :: "event list \<Rightarrow> string set" where
  "proved_keys es = {j. \<exists>rq rep. TokenRequested rq (Inr j) rep \<in> set es}"

lemma subjects_intros [intro, simp]:
  "[] \<in> subjects E N" "''SYSTEM'' \<in> subjects E N" "result_of (UlidMake E) w \<in> subjects E N"
  "s \<in> N \<Longrightarrow> s \<in> subjects E N"
  by (auto simp: subjects_def)

text \<open>A subject and the metadata of a session; a template has no key yet.\<close>

definition vouched :: "'w env \<Rightarrow> string set \<Rightarrow> string set \<Rightarrow> string \<times> strmap \<Rightarrow> bool" where
  "vouched E K N x \<longleftrightarrow> fst x \<in> subjects E N \<and> map_index (snd x) dpop_jkt_key \<in> insert [] K"

definition template_of :: "Session \<Rightarrow> string \<times> strmap" where
  "template_of s = (se_Subject s, se_Metadata s)"

definition vouched_entry :: "'w env \<Rightarrow> string set \<Rightarrow> string set \<Rightarrow> string \<Rightarrow> string \<Rightarrow> cache_value \<Rightarrow> bool" where
  "vouched_entry E K N n k v \<longleftrightarrow>
     (n = authCodeCache \<longrightarrow> (\<exists>i. v = AuthCodeVal i \<and> vouched E K N (template_of (ac_Session i))))
     \<and> (n = refreshTokenCacheName \<longrightarrow> (\<exists>i. v = RefreshVal i \<and> vouched E K N (template_of (rt_Session i))))"

lemma vouched_entry_iffs [simp]:
  "vouched_entry E K N authCodeCache k (AuthCodeVal i) \<longleftrightarrow> vouched E K N (template_of (ac_Session i))"
  "vouched_entry E K N refreshTokenCacheName k (RefreshVal r) \<longleftrightarrow> vouched E K N (template_of (rt_Session r))"
  "vouched_entry E K N preAuthCache k v" "vouched_entry E K N parCacheName k v" "vouched_entry E K N stateCache k v"
  by (auto simp: vouched_entry_def cache_names)

section \<open>The sessions the service makes\<close>

lemma vouched_zero [simp]: "vouched E K N (template_of (ac_Session zero_AuthCodeItem))"
  by (simp add: vouched_def template_of_def zero_AuthCodeItem_def zero_Session_def)

lemma vouched_bind:
  "vouched E K N (template_of s) \<Longrightarrow> jkt \<in> insert [] K \<Longrightarrow> vouched E K N (template_of (bind_session s sid now jkt))"
  by (auto simp: vouched_def template_of_def bind_session_def map_index_put Let_def)

lemma vouched_refresh:
  "vouched E K N (template_of s) \<Longrightarrow> jkt \<in> insert [] K \<Longrightarrow> vouched E K N (template_of (refresh_session s sid now jkt))"
  by (simp add: vouched_def template_of_def refresh_session_def map_index_put)

lemma vouched_template:
  "vouched E K N (template_of s) \<Longrightarrow> jkt \<in> insert [] K \<Longrightarrow> vouched E K N (template_of (template_after_bind s jkt))"
  by (auto simp: vouched_def template_of_def template_after_bind_def map_index_def split: option.splits)

lemma vouched_system: "jkt \<in> insert [] K \<Longrightarrow> vouched E K N (template_of (system_session E sid now scope jkt))"
  by (auto simp: vouched_def template_of_def system_session_def map_index_def)

lemma vouched_preauth:
  "s \<in> subjects E N \<Longrightarrow> vouched E K N (template_of (ac_Session (preauth_item E rq c s scope)))"
  by (simp add: vouched_def template_of_def preauth_item_def preauth_session_def zero_Session_def)

lemma extra_claims_no_key:
  "callback_metadata raw = Inr md \<Longrightarrow> map_index md dpop_jkt_key = []"
  "session_metadata raw = Inr md \<Longrightarrow> map_index md dpop_jkt_key = []"
  by (auto simp: callback_metadata_def session_metadata_def map_index_def extraClaimsMetadataKey_def
      dpop_jkt_key_def split: if_splits sum.splits)

lemma vouched_callback:
  "ud_UserID user \<in> subjects E N \<Longrightarrow> callback_metadata raw = Inr md \<Longrightarrow>
   vouched E K N (template_of (ac_Session (callback_item E sess ch m user st now md)))"
  by (simp add: vouched_def template_of_def callback_item_def callback_session_def extra_claims_no_key)

lemma vouched_direct:
  "ud_UserID user \<in> subjects E N \<Longrightarrow> md = None \<or> session_metadata raw = Inr md \<Longrightarrow>
   vouched E K N (template_of (direct_session E sid user now md))"
  by (auto simp: vouched_def template_of_def direct_session_def extra_claims_no_key)

section \<open>The invariant\<close>

definition vouched_world ::
    "('w \<Rightarrow> string \<times> string \<Rightarrow> cache_value option) \<Rightarrow> ('w \<Rightarrow> string \<Rightarrow> (string \<times> strmap) option)
     \<Rightarrow> 'w env \<Rightarrow> string set \<Rightarrow> string set \<Rightarrow> 'w \<Rightarrow> bool" where
  "vouched_world live sess E K N w \<longleftrightarrow>
     stored_ok live (vouched_entry E K N) w \<and> (\<forall>i x. sess w i = Some x \<longrightarrow> vouched E K N x)"

lemma vouched_world_evolves:
  "stored_ok live (vouched_entry E K N) w' \<Longrightarrow> vouched_world live sess E K N w \<Longrightarrow>
   evolves sess drawn made w w' \<Longrightarrow> vouched_world live sess E K N w'"
  unfolding vouched_world_def by (blast dest: evolvesD)

lemma vouched_replay_free: "replay_free (vouched_entry E K N)"
  by (auto simp: replay_free_def replay_caches_def vouched_entry_def cache_names)

context service_world
begin

lemma vouched_op:
  assumes "\<And>w. stored_ok live (vouched_entry E K N) w \<Longrightarrow> stored_ok live (vouched_entry E K N) (world_after m w)"
    and "evolves sess drawn made w (world_after m w)" "vouched_world live sess E K N w"
  shows "vouched_world live sess E K N (world_after m w)"
  using vouched_world_evolves [OF assms(1) assms(3,2)] assms(3) by (simp add: vouched_world_def)

lemma vouched_create:
  assumes "vouched_world live sess E K N w" "vouched E K N (template_of s)"
  shows "vouched_world live sess E K N (world_after (SessionCreate E s) w)"
  unfolding vouched_world_def
proof (intro conjI allI impI)
  show "stored_ok live (vouched_entry E K N) (world_after (SessionCreate E s) w)"
    using assms(1) by (simp add: vouched_world_def cached.create_ok)
next
  fix i x assume "sess (world_after (SessionCreate E s) w) i = Some x"
  then have "sess w i = Some x \<or> x = template_of s" by (auto simp: template_of_def dest: create_sess)
  with assms show "vouched E K N x" unfolding vouched_world_def by blast
qed

lemmas vouched_ops =
  vouched_op [OF cached.get_ok get_evolves] vouched_op [OF cached.pop_ok pop_evolves]
  vouched_op [OF cached.set_ok set_evolves] vouched_op [OF cached.delete_ok delete_evolves]
  vouched_op [OF cached.session_delete_ok session_delete_evolves] vouched_op [OF cached.session_get_ok session_get_evolves]
  vouched_op [OF cached.audit_ok audit_evolves] vouched_op [OF cached.ulid_ok ulid_evolves]
  vouched_op [OF cached.now_ok now_evolves] vouched_op [OF cached.rand_ok rand_evolves]
  vouched_op [OF cached.intn_ok intn_evolves]

lemma vouched_stored: "vouched_world live sess E K N w \<Longrightarrow> stored_ok live (vouched_entry E K N) w"
  by (simp add: vouched_world_def)

end

sublocale service_world \<subseteq> origin: store_policy E "vouched_world live sess E K N" "vouched_entry E K N"
    "\<lambda>s. vouched E K N (template_of s)" "\<lambda>_. True" "\<lambda>u. u \<in> range (result_of (UlidMake E))"
    "\<lambda>j. j \<in> insert [] K" "\<lambda>s. s \<in> subjects E N" "\<lambda>_. True" store for K N store
proof
  fix w n k v
  assume "vouched_world live sess E K N w" "result_of (CacheGet E n k) w = Inr (Some v)"
  then show "vouched_entry E K N n k v" using cached.get_val vouched_stored by blast
next
  fix w n k r
  assume "vouched_world live sess E K N w" "result_of (CachePop E n k) w = Inr r"
  then show "\<exists>v. r = Some v \<and> vouched_entry E K N n k v" using cached.pop_val vouched_stored by blast
qed (auto intro!: vouched_replay_free vouched_bind vouched_refresh vouched_template vouched_system
      vouched_preauth vouched_callback vouched_direct vouched_create intro: vouched_ops)

text \<open>A run from an empty world, with the keys and the subjects of its own steps.\<close>

lemma events_vouch: "\<forall>e\<in>set es. event_ok (\<lambda>j. j \<in> insert [] (proved_keys es)) (\<lambda>s. s \<in> subjects E (reported es)) (\<lambda>_. True) e"
proof
  fix e assume e: "e \<in> set es"
  show "event_ok (\<lambda>j. j \<in> insert [] (proved_keys es)) (\<lambda>s. s \<in> subjects E (reported es)) (\<lambda>_. True) e"
    by (cases e) (use e in \<open>auto simp: event_ok_def proved_keys_def subjects_def reported_def\<close>)
qed

context live_service
begin

lemma run_vouched:
  assumes "run (step E R Pv decays) w0 es w" "\<forall>k. live w0 k = None" "\<forall>i. sess w0 i = None"
  shows "vouched_world live sess E (proved_keys es) (reported es) w"
proof (rule policy_run [OF origin.store_policy_axioms [of "proved_keys es" "reported es"] _ assms(1) events_vouch])
  let ?I = "vouched_world live sess E (proved_keys es) (reported es)"
  show "steady live sess drawn made ?I"
    unfolding steady_def
  proof (intro allI impI)
    fix w w' assume q: "quiet_world live sess drawn made w w' \<or> replay_world live sess drawn made w w'" and i: "?I w"
    from q have e: "evolves sess drawn made w w'" by (auto simp: quiet_world_def replay_world_def)
    have "stored_ok live (vouched_entry E (proved_keys es) (reported es)) w'"
      using q quiet_step_ok [OF _ vouched_stored [OF i]] replays_only_ok [OF _ vouched_replay_free vouched_stored [OF i]]
      by (auto simp: quiet_world_def replay_world_def)
    from vouched_world_evolves [OF this i e] show "?I w'" .
  qed
  show "?I w0" using assms(2,3) by (simp add: vouched_world_def stored_ok_def)
qed

text \<open>What an active answer of the introspection endpoint says.\<close>

lemma introspection_active:
  assumes "content (result_of (introspection E R rq) w) = JSON 200 (JsonBody (JObj fs))"
    and "map_of fs ''active'' = Some (JBool True)"
  obtains i s where "sess w i = Some (template_of s)"
    "fs = buildIntrospectionResponse s (ro_PublicURL R) (ro_SessionTimeout R)"
proof -
  let ?tok = "value_or [] (form_String rq ''token'')"
  obtain s where g: "result_of (GetSessionByID E ?tok) w = Inr (Some s)"
    and f: "fs = buildIntrospectionResponse s (ro_PublicURL R) (ro_SessionTimeout R)"
    using assms
    by (auto simp: introspection_def introspection_auth_def error_json_def inactive_def Let_def
        split: if_splits option.splits sum.splits)
  from lookup_sess [OF g] have "sess w ?tok = Some (template_of s)" by (simp add: template_of_def)
  from that [OF this f] show ?thesis .
qed

end

lemma introspection_fields:
  assumes "fs = buildIntrospectionResponse s u timeout"
  shows "map_of fs ''sub'' = Some (JStr (se_Subject s))"
    and "map_of fs ''cnf'' = (let jkt = map_index (se_Metadata s) dpop_jkt_key in
      if jkt \<noteq> [] then Some (JObj [(''jkt'', JStr jkt)]) else None)"
  unfolding assms buildIntrospectionResponse_def Let_def by simp_all

end
