(* ===== verification/Fresh_World.thy ===== *)
theory Fresh_World
  imports Service_Provenance Code_Redemption Sample_World
begin

text \<open>
  \<open>Mem_World\<close> with a random source that never repeats the hash of a refresh token (it fails
  instead): the in-memory service of \<open>Sample_World\<close> over it is an instance of \<open>live_service\<close>.
\<close>

definition mem_sess :: "mem \<Rightarrow> string \<Rightarrow> (string \<times> strmap) option" where
  "mem_sess w i = map_option template_of (m_sessions w i)"

definition mem_drawn :: "mem \<Rightarrow> string set" where
  "mem_drawn w = (\<lambda>i. token_hash (replicate 32 (char_of i))) ` {..<m_rands w}"

definition mem_made :: "mem \<Rightarrow> string set" where
  "mem_made w = (\<lambda>i. CHR ''U'' # nat_text i) ` {..<m_ulids w}"

definition fresh_rand :: "nat \<Rightarrow> (mem, go_error + string) state" where
  "fresh_rand m = State (\<lambda>w.
     (if token_hash (replicate 32 (char_of (m_rands w))) \<in> mem_drawn w then Inl (ExternalError ''rand'')
      else Inr (replicate m (char_of (m_rands w))), w\<lparr>m_rands := Suc (m_rands w)\<rparr>))"

definition fresh_env :: "mem_config \<Rightarrow> mem env" where
  "fresh_env c = (mem_env c)\<lparr>RandRead := fresh_rand\<rparr>"

lemma fresh_env_simps [simp]:
  "CacheGet (fresh_env c) = mem_get c" "CacheSet (fresh_env c) = mem_set"
  "CacheDelete (fresh_env c) = mem_delete" "CachePop (fresh_env c) = mem_pop"
  "SessionCreate (fresh_env c) = mem_session_create" "SessionDelete (fresh_env c) = mem_session_delete"
  "GetSessionByID (fresh_env c) = mem_session_get" "PersonRequest (fresh_env c) = mem_audit"
  "UlidMake (fresh_env c) = mem_ulid" "TimeNow (fresh_env c) = mem_now c"
  "RandRead (fresh_env c) = fresh_rand" "RandIntn (fresh_env c) = mem_intn"
  "GetClient (fresh_env c) = GetClient (mem_env c)"
  "GetSecondsToLive (fresh_env c) = GetSecondsToLive (mem_env c)"
  "SessionStateAuthorized (fresh_env c) = SessionStateAuthorized (mem_env c)"
  "SessionIsActive (fresh_env c) = SessionIsActive (mem_env c)"
  "AuthErrText (fresh_env c) = AuthErrText (mem_env c)"
  "ActionLoginSuccess (fresh_env c) = ActionLoginSuccess (mem_env c)"
  by (simp_all add: fresh_env_def)

lemma fresh_rand_simps [simp]:
  "result_of (fresh_rand m) w =
     (if token_hash (replicate 32 (char_of (m_rands w))) \<in> mem_drawn w then Inl (ExternalError ''rand'')
      else Inr (replicate m (char_of (m_rands w))))"
  "world_after (fresh_rand m) w = w\<lparr>m_rands := Suc (m_rands w)\<rparr>"
  by (simp_all add: result_of_def world_after_def fresh_rand_def)

section \<open>The contract holds\<close>

lemma mem_evolves:
  "evolves mem_sess mem_drawn mem_made w w'"
  if "m_sessions w' = m_sessions w \<or> (\<exists>i. m_sessions w' = (m_sessions w)(i := None))"
    "m_rands w \<le> m_rands w'" "m_ulids w \<le> m_ulids w'"
  using that
  by (auto simp: evolves_def shrinks_def mem_sess_def mem_drawn_def mem_made_def)

interpretation fresh: service_world "fresh_env c" mem_live mem_sess mem_drawn mem_made for c
proof
  fix n k w v w'
  assume "run_state (CacheGet (fresh_env c) n k) w = (Inr (Some v), w')"
  then show "mem_live w (n, k) = Some v" using mem.get_some [of c n k w v w'] by simp
next
  fix n k w w'
  assume "run_state (CacheDelete (fresh_env c) n k) w = (None, w')"
  then show "mem_live w' (n, k) = None" using mem.delete_done [of c n k w w'] by simp
next
  fix n k w r w'
  assume "run_state (CachePop (fresh_env c) n k) w = (Inr r, w')"
  then show "(\<exists>v. r = Some v \<and> mem_live w (n, k) = Some v) \<and> mem_live w' (n, k) = None"
    using mem.pop_some [of c n k w r w'] by simp
next
  fix n k v w
  show "shrinks (mem_live (world_after (CacheSet (fresh_env c) n k v) w)) ((mem_live w)((n, k) \<mapsto> v))
    \<or> shrinks (mem_live (world_after (CacheSet (fresh_env c) n k v) w)) (mem_live w)"
    using mem.set_frame [of c n k v w] by simp
next
  fix w buf
  assume "result_of (RandRead (fresh_env c) 32) w = Inr buf"
  then show "token_hash buf \<notin> mem_drawn w \<and> token_hash buf \<in> mem_drawn (world_after (RandRead (fresh_env c) 32) w)"
    by (auto simp: mem_drawn_def split: if_splits)
next
  fix w
  show "result_of (UlidMake (fresh_env c)) w \<notin> mem_made w"
    by (auto simp: mem_made_def dest: nat_text_inj)
  show "result_of (UlidMake (fresh_env c)) w \<in> mem_made (world_after (UlidMake (fresh_env c)) w)"
    by (auto simp: mem_made_def)
next
  fix n k w
  show "evolves mem_sess mem_drawn mem_made w (world_after (CachePop (fresh_env c) n k) w)"
    by (rule mem_evolves) (simp_all split: option.splits)
next
  fix n k v w
  show "evolves mem_sess mem_drawn mem_made w (world_after (CacheSet (fresh_env c) n k v) w)"
    by (rule mem_evolves) (simp_all split: option.splits)
next
  fix n k w
  show "shrinks (mem_live (world_after (CachePop (fresh_env c) n k) w)) (mem_live w)"
    using mem.pop_frame [of c n k w] by simp
next
  fix i w
  show "evolves mem_sess mem_drawn mem_made w (world_after (SessionDelete (fresh_env c) i) w)"
    by (rule mem_evolves) auto
next
  fix s :: Session and i w x
  assume "mem_sess (world_after (SessionCreate (fresh_env c) s) w) i = Some x"
  then show "mem_sess w i = Some x \<or> x = (se_Subject s, se_Metadata s)"
    by (auto simp: mem_sess_def template_of_def split: if_splits)
next
  fix i w s
  assume "result_of (GetSessionByID (fresh_env c) i) w = Inr (Some s)"
  then show "mem_sess w i = Some (se_Subject s, se_Metadata s)" by (simp add: mem_sess_def template_of_def)
qed (auto simp: shrinks_mem_drop shrinks_mem_later mem_drawn_def mem_made_def intro: mem_evolves)

abbreviation live_env :: "mem env" where "live_env \<equiv> fresh_env sample_config"

lemma mem_later_world: "mem_later w w' \<Longrightarrow> quiet_world mem_live mem_sess mem_drawn mem_made w w'"
  by (auto simp: quiet_world_def mem_later_quiet) (auto simp: mem_later_def intro: mem_evolves)

lemma fresh_replay: "dpop_replay live_env = dpop_replay sample_env"
  unfolding dpop_replay_def cache_ReplayCheck_def cache_Get_def fresh_env_simps mem_env_simps by (rule refl)

lemma still_world:
  "quiet_world mem_live mem_sess mem_drawn mem_made w w" "replay_world mem_live mem_sess mem_drawn mem_made w w"
  by (simp_all add: quiet_world_def replay_world_def quiet_step_def replays_only_def evolves_def)

lemma sample_quiet_service:
  "quiet_service mem_live mem_sess mem_drawn mem_made live_env sample_router sample_libs mem_later"
proof -
  have "router_within T A live_env sample_router = router_within T A sample_env sample_router"
    for T A :: "mem \<Rightarrow> mem \<Rightarrow> bool" by (simp add: router_within_def fresh_replay)
  then show ?thesis
    unfolding quiet_service_def
    by (simp add: sample_router_within sample_libs_within still_world mem_later_world)
qed

interpretation live: live_service live_env mem_live mem_sess mem_drawn mem_made sample_router sample_libs mem_later
  by unfold_locales (rule sample_quiet_service, simp add: intn_range_def)

interpretation strict: strict_service live_env mem_live mem_sess mem_drawn mem_made sample_router sample_libs mem_later
  by unfold_locales (simp add: no_zero_answers_def sample_config_def split: option.split)

end
