(* ===== verification/Started_Service.thy ===== *)
theory Started_Service
  imports Service_Runs Service_Router
begin

text \<open>
  The service that \<open>Init\<close> builds is one that the theorems on runs are about: its replay checks and its
  attestation verifier stay within what \<open>quiet_service\<close> allows, whenever the libraries do.
\<close>

section \<open>The attestation verifier\<close>

lemma evolves_trans:
  "evolves sess drawn made u v \<Longrightarrow> evolves sess drawn made v w \<Longrightarrow> evolves sess drawn made u w"
  unfolding evolves_def by (blast intro: shrinks_trans)

lemma evolves_refl: "evolves sess drawn made w w"
  by (simp add: evolves_def)

text \<open>The operations but the creation of a session make the world evolve.\<close>

sublocale service_world \<subseteq> evolving: store_logic E "evolves sess drawn made w0" "\<lambda>_ _ _. True"
    "\<lambda>_. False" "\<lambda>_. True" "\<lambda>_. True" for w0
  by unfold_locales (simp_all add: op_evolves [THEN evolves_trans [rotated]], blast dest: pop_present)

context service_world
begin

lemma verifier_within:
  assumes "\<forall>opts s kf. within (quiet_world live sess drawn made) (p1 opts s kf)"
    and "\<forall>opts s kf. within (quiet_world live sess drawn made) (p2 opts s kf)"
    and "ve_replay v \<in> {None, Some (attest_replay E)}"
  shows "attester_within (replay_world live sess drawn made) (Some (attester_of E X p1 p2 v))"
proof -
  have q: "\<forall>opts s kf. within (quiet_step live) (p1 opts s kf)" "\<forall>opts s kf. within (quiet_step live) (p2 opts s kf)"
    using assms(1,2) by (simp_all add: within_def quiet_world_def)
  have c: "\<forall>opts s kf. calm (evolves sess drawn made w0) (p1 opts s kf)"
    "\<forall>opts s kf. calm (evolves sess drawn made w0) (p2 opts s kf)" for w0
    using assms(1,2) unfolding calm_def within_def quiet_world_def by (blast intro: evolves_trans)+
  have r: "attester_frame live (Some (attester_of E X p1 p2 v))"
    by (rule attester_of_frame [OF cache_api_axioms q assms(3)])
  have e: "calm_attester (evolves sess drawn made w0) (Some (attester_of E X p1 p2 v))" for w0
    by (rule evolving.attest_Verify_ok [OF c assms(3)]) (simp add: replay_free_def)
  have e': "evolves sess drawn made w (world_after (at_Verify (attester_of E X p1 p2 v) x y) w)" for w x y
    using e [of w] evolves_refl [of sess drawn made w] by (simp add: attester_within_def within_def)
  show ?thesis
    using r e' by (simp add: attester_frame_def attester_within_def within_def replay_world_def)
qed

end

section \<open>The router\<close>

text \<open>The libraries that \<open>Init\<close> takes parsers from.\<close>

definition quiet_parsers :: "('w \<Rightarrow> 'w \<Rightarrow> bool) \<Rightarrow> ('w, 'cert, 'k) init_lib \<Rightarrow> bool" where
  "quiet_parsers T L \<longleftrightarrow>
     (\<forall>opts s kf. within T (il_parse_dpop L opts s kf)) \<and> (\<forall>opts s kf. within T (il_parse_wia L opts s kf))
     \<and> (\<forall>opts s kf. within T (il_parse_pop L opts s kf)) \<and> (\<forall>opts s kf. within T (al_parse (il_assertions L) opts s kf))"

context service_world
begin

lemma init_attest_within:
  assumes "quiet_parsers (quiet_world live sess drawn made) L" "init_attest E L cfg = Inr at"
  shows "attester_within (replay_world live sess drawn made) at"
proof (cases at)
  case None
  then show ?thesis by (simp add: attester_within_def)
next
  case (Some a)
  obtain anchors v where v: "NewVerifier (attest_config E cfg anchors) = Inr v"
    and a: "a = attester_of E (il_x509 L) (il_parse_wia L) (il_parse_pop L) v"
    using assms(2) Some by (auto simp: init_attest_def split: sum.splits option.splits)
  have "ve_replay v \<in> {None, Some (attest_replay E)}"
    using v by (auto simp: NewVerifier_def attest_config_def)
  with assms(1) verifier_within show ?thesis unfolding Some a quiet_parsers_def by blast
qed

lemma init_router_within:
  assumes "quiet_parsers (quiet_world live sess drawn made) L" "init_attest E L cfg = Inr at"
  shows "router_within (quiet_world live sess drawn made) (replay_world live sess drawn made) E (init_router E L cfg store at)"
  using assms(1) init_attest_within [OF assms]
  by (simp add: router_within_def quiet_parsers_def init_router_def NewValidator_def dpop_config_def)

lemma started_service:
  assumes "intn_range E" "quiet_parsers (quiet_world live sess drawn made) L"
    and "libs_within (quiet_world live sess drawn made) Pv"
    and "\<forall>w w'. decays w w' \<longrightarrow> quiet_world live sess drawn made w w'"
    and "result_of (Init E L cfg store a) w = Inr i"
  shows "live_service E live sess drawn made (in_router i) Pv decays"
proof -
  obtain at where at: "init_attest E L cfg = Inr at" and r: "in_router i = init_router E L cfg store at"
    by (rule init_Inr [OF assms(5)]) (rule that; assumption)
  show ?thesis
    by unfold_locales (use assms(1-4) init_router_within [OF assms(2) at] r in \<open>simp_all add: quiet_service_def\<close>)
qed

end

end
