(* ===== verification/Properties_Runs.thy ===== *)
theory Properties_Runs
  imports Fresh_World Started_Service Properties_Endpoints Properties_Sessions Properties_Providers
begin

text \<open>
  Properties of whole runs of the service: of every order of requests, logins, replays and expiries.
  They rest on the locale \<open>live_service\<close>, whose instance \<open>live\<close> the witnesses run in.
\<close>

section \<open>The service that is started\<close>

text \<open>
  C5: the theorems on runs are about the service that \<open>Init\<close> builds. Whenever \<open>Init\<close> succeeds, its
  router, with the replay checks and the attestation verifier it has set up, and with libraries that
  stay within \<open>quiet_world\<close>, is a \<open>live_service\<close>, for every configuration.
\<close>
theorem started_service_live:
  assumes "service_world E live sess drawn made" "intn_range E"
    and "quiet_parsers (quiet_world live sess drawn made) L" "libs_within (quiet_world live sess drawn made) Pv"
    and "\<forall>w w'. decays w w' \<longrightarrow> quiet_world live sess drawn made w w'"
    and "result_of (Init E L cfg store a) w = Inr i"
  shows "live_service E live sess drawn made (in_router i) Pv decays"
  by (rule service_world.started_service [OF assms])

lemma sample_lib_quiet: "quiet_parsers (quiet_world mem_live mem_sess mem_drawn mem_made) sample_lib"
  by (simp add: quiet_parsers_def within_def sample_lib_def one_token_parser_def no_assertions_def still_world)

theorem started_service_live_witness:
  "\<exists>i. result_of (Init live_env sample_lib (sample_app []) sample_store (newAuthProvider [])) mem_init = Inr i
     \<and> live_service live_env mem_live mem_sess mem_drawn mem_made (in_router i) sample_libs mem_later"
proof -
  have "\<exists>i. result_of (Init live_env sample_lib (sample_app []) sample_store (newAuthProvider [])) mem_init = Inr i"
    by (simp add: run_init)
  then obtain i where i: "result_of (Init live_env sample_lib (sample_app []) sample_store (newAuthProvider [])) mem_init = Inr i" ..
  have "intn_range live_env" by (simp add: intn_range_def)
  from started_service_live [OF fresh.service_world_axioms this sample_lib_quiet _ _ i, of sample_libs mem_later] i
  show ?thesis by (auto simp: sample_libs_within still_world mem_later_world)
qed

section \<open>One-time credentials\<close>

text \<open>
  C4: a refresh token that the token endpoint has handed out is granted at most once in everything
  that follows, whatever else the service is asked.
\<close>
theorem refresh_token_used_once:
  assumes "live_service E live sess drawn made R Pv decays"
    and "run (step E R Pv decays) w0 (es @ e # es') w" "issues_refresh t e"
  shows "length (filter (refreshes_with t) es') \<le> 1"
  by (rule live_service.refresh_once [OF assms])

definition bound_request :: "(string \<rightharpoonup> string) \<Rightarrow> request" where
  "bound_request form = (bff_request form)\<lparr>rq_header :=
     (\<lambda>k. if k = ''Authorization'' then bff_header else if k = ''DPoP'' then ''jwt'' else [])\<rparr>"

lemma bound_request_simps [simp]:
  "rq_form (bound_request f) = f" "rq_header (bound_request f) ''Authorization'' = bff_header"
  "rq_header (bound_request f) ''OAuth-Client-Attestation'' = []"
  "rq_header (bound_request f) ''DPoP'' = ''jwt''"
  by (simp_all add: bound_request_def bff_request_def)

abbreviation drawn_token :: string where
  "drawn_token \<equiv> RawEncodeToString URLAlphabet (replicate 32 (char_of (0::nat)))"

abbreviation code_world :: mem where
  "code_world \<equiv> world_with [((authCodeCache, ''C1''), AuthCodeVal sample_item)]"

lemma live_proof:
  "result_of (dpop_Validate live_env (one_token_parser sample_proof generator_point) sample_validator ''jwt'' ''POST'' []) code_world
     = Inr (thumbprint generator_x generator_y)"
  "world_after (dpop_Validate live_env (one_token_parser sample_proof generator_point) sample_validator ''jwt'' ''POST'' []) code_world
     = code_world"
proof -
  let ?p = "one_token_parser sample_proof generator_point proof_options ''jwt'' (\<lambda>t. map_sum id fst (proof_key t))"
  have p: "result_of ?p w = (Inr sample_proof :: go_error + _)" "world_after ?p w = w" for w
    using sample_proof_key by (simp_all add: one_token_parser_def proof_options_def) (simp_all add: sample_proof_def)
  have i: "rc_ID (pc_Registered (jt_Claims sample_proof)) = ''D1''" by (simp add: sample_proof_def)
  show "result_of (dpop_Validate live_env (one_token_parser sample_proof generator_point) sample_validator ''jwt'' ''POST'' []) code_world
     = Inr (thumbprint generator_x generator_y)"
    "world_after (dpop_Validate live_env (one_token_parser sample_proof generator_point) sample_validator ''jwt'' ''POST'' []) code_world
     = code_world"
    using sample_proof_key sample_check_claims sample_validator_replay
    by (simp_all add: p i dpop_Validate_def dpop_replay_def cache_ReplayCheck_def cache_Get_def cache_read_def all_ttls_def Let_def)
qed


lemma live_token_issues:
  "issues_refresh drawn_token (TokenRequested (bound_request code_form) p
     (result_of (token live_env sample_router (bound_request code_form)) code_world))"
proof -
  let ?rq = "bound_request code_form"
  have j: "result_of (dpopJKT live_env sample_router ?rq) code_world = Inr (thumbprint generator_x generator_y)"
    "world_after (dpopJKT live_env sample_router ?rq) code_world = code_world"
    by (simp_all add: dpopJKT_def HeaderName_def live_proof)
  have g: "rq_form ?rq ''grant_type'' = Some GrantTypeAuthorizationCode"
    by (simp add: code_form_def GrantTypeAuthorizationCode_def)
  have "\<exists>r. content (result_of (HandleAuthorization live_env ?rq 3600000000000 (thumbprint generator_x generator_y)
      (Some wallet_attester)) code_world) = JSON 200 (TokenResponseBody r) \<and> resp_RefreshToken r = drawn_token"
    using thumbprint_not_Nil
    by (simp add: HandleAuthorization_def authenticate_def authenticate_confidential_def
      requires_dpop_def bff_client_def check_code_def GetItem_def cache_Get_def cache_read_def form_String_def
      code_form_def check_challenge_def sample_item_def issue_token_def Let_def DeleteItem_def
      issue_refresh_def token_type_def IssueRefreshToken_def mem_drawn_def all_ttls_def)
  moreover have "drawn_token \<noteq> []"
    using length_RawEncode [of URLAlphabet "replicate 32 (char_of (0::nat))"] by auto
  ultimately show ?thesis
    using g j by (simp add: issues_refresh_def token_def dispatch_grant_def)
qed


abbreviation asked :: "request \<Rightarrow> mem \<Rightarrow> event" where
  "asked rq w \<equiv> TokenRequested rq (result_of (dpopJKT live_env sample_router rq) w) (result_of (token live_env sample_router rq) w)"

abbreviation after_token :: "request \<Rightarrow> mem \<Rightarrow> mem" where
  "after_token rq w \<equiv> world_after (token live_env sample_router rq) w"

abbreviation code_request :: request where "code_request \<equiv> bound_request code_form"

abbreviation refresh_request :: request where
  "refresh_request \<equiv> bound_request [''grant_type'' \<mapsto> ''refresh_token'', ''refresh_token'' \<mapsto> drawn_token]"

abbreviation live_step :: "mem \<Rightarrow> event \<Rightarrow> mem \<Rightarrow> bool" where
  "live_step \<equiv> step live_env sample_router sample_libs mem_later"

theorem refresh_token_used_once_witness:
  "length (filter (refreshes_with drawn_token)
     [asked refresh_request (after_token code_request code_world),
      asked refresh_request (after_token refresh_request (after_token code_request code_world))]) \<le> 1"
proof -
  let ?w1 = "after_token code_request code_world"
  have "run live_step code_world [asked code_request code_world] ?w1"
    unfolding run_single by (rule step_token)
  then have "run live_step code_world ([asked code_request code_world] @ [asked refresh_request ?w1])
      (after_token refresh_request ?w1)"
    by (rule run_step) (rule step_token)
  then have "run live_step code_world (([asked code_request code_world] @ [asked refresh_request ?w1])
        @ [asked refresh_request (after_token refresh_request ?w1)])
      (after_token refresh_request (after_token refresh_request ?w1))"
    by (rule run_step) (rule step_token)
  then have "run live_step code_world ([] @ asked code_request code_world #
        [asked refresh_request ?w1, asked refresh_request (after_token refresh_request ?w1)])
      (after_token refresh_request (after_token refresh_request ?w1))"
    unfolding append.simps .
  from refresh_token_used_once [OF live.live_service_axioms this live_token_issues]
  show ?thesis .
qed

text \<open>
  C17: a request_uri that the PAR endpoint has handed out redirects at most once in everything that
  follows.
\<close>
theorem request_uri_used_once:
  assumes "live_service E live sess drawn made R Pv decays"
    and "run (step E R Pv decays) w0 (es @ e # es') w" "issues_uri u e"
  shows "length (filter (redirects_for u) es') \<le> 1"
  by (rule live_service.redirect_once [OF assms])

abbreviation live_pushed :: mem where
  "live_pushed \<equiv> world_after (par live_env sample_router pushing_request) (world_with [])"

abbreviation uri_request :: request where
  "uri_request \<equiv> query_request [''client_id'' \<mapsto> ''wallet'', ''request_uri'' \<mapsto> parURNPrefix @ ''U0''] []"

abbreviation browsed :: "mem \<Rightarrow> event" where
  "browsed w \<equiv> AuthorizeRequested uri_request (result_of (authorizationV3 live_env sample_router uri_request) w)"

lemma live_push_issues:
  "issues_uri ''U0'' (RequestPushed pushing_request (result_of (par live_env sample_router pushing_request) (world_with [])))"
proof -
  have "par_checks live_env sample_store pushing_request ''wallet'' = par_checks sample_env sample_store pushing_request ''wallet''"
    by (simp add: par_checks_def)
  also have "\<dots> = Inr ''wallet''" using code_query_valid by (simp add: par_checks_Inr)
  finally have "par_checks live_env sample_store pushing_request ''wallet'' = Inr ''wallet''" .
  then show ?thesis
    by (simp add: issues_uri_def par_def SetPAR_def all_ttls_def cache_names nat_text.simps digit_char_def)
qed

theorem request_uri_used_once_witness:
  "length (filter (redirects_for ''U0'')
     [browsed live_pushed, browsed (world_after (authorizationV3 live_env sample_router uri_request) live_pushed)]) \<le> 1"
proof -
  let ?e = "RequestPushed pushing_request (result_of (par live_env sample_router pushing_request) (world_with []))"
  let ?a = "\<lambda>w. world_after (authorizationV3 live_env sample_router uri_request) w"
  have "run live_step (world_with []) [?e] live_pushed"
    unfolding run_single by (rule step_par)
  then have "run live_step (world_with []) ([?e] @ [browsed live_pushed]) (?a live_pushed)"
    by (rule run_step) (rule step_authorize)
  then have "run live_step (world_with []) (([?e] @ [browsed live_pushed]) @ [browsed (?a live_pushed)]) (?a (?a live_pushed))"
    by (rule run_step) (rule step_authorize)
  then have "run live_step (world_with []) ([] @ ?e # [browsed live_pushed, browsed (?a live_pushed)]) (?a (?a live_pushed))"
    unfolding append.simps .
  from request_uri_used_once [OF live.live_service_axioms this live_push_issues]
  show ?thesis .
qed



section \<open>Where a session comes from\<close>





end
