(* ===== verification/Config_Bindings.thy ===== *)
theory Config_Bindings
  imports App_Start
begin

text \<open>
  The configuration: what each \<open>Bind\<close> tells \<open>viper\<close> (\<open>config.go\<close> and the \<open>config.go\<close> of \<open>store\<close>,
  \<open>smartid\<close>, \<open>authorizationcode\<close>, \<open>dpop\<close>, \<open>clientattestation\<close>) and what each \<open>Validate\<close> hands to the
  validator. \<open>viper\<close>, the validator and the sections of other modules are parameters: a binding is
  the sequence of its calls, a struct the list of its fields with their keys, values and tags.
\<close>

section \<open>Calls of \<open>viper\<close>\<close>

datatype config_value =
    ConfText string | ConfInt int | ConfDuration int | ConfBool bool | ConfList "string list"

datatype viper_call =
    SetDefault string config_value
  | BindEnv string string

text \<open>
  \<open>secret\<close> is \<open>LoadRemoteSecret\<close>, whose error is dropped: the value is empty then.
\<close>

definition smartid_Bind :: "(string \<Rightarrow> string) \<Rightarrow> string \<Rightarrow> viper_call list" where
  "smartid_Bind secret prefix =
     (let relying_party_uuid = secret ''SMARTID_RELYING_PARTY_UUID'' in
      [SetDefault (prefix @ ''.endpoint'') (ConfText ''https://sid.demo.sk.ee/smart-id-rp/v2''),
       SetDefault (prefix @ ''.relying_party_name'') (ConfText ''DEMO''),
       SetDefault (prefix @ ''.relying_party_uuid'') (ConfText relying_party_uuid),
       SetDefault (prefix @ ''.certificate_level'') (ConfText ''QUALIFIED''),
       SetDefault (prefix @ ''.hash_type'') (ConfText ''SHA512''),
       SetDefault (prefix @ ''.interaction_type'') (ConfText ''displayTextAndPIN''),
       SetDefault (prefix @ ''.text'') (ConfText ''Custom text''),
       SetDefault (prefix @ ''.create_session_timeout_in_seconds'') (ConfInt 90),
       SetDefault (prefix @ ''.check_session_timeout_in_seconds'') (ConfInt 1),
       SetDefault (prefix @ ''.present_retries'') (ConfInt 24),
       SetDefault (prefix @ ''.present_wait_in_seconds'') (ConfInt 5),
       SetDefault (prefix @ ''.present_ttl'') (ConfDuration (10 * minute)),
       BindEnv (prefix @ ''.endpoint'') ''SMARTID_ENDPOINT'',
       BindEnv (prefix @ ''.relying_party_name'') ''SMARTID_RELYING_PARTY_NAME'',
       BindEnv (prefix @ ''.relying_party_uuid'') ''SMARTID_RELYING_PARTY_UUID'',
       BindEnv (prefix @ ''.certificate_level'') ''SMARTID_CERT_LEVEL'',
       BindEnv (prefix @ ''.hash_type'') ''SMARTID_HASH_TYPE'',
       BindEnv (prefix @ ''.interaction_type'') ''SMARTID_INTERACTION'',
       BindEnv (prefix @ ''.text'') ''SMARTID_TEXT'',
       BindEnv (prefix @ ''.create_session_timeout_in_seconds'') ''SMARTID_CREATE_TIMEOUT'',
       BindEnv (prefix @ ''.check_session_timeout_in_seconds'') ''SMARTID_CHECK_TIMEOUT'',
       BindEnv (prefix @ ''.present_retries'') ''SMARTID_PRESENT_RETRIES'',
       BindEnv (prefix @ ''.present_wait_in_seconds'') ''SMARTID_WAIT_IN_SECONDS'',
       BindEnv (prefix @ ''.present_ttl'') ''SMARTID_CACHE_TTL''])"

definition store_Bind :: "string \<Rightarrow> viper_call list" where
  "store_Bind prefix =
     [SetDefault (prefix @ ''.clients_file'') (ConfText ''config/clients.yaml''),
      BindEnv (prefix @ ''.clients_file'') ''IDAUTH_STORE_CLIENTS_FILE'']"

definition authcode_Bind :: "string \<Rightarrow> viper_call list" where
  "authcode_Bind prefix =
     [SetDefault (prefix @ ''.state_ttl'') (ConfDuration (5 * minute)),
      SetDefault (prefix @ ''.auth_code_ttl'') (ConfDuration (1 * minute)),
      SetDefault (prefix @ ''.pre_auth_ttl'') (ConfDuration (5 * minute)),
      SetDefault (prefix @ ''.par_ttl'') (ConfDuration (90 * second)),
      BindEnv (prefix @ ''.state_ttl'') ''IDAUTH_CODE_STATE_TTL'',
      BindEnv (prefix @ ''.auth_code_ttl'') ''IDAUTH_CODE_TTL'',
      BindEnv (prefix @ ''.pre_auth_ttl'') ''PRE_AUTH_TTL'',
      BindEnv (prefix @ ''.par_ttl'') ''IDAUTH_PAR_TTL'',
      BindEnv (prefix @ ''.require_par'') ''IDAUTH_REQUIRE_PAR'',
      BindEnv (prefix @ ''.scopes'') ''IDAUTH_CODE_SCOPES'',
      SetDefault (prefix @ ''.refresh_token_ttl'') (ConfDuration (720 * hour)),
      BindEnv (prefix @ ''.refresh_token_ttl'') ''IDAUTH_REFRESH_TOKEN_TTL'']"

definition dpop_Bind :: "string \<Rightarrow> viper_call list" where
  "dpop_Bind prefix =
     [SetDefault (prefix @ ''.iat_window'') (ConfDuration minute),
      BindEnv (prefix @ ''.accepted_htu'') ''DPOP_ACCEPTED_HTU'',
      BindEnv (prefix @ ''.iat_window'') ''DPOP_IAT_WINDOW'']"

definition attest_Bind :: "string \<Rightarrow> viper_call list" where
  "attest_Bind prefix =
     [SetDefault (prefix @ ''.iat_window'') (ConfDuration minute),
      SetDefault (prefix @ ''.require_key_binding'') (ConfBool False),
      BindEnv (prefix @ ''.trust_anchors_file'') ''CLIENT_ATTESTATION_TRUST_ANCHORS_FILE'',
      BindEnv (prefix @ ''.accepted_aud'') ''CLIENT_ATTESTATION_ACCEPTED_AUD'',
      BindEnv (prefix @ ''.iat_window'') ''CLIENT_ATTESTATION_IAT_WINDOW'',
      BindEnv (prefix @ ''.require_key_binding'') ''CLIENT_ATTESTATION_REQUIRE_KEY_BINDING'']"

text \<open>The sections of other modules are bound by their own code.\<close>

record lib_sections =
  ls_Core :: "string \<Rightarrow> viper_call list"
  ls_Telemetry :: "string \<Rightarrow> viper_call list"
  ls_Audit :: "string \<Rightarrow> viper_call list"
  ls_Verifier :: "string \<Rightarrow> viper_call list"

definition own_Bind :: "(string \<Rightarrow> string) \<Rightarrow> viper_call list" where
  "own_Bind secret =
     [BindEnv ''oauth2_generic_config_file'' ''IDAUTH_OAUTH2_GENERIC_CONFIG_FILE'',
      BindEnv ''idauth_api_public_url'' ''IDAUTH_API_PUBLIC_URL'',
      BindEnv ''android_app_package'' ''ANDROID_APP_PACKAGE'',
      SetDefault ''android_app_fingerprints'' (ConfText (secret ''ANDROID_APP_FINGERPRINTS'')),
      BindEnv ''android_app_fingerprints'' ''ANDROID_APP_FINGERPRINTS'',
      BindEnv ''apple_app_ids'' ''APPLE_APP_IDS'',
      BindEnv ''require_introspection_auth'' ''IDAUTH_REQUIRE_INTROSPECTION_AUTH'',
      BindEnv ''require_client_attestation_preauth'' ''IDAUTH_REQUIRE_CLIENT_ATTESTATION_PREAUTH'']"

definition config_Bind :: "lib_sections \<Rightarrow> (string \<Rightarrow> string) \<Rightarrow> viper_call list" where
  "config_Bind L secret =
     ls_Core L [] @ ls_Telemetry L ''telemetry'' @ store_Bind ''store'' @ ls_Audit L ''audit''
     @ ls_Verifier L ''verifier'' @ smartid_Bind secret ''smartid'' @ authcode_Bind ''auth_code''
     @ dpop_Bind ''dpop'' @ attest_Bind ''client_attestation'' @ own_Bind secret"

text \<open>The defaults and the environment variables that a sequence of calls has registered.\<close>

fun set_defaults :: "viper_call list \<Rightarrow> (string \<rightharpoonup> config_value) \<Rightarrow> (string \<rightharpoonup> config_value)" where
  "set_defaults [] m = m"
| "set_defaults (SetDefault k v # cs) m = set_defaults cs (m(k \<mapsto> v))"
| "set_defaults (BindEnv k e # cs) m = set_defaults cs m"

fun bound_env :: "viper_call list \<Rightarrow> (string \<times> string) list" where
  "bound_env [] = []"
| "bound_env (SetDefault k v # cs) = bound_env cs"
| "bound_env (BindEnv k e # cs) = (k, e) # bound_env cs"

section \<open>The fields and their tags\<close>

datatype tag = Required | Gt0 | Url | Omitempty | Dive | Min1

type_synonym field = "string \<times> config_value \<times> tag list"

definition smartid_fields :: "SmartIdConfiguration \<Rightarrow> field list" where
  "smartid_fields c =
     [(''endpoint'', ConfText (sc_Endpoint c), [Required]),
      (''relying_party_name'', ConfText (sc_RelyingPartyName c), [Required]),
      (''relying_party_uuid'', ConfText (sc_RelyingPartyUUID c), [Required]),
      (''certificate_level'', ConfText (sc_CertificateLevel c), [Required]),
      (''hash_type'', ConfText (sc_HashType c), [Required]),
      (''interaction_type'', ConfText (sc_InteractionType c), [Required]),
      (''text'', ConfText (sc_Text c), [Required]),
      (''create_session_timeout_in_seconds'', ConfInt (sc_CreateSessionTimeoutInSeconds c), [Required]),
      (''check_session_timeout_in_seconds'', ConfInt (sc_CheckSessionTimeoutInSeconds c), [Required]),
      (''present_retries'', ConfInt (sc_PresentRetries c), []),
      (''present_wait_in_seconds'', ConfInt (sc_PresentWaitInSeconds c), []),
      (''present_ttl'', ConfDuration (sc_PresentTTL c), [Required, Gt0])]"

definition store_fields :: "string \<Rightarrow> field list" where
  "store_fields clientPath = [(''clients_file'', ConfText clientPath, [])]"

definition authcode_fields :: "CodeConfiguration \<Rightarrow> field list" where
  "authcode_fields c =
     [(''state_ttl'', ConfDuration (cc_StateTTL c), [Required, Gt0]),
      (''auth_code_ttl'', ConfDuration (cc_AuthCodeTTL c), [Required, Gt0]),
      (''pre_auth_ttl'', ConfDuration (cc_PreAuthTTL c), [Required, Gt0]),
      (''par_ttl'', ConfDuration (cc_PARTTL c), [Required, Gt0]),
      (''require_par'', ConfBool (cc_RequirePAR c), []),
      (''scopes'', ConfList (cc_Scopes c), [Omitempty, Dive, Min1]),
      (''refresh_token_ttl'', ConfDuration (cc_RefreshTokenTTL c), [Required, Gt0])]"

definition dpop_fields :: "string list \<Rightarrow> int \<Rightarrow> field list" where
  "dpop_fields acceptedHTU iatWindow =
     [(''accepted_htu'', ConfList acceptedHTU, [Omitempty, Dive, Url]),
      (''iat_window'', ConfDuration iatWindow, [Required, Gt0])]"

definition attest_fields :: "string \<Rightarrow> string list \<Rightarrow> int \<Rightarrow> bool \<Rightarrow> field list" where
  "attest_fields trustAnchorsFile acceptedAudiences iatWindow requireKeyBinding =
     [(''trust_anchors_file'', ConfText trustAnchorsFile, [Omitempty]),
      (''accepted_aud'', ConfList acceptedAudiences, [Omitempty, Dive, Url]),
      (''iat_window'', ConfDuration iatWindow, [Required, Gt0]),
      (''require_key_binding'', ConfBool requireKeyBinding, [])]"

text \<open>The fields of the top-level struct itself, without its sections and its map of clients.\<close>

record TopConfig =
  tc_OAuth2GenericConfigFile :: string
  tc_AndroidAppPackage :: string
  tc_AndroidAppFingerprints :: "string list"
  tc_AppleAppIDs :: "string list"

definition own_fields :: "AppConfig \<Rightarrow> TopConfig \<Rightarrow> field list" where
  "own_fields cfg own =
     [(''oauth2_generic_config_file'', ConfText (tc_OAuth2GenericConfigFile own), [Omitempty]),
      (''idauth_api_public_url'', ConfText (app_PublicURL cfg), [Required, Url]),
      (''android_app_package'', ConfText (tc_AndroidAppPackage own), [Omitempty]),
      (''android_app_fingerprints'', ConfList (tc_AndroidAppFingerprints own), [Omitempty]),
      (''apple_app_ids'', ConfList (tc_AppleAppIDs own), [Omitempty]),
      (''require_introspection_auth'', ConfBool (app_RequireIntrospectionAuth cfg), []),
      (''require_client_attestation_preauth'', ConfBool (app_RequireClientAttestationPreauth cfg), [])]"

section \<open>Validation\<close>

text \<open>
  The meaning of the tags, as the validator documents it: \<open>omitempty\<close> skips a zero value, \<open>dive\<close>
  applies the tags after it to the elements.
\<close>

fun is_zero :: "config_value \<Rightarrow> bool" where
  "is_zero (ConfText s) \<longleftrightarrow> s = []"
| "is_zero (ConfInt i) \<longleftrightarrow> i = 0"
| "is_zero (ConfDuration d) \<longleftrightarrow> d = 0"
| "is_zero (ConfBool b) \<longleftrightarrow> \<not> b"
| "is_zero (ConfList l) \<longleftrightarrow> l = []"

fun meets :: "(string \<Rightarrow> bool) \<Rightarrow> config_value \<Rightarrow> tag \<Rightarrow> bool" where
  "meets is_url v Required \<longleftrightarrow> \<not> is_zero v"
| "meets is_url (ConfDuration d) Gt0 \<longleftrightarrow> 0 < d"
| "meets is_url (ConfInt i) Gt0 \<longleftrightarrow> 0 < i"
| "meets is_url (ConfText s) Url \<longleftrightarrow> is_url s"
| "meets is_url (ConfText s) Min1 \<longleftrightarrow> 1 \<le> length s"
| "meets is_url v t \<longleftrightarrow> True"

fun elements :: "config_value \<Rightarrow> config_value list" where
  "elements (ConfList l) = map ConfText l"
| "elements v = []"

definition field_ok :: "(string \<Rightarrow> bool) \<Rightarrow> config_value \<Rightarrow> tag list \<Rightarrow> bool" where
  "field_ok is_url v ts \<longleftrightarrow> (Omitempty \<in> set ts \<and> is_zero v)
     \<or> (list_all (meets is_url v) (takeWhile (\<lambda>t. t \<noteq> Dive) ts)
        \<and> list_all (\<lambda>e. list_all (meets is_url e) (tl (dropWhile (\<lambda>t. t \<noteq> Dive) ts))) (elements v))"

definition validates :: "(string \<Rightarrow> bool) \<Rightarrow> (field list \<Rightarrow> go_error option) \<Rightarrow> bool" where
  "validates is_url Struct \<longleftrightarrow> (\<forall>fs. Struct fs = None \<longleftrightarrow> list_all (\<lambda>(k, v, ts). field_ok is_url v ts) fs)"

text \<open>Each section hands itself to the validator.\<close>

definition store_Validate :: "(field list \<Rightarrow> go_error option) \<Rightarrow> string \<Rightarrow> go_error option" where
  "store_Validate Struct clientPath = Struct (store_fields clientPath)"

definition smartid_Validate :: "(field list \<Rightarrow> go_error option) \<Rightarrow> SmartIdConfiguration \<Rightarrow> go_error option" where
  "smartid_Validate Struct c = Struct (smartid_fields c)"

definition authcode_Validate :: "(field list \<Rightarrow> go_error option) \<Rightarrow> CodeConfiguration \<Rightarrow> go_error option" where
  "authcode_Validate Struct c = Struct (authcode_fields c)"

definition dpop_section_Validate :: "(field list \<Rightarrow> go_error option) \<Rightarrow> AppConfig \<Rightarrow> go_error option" where
  "dpop_section_Validate Struct cfg = Struct (dpop_fields (app_AcceptedHTU cfg) (app_DPoPIATWindow cfg))"

definition attest_section_Validate :: "(field list \<Rightarrow> go_error option) \<Rightarrow> AppConfig \<Rightarrow> go_error option" where
  "attest_section_Validate Struct cfg = Struct (attest_fields (app_TrustAnchorsFile cfg) (app_AcceptedAudiences cfg)
      (app_AttestIATWindow cfg) (app_RequireKeyBinding cfg))"

text \<open>
  The checks of \<open>Configuration.Validate\<close> with the repository's own sections filled in; the last one
  hands the top-level struct to the validator.
\<close>

definition own_checks ::
    "(field list \<Rightarrow> go_error option) \<Rightarrow> config_checks \<Rightarrow> AppConfig \<Rightarrow> TopConfig \<Rightarrow> string \<Rightarrow> config_checks" where
  "own_checks Struct others cfg own clientPath =
     others\<lparr>ck_Store := store_Validate Struct clientPath, ck_SmartID := smartid_Validate Struct (app_SmartID cfg),
       ck_AuthorizationCode := authcode_Validate Struct (app_AuthorizationCode cfg),
       ck_DPoP := dpop_section_Validate Struct cfg, ck_ClientAttestation := attest_section_Validate Struct cfg,
       ck_Self := Struct (own_fields cfg own)\<rparr>"

lemmas own_checks_defs = own_checks_def store_Validate_def smartid_Validate_def authcode_Validate_def
  dpop_section_Validate_def attest_section_Validate_def

section \<open>Facts\<close>

lemma set_defaults_append: "set_defaults (cs @ ds) m = set_defaults ds (set_defaults cs m)"
  by (induction cs m rule: set_defaults.induct) (simp_all del: fun_upd_apply)

lemma bound_env_append: "bound_env (cs @ ds) = bound_env cs @ bound_env ds"
  by (induction cs rule: bound_env.induct) simp_all

lemma validatesD:
  assumes "validates is_url Struct" "Struct fs = None" "(k, v, ts) \<in> set fs"
  shows "field_ok is_url v ts"
  using assms by (auto simp: validates_def list_all_iff)

lemma field_ok_simps [simp]:
  "field_ok u v []" "field_ok u v [Omitempty]"
  "field_ok u (ConfText s) [Required] \<longleftrightarrow> s \<noteq> []" "field_ok u (ConfInt i) [Required] \<longleftrightarrow> i \<noteq> 0"
  "field_ok u (ConfDuration d) [Required, Gt0] \<longleftrightarrow> 0 < d"
  "field_ok u (ConfText s) [Required, Url] \<longleftrightarrow> s \<noteq> [] \<and> u s"
  "field_ok u (ConfList l) [Omitempty, Dive, Url] \<longleftrightarrow> (\<forall>s\<in>set l. u s)"
  "field_ok u (ConfList l) [Omitempty, Dive, Min1] \<longleftrightarrow> (\<forall>s\<in>set l. s \<noteq> [])"
proof -
  show "field_ok u v [Omitempty]" by (cases v) (auto simp: field_ok_def list_all_iff)
  show "field_ok u (ConfList l) [Omitempty, Dive, Min1] \<longleftrightarrow> (\<forall>s\<in>set l. s \<noteq> [])"
    by (auto simp: field_ok_def list_all_iff Suc_le_eq)
qed (auto simp: field_ok_def list_all_iff)

lemma config_Validate_None:
  assumes "config_Validate c = None"
  shows "ck_Store c = None" "ck_SmartID c = None" "ck_AuthorizationCode c = None" "ck_DPoP c = None"
    "ck_ClientAttestation c = None" "ck_Self c = None"
  using assms unfolding config_Validate_def first_error_None by auto

end
