(* ===== verification/Cmd_Server.thy ===== *)
theory Cmd_Server
  imports App_Start Go_Path
begin

text \<open>
  The program's command line, \<open>cmd/server\<close>, and the set-up of its tests, \<open>testing.go\<close>. The command
  library, the HTTP client, the server loop and the process environment are parameters; a command
  returns to \<open>main\<close> with an error or none, or exits by itself.
\<close>

section \<open>Commands\<close>

datatype cmd_function = RunWeb | RunHealth

record Flag =
  fl_Long :: string
  fl_Short :: string
  fl_Default :: string

record SubCommand =
  sb_Use :: string
  sb_RunE :: cmd_function
  sb_Flags :: "Flag list"

record RootCommand =
  rc_Use :: string
  rc_RunE :: cmd_function
  rc_Version :: string
  rc_Commands :: "SubCommand list"

text \<open>\<open>RootCmd\<close> is a global pointer: whoever comes first makes the command, the others keep it.\<close>

definition initRootCmd :: "RootCommand option \<Rightarrow> RootCommand" where
  "initRootCmd RootCmd = (case RootCmd of
      Some c \<Rightarrow> c
    | None \<Rightarrow> \<lparr>rc_Use = ''server'', rc_RunE = RunWeb, rc_Version = [], rc_Commands = []\<rparr>)"

definition AddCommand :: "RootCommand \<Rightarrow> SubCommand \<Rightarrow> RootCommand" where
  "AddCommand c sub = c\<lparr>rc_Commands := rc_Commands c @ [sub]\<rparr>"

definition config_flag :: Flag where
  "config_flag = \<lparr>fl_Long = ''config'', fl_Short = ''c'', fl_Default = []\<rparr>"

definition healthCmd :: SubCommand where
  "healthCmd = \<lparr>sb_Use = ''health'', sb_RunE = RunHealth, sb_Flags = []\<rparr>"

definition webCmd :: SubCommand where
  "webCmd = \<lparr>sb_Use = ''web'', sb_RunE = RunWeb, sb_Flags = []\<rparr>"

text \<open>The \<open>init\<close> functions of the two files; the flag is set on the shared command afterwards.\<close>

definition health_init :: "RootCommand option \<Rightarrow> RootCommand option" where
  "health_init RootCmd = Some (AddCommand (initRootCmd RootCmd) (healthCmd\<lparr>sb_Flags := [config_flag]\<rparr>))"

definition web_init :: "RootCommand option \<Rightarrow> RootCommand option" where
  "web_init RootCmd = Some (AddCommand (initRootCmd RootCmd) (webCmd\<lparr>sb_Flags := [config_flag]\<rparr>))"

definition main_command :: "string \<Rightarrow> RootCommand option \<Rightarrow> RootCommand" where
  "main_command Version RootCmd = (initRootCmd RootCmd)\<lparr>rc_Version := Version\<rparr>"

section \<open>How a command ends\<close>

datatype cmd_result =
    Returned "go_error option"
  | Exited nat

text \<open>\<open>Execute\<close>: an error that is returned is logged by \<open>log.Fatal\<close>, which exits with 1.\<close>

fun process_exit :: "cmd_result \<Rightarrow> nat" where
  "process_exit (Returned None) = 0"
| "process_exit (Returned (Some err)) = 1"
| "process_exit (Exited code) = code"

section \<open>\<open>web\<close>\<close>

definition runWeb ::
    "('w, go_error + App) state \<Rightarrow> (App \<Rightarrow> ('w, go_error + ('w, 'k) initialised) state)
     \<Rightarrow> (App \<Rightarrow> ('w, 'k) initialised \<Rightarrow> ('w, unit) state) \<Rightarrow> ('w, cmd_result) state" where
  "runWeb idauth_New routes_Init server_Run = do {
     a \<leftarrow> idauth_New;
     (case a of
        Inl err \<Rightarrow> return (Returned (Some err))
      | Inr app \<Rightarrow> do {
          r \<leftarrow> routes_Init app;
          (case r of
             Inl err \<Rightarrow> return (Returned (Some err))
           | Inr i \<Rightarrow> do {
               _ \<leftarrow> server_Run app i;
               return (Returned None) }) }) }"

section \<open>\<open>health\<close>\<close>

record ServerConfig =
  sv_HTTP_Enabled :: bool
  sv_HTTP_Address :: string
  sv_HTTP_Port :: int
  sv_HTTPS_Address :: string
  sv_HTTPS_Port :: int
  sv_Path :: string

text \<open>\<open>net.JoinHostPort\<close>: a host with a colon, an IPv6 address, goes into brackets.\<close>

definition JoinHostPort :: "string \<Rightarrow> string \<Rightarrow> string" where
  "JoinHostPort host port =
     (if CHR '':'' \<in> set host then ''['' @ host @ '']:'' @ port else host @ '':'' @ port)"

definition health_uri :: "ServerConfig \<Rightarrow> string" where
  "health_uri c =
     (if sv_HTTP_Enabled c then
        ''http://'' @ JoinHostPort (sv_HTTP_Address c) (Itoa (sv_HTTP_Port c)) @ sv_Path c @ ''/healthz''
      else ''https://'' @ JoinHostPort (sv_HTTPS_Address c) (Itoa (sv_HTTPS_Port c)) @ sv_Path c @ ''/healthz'')"

text \<open>\<open>client_Do\<close> sends the \<open>GET\<close> request and gives the status of the response.\<close>

definition runHealth ::
    "('w, go_error + App) state \<Rightarrow> (App \<Rightarrow> ServerConfig) \<Rightarrow> (string \<Rightarrow> ('w, go_error + nat) state)
     \<Rightarrow> ('w, cmd_result) state" where
  "runHealth idauth_New Server client_Do = do {
     a \<leftarrow> idauth_New;
     (case a of
        Inl err \<Rightarrow> return (Returned (Some err))
      | Inr app \<Rightarrow> do {
          resp \<leftarrow> client_Do (health_uri (Server app));
          return (case resp of
            Inl err \<Rightarrow> Exited 1
          | Inr status \<Rightarrow> if status \<noteq> 200 then Exited 1 else Returned None) }) }"

section \<open>\<open>testing.go\<close>\<close>

text \<open>The directory of the test data, from the file of the caller.\<close>

definition testdir :: "string \<Rightarrow> string" where
  "testdir b =
     (let d = filepath_Dir b
      in if filepath_Base (filepath_Dir d) = ''idauth'' then filepath_Dir d else d)"

definition TestApp_env :: "string \<Rightarrow> (string \<times> string) list" where
  "TestApp_env b =
     (let d = testdir b in
      [(''METRICS_ENABLED'', ''false''),
       (''IDAUTH_STORE_CLIENTS_FILE'', path_Join [d, ''testdata'', ''clients.yaml'']),
       (''CLIENT_ATTESTATION_TRUST_ANCHORS_FILE'', path_Join [d, ''testdata'', ''attestation_trust.pem'']),
       (''POSTGRES_HOST'', ''localhost''), (''POSTGRES_PORT'', ''5432''), (''POSTGRES_USER'', ''test''),
       (''POSTGRES_PASSWORD'', ''test''), (''POSTGRES_DB'', ''test''),
       (''VERIFIER_BACKEND_URL'', ''https://sso.example.com/verifier''), (''VERIFIER_CACHE_TTL'', ''10m''),
       (''EDIM_TEMPLATE_PATH'', path_Join [d, ''edim'', ''pid-template.json'']), (''VERIFIER_ENGINE'', ''v2''),
       (''VERIFIER_V2_URL'', ''https://sso.example.com/verifier-v2''), (''VERIFIER_V2_API_KEY'', ''test-key''),
       (''SMARTID_RELYING_PARTY_UUID'', ''00000000-0000-0000-0000-000000000000''),
       (''AUDIT_ENDPOINT'', ''https://sso.example.com/audit''),
       (''IDAUTH_API_PUBLIC_URL'', ''https://sso.example.com/auth'')])"

text \<open>\<open>New\<close> is called in that environment; a test fails when it returns an error.\<close>

definition TestApp ::
    "((string \<times> string) list \<Rightarrow> string \<Rightarrow> string \<Rightarrow> ('w, go_error + App) state) \<Rightarrow> string \<Rightarrow> ('w, App option) state" where
  "TestApp idauth_New b = do {
     a \<leftarrow> idauth_New (TestApp_env b) [] ''1.0.0-test'';
     return (case a of Inl err \<Rightarrow> None | Inr app \<Rightarrow> Some app) }"

section \<open>Facts\<close>

text \<open>In whatever order the files are initialised, there is one root command with both commands.\<close>

lemma commands_registered:
  assumes "c = main_command v (web_init (health_init None)) \<or> c = main_command v (health_init (web_init None))"
  shows "rc_RunE c = RunWeb" "rc_Version c = v"
    "map_of (map (\<lambda>s. (sb_Use s, sb_RunE s)) (rc_Commands c)) = [''web'' \<mapsto> RunWeb, ''health'' \<mapsto> RunHealth]"
  using assms
  by (auto simp: main_command_def web_init_def health_init_def initRootCmd_def AddCommand_def webCmd_def healthCmd_def)

lemma testdir_in_package:
  assumes "\<forall>e\<in>set (es @ [''idauth'', pkg, file]). plain_elem e"
  shows "testdir (rooted_path (es @ [''idauth'', pkg, file])) = rooted_path (es @ [''idauth''])"
proof -
  have p: "\<forall>e\<in>set (es @ [''idauth'', pkg]). plain_elem e" "plain_elem file" "plain_elem pkg" "plain_elem ''idauth''"
    using assms by auto
  have d: "filepath_Dir (rooted_path (es @ [''idauth'', pkg, file])) = rooted_path (es @ [''idauth'', pkg])"
    using filepath_Dir_rooted [OF p(1) _ p(2)] by simp
  have d': "filepath_Dir (rooted_path (es @ [''idauth'', pkg])) = rooted_path (es @ [''idauth''])"
    using filepath_Dir_rooted [of "es @ [''idauth'']" pkg] p by simp
  show ?thesis by (simp add: testdir_def Let_def d d' filepath_Base_rooted [OF p(4)])
qed

lemma testdir_at_root:
  assumes "\<forall>e\<in>set (es @ [up, dir, file]). plain_elem e" "up \<noteq> ''idauth''"
  shows "testdir (rooted_path (es @ [up, dir, file])) = rooted_path (es @ [up, dir])"
proof -
  have p: "\<forall>e\<in>set (es @ [up, dir]). plain_elem e" "plain_elem file" "plain_elem dir" "plain_elem up"
    using assms(1) by auto
  have d: "filepath_Dir (rooted_path (es @ [up, dir, file])) = rooted_path (es @ [up, dir])"
    using filepath_Dir_rooted [OF p(1) _ p(2)] by simp
  have d': "filepath_Dir (rooted_path (es @ [up, dir])) = rooted_path (es @ [up])"
    using filepath_Dir_rooted [of "es @ [up]" dir] p by simp
  show ?thesis using assms(2) by (simp add: testdir_def Let_def d d' filepath_Base_rooted [OF p(4)])
qed

end
