(* ===== verification/Properties_Config.thy ===== *)
theory Properties_Config
  imports Config_Bindings Cmd_Server Sample_World
begin

text \<open>
  Properties of the configuration: what the defaults and a successful validation guarantee the rest
  of the program, and where the settings and the program's fixed durations do not fit.
\<close>

section \<open>Bindings\<close>

text \<open>The repository's own sections, with the keys of their fields.\<close>

definition section_bindings :: "(string \<Rightarrow> string) \<Rightarrow> viper_call list" where
  "section_bindings secret =
     store_Bind ''store'' @ smartid_Bind secret ''smartid'' @ authcode_Bind ''auth_code'' @ dpop_Bind ''dpop''
     @ attest_Bind ''client_attestation'' @ own_Bind secret"

definition field_keys :: "string \<Rightarrow> field list \<Rightarrow> string list" where
  "field_keys prefix fs = map (\<lambda>f. prefix @ fst f) fs"

text \<open>
  The environment and the configuration match one to one. Every environment variable the
  repository binds sets exactly one field, every field of its sections has exactly one variable, and
  no variable is bound to a key that no field reads.
\<close>

theorem environment_bindings_wellformed:
  "let env = bound_env (section_bindings secret) in
     distinct (map snd env) \<and> distinct (map fst env)
     \<and> set (map fst env) = set (field_keys ''store.'' (store_fields path) @ field_keys ''smartid.'' (smartid_fields sc)
         @ field_keys ''auth_code.'' (authcode_fields cc) @ field_keys ''dpop.'' (dpop_fields htus w)
         @ field_keys ''client_attestation.'' (attest_fields f auds w' b) @ field_keys [] (own_fields cfg own))
     \<and> length env = 33"
  by (simp add: section_bindings_def bound_env_append store_Bind_def smartid_Bind_def authcode_Bind_def dpop_Bind_def
      attest_Bind_def own_Bind_def field_keys_def store_fields_def smartid_fields_def authcode_fields_def
      dpop_fields_def attest_fields_def own_fields_def Let_def insert_commute)


section \<open>Defaults\<close>






definition sample_Struct :: "field list \<Rightarrow> go_error option" where
  "sample_Struct fs = (if list_all (\<lambda>(k, v, ts). field_ok (\<lambda>s. HasPrefix s ''https://'') v ts) fs then None
     else Some (ExternalError ''validation failed''))"

lemma sample_Struct_validates: "validates (\<lambda>s. HasPrefix s ''https://'') sample_Struct"
  by (simp add: validates_def sample_Struct_def)

definition demo_smartid :: "string \<Rightarrow> SmartIdConfiguration" where
  "demo_smartid uuid = \<lparr>sc_Endpoint = ''https://sid.demo.sk.ee/smart-id-rp/v2'', sc_RelyingPartyName = ''DEMO'',
     sc_RelyingPartyUUID = uuid, sc_CertificateLevel = ''QUALIFIED'', sc_HashType = ''SHA512'',
     sc_InteractionType = ''displayTextAndPIN'', sc_Text = ''Custom text'', sc_CreateSessionTimeoutInSeconds = 90,
     sc_CheckSessionTimeoutInSeconds = 1, sc_PresentRetries = 24, sc_PresentWaitInSeconds = 5,
     sc_PresentTTL = 10 * minute\<rparr>"



section \<open>Validated settings\<close>

text \<open>
  C28: a validated configuration is the one that takes effect. The windows of the DPoP validator and
  of the attestation verifier are the configured ones (the fallback to a minute is never taken), all
  durations of the code store are positive, the public URL and the accepted URLs are URLs, and no
  scope is empty.
\<close>

theorem validated_settings_effective:
  assumes "validates is_url Struct" and "config_Validate (own_checks Struct others cfg own path) = None"
  shows "va_iatWindow (NewValidator (dpop_config E cfg)) = app_DPoPIATWindow cfg \<and> 0 < app_DPoPIATWindow cfg
     \<and> (\<forall>anchors v. NewVerifier (attest_config E cfg anchors) = Inr v \<longrightarrow>
          ve_iatWindow v = app_AttestIATWindow cfg \<and> 0 < ve_iatWindow v)
     \<and> list_all (\<lambda>ttl. 0 < ttl (app_AuthorizationCode cfg))
          [cc_StateTTL, cc_AuthCodeTTL, cc_PreAuthTTL, cc_PARTTL, cc_RefreshTokenTTL]
     \<and> app_PublicURL cfg \<noteq> [] \<and> list_all is_url (app_PublicURL cfg # app_AcceptedHTU cfg @ app_AcceptedAudiences cfg)
     \<and> [] \<notin> set (cc_Scopes (app_AuthorizationCode cfg))"
proof -
  have "Struct (authcode_fields (app_AuthorizationCode cfg)) = None"
    "Struct (dpop_fields (app_AcceptedHTU cfg) (app_DPoPIATWindow cfg)) = None"
    "Struct (attest_fields (app_TrustAnchorsFile cfg) (app_AcceptedAudiences cfg) (app_AttestIATWindow cfg)
        (app_RequireKeyBinding cfg)) = None" "Struct (own_fields cfg own) = None"
    using config_Validate_None [OF assms(2)] by (simp_all add: own_checks_defs)
  then show ?thesis
    unfolding assms(1) [unfolded validates_def, rule_format]
    by (auto simp: authcode_fields_def dpop_fields_def attest_fields_def own_fields_def NewValidator_def
        dpop_config_def NewVerifier_def attest_config_def list_all_iff)
qed


definition sample_settings :: AppConfig where
  "sample_settings = \<lparr>app_PublicURL = ''https://idauth'', app_AcceptedHTU = [''https://wallet/token''],
     app_DPoPIATWindow = minute, app_TrustAnchorsFile = [], app_AcceptedAudiences = [], app_AttestIATWindow = minute,
     app_RequireKeyBinding = False, app_OAuth2Generic = [], app_SessionTimeout = hour,
     app_RequireClientAttestationPreauth = False, app_RequireIntrospectionAuth = True,
     app_AuthorizationCode = default_CodeConfiguration, app_PresentRetries = 1, app_PresentWaitInSeconds = 1,
     app_SmartID = demo_smartid ''00000000-0000-0000-0000-000000000000''\<rparr>"

definition other_checks :: config_checks where
  "other_checks = \<lparr>ck_Telemetry = None, ck_Core = None, ck_SessionStoreType = ''cache'', ck_Postgres = None,
     ck_Store = None, ck_Audit = None, ck_Verifier = None, ck_SmartID = None, ck_AuthorizationCode = None,
     ck_DPoP = None, ck_ClientAttestation = None, ck_Self = None\<rparr>"

lemma sample_settings_valid:
  "config_Validate (own_checks sample_Struct other_checks sample_settings
     \<lparr>tc_OAuth2GenericConfigFile = [], tc_AndroidAppPackage = [], tc_AndroidAppFingerprints = [], tc_AppleAppIDs = []\<rparr>
     ''clients.yaml'') = None"
proof -
  have "sample_Struct fs = None" if "list_all (\<lambda>(k, v, ts). field_ok (\<lambda>s. HasPrefix s ''https://'') v ts) fs" for fs
    using that by (simp add: sample_Struct_def)
  then show ?thesis
    by (simp add: config_Validate_def own_checks_defs other_checks_def sample_settings_def store_fields_def
        smartid_fields_def demo_smartid_def authcode_fields_def default_CodeConfiguration_def dpop_fields_def
        attest_fields_def own_fields_def HasPrefix_def minute_def second_def hour_def)
qed

theorem validated_settings_effective_witness:
  "va_iatWindow (NewValidator (dpop_config sample_env sample_settings)) = 60000000000"
proof -
  have "app_DPoPIATWindow sample_settings = 60000000000" by (simp add: sample_settings_def minute_def second_def)
  then show ?thesis
    by (rule trans [OF conjunct1 [OF validated_settings_effective [OF sample_Struct_validates sample_settings_valid]]])
qed

section \<open>Replays\<close>

text \<open>Claims that fit a request, issued at the epoch.\<close>

definition claims_at :: "string \<Rightarrow> string \<Rightarrow> string \<Rightarrow> proofClaims" where
  "claims_at u method tok = \<lparr>pc_HTM = method, pc_HTU = u, pc_ATH = RawEncodeToString URLAlphabet (Sum256 tok),
     pc_Registered = \<lparr>rc_Issuer = [], rc_Subject = [], rc_Audience = [], rc_ExpiresAt = None,
       rc_NotBefore = None, rc_IssuedAt = Some 0, rc_ID = ''id''\<rparr>\<rparr>"

text \<open>
  C38: the record of a proof outlives the proof only for small windows. In a validated configuration
  the claims of one proof can be accepted at two instants that are further apart than the record of
  its id is kept, which is five minutes, exactly when the configured window is more than half as
  long; validation asks only for a positive window.
\<close>

theorem replay_record_covers_proof:
  assumes "validates is_url Struct" and "config_Validate (own_checks Struct others cfg own path) = None"
    and "app_DPoPIATWindow cfg < max_Duration" and "v = NewValidator (dpop_config E cfg)"
  shows "(\<exists>c t1 t2. check_claims v t1 method tok c = None \<and> check_claims v t2 method tok c = None
           \<and> replay_ttl < t2 - t1)
     \<longleftrightarrow> replay_ttl < 2 * app_DPoPIATWindow cfg"
proof -
  let ?W = "app_DPoPIATWindow cfg"
  have "Struct (dpop_fields (app_AcceptedHTU cfg) ?W) = None"
    using config_Validate_None [OF assms(2)] by (simp add: own_checks_defs)
  then have pos: "0 < ?W"
    unfolding assms(1) [unfolded validates_def, rule_format] by (simp add: dpop_fields_def)
  then have W: "va_iatWindow v = ?W" by (simp add: assms(4) NewValidator_def dpop_config_def)
  obtain u where u: "u \<in> va_htus v" by (auto simp: assms(4) NewValidator_def dpop_config_def)
  note window = outside_window_iff [OF pos assms(3)]
  have near: "t2 - t1 \<le> 2 * ?W"
    if "check_claims v t1 method tok c = None" "check_claims v t2 method tok c = None" for c t1 t2
    using check_claims_None [OF that(1)] check_claims_None [OF that(2)] W window by auto
  have "replay_ttl < 2 * ?W"
    if "check_claims v t1 method tok c = None" "check_claims v t2 method tok c = None" "replay_ttl < t2 - t1"
    for c t1 t2 using near [OF that(1,2)] that(3) by simp
  moreover have "check_claims v t method tok (claims_at u method tok) = None" if "\<bar>t\<bar> \<le> ?W" for t
    using that u W window by (simp add: check_claims_def claims_at_def)
  then have "replay_ttl < 2 * ?W \<Longrightarrow>
      \<exists>c t1 t2. check_claims v t1 method tok c = None \<and> check_claims v t2 method tok c = None \<and> replay_ttl < t2 - t1"
    using pos by (intro exI [of _ "claims_at u method tok"] exI [of _ "- ?W"] exI [of _ ?W]) simp
  ultimately show ?thesis by blast
qed

theorem replay_record_covers_proof_witness:
  "\<not> (\<exists>c t1 t2. check_claims (NewValidator (dpop_config sample_env sample_settings)) t1 ''POST'' [] c = None
      \<and> check_claims (NewValidator (dpop_config sample_env sample_settings)) t2 ''POST'' [] c = None
      \<and> replay_ttl < t2 - t1)"
proof -
  have "app_DPoPIATWindow sample_settings < max_Duration" "\<not> replay_ttl < 2 * app_DPoPIATWindow sample_settings"
    by (simp_all add: sample_settings_def replay_ttl_def minute_def second_def max_Duration_def)
  then show ?thesis
    using replay_record_covers_proof [OF sample_Struct_validates sample_settings_valid _ refl, of sample_env "''POST''" "[]"]
    by blast
qed


section \<open>The command line\<close>

text \<open>
  The health command ends with 0 exactly when the application starts and the server answers the
  request for its health page with 200, as the service's own handler does; any other status, a
  connection error and a failing start end with 1.
\<close>

theorem health_exit_code:
  "process_exit (result_of (runHealth new srv get) w) =
     (if \<exists>app. result_of new w = Inr app \<and> result_of (get (health_uri (srv app))) (world_after new w) = Inr 200
      then 0 else 1)
   \<and> (\<exists>b. content (healthz name) = JSON 200 b)"
  by (auto simp: runHealth_def healthz_def json_reply_def split: sum.splits)

text \<open>
  The web command ends with 1 exactly when the application or its routes fail to start, a refused
  Smart-ID client included; otherwise it serves until the server stops and ends with 0.
\<close>

theorem web_exit_code:
  "process_exit (result_of (runWeb new (\<lambda>a. Init E L (ap_config a) (ap_authCodeStore a) (ap_authProvider a)) serve) w) =
     (case result_of new w of
        Inl e \<Rightarrow> 1
      | Inr a \<Rightarrow> (case result_of (Init E L (ap_config a) (ap_authCodeStore a) (ap_authProvider a)) (world_after new w) of
          Inl e \<Rightarrow> 1 | Inr i \<Rightarrow> 0))"
  by (simp add: runWeb_def split: sum.split)

end
