(* ===== verification/Spec2Isabelle.thy ===== *)
theory Spec2Isabelle
  imports Properties_Token Properties_Proofs Properties_Endpoints Properties_Sessions
    Properties_Providers Properties_Errors Properties_Runs Properties_Config App_Start Mem_World
begin

text \<open>
  A model of \<open>idauth\<close>, an OAuth 2.0 authorization server written in Go, and the theorems that say
  what it guarantees. The server lets a user log in with one of several identity providers, hands
  out authorization codes, exchanges codes, refresh tokens, pre-authorized codes and client
  assertions for access tokens that may be bound to a DPoP key, and answers introspection.

  \<^bold>\<open>The program's parts and how they interact.\<close> A client pushes its request (\<open>routes/par.go\<close>) or
  sends the browser to the authorization endpoint (\<open>routes/authorization.go\<close>), which delegates to
  the library \<open>lx-idauth\<close>. The library calls a provider's \<open>Authorize\<close> (\<open>smartid\<close>, \<open>edim\<close>,
  \<open>oauth2generic\<close>), which validates the request and saves a pending state in the code store
  (\<open>authorizationcode/validation.go\<close>, \<open>store.go\<close>), and later its \<open>Callback\<close>, which takes the
  pending state out and stores an authorization code item with a session template
  (\<open>authorizationcode/authorization.go\<close>), or creates a session itself. The token endpoint
  (\<open>routes/token.go\<close>) checks the DPoP proof (\<open>dpop\<close>) and dispatches to the grants
  (\<open>authorizationcode/token.go\<close>), which authenticate the client (\<open>store/clients.go\<close> and
  \<open>clientattestation\<close>), redeem what the code store holds and create the session whose id is the
  access token. Introspection (\<open>routes/introspection.go\<close>) describes that session. \<open>app.go\<close> and
  \<open>routes/router.go\<close> build all of it.

  \<^bold>\<open>The model.\<close> A handler is a function on the state of the world in \<open>HOL-Library.State_Monad\<close>; the
  type of worlds is a parameter \<open>'w\<close>. Everything outside \<open>src/\<close> is an argument: the record \<open>env\<close>
  holds the operations of the cache, the session store, the audit client, the clock, the ULID and
  random sources and the client lookup; the JWT library, X.509, PEM, the Smart-ID client, the wallet
  verifier, \<open>golang.org/x/oauth2\<close> and \<open>url.JoinPath\<close> are arguments of the definitions that use
  them. Go's standard library is modelled where the code relies on it: strings, base64, SHA-256,
  JSON, URL escaping, paths. A Go error is a value of \<open>go_error\<close> on the left of a sum, a reply is
  a value with its status, body and headers, and a panic is a reply of its own; a nil pointer is
  \<open>None\<close>. Instants and durations are integers in nanoseconds; the one place where Go's 64-bit
  duration matters (\<open>time.Since\<close> saturates) writes the saturation out. Logging and tracing are left
  out.

  \<^bold>\<open>Theories and code.\<close>
    \<^item> \<open>Idauth_Prelude\<close>: errors, Go maps, \<open>shrinks\<close> (a map that only loses entries).
      \<open>Go_Strings\<close>, \<open>Go_Base64\<close>, \<open>Go_Sha256\<close>, \<open>Go_Json\<close>, \<open>Go_Url\<close>, \<open>Go_Path\<close>: the standard library;
      \<open>Json_Roundtrip\<close> proves that \<open>json.Unmarshal\<close> reads back what \<open>json.Marshal\<close> writes.
    \<^item> \<open>Idauth_Types\<close>, \<open>Idauth_World\<close>, \<open>Svc_Errors\<close>: the records of requests, replies, sessions and
      stored items; the world and the contract \<open>cache_api\<close> of the cache; \<open>svcerrors\<close> and
      \<open>errors_taxonomy.go\<close>.
    \<^item> \<open>Client_Store\<close> (\<open>store\<close>), \<open>Code_Store\<close> (\<open>authorizationcode/store.go\<close>, \<open>config.go\<close>, \<open>utils.go\<close>),
      \<open>Store_Contract\<close> (the contract \<open>single_use\<close> of entries that are popped, interpreted for pending
      states, pushed requests and refresh tokens), \<open>Store_Logic\<close> (a program logic for invariants of
      the stored values).
    \<^item> \<open>Request_Validation\<close>, \<open>Auth_Callback\<close>: the two ends of a login in \<open>authorizationcode\<close>.
    \<^item> \<open>Ec_Jwk\<close>, \<open>Dpop_Proof\<close> (\<open>dpop\<close>), \<open>Attestation\<close> (\<open>clientattestation\<close>).
    \<^item> \<open>Token_Common\<close>, \<open>Token_AuthCode\<close>, \<open>Token_Refresh\<close>, \<open>Token_PreAuth\<close>, \<open>Client_Credentials\<close>,
      \<open>Token_Route\<close>: the token endpoint; \<open>Token_PreAuth\<close> also holds \<open>routes/preauth.go\<close>.
    \<^item> \<open>Par\<close> (\<open>routes/par.go\<close>, \<open>routes/authorization.go\<close>), \<open>Introspection\<close>, \<open>Metadata_Endpoints\<close>
      (\<open>routes/wellknown.go\<close>, \<open>routes/healthz.go\<close>).
    \<^item> \<open>Provider_Common\<close>, \<open>Smart_Id\<close>, \<open>Edim\<close>, \<open>OAuth2_Generic\<close>: the identity providers;
      \<open>Provider_Contract\<close>: the interface \<open>login_provider\<close> they share, with its three
      implementations; \<open>Providers\<close>: \<open>auth.go\<close>, \<open>correlation.go\<close>, \<open>audit.go\<close>.
    \<^item> \<open>Service_Router\<close>: \<open>Init\<close> of \<open>routes/router.go\<close>. \<open>App_Start\<close>: \<open>New\<close> of \<open>app.go\<close> and
      \<open>Validate\<close> of \<open>config.go\<close>. \<open>Config_Bindings\<close>: the \<open>Bind\<close> and \<open>Validate\<close> methods of \<open>config.go\<close>
      and of the \<open>config.go\<close> of the packages, as sequences of \<open>viper\<close> calls and lists of fields with
      their tags. \<open>Cmd_Server\<close>: \<open>cmd/server\<close> and \<open>testing.go\<close>.
    \<^item> \<open>Service_Policy\<close>: the locale \<open>store_policy\<close>, on top of \<open>store_logic\<close>: what every handler stores and
      which sessions it creates, walked through once. \<open>Service\<close>: the service as a transition system,
      one step per request or provider call and one for the passing of time, with events, runs and
      reachable worlds. \<open>Service_Runs\<close>: the locales \<open>service_world\<close> (the random sources and the
      session store), \<open>refillable\<close> and \<open>one_time\<close> (credentials that a use takes away) and
      \<open>live_service\<close>, with refresh tokens and request_uris as instances. \<open>Code_Redemption\<close>:
      authorization codes, an instance of \<open>refillable\<close>. \<open>Service_Provenance\<close>: where the contents of
      sessions come from, an instance of \<open>store_policy\<close>.
    \<^item> \<open>Mem_World\<close>: an in-memory world that satisfies the contract of the cache, so that the contract
      is not empty; \<open>Fresh_World\<close>: the same with a random source that does not repeat itself, which
      satisfies \<open>live_service\<close>; \<open>Sample_World\<close>: the concrete inputs of the witnesses.

  \<^bold>\<open>What the theorems show.\<close>
    \<^item> \<open>Properties_Token\<close>: a token of each grant is issued only for what the grant demands; codes and
      refresh tokens are gone after their redemption; the token type follows the DPoP proof; and
      where the code falls short: what a cache that answers absent keys with zero values lets
      through, the dead limit on assertions, the transaction code that another grant avoids.
    \<^item> \<open>Properties_Proofs\<close>: validated DPoP proofs and attestations are signed by the right keys and
      fresh, replays are refused, trust anchors are EC certificates, and the loop that reads them
      ends.
    \<^item> \<open>Properties_Endpoints\<close>: the invariant of everything stored, in every reachable world; exactly
      which requests are saved, pushed and redirected.
    \<^item> \<open>Properties_Sessions\<close>: the refresh grant refines an abstract machine of one-time tokens; the
      code grant is complete, and not atomic; introspection is sound; the provider's claims survive
      the way from the login to introspection.
    \<^item> \<open>Properties_Providers\<close>: codes only for pending requests, users only from PID attributes, opt-in
      for the same-device flow, and a start-up that checks what it binds.
    \<^item> \<open>Properties_Errors\<close>: every problem of the token endpoint is registered.
    \<^item> \<open>Properties_Runs\<close>: along every run of the service, whatever it is asked and in whatever order, a
      refresh token and a request_uri are used at most once, every redemption of a code has a login
      of its own, and an active session is for someone a provider reported (or a pre-authorization
      named) and bound to a key that was proved.
    \<^item> \<open>Properties_Config\<close>: the defaults are valid, validated settings are the ones in force, the
      environment and the fields match one to one, and for which windows the record of a proof is
      kept long enough.

  \<^bold>\<open>Assumptions.\<close> \<open>cache_api\<close>: a cached value is one that was stored under the same name and key,
  reading and unrelated operations create no entry, a pop and a successful delete remove theirs;
  entries may vanish at any time, and the answer to an absent key is left open, except where a
  property says otherwise. \<open>jwt_sound\<close>: a parsed JWT is signed by the key that its key function
  returned, with an allowed algorithm. \<open>router_frame\<close>: the libraries do not write to the service's
  caches. \<open>quiet_service\<close>: the same for a service along its runs, where moreover the libraries neither
  create sessions nor forget what was drawn; \<open>service_world\<close>: a drawn refresh token and a ULID are new.
  \<open>no_zero_answers\<close>: the cache reports absent keys as errors. \<open>validates\<close>: the validator applies its
  tags as documented. Each is instantiated in a witness.

  \<^bold>\<open>Bounds and fuel.\<close> All recursions are structural or have a termination proof; the JSON parser runs
  over a list of tokens, with Go's nesting limit of 10000. The only loop of the code without a bound
  of its own, over the PEM blocks of the trust anchors, is modelled as a partial function and proved
  to return: its fuel is the length of the text, and each block shortens the text.

  \<^bold>\<open>Not modelled.\<close> The inside of \<open>viper\<close>, of the validator and of the command library; the configuration
  sections of other modules; the list of CORS headers and the sensitive parameters of the audit
  client; the help texts of the commands; the time limits of HTTP clients; logging and tracing.
  \<open>log.Fatal\<close> is the error \<open>FatalExit\<close>. A Go map that is iterated over is an association list in the order of the
  iteration. Within one handler the steps on the world are sequential; interleavings of handlers are
  sequences of their steps, as in the property on codes that are redeemed twice. The redirect URL
  that the generic provider writes into its shared instance is returned as a new instance; the data
  race on it is not modelled.
\<close>

end
